(* ===== verification/Prelude.thy ===== *)
theory Prelude
  imports Main "HOL-Library.Word" "HOL-Library.AList"
begin

text \<open>
  What every component of the model shares: the result type of Python code that may raise,
  the Python string and dictionary operations the sources use, decimal rendering of
  integers, and the interface of a registration table.

  A Python \<open>str\<close> is a \<open>string\<close> whose characters are its code points (the sources'
  own texts are ASCII; code points above 255 are not represented). A Python \<open>bytes\<close> is
  a list of 8-bit words. A \<open>dict\<close> is an association list in insertion order with
  distinct keys: storing under a key that is present replaces its value in place, a new
  key is appended, as Python's dictionaries do.
\<close>

named_theorems dict_simps "lookup and update of dictionaries"
named_theorems result_simps "sequencing of results that may raise"
named_theorems result_elims "inversion of a successful sequence"

type_synonym bytes = "8 word list"

subsection \<open>Results: a raised exception or a returned value\<close>

abbreviation Raise :: "'e \<Rightarrow> 'e + 'a" where
  "Raise \<equiv> Inl"

abbreviation Return :: "'a \<Rightarrow> 'e + 'a" where
  "Return \<equiv> Inr"

definition bindR :: "'e + 'a \<Rightarrow> ('a \<Rightarrow> 'e + 'b) \<Rightarrow> 'e + 'b" where
  "bindR m f = (case m of Inl e \<Rightarrow> Inl e | Inr x \<Rightarrow> f x)"

lemma bindR_Inl [simp, result_simps]: "bindR (Inl e) f = Inl e"
  by (simp add: bindR_def)

lemma bindR_Inr [simp, result_simps]: "bindR (Inr x) f = f x"
  by (simp add: bindR_def)

lemma bindR_assoc [result_simps]: "bindR (bindR m f) g = bindR m (\<lambda>x. bindR (f x) g)"
  by (cases m) auto

lemma bindR_Return [simp, result_simps]: "bindR m Inr = m"
  by (cases m) auto

lemma bindR_eq_Inr_iff: "bindR m f = Inr y \<longleftrightarrow> (\<exists>x. m = Inr x \<and> f x = Inr y)"
  by (cases m) auto

lemma bindR_eq_Inl_iff:
  "bindR m f = Inl e \<longleftrightarrow> m = Inl e \<or> (\<exists>x. m = Inr x \<and> f x = Inl e)"
  by (cases m) auto

lemma bindR_InrE [elim?, result_elims]:
  assumes "bindR m f = Inr y"
  obtains x where "m = Inr x" and "f x = Inr y"
  using assms by (cases m) auto

lemma bindR_InlE [elim?]:
  assumes "bindR m f = Inl e"
  obtains (first) "m = Inl e" | (second) x where "m = Inr x" and "f x = Inl e"
  using assms by (cases m) auto

lemma bindR_cong [fundef_cong]:
  "m = m' \<Longrightarrow> (\<And>x. m' = Inr x \<Longrightarrow> f x = g x) \<Longrightarrow> bindR m f = bindR m' g"
  by (cases m) auto

subsection \<open>Strings\<close>

text \<open>The operations of texts and of bytes alike: on lists of any elements.\<close>

definition startswith :: "'a list \<Rightarrow> 'a list \<Rightarrow> bool" where
  "startswith p s \<longleftrightarrow> take (length p) s = p"

definition endswith :: "'a list \<Rightarrow> 'a list \<Rightarrow> bool" where
  "endswith p s \<longleftrightarrow> startswith (rev p) (rev s)"

definition removeprefix :: "'a list \<Rightarrow> 'a list \<Rightarrow> 'a list" where
  "removeprefix p s = (if startswith p s then drop (length p) s else s)"

definition removesuffix :: "'a list \<Rightarrow> 'a list \<Rightarrow> 'a list" where
  "removesuffix p s =
     (if p \<noteq> [] \<and> startswith (rev p) (rev s) then take (length s - length p) s else s)"

definition partition :: "'a \<Rightarrow> 'a list \<Rightarrow> 'a list \<times> 'a list \<times> 'a list" where
  "partition c s =
     (if c \<in> set s
      then (takeWhile (\<lambda>x. x \<noteq> c) s, [c], tl (dropWhile (\<lambda>x. x \<noteq> c) s))
      else (s, [], []))"

definition rpartition :: "'a \<Rightarrow> 'a list \<Rightarrow> 'a list \<times> 'a list \<times> 'a list" where
  "rpartition c s =
     (if c \<in> set s
      then (rev (tl (dropWhile (\<lambda>x. x \<noteq> c) (rev s))), [c], rev (takeWhile (\<lambda>x. x \<noteq> c) (rev s)))
      else ([], [], s))"

lemma startswith_append [simp]: "startswith p (p @ s)"
  by (simp add: startswith_def)

lemma startswith_iff: "startswith p s \<longleftrightarrow> (\<exists>t. s = p @ t)"
  by (metis append_eq_conv_conj append_take_drop_id startswith_def)

lemma startswith_Nil [simp]: "startswith [] s"
  by (simp add: startswith_def)

lemma startswith_Cons:
  "startswith (a # p) (b # s) \<longleftrightarrow> a = b \<and> startswith p s"
  "\<not> startswith (a # p) []"
  by (auto simp: startswith_def)

lemma removeprefix_append [simp]: "removeprefix p (p @ s) = s"
  by (simp add: removeprefix_def)

lemma removesuffix_append [simp]: "p \<noteq> [] \<Longrightarrow> removesuffix p (s @ p) = s"
  by (simp add: removesuffix_def)

lemma removesuffix_other: "(\<And>t. s \<noteq> t @ p) \<Longrightarrow> removesuffix p s = s"
  by (auto simp: removesuffix_def startswith_iff) (metis rev_append rev_rev_ident)

lemma takeWhile_neq_notin [simp]: "c \<notin> set s \<Longrightarrow> takeWhile (\<lambda>x. x \<noteq> c) s = s"
  by (induction s) auto

lemma takeWhile_until [simp]:
  "c \<notin> set a \<Longrightarrow> takeWhile (\<lambda>x. x \<noteq> c) (a @ c # b) = a"
  by (induction a) auto

lemma dropWhile_until [simp]:
  "c \<notin> set a \<Longrightarrow> dropWhile (\<lambda>x. x \<noteq> c) (a @ c # b) = c # b"
  by (induction a) auto

lemma partition_append: "c \<notin> set a \<Longrightarrow> partition c (a @ c # b) = (a, [c], b)"
  by (simp add: partition_def)

lemma partition_absent: "c \<notin> set s \<Longrightarrow> partition c s = (s, [], [])"
  by (simp add: partition_def)

lemma partition_concat: "partition c s = (a, m, b) \<Longrightarrow> s = a @ m @ b"
proof (cases "c \<in> set s")
  case True
  then obtain x y where s: "s = x @ c # y" and x: "c \<notin> set x"
    by (meson split_list_first)
  assume "partition c s = (a, m, b)"
  with s x show ?thesis by (simp add: partition_append)
qed (simp add: partition_def)

lemma partition_cases:
  assumes "partition c s = (a, m, b)"
  obtains (found) "m = [c]" "s = a @ c # b" "c \<notin> set a"
  | (absent) "m = []" "b = []" "s = a" "c \<notin> set a"
proof (cases "c \<in> set s")
  case True
  then obtain x y where s: "s = x @ c # y" "c \<notin> set x" by (meson split_list_first)
  with assms show ?thesis by (intro found) (auto simp: partition_append)
next
  case False
  with assms show ?thesis by (intro absent) (auto simp: partition_def)
qed

lemma rpartition_append: "c \<notin> set b \<Longrightarrow> rpartition c (a @ c # b) = (a, [c], b)"
  by (simp add: rpartition_def)

lemma rpartition_absent: "c \<notin> set s \<Longrightarrow> rpartition c s = ([], [], s)"
  by (simp add: rpartition_def)

lemma rpartition_tail_free: "rpartition c s = (a, m, b) \<Longrightarrow> c \<notin> set b"
  by (auto simp: rpartition_def split: if_splits dest: set_takeWhileD)

subsection \<open>Dictionaries\<close>

text \<open>
  \<open>dict_set\<close> is \<open>d[k] = v\<close>, \<open>map_of d k\<close> is \<open>d.get(k)\<close> and \<open>dict_merge a b\<close> is
  \<open>{**a, **b}\<close>: the items of \<open>b\<close> stored one after another into \<open>a\<close>.
\<close>

type_synonym ('k, 'v) dict = "('k \<times> 'v) list"

definition dict_set :: "'k \<Rightarrow> 'v \<Rightarrow> ('k, 'v) dict \<Rightarrow> ('k, 'v) dict" where
  "dict_set k v d = AList.update k v d"

definition dict_merge :: "('k, 'v) dict \<Rightarrow> ('k, 'v) dict \<Rightarrow> ('k, 'v) dict" where
  "dict_merge a b = fold (\<lambda>(k, v). dict_set k v) b a"

abbreviation keys :: "('k, 'v) dict \<Rightarrow> 'k list" where
  "keys d \<equiv> map fst d"

lemma map_of_dict_set [simp, dict_simps]: "map_of (dict_set k v d) = (map_of d)(k \<mapsto> v)"
  by (simp add: dict_set_def update_conv')

lemma distinct_dict_set [intro]: "distinct (keys d) \<Longrightarrow> distinct (keys (dict_set k v d))"
  by (simp add: dict_set_def distinct_update)

lemma dict_set_new: "k \<notin> set (keys d) \<Longrightarrow> dict_set k v d = d @ [(k, v)]"
  by (simp add: dict_set_def update_nonempty) (induction d, auto)

lemma dict_merge_Nil [simp]: "dict_merge a [] = a"
  by (simp add: dict_merge_def)

lemma dict_merge_Cons [simp]: "dict_merge a ((k, v) # b) = dict_merge (dict_set k v a) b"
  by (simp add: dict_merge_def)

lemma distinct_dict_merge: "distinct (keys a) \<Longrightarrow> distinct (keys (dict_merge a b))"
  by (induction b arbitrary: a) (auto simp: distinct_dict_set)

lemma map_of_dict_merge [dict_simps]:
  "distinct (keys b) \<Longrightarrow> map_of (dict_merge a b) = map_of a ++ map_of b"
proof (induction b arbitrary: a)
  case (Cons x b)
  obtain k v where x: "x = (k, v)" by (cases x)
  with Cons.prems have "map_of b k = None"
    by (auto simp: map_of_eq_None_iff)
  then have "(map_of a)(k \<mapsto> v) ++ map_of b = map_of a ++ map_of ((k, v) # b)"
    by (auto simp: map_add_def fun_eq_iff split: option.split)
  with Cons x show ?case by (simp del: map_of.simps)
qed simp

lemma dict_merge_fresh:
  "set (keys a) \<inter> set (keys b) = {} \<Longrightarrow> distinct (keys b) \<Longrightarrow> dict_merge a b = a @ b"
proof (induction b arbitrary: a)
  case (Cons x b)
  obtain k v where x: "x = (k, v)" by (cases x)
  with Cons have "dict_set k v a = a @ [(k, v)]"
    by (intro dict_set_new) auto
  with Cons x show ?case by auto
qed simp

subsection \<open>Registration tables\<close>

text \<open>
  The contract of every table the program fills in and looks up: what a lookup returns after
  a registration. A later registration under the same key replaces the earlier one; every
  other key keeps what it had.
\<close>

locale registry =
  fixes register :: "'k \<Rightarrow> 'v \<Rightarrow> 't \<Rightarrow> 't"
    and lookup :: "'t \<Rightarrow> 'k \<Rightarrow> 'v option"
  assumes lookup_register: "lookup (register k v t) k' = (if k' = k then Some v else lookup t k')"
begin

lemma registered: "lookup (register k v t) k = Some v"
  by (simp add: lookup_register)

lemma frame: "k' \<noteq> k \<Longrightarrow> lookup (register k v t) k' = lookup t k'"
  by (simp add: lookup_register)

lemma last_wins: "lookup (register k v (register k w t)) = lookup (register k v t)"
  by (simp add: lookup_register fun_eq_iff)

lemma commute:
  "k \<noteq> k' \<Longrightarrow> lookup (register k v (register k' w t)) = lookup (register k' w (register k v t))"
  by (auto simp: lookup_register fun_eq_iff)

lemma register_all:
  "lookup (fold (\<lambda>(k, v). register k v) kvs t) k =
     (case map_of (rev kvs) k of Some v \<Rightarrow> Some v | None \<Rightarrow> lookup t k)"
proof (induction kvs arbitrary: t)
  case (Cons x kvs)
  then show ?case
    by (cases x) (auto simp: lookup_register map_add_def split: option.split)
qed simp

end

subsection \<open>Decimal text of integers\<close>

text \<open>\<open>nat_str\<close> and \<open>int_str\<close> are \<open>str(n)\<close>; \<open>str_nat\<close> reads the digits back.\<close>

definition digit :: "nat \<Rightarrow> char" where
  "digit d = char_of (48 + d)"

fun nat_str :: "nat \<Rightarrow> string" where
  "nat_str n = (if n < 10 then [digit n] else nat_str (n div 10) @ [digit (n mod 10)])"

declare nat_str.simps [simp del]

definition int_str :: "int \<Rightarrow> string" where
  "int_str i = (if i < 0 then CHR ''-'' # nat_str (nat (- i)) else nat_str (nat i))"

definition str_nat :: "string \<Rightarrow> nat" where
  "str_nat s = foldl (\<lambda>a c. 10 * a + (of_char c - 48)) 0 s"

lemma of_char_digit: "d < 10 \<Longrightarrow> (of_char (digit d) :: nat) = 48 + d"
  by (simp add: digit_def)

lemma str_nat_snoc: "str_nat (s @ [c]) = 10 * str_nat s + (of_char c - 48)"
  by (simp add: str_nat_def)

lemma str_nat_nat_str [simp]: "str_nat (nat_str n) = n"
proof (induction n rule: nat_str.induct)
  case (1 n)
  show ?case
  proof (cases "n < 10")
    case True
    then show ?thesis by (subst nat_str.simps) (simp add: str_nat_def of_char_digit)
  next
    case False
    with 1 show ?thesis by (subst nat_str.simps) (simp add: str_nat_snoc of_char_digit)
  qed
qed

lemma nat_str_inject [simp]: "nat_str m = nat_str n \<longleftrightarrow> m = n"
  by (metis str_nat_nat_str)

lemma digits:
  "digit 0 = CHR ''0''" "digit (Suc 0) = CHR ''1''" "digit 1 = CHR ''1''" "digit 2 = CHR ''2''"
  "digit 3 = CHR ''3''" "digit 4 = CHR ''4''" "digit 5 = CHR ''5''" "digit 6 = CHR ''6''"
  "digit 7 = CHR ''7''" "digit 8 = CHR ''8''" "digit 9 = CHR ''9''"
  by code_simp+

lemma nat_str_digits: "\<forall>c \<in> set (nat_str n). \<exists>d<10. c = digit d"
proof (induction n rule: nat_str.induct)
  case (1 n)
  have "\<exists>d<10. digit (n mod 10) = digit d"
    by (rule exI [of _ "n mod 10"]) simp
  with 1 show ?case
    by (subst nat_str.simps) auto
qed

lemma nat_str_nonempty [simp]: "nat_str n \<noteq> []"
  by (subst nat_str.simps) simp

subsection \<open>State machines\<close>

text \<open>
  The contract of an invariant of a state machine: it holds at first and every step keeps it;
  so it holds of every state reached.
\<close>

locale step_invariant =
  fixes stp :: "'s \<Rightarrow> 's \<Rightarrow> bool"
    and start :: "'s \<Rightarrow> bool"
    and inv :: "'s \<Rightarrow> bool"
  assumes initially: "start s \<Longrightarrow> inv s"
    and kept: "inv s \<Longrightarrow> stp s s' \<Longrightarrow> inv s'"
begin

lemma reached: "start s \<Longrightarrow> stp\<^sup>*\<^sup>* s s' \<Longrightarrow> inv s'"
  by (rotate_tac, induction rule: rtranclp_induct) (auto intro: initially kept)

end

text \<open>
  The contract of a refinement: a machine whose every step, from a state of its invariant, is
  seen through \<open>view\<close> as steps of an abstract machine; so whatever it reaches is seen as what the
  abstract machine reaches.
\<close>

locale simulation = step_invariant stp start inv
  for stp :: "'s \<Rightarrow> 's \<Rightarrow> bool" and start :: "'s \<Rightarrow> bool" and inv :: "'s \<Rightarrow> bool" +
  fixes abs_step :: "'a \<Rightarrow> 'a \<Rightarrow> bool"
    and abs_start :: "'a \<Rightarrow> bool"
    and view :: "'s \<Rightarrow> 'a"
  assumes seen_initially: "start s \<Longrightarrow> abs_start (view s)"
    and seen: "inv s \<Longrightarrow> stp s s' \<Longrightarrow> abs_step\<^sup>*\<^sup>* (view s) (view s')"
begin

lemma simulated:
  assumes "inv s" and "stp\<^sup>*\<^sup>* s s'"
  shows "abs_step\<^sup>*\<^sup>* (view s) (view s')"
proof -
  from assms(2) have "inv s' \<and> abs_step\<^sup>*\<^sup>* (view s) (view s')"
    by (induction rule: rtranclp_induct) (use assms(1) kept seen in \<open>auto intro: rtranclp_trans\<close>)
  then show ?thesis ..
qed

lemma simulated_from_start: "start s \<Longrightarrow> stp\<^sup>*\<^sup>* s s' \<Longrightarrow> \<exists>a. abs_start a \<and> abs_step\<^sup>*\<^sup>* a (view s')"
  using simulated initially seen_initially by blast

end

end
