(* ===== verification/Diagnostic.thy ===== *)
theory Diagnostic
  imports Prelude
begin

text \<open>
  \<open>angzarr_client/diagnostic.py\<close>: an error's own text (\<open>quote\<close>, \<open>display\<close>) and its
  English, rendered from a Fluent catalog (\<open>parse\<close>, \<open>catalog\<close>, \<open>_close\<close>, \<open>_matches\<close>,
  \<open>_select\<close>, \<open>_placeable\<close>, \<open>_pattern\<close>, \<open>render\<close>). The catalogs' files are parameters:
  their text is given. An argument's value is given as its \<open>str()\<close>. The last part is a
  reader of display lines, the specification that a line parses back.
\<close>

subsection \<open>The text of an error\<close>

text \<open>\<open>str.isspace\<close> of one code point below 256.\<close>

definition isspace :: "char \<Rightarrow> bool" where
  "isspace c \<longleftrightarrow>
     (let n = (of_char c :: nat) in 9 \<le> n \<and> n \<le> 13 \<or> 28 \<le> n \<and> n \<le> 32 \<or> n = 133 \<or> n = 160)"

definition needs_quote :: "char \<Rightarrow> bool" where
  "needs_quote c \<longleftrightarrow> isspace c \<or> c = CHR ''='' \<or> c = CHR 0x22 \<or> c = CHR 0x5C"

definition escape_char :: "char \<Rightarrow> string" where
  "escape_char c = (if c = CHR 0x5C \<or> c = CHR 0x22 then [CHR 0x5C, c] else [c])"

definition quote :: "string \<Rightarrow> string" where
  "quote val =
     (if val \<noteq> [] \<and> \<not> list_ex needs_quote val then val
      else CHR 0x22 # concat (map escape_char val) @ [CHR 0x22])"

definition display :: "string \<Rightarrow> (string, string) dict \<Rightarrow> string" where
  "display code args = code @ concat (map (\<lambda>(name, val). '' '' @ name @ ''='' @ quote val) args)"

subsection \<open>Catalogs\<close>

definition linebreak :: "char \<Rightarrow> bool" where
  "linebreak c \<longleftrightarrow>
     (let n = (of_char c :: nat) in 10 \<le> n \<and> n \<le> 13 \<or> 28 \<le> n \<and> n \<le> 30 \<or> n = 133)"

text \<open>\<open>str.splitlines()\<close>: the second argument is the line read so far, reversed.\<close>

fun splitlines_from :: "string \<Rightarrow> string \<Rightarrow> string list" where
  "splitlines_from [] acc = (if acc = [] then [] else [rev acc])"
| "splitlines_from [c] acc = (if linebreak c then [rev acc] else [rev (c # acc)])"
| "splitlines_from (c # d # cs) acc =
     (if linebreak c
      then rev acc #
        (if c = CHR 0x0D \<and> d = CHR 0x0A then splitlines_from cs [] else splitlines_from (d # cs) [])
      else splitlines_from (d # cs) (c # acc))"

definition splitlines :: "string \<Rightarrow> string list" where
  "splitlines text = splitlines_from text []"

definition strip :: "string \<Rightarrow> string" where
  "strip s = rev (dropWhile isspace (rev (dropWhile isspace s)))"

definition letter :: "char \<Rightarrow> bool" where
  "letter c \<longleftrightarrow>
     (let n = (of_char c :: nat) in 65 \<le> n \<and> n \<le> 90 \<or> 97 \<le> n \<and> n \<le> 122)"

definition key_char :: "char \<Rightarrow> bool" where
  "key_char c \<longleftrightarrow>
     letter c \<or> (let n = (of_char c :: nat) in 48 \<le> n \<and> n \<le> 57) \<or> c = CHR ''_'' \<or> c = CHR ''-''"

text \<open>\<open>_MESSAGE.match(line)\<close>: the id and the pattern after \<open>" ="\<close> (none: the empty text).\<close>

definition message_match :: "string \<Rightarrow> (string \<times> string) option" where
  "message_match line =
     (let ident = takeWhile key_char line; rest = dropWhile key_char line in
      if ident = [] \<or> \<not> letter (hd ident) \<or> \<not> startswith '' ='' rest then None
      else (case drop 2 rest of
              [] \<Rightarrow> Some (ident, [])
            | c # cs \<Rightarrow> if c = CHR '' '' then Some (ident, cs) else None))"

fun parse_lines ::
  "string list \<Rightarrow> string option \<Rightarrow> (string, string) dict \<Rightarrow> (string, string) dict" where
  "parse_lines [] cur messages = messages"
| "parse_lines (line # rest) cur messages =
     (case cur of
        Some k \<Rightarrow>
          (if startswith '' '' line
           then parse_lines rest cur
                  (dict_set k (the (map_of messages k) @ [CHR 0x0A] @ strip line) messages)
           else (case message_match line of
                   None \<Rightarrow> parse_lines rest None messages
                 | Some (i, t) \<Rightarrow> parse_lines rest (Some i) (dict_set i t messages)))
      | None \<Rightarrow>
          (case message_match line of
             None \<Rightarrow> parse_lines rest None messages
           | Some (i, t) \<Rightarrow> parse_lines rest (Some i) (dict_set i t messages)))"

definition parse :: "string \<Rightarrow> (string, string) dict" where
  "parse text = parse_lines (splitlines text) None []"

definition catalog :: "string list \<Rightarrow> string \<Rightarrow> (string, string) dict" where
  "catalog spec_texts client_text =
     dict_merge (fold (\<lambda>t d. dict_merge d (parse t)) spec_texts []) (parse client_text)"

subsection \<open>Rendering\<close>

datatype render_error = Unclosed string

text \<open>\<open>_close\<close>: the offset of the brace that closes the placeable opened at the head of the text.\<close>

fun close_from :: "int \<Rightarrow> string \<Rightarrow> nat option" where
  "close_from depth [] = None"
| "close_from depth (c # cs) =
     (let depth' = depth + (if c = CHR ''{'' then 1 else if c = CHR ''}'' then -1 else 0) in
      if depth' = 0 then Some 0 else map_option Suc (close_from depth' cs))"

definition matches_key :: "string \<Rightarrow> string \<Rightarrow> bool" where
  "matches_key key val \<longleftrightarrow> key = val \<or> key = ''one'' \<and> val = ''1''"

text \<open>\<open>_VARIANT\<close> at the head of a text: whether it is starred, its key, and the text after it.\<close>

definition variant_at :: "string \<Rightarrow> (bool \<times> string \<times> string) option" where
  "variant_at s =
     (let star = startswith ''*'' s; s1 = (if star then tl s else s) in
      (case s1 of
         [] \<Rightarrow> None
       | c # s2 \<Rightarrow>
           (if c \<noteq> CHR ''['' then None
            else (let key = takeWhile key_char s2 in
                  (case dropWhile key_char s2 of
                     [] \<Rightarrow> None
                   | d # s3 \<Rightarrow> if d = CHR '']'' \<and> key \<noteq> [] then Some (star, key, s3) else None)))))"

lemma variant_at_shorter: "variant_at s = Some (star, key, rest) \<Longrightarrow> length rest < length s"
proof -
  assume v: "variant_at s = Some (star, key, rest)"
  define s1 where "s1 = (if startswith ''*'' s then tl s else s)"
  from v obtain s2 d where s1: "s1 = CHR ''['' # s2" and d: "dropWhile key_char s2 = d # rest"
    by (auto simp: variant_at_def Let_def s1_def [symmetric] split: list.splits if_splits)
  have "length (dropWhile key_char s2) \<le> length s2"
    by (rule length_dropWhile_le)
  moreover have "length s1 \<le> length s"
    by (simp add: s1_def)
  ultimately show ?thesis using s1 d by simp
qed

text \<open>The texts between the marks \<open>_VARIANT.finditer(body)\<close> finds: before the first, then per mark.\<close>

function segments :: "string \<Rightarrow> string \<times> (bool \<times> string \<times> string) list" where
  "segments s =
     (case s of
        [] \<Rightarrow> ([], [])
      | c # cs \<Rightarrow>
          (case variant_at s of
             Some (star, key, rest) \<Rightarrow>
               (case segments rest of (t, ms) \<Rightarrow> ([], (star, key, t) # ms))
           | None \<Rightarrow> (case segments cs of (t, ms) \<Rightarrow> (c # t, ms))))"
  by pat_completeness auto
termination
  by (relation "measure length") (auto dest: variant_at_shorter)

declare segments.simps [simp del]

definition choose_variant :: "(bool \<times> string \<times> string) list \<Rightarrow> string option \<Rightarrow> string" where
  "choose_variant marks val =
     (let chosen = (case val of
                      None \<Rightarrow> None
                    | Some v \<Rightarrow> find (\<lambda>(star, key, t). matches_key key v) marks);
          starred = filter (\<lambda>(star, key, t). star) marks in
      (case chosen of
         Some (star, key, t) \<Rightarrow> strip t
       | None \<Rightarrow> if starred = [] then [] else strip (snd (snd (last starred)))))"

text \<open>\<open>inner.partition("->")\<close>, for an inner text that holds an arrow.\<close>

fun split_arrow :: "string \<Rightarrow> (string \<times> string) option" where
  "split_arrow (c # d # cs) =
     (if c = CHR ''-'' \<and> d = CHR ''>'' then Some ([], cs)
      else map_option (\<lambda>(a, b). (c # a, b)) (split_arrow (d # cs)))"
| "split_arrow _ = None"

lemma split_arrow_shorter: "split_arrow s = Some (a, b) \<Longrightarrow> length b < length s"
  by (induction s arbitrary: a rule: split_arrow.induct) (auto split: if_splits)

lemma length_strip: "length (strip s) \<le> length s"
  unfolding strip_def by (metis le_trans length_dropWhile_le length_rev)

lemma segments_shorter:
  "segments s = (t, ms) \<Longrightarrow>
     length t \<le> length s \<and> (\<forall>star key v. (star, key, v) \<in> set ms \<longrightarrow> length v \<le> length s)"
proof (induction s arbitrary: t ms rule: segments.induct)
  case (1 s)
  show ?case
  proof (cases s)
    case Nil
    with "1.prems" show ?thesis by (simp add: segments.simps)
  next
    case (Cons c cs)
    show ?thesis
    proof (cases "variant_at s")
      case None
      obtain t' ms' where seg: "segments cs = (t', ms')" by (cases "segments cs")
      have "t = c # t'" and "ms = ms'"
        using "1.prems" None Cons seg by (simp_all add: segments.simps [of "c # cs"])
      with "1.IH"(1) [OF Cons None seg] Cons show ?thesis by fastforce
    next
      case (Some x)
      obtain star key rest where x: "x = (star, key, rest)" by (cases x)
      obtain t' ms' where seg: "segments rest = (t', ms')" by (cases "segments rest")
      have "length rest < length s"
        using Some x by (simp add: variant_at_shorter)
      moreover have "length t' \<le> length rest \<and>
          (\<forall>star key v. (star, key, v) \<in> set ms' \<longrightarrow> length v \<le> length rest)"
        using "1.IH"(2) [OF Cons Some] x seg by simp
      moreover have "t = []" and "ms = (star, key, t') # ms'"
        using "1.prems" Some x Cons seg by (simp_all add: segments.simps [of "c # cs"])
      ultimately show ?thesis by fastforce
    qed
  qed
qed

lemma length_choose_variant: "length (choose_variant (snd (segments body)) v) \<le> length body"
proof -
  obtain t ms where seg: "segments body = (t, ms)" by (cases "segments body")
  have all: "length (strip w) \<le> length body" if "(star, key, w) \<in> set ms" for star key w
    using segments_shorter [OF seg] that length_strip [of w] by fastforce
  have chosen: "length (strip w) \<le> length body" if "find P ms = Some (star, key, w)" for P star key w
    using that all by (metis find_Some_iff nth_mem)
  have default: "length (strip (snd (snd (last (filter P ms))))) \<le> length body"
    if "filter P ms \<noteq> []" for P
    using last_in_set [OF that] all by (metis filter_is_subset prod.collapse subsetD)
  show ?thesis
    by (auto simp: choose_variant_def seg Let_def split: option.splits prod.splits
        intro: chosen default)
qed

lemma close_from_le: "close_from d s = Some e \<Longrightarrow> e < length s"
  by (induction d s arbitrary: e rule: close_from.induct) (auto simp: Let_def split: if_splits)

text \<open>
  \<open>_pattern\<close> (with \<open>_placeable\<close> and \<open>_select\<close>, which call it back on the chosen variant): each
  call is on a shorter text.
\<close>

function pattern :: "(string, string) dict \<Rightarrow> string \<Rightarrow> render_error + string"
  and placeable :: "(string, string) dict \<Rightarrow> string \<Rightarrow> render_error + string" where
  "pattern args text =
     (case text of
        [] \<Rightarrow> Inr []
      | c # cs \<Rightarrow>
          (if c \<noteq> CHR ''{'' then bindR (pattern args cs) (\<lambda>r. Inr (c # r))
           else (case close_from 0 text of
                   None \<Rightarrow> Inl (Unclosed text)
                 | Some e \<Rightarrow>
                     bindR (placeable args (take (e - 1) cs)) (\<lambda>out.
                     bindR (pattern args (drop e cs)) (\<lambda>r. Inr (out @ r))))))"
| "placeable args inner =
     (case split_arrow inner of
        Some (selector, body) \<Rightarrow>
          pattern args
            (choose_variant (snd (segments body)) (map_of args (removeprefix ''$'' (strip selector))))
      | None \<Rightarrow>
          (let reference = strip inner in
           if \<not> startswith ''$'' reference then Inr (''{'' @ inner @ ''}'')
           else (let name = removeprefix ''$'' reference in
                 case map_of args name of
                   Some v \<Rightarrow> Inr v
                 | None \<Rightarrow> Inr (''{$'' @ name @ ''}''))))"
  by pat_completeness auto
termination
proof (relation "measure (case_sum (length \<circ> snd) (length \<circ> snd))", goal_cases)
  case (5 args inner x selector body)
  then have "length body < length inner"
    by (auto dest: split_arrow_shorter)
  moreover have "length (choose_variant (snd (segments body))
      (map_of args (removeprefix ''$'' (strip selector)))) \<le> length body"
    by (rule length_choose_variant)
  ultimately show ?case by simp
qed (auto dest: close_from_le)

declare pattern.simps [simp del] placeable.simps [simp del]

definition render ::
  "(string, string) dict \<Rightarrow> string \<Rightarrow> (string, string) dict \<Rightarrow> render_error + string" where
  "render cat code args =
     (case map_of cat code of
        None \<Rightarrow> Inr (display code args)
      | Some text \<Rightarrow> pattern args text)"

lemma pattern_Nil [simp]: "pattern args [] = Inr []"
  by (simp add: pattern.simps)

lemma pattern_char: "c \<noteq> CHR ''{'' \<Longrightarrow> pattern args (c # cs) = bindR (pattern args cs) (\<lambda>r. Inr (c # r))"
  by (simp add: pattern.simps)

lemma pattern_append_plain:
  "CHR ''{'' \<notin> set a \<Longrightarrow> pattern args (a @ b) = bindR (pattern args b) (\<lambda>r. Inr (a @ r))"
  by (induction a) (auto simp: pattern_char bindR_def split: sum.splits)

lemma pattern_plain: "CHR ''{'' \<notin> set a \<Longrightarrow> pattern args a = Inr a"
  using pattern_append_plain [of a args "[]"] by simp

lemma close_from_inner:
  "CHR ''{'' \<notin> set a \<Longrightarrow> CHR ''}'' \<notin> set a \<Longrightarrow> 0 < d \<Longrightarrow>
     close_from d (a @ CHR ''}'' # b) = (if d = 1 then Some (length a) else
       map_option (\<lambda>n. Suc (length a + n)) (close_from (d - 1) b))"
  by (induction a) (auto simp: Let_def option.map_comp comp_def)

lemma pattern_placeable:
  assumes "CHR ''{'' \<notin> set a" and "CHR ''}'' \<notin> set a"
  shows "pattern args (CHR ''{'' # a @ CHR ''}'' # b) =
    bindR (placeable args a) (\<lambda>out. bindR (pattern args b) (\<lambda>r. Inr (out @ r)))"
proof -
  have "close_from 0 (CHR ''{'' # a @ CHR ''}'' # b) = Some (Suc (length a))"
    using assms by (simp add: Let_def close_from_inner)
  then show ?thesis by (simp add: pattern.simps [of args "CHR ''{'' # a @ CHR ''}'' # b"])
qed

subsection \<open>A display line parses back\<close>

text \<open>A reader of display lines: the code up to the first space, then each \<open> name=value\<close>.\<close>

fun read_quoted :: "string \<Rightarrow> (string \<times> string) option" where
  "read_quoted [] = None"
| "read_quoted [c] = (if c = CHR 0x22 then Some ([], []) else None)"
| "read_quoted (c # d # cs) =
     (if c = CHR 0x22 then Some ([], d # cs)
      else if c = CHR 0x5C then map_option (\<lambda>(v, r). (d # v, r)) (read_quoted cs)
      else map_option (\<lambda>(v, r). (c # v, r)) (read_quoted (d # cs)))"

definition read_value :: "string \<Rightarrow> (string \<times> string) option" where
  "read_value s =
     (if startswith [CHR 0x22] s then read_quoted (tl s)
      else Some (takeWhile (\<lambda>c. c \<noteq> CHR '' '') s, dropWhile (\<lambda>c. c \<noteq> CHR '' '') s))"

lemma read_quoted_shorter: "read_quoted s = Some (v, r) \<Longrightarrow> length r < length s"
  by (induction s arbitrary: v rule: read_quoted.induct) (fastforce split: if_splits)+

lemma read_value_shorter: "read_value s = Some (v, r) \<Longrightarrow> length r \<le> length s"
  by (auto simp: read_value_def length_dropWhile_le split: if_splits dest!: read_quoted_shorter)

function read_args :: "string \<Rightarrow> (string, string) dict option" where
  "read_args s =
     (case s of
        [] \<Rightarrow> Some []
      | c # cs \<Rightarrow>
          (if c \<noteq> CHR '' '' then None
           else (case partition CHR ''='' cs of
                   (name, eq, rest) \<Rightarrow>
                     (if eq = [] then None
                      else (case read_value rest of
                              None \<Rightarrow> None
                            | Some (v, r) \<Rightarrow> map_option (\<lambda>args. (name, v) # args) (read_args r))))))"
  by pat_completeness auto
termination
  by (relation "measure length") (auto dest!: read_value_shorter partition_concat [OF sym])

declare read_args.simps [simp del]

definition read_display :: "string \<Rightarrow> (string \<times> (string, string) dict) option" where
  "read_display s =
     map_option (\<lambda>args. (takeWhile (\<lambda>c. c \<noteq> CHR '' '') s, args))
       (read_args (dropWhile (\<lambda>c. c \<noteq> CHR '' '') s))"

lemma read_quoted_escaped:
  "read_quoted (concat (map escape_char v) @ CHR 0x22 # r) = Some (v, r)"
proof (induction v)
  case Nil
  show ?case by (cases r) simp_all
next
  case (Cons c v)
  obtain d ds where rest: "concat (map escape_char v) @ CHR 0x22 # r = d # ds"
    by (metis append_is_Nil_conv list.distinct(1) neq_Nil_conv)
  show ?case
  proof (cases "c = CHR 0x5C \<or> c = CHR 0x22")
    case True
    with Cons show ?thesis by (auto simp: escape_char_def)
  next
    case False
    with Cons rest show ?thesis by (simp add: escape_char_def [of c])
  qed
qed

definition at_boundary :: "string \<Rightarrow> bool" where
  "at_boundary r \<longleftrightarrow> r = [] \<or> hd r = CHR '' ''"

lemma space_needs_quote: "needs_quote (CHR '' '')" and dquote_needs_quote: "needs_quote (CHR 0x22)"
  by (simp_all add: needs_quote_def isspace_def)

lemma takeWhile_boundary:
  "CHR '' '' \<notin> set v \<Longrightarrow> at_boundary r \<Longrightarrow> takeWhile (\<lambda>c. c \<noteq> CHR '' '') (v @ r) = v"
  "CHR '' '' \<notin> set v \<Longrightarrow> at_boundary r \<Longrightarrow> dropWhile (\<lambda>c. c \<noteq> CHR '' '') (v @ r) = r"
  by (induction v; cases r; auto simp: at_boundary_def)+

lemma read_value_quote:
  assumes "at_boundary r"
  shows "read_value (quote v @ r) = Some (v, r)"
proof (cases "v \<noteq> [] \<and> \<not> list_ex needs_quote v")
  case True
  then have v: "CHR '' '' \<notin> set v" and q: "CHR 0x22 \<notin> set v"
    using space_needs_quote dquote_needs_quote by (auto simp: list_ex_iff)
  from True q have "\<not> startswith [CHR 0x22] (v @ r)"
    by (cases v) (auto simp: startswith_def)
  with True v assms show ?thesis
    by (simp add: quote_def read_value_def takeWhile_boundary)
next
  case False
  then show ?thesis
    by (auto simp: quote_def read_value_def startswith_def read_quoted_escaped)
qed

abbreviation arg_text :: "(string, string) dict \<Rightarrow> string" where
  "arg_text args \<equiv> concat (map (\<lambda>(name, val). '' '' @ name @ ''='' @ quote val) args)"

lemma at_boundary_args: "at_boundary (arg_text args)"
  by (cases args) (auto simp: at_boundary_def)

lemma read_args_text:
  "\<forall>name \<in> set (keys args). CHR ''='' \<notin> set name \<Longrightarrow> read_args (arg_text args) = Some args"
proof (induction args)
  case (Cons a args)
  obtain name val where a: "a = (name, val)" by (cases a)
  with Cons.prems have "partition CHR ''='' (name @ CHR ''='' # quote val @ arg_text args) =
      (name, ''='', quote val @ arg_text args)"
    by (simp add: partition_append)
  moreover have "read_value (quote val @ arg_text args) = Some (val, arg_text args)"
    by (rule read_value_quote [OF at_boundary_args])
  ultimately show ?case
    using Cons a by (simp add: read_args.simps [of "CHR '' '' # _"])
qed (simp add: read_args.simps)

text \<open>
  C13: an error's display text parses back: reading it gives the code and every argument, with
  the value it had, whatever characters the values hold. The code must hold no space and the
  names no equals sign, as every code and argument name of the program does.
\<close>

theorem display_parses_back:
  assumes "CHR '' '' \<notin> set code" and "\<forall>name \<in> set (keys args). CHR ''='' \<notin> set name"
  shows "read_display (display code args) = Some (code, args)"
  using takeWhile_boundary [OF assms(1) at_boundary_args, of args]
    read_args_text [OF assms(2)]
  by (simp add: read_display_def display_def)

theorem display_parses_back_witness:
  "read_display (display ''SEAT_TAKEN'' [(''seat'', ''two words''), (''why'', ''a=b'')]) =
     Some (''SEAT_TAKEN'', [(''seat'', ''two words''), (''why'', ''a=b'')])"
  by (rule display_parses_back) simp_all

end
