(* ===== verification/Router_Errors.thy ===== *)
theory Router_Errors
  imports Diagnostic
begin

text \<open>
  \<open>angzarr_client/router/errors.py\<close>: the coded error (a key, a gRPC status, an argument
  map, a typed refusal's object), the failures a handler may raise, what an exception that
  escapes business code is answered as, and the cause a failing fold names. The status table
  generated from the specification (\<open>reason_args.STATUSES\<close>, not under \<open>src/\<close>) is the
  parameter \<open>sts\<close>: a key's status, or none for a readiness key.

  A raised exception is a value of \<open>exn\<close>: a coded error, an \<open>UnclassifiedError\<close>, any other
  \<open>Exception\<close> (named by its class; its text goes to the log only), or a
  \<open>BaseException\<close> that is no \<open>Exception\<close>, which no handler of the program catches.
\<close>

subsection \<open>Any payloads\<close>

record any_msg =
  any_type_url :: string
  any_value :: bytes

definition any_default :: any_msg where
  "any_default = \<lparr>any_type_url = [], any_value = []\<rparr>"

definition type_name :: "string \<Rightarrow> string" where
  "type_name type_url = snd (snd (rpartition CHR ''/'' type_url))"

text \<open>A protobuf message object, as \<open>pack\<close> reads it: its full name and its serialization.\<close>

record proto_msg =
  pm_full_name :: string
  pm_serialized :: bytes

definition pack :: "proto_msg \<Rightarrow> any_msg" where
  "pack msg = \<lparr>any_type_url = ''/'' @ pm_full_name msg, any_value = pm_serialized msg\<rparr>"

lemma type_name_prefix: "CHR ''/'' \<notin> set name \<Longrightarrow> type_name (pre @ ''/'' @ name) = name"
  by (simp add: type_name_def rpartition_append)

lemma type_name_bare: "CHR ''/'' \<notin> set name \<Longrightarrow> type_name name = name"
  by (simp add: type_name_def rpartition_absent)

lemma type_name_slash [simp]: "CHR ''/'' \<notin> set name \<Longrightarrow> type_name (CHR ''/'' # name) = name"
  using type_name_prefix [of name "[]"] by simp

lemma type_name_no_slash: "CHR ''/'' \<notin> set (type_name url)"
  by (metis type_name_def prod.collapse rpartition_tail_free)

lemma type_name_idem [simp]: "type_name (type_name url) = type_name url"
  by (rule type_name_bare) (rule type_name_no_slash)

subsection \<open>gRPC statuses\<close>

datatype grpc_code =
    UNKNOWN | INVALID_ARGUMENT | DEADLINE_EXCEEDED | NOT_FOUND | ALREADY_EXISTS
  | PERMISSION_DENIED | RESOURCE_EXHAUSTED | FAILED_PRECONDITION | ABORTED | OUT_OF_RANGE
  | UNIMPLEMENTED | INTERNAL | UNAVAILABLE | DATA_LOSS

fun grpc_num :: "grpc_code \<Rightarrow> int" where
  "grpc_num UNKNOWN = 2"
| "grpc_num INVALID_ARGUMENT = 3"
| "grpc_num DEADLINE_EXCEEDED = 4"
| "grpc_num NOT_FOUND = 5"
| "grpc_num ALREADY_EXISTS = 6"
| "grpc_num PERMISSION_DENIED = 7"
| "grpc_num RESOURCE_EXHAUSTED = 8"
| "grpc_num FAILED_PRECONDITION = 9"
| "grpc_num ABORTED = 10"
| "grpc_num OUT_OF_RANGE = 11"
| "grpc_num UNIMPLEMENTED = 12"
| "grpc_num INTERNAL = 13"
| "grpc_num UNAVAILABLE = 14"
| "grpc_num DATA_LOSS = 15"

definition business_statuses :: "int list" where
  "business_statuses =
     map grpc_num [FAILED_PRECONDITION, INVALID_ARGUMENT, NOT_FOUND, ALREADY_EXISTS,
       OUT_OF_RANGE, PERMISSION_DENIED]"

definition retryable_statuses :: "int list" where
  "retryable_statuses = map grpc_num [UNAVAILABLE, DEADLINE_EXCEEDED, RESOURCE_EXHAUSTED]"

lemma grpc_num_inject [simp]: "grpc_num a = grpc_num b \<longleftrightarrow> a = b"
  by (cases a; cases b) simp_all

subsection \<open>The router's reason keys\<close>

definition UNHANDLED_HANDLER_ERROR :: string where
  "UNHANDLED_HANDLER_ERROR = ''ROUTER_REASON_UNHANDLED_HANDLER_ERROR''"

definition HANDLER_PANICKED :: string where
  "HANDLER_PANICKED = ''ROUTER_REASON_HANDLER_PANICKED''"

definition COMMAND_REFUSED :: string where
  "COMMAND_REFUSED = ''ROUTER_REASON_COMMAND_REFUSED''"

definition FOLD_FAILED :: string where
  "FOLD_FAILED = ''ROUTER_REASON_FOLD_FAILED''"

definition FOLD_FAILED_EMITTED :: string where
  "FOLD_FAILED_EMITTED = ''ROUTER_REASON_FOLD_FAILED_EMITTED''"

definition PERSISTED_EVENT_CORRUPT :: string where
  "PERSISTED_EVENT_CORRUPT = ''ROUTER_REASON_PERSISTED_EVENT_CORRUPT''"

definition ANY_DECODE_FAILED :: string where
  "ANY_DECODE_FAILED = ''ROUTER_REASON_ANY_DECODE_FAILED''"

definition UNKNOWN_COMMAND_TYPE :: string where
  "UNKNOWN_COMMAND_TYPE = ''ROUTER_REASON_UNKNOWN_COMMAND_TYPE''"

definition NO_FACT_HANDLER :: string where
  "NO_FACT_HANDLER = ''ROUTER_REASON_NO_FACT_HANDLER''"

definition NO_REFUSAL_HANDLER :: string where
  "NO_REFUSAL_HANDLER = ''ROUTER_REASON_NO_REFUSAL_HANDLER''"

definition CONFLICT_RESOLUTION_UNSUPPORTED :: string where
  "CONFLICT_RESOLUTION_UNSUPPORTED = ''ROUTER_REASON_CONFLICT_RESOLUTION_UNSUPPORTED''"

definition NO_COMPONENT_OF_KIND :: string where
  "NO_COMPONENT_OF_KIND = ''ROUTER_REASON_NO_COMPONENT_OF_KIND''"

definition NO_HANDLERS_REGISTERED :: string where
  "NO_HANDLERS_REGISTERED = ''ROUTER_REASON_NO_HANDLERS_REGISTERED''"

definition DUPLICATE_COMPONENT :: string where
  "DUPLICATE_COMPONENT = ''ROUTER_REASON_DUPLICATE_COMPONENT''"

lemmas reason_keys =
  UNHANDLED_HANDLER_ERROR_def HANDLER_PANICKED_def COMMAND_REFUSED_def FOLD_FAILED_def
  FOLD_FAILED_EMITTED_def PERSISTED_EVENT_CORRUPT_def ANY_DECODE_FAILED_def
  UNKNOWN_COMMAND_TYPE_def NO_FACT_HANDLER_def NO_REFUSAL_HANDLER_def
  CONFLICT_RESOLUTION_UNSUPPORTED_def NO_COMPONENT_OF_KIND_def NO_HANDLERS_REGISTERED_def
  DUPLICATE_COMPONENT_def

subsection \<open>Coded errors\<close>

type_synonym statuses = "string \<rightharpoonup> int option"

record coded_error =
  ce_code :: string
  ce_grpc :: int
  ce_extras :: "(string, string) dict"
  ce_refusal :: "any_msg option"

datatype exn = Coded coded_error | Unclassified string | Other_exc string | Base_exc string

text \<open>A handler's argument values, with their \<open>str()\<close>.\<close>

datatype pyval = PStr string | PInt int

fun py_str :: "pyval \<Rightarrow> string" where
  "py_str (PStr s) = s"
| "py_str (PInt i) = int_str i"

definition strings :: "(string, pyval) dict \<Rightarrow> (string, string) dict" where
  "strings args = map (\<lambda>(name, val). (name, py_str val)) args"

definition flatten :: "string \<Rightarrow> string \<Rightarrow> (string, string) dict \<Rightarrow> (string, string) dict" where
  "flatten name key args =
     dict_merge [(name, key)] (map (\<lambda>(arg, val). (name @ ''.'' @ arg, val)) args)"

text \<open>\<open>reason_args.STATUSES.get(code) or GrpcCode.INTERNAL\<close>: no entry, no status and 0 alike.\<close>

definition declared_status :: "statuses \<Rightarrow> string \<Rightarrow> int" where
  "declared_status sts code =
     (case sts code of
        Some (Some n) \<Rightarrow> if n = 0 then grpc_num INTERNAL else n
      | _ \<Rightarrow> grpc_num INTERNAL)"

text \<open>\<open>CodedError.__init__\<close>: \<open>grpc\<close> absent means the code's declared status.\<close>

definition coded_error ::
  "statuses \<Rightarrow> string \<Rightarrow> int option \<Rightarrow> (string, string) dict \<Rightarrow> any_msg option \<Rightarrow> coded_error" where
  "coded_error sts code grpc extras refusal =
     \<lparr>ce_code = code,
      ce_grpc = (case grpc of None \<Rightarrow> declared_status sts code | Some g \<Rightarrow> g),
      ce_extras = extras, ce_refusal = refusal\<rparr>"

definition error_text :: "coded_error \<Rightarrow> string" where
  "error_text e = display (ce_code e) (ce_extras e)"

subsection \<open>The status an error travels as\<close>

record error_info =
  ei_reason :: string
  ei_domain :: string
  ei_metadata :: "(string, string) dict"

record rpc_status =
  rs_code :: int
  rs_message :: string
  rs_details :: "any_msg list"

definition ERROR_INFO_DOMAIN :: string where
  "ERROR_INFO_DOMAIN = ''angzarr.io''"

text \<open>\<open>pack_info\<close> is the protobuf runtime's \<open>Any.Pack\<close> of an \<open>ErrorInfo\<close>.\<close>

definition status :: "(error_info \<Rightarrow> any_msg) \<Rightarrow> coded_error \<Rightarrow> rpc_status" where
  "status pack_info e =
     (let info = pack_info \<lparr>ei_reason = ce_code e, ei_domain = ERROR_INFO_DOMAIN,
                            ei_metadata = ce_extras e\<rparr>;
          details = (case ce_refusal e of None \<Rightarrow> [info] | Some r \<Rightarrow> [info, r]) in
      \<lparr>rs_code = ce_grpc e, rs_message = ce_code e, rs_details = details\<rparr>)"

subsection \<open>The failures a handler raises\<close>

definition check_status :: "int \<Rightarrow> int list \<Rightarrow> exn + int" where
  "check_status st allowed =
     (if st \<in> set allowed then Return st else Raise (Other_exc ''ValueError''))"

definition Rejection :: "statuses \<Rightarrow> string \<Rightarrow> int \<Rightarrow> (string, pyval) dict \<Rightarrow> exn + coded_error" where
  "Rejection sts key st args =
     bindR (check_status st business_statuses) (\<lambda>g.
     Return (coded_error sts key (Some g) (strings args) None))"

definition Refused :: "statuses \<Rightarrow> any_msg \<Rightarrow> int \<Rightarrow> exn + coded_error" where
  "Refused sts packed st =
     bindR (check_status st business_statuses) (\<lambda>g.
     Return (coded_error sts COMMAND_REFUSED (Some g)
       [(''refusal_type'', type_name (any_type_url packed))] (Some packed)))"

definition Immediate :: "statuses \<Rightarrow> string \<Rightarrow> (string, pyval) dict \<Rightarrow> coded_error" where
  "Immediate sts key args = coded_error sts key (Some (grpc_num ABORTED)) (strings args) None"

definition Bug :: "statuses \<Rightarrow> string \<Rightarrow> (string, pyval) dict \<Rightarrow> coded_error" where
  "Bug sts key args =
     coded_error sts UNHANDLED_HANDLER_ERROR None (flatten ''cause'' key (strings args)) None"

definition RetryableBug :: "statuses \<Rightarrow> string \<Rightarrow> int \<Rightarrow> (string, pyval) dict \<Rightarrow> exn + coded_error" where
  "RetryableBug sts key st args =
     bindR (check_status st retryable_statuses) (\<lambda>g.
     Return (coded_error sts UNHANDLED_HANDLER_ERROR (Some g)
       (flatten ''cause'' key (strings args)) None))"

definition any_decode_error :: "statuses \<Rightarrow> string \<Rightarrow> string \<Rightarrow> coded_error" where
  "any_decode_error sts type_url cause_text =
     coded_error sts ANY_DECODE_FAILED None
       [(''message_type'', type_name type_url), (''ext_err_txt'', cause_text)] None"

definition unknown_type :: "statuses \<Rightarrow> string \<Rightarrow> string \<Rightarrow> coded_error" where
  "unknown_type sts code type_url = coded_error sts code None [(''type_url'', type_url)] None"

subsection \<open>What escapes business code\<close>

fun is_exception :: "exn \<Rightarrow> bool" where
  "is_exception (Base_exc _) = False"
| "is_exception _ = True"

fun is_coded :: "exn \<Rightarrow> bool" where
  "is_coded (Coded _) = True"
| "is_coded _ = False"

text \<open>\<open>escaped\<close> is called on an \<open>Exception\<close> only; the last equation covers the other case too.\<close>

fun escaped :: "statuses \<Rightarrow> exn \<Rightarrow> coded_error" where
  "escaped sts (Coded e) = e"
| "escaped sts (Unclassified _) = coded_error sts UNHANDLED_HANDLER_ERROR None [] None"
| "escaped sts _ =
     coded_error sts UNHANDLED_HANDLER_ERROR None [(''cause'', HANDLER_PANICKED)] None"

definition as_cause :: "statuses \<Rightarrow> exn \<Rightarrow> (string, string) dict" where
  "as_cause sts exc =
     (let coded = escaped sts exc in
      if ce_code coded = UNHANDLED_HANDLER_ERROR then ce_extras coded
      else flatten ''cause'' (ce_code coded) (ce_extras coded))"

subsection \<open>Facts the other components use\<close>

lemma coded_error_sel [simp]:
  "ce_code (coded_error sts c g ex r) = c"
  "ce_extras (coded_error sts c g ex r) = ex"
  "ce_refusal (coded_error sts c g ex r) = r"
  "ce_grpc (coded_error sts c (Some n) ex r) = n"
  "ce_grpc (coded_error sts c None ex r) = declared_status sts c"
  by (simp_all add: coded_error_def)

lemma unknown_type_sel [simp]:
  "ce_code (unknown_type sts c url) = c"
  "ce_extras (unknown_type sts c url) = [(''type_url'', url)]"
  by (simp_all add: unknown_type_def)

lemma keys_strings [simp]: "keys (strings args) = keys args"
  by (induction args) (auto simp: strings_def)

text \<open>The names \<open>flatten\<close> gives are fresh, so nothing of the key or the args is lost.\<close>

lemma flatten_eq:
  assumes "distinct (keys args)"
  shows "flatten name key args = (name, key) # map (\<lambda>(arg, val). (name @ ''.'' @ arg, val)) args"
proof -
  have d: "distinct (keys (map (\<lambda>(arg, val). (name @ ''.'' @ arg, val)) args))"
    using assms by (induction args) (auto simp: image_iff)
  have "name \<notin> set (keys (map (\<lambda>(arg, val). (name @ ''.'' @ arg, val)) args))"
    by auto
  then show ?thesis
    unfolding flatten_def by (subst dict_merge_fresh [OF _ d]) auto
qed

lemma map_of_flatten_args:
  "map_of (map (\<lambda>(arg, val). (name @ ''.'' @ arg, val)) args) (name @ ''.'' @ a) = map_of args a"
  by (induction args) auto

lemma flatten_lookup:
  assumes "distinct (keys args)"
  shows "map_of (flatten name key args) name = Some key"
    and "map_of (flatten name key args) (name @ ''.'' @ a) = map_of args a"
  using assms map_of_flatten_args [of name args a] by (simp_all add: flatten_eq)

lemma distinct_flatten:
  assumes "distinct (keys args)"
  shows "distinct (keys (flatten name key args))"
  by (simp add: flatten_def distinct_dict_merge)

lemma check_status_cases:
  "check_status st allowed = Return r \<longleftrightarrow> st \<in> set allowed \<and> r = st"
  "check_status st allowed = Raise e \<longleftrightarrow> st \<notin> set allowed \<and> e = Other_exc ''ValueError''"
  by (auto simp: check_status_def)

subsection \<open>Properties\<close>

text \<open>
  A failing applier's failure is wholly recoverable from the cause it is named as. For a
  coded error the cause's key and every one of its args are read back under \<open>cause\<close> and
  \<open>cause.<arg>\<close>; for a handler's Bug, whose own args already are a cause, they are the key and
  args the handler gave it, not a cause of a cause; for an unclassified error there is none.
\<close>

theorem cause_recoverable:
  assumes "distinct (keys (ce_extras e))" and "ce_code e \<noteq> UNHANDLED_HANDLER_ERROR"
    and "distinct (keys args)"
  shows "map_of (as_cause sts (Coded e)) ''cause'' = Some (ce_code e)
    \<and> map_of (as_cause sts (Coded e)) (''cause.'' @ a) = map_of (ce_extras e) a
    \<and> map_of (as_cause sts (Coded (Bug sts key args))) ''cause'' = Some key
    \<and> map_of (as_cause sts (Coded (Bug sts key args))) (''cause.'' @ a) = map_of (strings args) a
    \<and> as_cause sts (Unclassified txt) = []"
proof -
  have "map_of (as_cause sts (Coded e)) ''cause'' = Some (ce_code e)"
    and "map_of (as_cause sts (Coded e)) (''cause.'' @ a) = map_of (ce_extras e) a"
    using assms(2) flatten_lookup [OF assms(1), of "''cause''" "ce_code e"]
    by (simp_all add: as_cause_def)
  moreover have "distinct (keys (strings args))" using assms(3) by simp
  then have "map_of (as_cause sts (Coded (Bug sts key args))) ''cause'' = Some key"
    and "map_of (as_cause sts (Coded (Bug sts key args))) (''cause.'' @ a) = map_of (strings args) a"
    using flatten_lookup [of "strings args" "''cause''" key] by (simp_all add: as_cause_def Bug_def)
  moreover have "as_cause sts (Unclassified txt) = []"
    by (simp add: as_cause_def)
  ultimately show ?thesis by simp
qed

theorem cause_recoverable_witness:
  "map_of (as_cause Map.empty (Coded (coded_error Map.empty ''NOPE'' (Some 9) [(''n'', ''1'')] None)))
     ''cause'' = Some ''NOPE''"
  using cause_recoverable [of "coded_error Map.empty ''NOPE'' (Some 9) [(''n'', ''1'')] None" "[]"
      Map.empty "''n''" "''K''" "''t''"]
  by (simp add: UNHANDLED_HANDLER_ERROR_def)

text \<open>
  A business rejection is raised under one of the six business statuses and a retryable bug
  under one of the three retryable ones, carrying the key and the args they were given (the
  bug's as its cause); under any other status neither is built, and the constructor raises
  \<open>ValueError\<close> instead.
\<close>

theorem failures_carry_allowed_statuses:
  "Rejection sts key st args =
     (if st \<in> grpc_num ` {FAILED_PRECONDITION, INVALID_ARGUMENT, NOT_FOUND, ALREADY_EXISTS,
           OUT_OF_RANGE, PERMISSION_DENIED}
      then Return \<lparr>ce_code = key, ce_grpc = st, ce_extras = strings args, ce_refusal = None\<rparr>
      else Raise (Other_exc ''ValueError''))
   \<and> RetryableBug sts key st args =
     (if st \<in> grpc_num ` {UNAVAILABLE, DEADLINE_EXCEEDED, RESOURCE_EXHAUSTED}
      then Return \<lparr>ce_code = UNHANDLED_HANDLER_ERROR, ce_grpc = st,
                   ce_extras = flatten ''cause'' key (strings args), ce_refusal = None\<rparr>
      else Raise (Other_exc ''ValueError''))"
  by (simp add: Rejection_def RetryableBug_def check_status_def coded_error_def
      business_statuses_def retryable_statuses_def)

end
