(* ===== verification/Wire.thy ===== *)
theory Wire
  imports Router_Errors
begin

text \<open>
  The protobuf messages the router and the clients pass around, as records of the fields the
  sources read or write (the messages' own \<open>.proto\<close> files are in a submodule that is not
  under \<open>src/\<close>). A field whose presence the sources test (\<open>HasField\<close>) is an \<open>option\<close>;
  reading an absent message field gives its default. A message the sources only carry
  (a \<open>FactOrigin\<close>, a \<open>Timestamp\<close>) is its serialization, and a \<open>UUID\<close> message is its
  \<open>value\<close> bytes.
\<close>

type_synonym uuid_msg = bytes
type_synonym fact_origin = bytes
type_synonym timestamp = bytes

definition payload_of :: "any_msg option \<Rightarrow> any_msg" where
  "payload_of p = (case p of None \<Rightarrow> any_default | Some a \<Rightarrow> a)"

lemma payload_of_simps [simp]: "payload_of None = any_default" "payload_of (Some a) = a"
  by (simp_all add: payload_of_def)

subsection \<open>Conflict resolutions\<close>

text \<open>In enum-number order, UNSPECIFIED being 0.\<close>

datatype conflict_resolution =
    RES_UNSPECIFIED | RES_COMMUTATIVE | RES_STRICT | RES_AGGREGATE_HANDLES

fun resolution_num :: "conflict_resolution \<Rightarrow> nat" where
  "resolution_num RES_UNSPECIFIED = 0"
| "resolution_num RES_COMMUTATIVE = 1"
| "resolution_num RES_STRICT = 2"
| "resolution_num RES_AGGREGATE_HANDLES = 3"

lemma resolution_num_inject [simp]: "resolution_num a = resolution_num b \<longleftrightarrow> a = b"
  by (cases a; cases b) simp_all

instantiation conflict_resolution :: linorder
begin

definition less_eq_conflict_resolution :: "conflict_resolution \<Rightarrow> conflict_resolution \<Rightarrow> bool" where
  "less_eq_conflict_resolution a b \<longleftrightarrow> resolution_num a \<le> resolution_num b"

definition less_conflict_resolution :: "conflict_resolution \<Rightarrow> conflict_resolution \<Rightarrow> bool" where
  "less_conflict_resolution a b \<longleftrightarrow> resolution_num a < resolution_num b"

instance
  by standard (auto simp: less_eq_conflict_resolution_def less_conflict_resolution_def
      simp flip: resolution_num_inject)

end

subsection \<open>Covers, events\<close>

record cover =
  cv_domain :: string
  cv_root :: "uuid_msg option"
  cv_edition :: "string option"

definition cover_default :: cover where
  "cover_default = \<lparr>cv_domain = [], cv_root = None, cv_edition = None\<rparr>"

definition cover_of :: "cover option \<Rightarrow> cover" where
  "cover_of c = (case c of None \<Rightarrow> cover_default | Some x \<Rightarrow> x)"

record event_meta =
  em_rules_version :: string
  em_command_id :: "uuid_msg option"
  em_fact :: "fact_origin option"
  em_correlation_id :: "uuid_msg option"
  em_recorded_at :: "timestamp option"

record event_page =
  pg_payload :: "any_msg option"
  pg_sequence :: nat
  pg_meta :: "event_meta option"

record snapshot =
  sn_sequence :: nat
  sn_state :: "any_msg option"

definition snapshot_default :: snapshot where
  "snapshot_default = \<lparr>sn_sequence = 0, sn_state = None\<rparr>"

definition snapshot_of :: "snapshot option \<Rightarrow> snapshot" where
  "snapshot_of s = (case s of None \<Rightarrow> snapshot_default | Some x \<Rightarrow> x)"

record event_book =
  eb_cover :: "cover option"
  eb_pages :: "event_page list"
  eb_next_sequence :: nat
  eb_snapshot :: "snapshot option"

definition event_book_default :: event_book where
  "event_book_default =
     \<lparr>eb_cover = None, eb_pages = [], eb_next_sequence = 0, eb_snapshot = None\<rparr>"

text \<open>The payload of a page, its type URL and the name that URL gives.\<close>

abbreviation page_any :: "event_page \<Rightarrow> any_msg" where
  "page_any p \<equiv> payload_of (pg_payload p)"

abbreviation page_type :: "event_page \<Rightarrow> string" where
  "page_type p \<equiv> type_name (any_type_url (page_any p))"

subsection \<open>Commands\<close>

datatype body = Command_arm "any_msg option" | Fact_arm "any_msg option"

record command_page =
  cp_body :: "body option"
  cp_command_id :: "uuid_msg option"
  cp_correlation_id :: "uuid_msg option"
  cp_fact_origin :: "fact_origin option"

definition command_page_default :: command_page where
  "command_page_default =
     \<lparr>cp_body = None, cp_command_id = None, cp_correlation_id = None, cp_fact_origin = None\<rparr>"

record handling_msg =
  hd_expected_sequence :: "nat option"
  hd_conflict_resolution :: conflict_resolution

definition handling_default :: handling_msg where
  "handling_default = \<lparr>hd_expected_sequence = None, hd_conflict_resolution = RES_UNSPECIFIED\<rparr>"

record command_book =
  cb_cover :: "cover option"
  cb_page :: "command_page option"
  cb_handling :: "handling_msg option"

definition command_book_default :: command_book where
  "command_book_default = \<lparr>cb_cover = None, cb_page = None, cb_handling = None\<rparr>"

definition book_page :: "command_book \<Rightarrow> command_page" where
  "book_page b = (case cb_page b of None \<Rightarrow> command_page_default | Some p \<Rightarrow> p)"

definition book_handling :: "command_book \<Rightarrow> handling_msg" where
  "book_handling b = (case cb_handling b of None \<Rightarrow> handling_default | Some h \<Rightarrow> h)"

text \<open>\<open>page.command.payload\<close>: the default payload when the body is not the command arm.\<close>

definition command_payload :: "command_page \<Rightarrow> any_msg" where
  "command_payload p =
     (case cp_body p of Some (Command_arm a) \<Rightarrow> payload_of a | _ \<Rightarrow> any_default)"

record contextual_command =
  cc_command :: command_book
  cc_events :: event_book
  cc_recorded_at :: "timestamp option"
  cc_conflict_nonce :: bytes

text \<open>A refusal of a command: the refused command's book, and the rest, which is only carried.\<close>

record command_refused =
  cr_command :: command_book
  cr_rest :: bytes

subsection \<open>Answers\<close>

record conflict_report =
  rp_resolved_nonce :: bytes
  rp_window_units :: "string list"
  rp_command_units :: "string list"

definition conflict_report_default :: conflict_report where
  "conflict_report_default =
     \<lparr>rp_resolved_nonce = [], rp_window_units = [], rp_command_units = []\<rparr>"

record command_handler_response =
  hr_events :: event_book
  hr_rules_version :: string
  hr_conflict :: "conflict_report option"

text \<open>\<open>resp.conflict\<close>, read: the default report when the answer carries none.\<close>

definition conflict_of :: "command_handler_response \<Rightarrow> conflict_report" where
  "conflict_of resp = (case hr_conflict resp of None \<Rightarrow> conflict_report_default | Some r \<Rightarrow> r)"

record reaction =
  rx_trigger_sequence :: nat
  rx_outputs :: "command_book list"

record projection =
  pj_cover :: cover
  pj_projector :: string
  pj_next_sequence :: nat
  pj_projection :: any_msg

subsection \<open>Message classes\<close>

text \<open>
  A generated message class, as the code uses one: its full name, a fresh instance (calling the
  class), \<open>ParseFromString\<close> on a fresh instance (an error is the runtime's text) and
  \<open>SerializeToString\<close>. \<open>any_pack\<close> is \<open>Any.Pack(msg, type_url_prefix="/")\<close>.
\<close>

record 'm message_class =
  mc_full_name :: string
  mc_fresh :: 'm
  mc_parse :: "bytes \<Rightarrow> string + 'm"
  mc_serialize :: "'m \<Rightarrow> bytes"

definition any_pack :: "'m message_class \<Rightarrow> 'm \<Rightarrow> any_msg" where
  "any_pack cls m =
     \<lparr>any_type_url = ''/'' @ mc_full_name cls, any_value = mc_serialize cls m\<rparr>"

text \<open>What protobuf documents of a message class: parsing what it serialized gives it back.\<close>

definition parses_back :: "'m message_class \<Rightarrow> bool" where
  "parses_back cls \<longleftrightarrow> (\<forall>m. mc_parse cls (mc_serialize cls m) = Inr m)"

lemma any_pack_sel [simp]:
  "any_type_url (any_pack cls m) = CHR ''/'' # mc_full_name cls"
  "any_value (any_pack cls m) = mc_serialize cls m"
  by (simp_all add: any_pack_def)

end
