(* ===== verification/Context.thy ===== *)
theory Context
  imports Wire
begin

text \<open>
  \<open>angzarr_client/router/context.py\<close>: what business code is handed (the page and command
  contexts, a stale command's conflict, a fact's record), the context variable it runs under,
  and what every component shares: the starting state, the fold and the guarded call.

  Business code is a parameter. An applier, a projector's fold or a handler is a function of
  the context variable's value while it runs (\<open>ambient\<close>) and of its arguments; it raises or
  answers, and what it changes of the state or the context it was handed is part of its
  answer. The messages it is handed beside them it only reads.
\<close>

subsection \<open>Contexts\<close>

record page_context =
  pc_cover :: "cover option"
  pc_sequence :: nat
  pc_meta :: "event_meta option"

abbreviation cover_context :: "cover option \<Rightarrow> page_context" where
  "cover_context c \<equiv> \<lparr>pc_cover = c, pc_sequence = 0, pc_meta = None\<rparr>"

record conflict =
  cf_window :: "event_page list"
  cf_nonce :: bytes
  cf_resolved :: bytes

definition new_conflict :: "event_page list \<Rightarrow> bytes \<Rightarrow> conflict" where
  "new_conflict window nonce = \<lparr>cf_window = window, cf_nonce = nonce, cf_resolved = []\<rparr>"

definition resolve_conflicts :: "event_page list \<Rightarrow> bytes \<Rightarrow> conflict \<Rightarrow> conflict" where
  "resolve_conflicts window nonce c = c\<lparr>cf_resolved := nonce\<rparr>"

record command_context =
  cx_next_sequence :: nat
  cx_had_prior_events :: bool
  cx_cover :: "cover option"
  cx_expected_sequence :: nat
  cx_conflict_resolution :: conflict_resolution
  cx_conflict :: "conflict option"
  cx_command_id :: "uuid_msg option"
  cx_correlation_id :: "uuid_msg option"
  cx_fact_origin :: "fact_origin option"
  cx_recorded_at :: "timestamp option"

definition event_meta_of :: "string \<Rightarrow> command_context \<Rightarrow> event_meta" where
  "event_meta_of rules_version ctx =
     \<lparr>em_rules_version = rules_version, em_command_id = cx_command_id ctx,
      em_fact = cx_fact_origin ctx, em_correlation_id = cx_correlation_id ctx,
      em_recorded_at = cx_recorded_at ctx\<rparr>"

definition book_context :: "command_book \<Rightarrow> nat \<Rightarrow> command_context" where
  "book_context book next_sequence =
     (let handling = book_handling book; page = book_page book in
      \<lparr>cx_next_sequence = next_sequence, cx_had_prior_events = False, cx_cover = cb_cover book,
       cx_expected_sequence =
         (case hd_expected_sequence handling of None \<Rightarrow> next_sequence | Some e \<Rightarrow> e),
       cx_conflict_resolution = hd_conflict_resolution handling, cx_conflict = None,
       cx_command_id = cp_command_id page, cx_correlation_id = cp_correlation_id page,
       cx_fact_origin = cp_fact_origin page, cx_recorded_at = None\<rparr>)"

subsection \<open>Facts\<close>

text \<open>
  What a fact handler or a translating callback answers: an Any, a message, or an object that
  is neither, on which \<open>pack\<close> raises \<open>AttributeError\<close>.
\<close>

datatype py_msg = Any_obj any_msg | Msg_obj proto_msg | No_msg

fun as_any :: "py_msg \<Rightarrow> exn + any_msg" where
  "as_any (Any_obj a) = Return a"
| "as_any (Msg_obj m) = Return (pack m)"
| "as_any No_msg = Raise (Other_exc ''AttributeError'')"

record fact_record =
  fr_fact :: py_msg
  fr_flags :: "py_msg list"

definition as_received :: "py_msg \<Rightarrow> fact_record" where
  "as_received msg = \<lparr>fr_fact = msg, fr_flags = []\<rparr>"

fun payload_pages :: "py_msg list \<Rightarrow> exn + event_page list" where
  "payload_pages [] = Return []"
| "payload_pages (p # ps) =
     bindR (as_any p) (\<lambda>a.
     bindR (payload_pages ps) (\<lambda>pages.
     Return (\<lparr>pg_payload = Some a, pg_sequence = 0, pg_meta = None\<rparr> # pages)))"

definition fact_book :: "fact_record \<Rightarrow> exn + event_book" where
  "fact_book r =
     bindR (payload_pages (fr_fact r # fr_flags r)) (\<lambda>pages.
     Return (event_book_default\<lparr>eb_pages := pages\<rparr>))"

subsection \<open>The context variable\<close>

type_synonym ambient = "page_context option"

text \<open>
  \<open>with handling(ctx): body\<close> over the variable itself: it is set to \<open>ctx\<close> for the body,
  whatever the body leaves in it, and reset by the token, which holds the value before, however
  the body ends.
\<close>

definition handling_var ::
  "page_context \<Rightarrow> (ambient \<Rightarrow> 'r \<times> ambient) \<Rightarrow> ambient \<Rightarrow> 'r \<times> ambient" where
  "handling_var ctx body cur =
     (let token = cur; (result, left) = body (Some ctx) in (result, token))"

text \<open>What that leaves of it for code that only reads the variable.\<close>

definition handling :: "page_context \<Rightarrow> (ambient \<Rightarrow> 'r) \<Rightarrow> 'r" where
  "handling ctx body = body (Some ctx)"

lemma handling_var_eq: "handling_var ctx body cur = (handling ctx (\<lambda>v. fst (body v)), cur)"
  by (simp add: handling_var_def handling_def split: prod.split)

definition current_page :: "ambient \<Rightarrow> exn + page_context" where
  "current_page cur =
     (case cur of None \<Rightarrow> Raise (Other_exc ''RuntimeError'') | Some ctx \<Rightarrow> Return ctx)"

definition current_cover :: "ambient \<Rightarrow> exn + cover" where
  "current_cover cur =
     bindR (current_page cur) (\<lambda>ctx.
     case pc_cover ctx of None \<Rightarrow> Raise (Other_exc ''RuntimeError'') | Some c \<Rightarrow> Return c)"

subsection \<open>The runtime the router is given\<close>

text \<open>
  What is not under \<open>src/\<close>: the generated status table, the numbers a sequence field of a
  message holds (assigning any other raises \<open>ValueError\<close>), and the decoder of
  \<open>CommandRefused\<close> (an error is the runtime's text).
\<close>

record runtime =
  rt_statuses :: statuses
  rt_seq_fits :: "nat \<Rightarrow> bool"
  rt_parse_refused :: "bytes \<Rightarrow> string + command_refused"

definition coded :: "runtime \<Rightarrow> string \<Rightarrow> (string, string) dict \<Rightarrow> exn" where
  "coded rt code extras = Coded (coded_error (rt_statuses rt) code None extras None)"

lemma coded_simps [simp]: "is_coded (coded rt code extras)" "is_exception (coded rt code extras)"
  by (simp_all add: coded_def)

definition decode_refused :: "runtime \<Rightarrow> string \<Rightarrow> bytes \<Rightarrow> exn + command_refused" where
  "decode_refused rt full_name data =
     (case rt_parse_refused rt data of
        Inl text \<Rightarrow> Raise (Coded (any_decode_error (rt_statuses rt) full_name text))
      | Inr msg \<Rightarrow> Return msg)"

subsection \<open>The starting state, the fold, the guarded call\<close>

type_synonym 'st applier = "ambient \<Rightarrow> 'st \<Rightarrow> any_msg \<Rightarrow> page_context \<Rightarrow> exn + 'st"

definition state_type_url :: "'st message_class \<Rightarrow> string" where
  "state_type_url cls = ''/'' @ mc_full_name cls"

definition start_state :: "runtime \<Rightarrow> 'st message_class \<Rightarrow> event_book \<Rightarrow> exn + 'st" where
  "start_state rt cls book =
     (case sn_state (snapshot_of (eb_snapshot book)) of
        None \<Rightarrow> Return (mc_fresh cls)
      | Some a \<Rightarrow>
          (case mc_parse cls (any_value a) of
             Inr st \<Rightarrow> Return st
           | Inl _ \<Rightarrow> Raise (coded rt PERSISTED_EVENT_CORRUPT [(''type_url'', any_type_url a)])))"

definition fold_error ::
  "runtime \<Rightarrow> 'st message_class \<Rightarrow> string \<Rightarrow> event_page \<Rightarrow> exn \<Rightarrow> exn" where
  "fold_error rt cls code page exc =
     (let args = [(''sequence'', nat_str (pg_sequence page)),
                  (''type_url'', any_type_url (page_any page)),
                  (''state_type_url'', state_type_url cls)] in
      coded rt code (dict_merge args (as_cause (rt_statuses rt) exc)))"

fun fold_pages ::
  "runtime \<Rightarrow> 'st message_class \<Rightarrow> cover option \<Rightarrow> (string \<rightharpoonup> 'st applier) \<Rightarrow> string \<Rightarrow>
     'st \<Rightarrow> event_page list \<Rightarrow> exn + 'st" where
  "fold_pages rt cls cover appliers code st [] = Return st"
| "fold_pages rt cls cover appliers code st (page # pages) =
     (case appliers (page_type page) of
        None \<Rightarrow> fold_pages rt cls cover appliers code st pages
      | Some applier \<Rightarrow>
          (let ctx = \<lparr>pc_cover = cover, pc_sequence = pg_sequence page, pc_meta = pg_meta page\<rparr> in
           case handling ctx (\<lambda>cur. applier cur st (page_any page) ctx) of
             Inr st' \<Rightarrow> fold_pages rt cls cover appliers code st' pages
           | Inl exc \<Rightarrow>
               Raise (if is_exception exc then fold_error rt cls code page exc else exc)))"

definition call :: "runtime \<Rightarrow> page_context \<Rightarrow> (ambient \<Rightarrow> exn + 'a) \<Rightarrow> exn + 'a" where
  "call rt ctx handler =
     (case handling ctx handler of
        Inr v \<Rightarrow> Return v
      | Inl exc \<Rightarrow>
          Raise (if is_exception exc then Coded (escaped (rt_statuses rt) exc) else exc))"

subsection \<open>The contract of a fold\<close>

text \<open>
  What a component relies on of its fold: nothing to fold leaves the state, and the pages are
  folded one after another, the first failure ending it. The rest is proved from that.
\<close>

locale sequential_fold =
  fixes run :: "'st \<Rightarrow> 'p list \<Rightarrow> 'e + 'st"
  assumes run_Nil: "run st [] = Return st"
    and run_Cons: "run st (p # ps) = bindR (run st [p]) (\<lambda>st'. run st' ps)"
begin

lemma run_append: "run st (ps @ qs) = bindR (run st ps) (\<lambda>st'. run st' qs)"
proof (induction ps arbitrary: st)
  case (Cons p ps)
  have "run st ((p # ps) @ qs) = bindR (run st [p]) (\<lambda>st'. run st' (ps @ qs))"
    by (simp add: run_Cons [of st p "ps @ qs"])
  also have "\<dots> = bindR (run st [p]) (\<lambda>st'. bindR (run st' ps) (\<lambda>st''. run st'' qs))"
    by (simp add: Cons.IH)
  also have "\<dots> = bindR (run st (p # ps)) (\<lambda>st''. run st'' qs)"
    by (simp add: run_Cons [of st p ps] bindR_assoc)
  finally show ?case .
qed (simp add: run_Nil)

lemma run_split: "bindR (run st (take n ps)) (\<lambda>st'. run st' (drop n ps)) = run st ps"
  using run_append [of st "take n ps" "drop n ps"] by simp

lemma run_prefix: "run st (ps @ qs) = Return st'' \<Longrightarrow> \<exists>st'. run st ps = Return st'"
  by (auto simp: run_append bindR_eq_Inr_iff)

lemma run_fails_at:
  "run st ps = Raise e \<Longrightarrow>
     \<exists>pre p post st'. ps = pre @ p # post \<and> run st pre = Return st' \<and> run st' [p] = Raise e"
proof (induction ps arbitrary: st)
  case (Cons p ps)
  show ?case
  proof (cases "run st [p]")
    case (Inl e')
    then have "e' = e" using Cons.prems by (simp add: run_Cons [of st p ps])
    with Inl have "run st [p] = Raise e" by simp
    with run_Nil [of st] show ?thesis by (metis append_Nil)
  next
    case (Inr st1)
    then have "run st1 ps = Raise e" using Cons.prems by (simp add: run_Cons [of st p ps])
    from Cons.IH [OF this] obtain pre q post st' where
      "ps = pre @ q # post" "run st1 pre = Return st'" "run st' [q] = Raise e" by blast
    moreover have "run st (p # pre) = Return st'"
      using Inr calculation by (simp add: run_Cons [of st p pre])
    ultimately show ?thesis by (metis append_Cons)
  qed
qed (simp add: run_Nil)

end

interpretation page_fold: sequential_fold "fold_pages rt cls cover appliers code"
  by unfold_locales (auto simp: Let_def split: option.split sum.split)

lemma call_Return [simp]: "handler (Some ctx) = Return v \<Longrightarrow> call rt ctx handler = Return v"
  by (simp add: call_def handling_def)

lemma call_eq_Return: "call rt ctx handler = Return v \<longleftrightarrow> handler (Some ctx) = Return v"
  by (simp add: call_def handling_def split: sum.split)

lemma call_Raise:
  "handler (Some ctx) = Raise exc \<Longrightarrow> is_exception exc \<Longrightarrow>
     call rt ctx handler = Raise (Coded (escaped (rt_statuses rt) exc))"
  by (simp add: call_def handling_def)

text \<open>The code names the failure only: a fold that succeeds does under any code.\<close>

lemma fold_pages_code:
  "fold_pages rt cls cover appliers code st pages = Return st' \<Longrightarrow>
     fold_pages rt cls cover appliers code' st pages = Return st'"
proof (induction pages arbitrary: st)
  case (Cons page pages)
  then show ?case by (auto simp: Let_def split: option.splits sum.splits)
qed simp

lemma fold_pages_skip:
  "appliers (page_type page) = None \<Longrightarrow>
     fold_pages rt cls cover appliers code st (page # pages) =
       fold_pages rt cls cover appliers code st pages"
  by simp

text \<open>What the guarded steps may raise: a coded error, or what no handler catches.\<close>

definition answered :: "exn + 'a \<Rightarrow> bool" where
  "answered r \<longleftrightarrow> (case r of Inr _ \<Rightarrow> True | Inl e \<Rightarrow> is_coded e \<or> \<not> is_exception e)"

lemma answered_simps [simp]:
  "answered (Inr v)"
  "answered (Inl (Coded e))"
  "answered (Inl (coded rt code extras))"
  "answered (Inl (Base_exc t))"
  "\<not> answered (Inl (Other_exc t))"
  by (simp_all add: answered_def)

lemma answered_bindR:
  "answered m \<Longrightarrow> (\<And>x. m = Inr x \<Longrightarrow> answered (f x)) \<Longrightarrow> answered (bindR m f)"
  by (cases m) (auto simp: answered_def)

lemma answered_call [simp]: "answered (call rt ctx handler)"
  by (auto simp: call_def answered_def split: sum.split)

lemma answered_fold_error:
  "answered (Inl (if is_exception exc then fold_error rt cls code page exc else exc))"
  by (simp add: answered_def fold_error_def)

lemma answered_fold_pages [simp]: "answered (fold_pages rt cls cover appliers code st pages)"
proof (induction pages arbitrary: st)
  case (Cons page pages)
  then show ?case
    by (auto simp: Let_def answered_fold_error split: option.split sum.split)
qed simp

lemma answered_start_state [simp]: "answered (start_state rt cls book)"
  by (auto simp: start_state_def split: option.split sum.split)

end
