(* ===== verification/Aggregate.thy ===== *)
theory Aggregate
  imports Context
begin

text \<open>
  \<open>angzarr_client/router/aggregate.py\<close>: an aggregate's (or a process manager's) dispatch
  table, its registration operations, and \<open>handle\<close>, one ContextualCommand in and its response
  or the error that refuses it out. The table's handlers and appliers are parameters: functions
  stored in the table.
\<close>

subsection \<open>The tables\<close>

record 'st rebuilder =
  rb_factory :: "'st message_class"
  rb_appliers :: "string \<rightharpoonup> 'st applier"

definition rebuilder_new :: "'st message_class \<Rightarrow> 'st rebuilder" where
  "rebuilder_new factory = \<lparr>rb_factory = factory, rb_appliers = Map.empty\<rparr>"

definition apply_with_context :: "string \<Rightarrow> 'st applier \<Rightarrow> 'st rebuilder \<Rightarrow> 'st rebuilder" where
  "apply_with_context full_name thunk r = r\<lparr>rb_appliers := (rb_appliers r)(full_name \<mapsto> thunk)\<rparr>"

definition apply_event ::
  "string \<Rightarrow> (ambient \<Rightarrow> 'st \<Rightarrow> any_msg \<Rightarrow> exn + 'st) \<Rightarrow> 'st rebuilder \<Rightarrow> 'st rebuilder" where
  "apply_event full_name thunk r =
     r\<lparr>rb_appliers := (rb_appliers r)(full_name \<mapsto> (\<lambda>cur st event ctx. thunk cur st event))\<rparr>"

type_synonym 'st command_thunk =
  "ambient \<Rightarrow> any_msg \<Rightarrow> 'st \<Rightarrow> command_context \<Rightarrow> exn + event_book option \<times> 'st \<times> command_context"
type_synonym 'st fact_thunk =
  "ambient \<Rightarrow> any_msg \<Rightarrow> 'st \<Rightarrow> command_context \<Rightarrow> exn + fact_record \<times> 'st \<times> command_context"
type_synonym 'st refused_thunk =
  "ambient \<Rightarrow> command_refused \<Rightarrow> 'st \<Rightarrow> command_context \<Rightarrow> exn + fact_record \<times> 'st \<times> command_context"
type_synonym 'st changed_thunk = "ambient \<Rightarrow> 'st \<Rightarrow> 'st \<Rightarrow> exn + string list"

text \<open>What \<open>_decide\<close> and \<open>_ingest\<close> return: the handler, closed over its input.\<close>

type_synonym 'st decide =
  "ambient \<Rightarrow> 'st \<Rightarrow> command_context \<Rightarrow> exn + event_book \<times> 'st \<times> command_context"

record 'st aggregate_dispatch =
  ad_name :: string
  ad_domain :: string
  ad_rebuilder :: "'st rebuilder"
  ad_commands :: "string \<rightharpoonup> 'st command_thunk"
  ad_facts :: "string \<rightharpoonup> 'st fact_thunk"
  ad_refusals :: "string \<rightharpoonup> 'st refused_thunk"
  ad_rules_version :: string
  ad_changed :: "'st changed_thunk option"

definition aggregate_new :: "string \<Rightarrow> string \<Rightarrow> 'st rebuilder \<Rightarrow> 'st aggregate_dispatch" where
  "aggregate_new name domain rebuilder =
     \<lparr>ad_name = name, ad_domain = domain, ad_rebuilder = rebuilder, ad_commands = Map.empty,
      ad_facts = Map.empty, ad_refusals = Map.empty, ad_rules_version = [], ad_changed = None\<rparr>"

definition on_command ::
  "string \<Rightarrow> 'st command_thunk \<Rightarrow> 'st aggregate_dispatch \<Rightarrow> 'st aggregate_dispatch" where
  "on_command full_name thunk d = d\<lparr>ad_commands := (ad_commands d)(full_name \<mapsto> thunk)\<rparr>"

definition on_fact ::
  "string \<Rightarrow> 'st fact_thunk \<Rightarrow> 'st aggregate_dispatch \<Rightarrow> 'st aggregate_dispatch" where
  "on_fact full_name thunk d = d\<lparr>ad_facts := (ad_facts d)(full_name \<mapsto> thunk)\<rparr>"

definition on_refused ::
  "string \<Rightarrow> 'st refused_thunk \<Rightarrow> 'st aggregate_dispatch \<Rightarrow> 'st aggregate_dispatch" where
  "on_refused command thunk d = d\<lparr>ad_refusals := (ad_refusals d)(command \<mapsto> thunk)\<rparr>"

definition with_commutative ::
  "'st changed_thunk \<Rightarrow> 'st aggregate_dispatch \<Rightarrow> 'st aggregate_dispatch" where
  "with_commutative changed d = d\<lparr>ad_changed := Some changed\<rparr>"

definition with_rules_version ::
  "string \<Rightarrow> 'st aggregate_dispatch \<Rightarrow> 'st aggregate_dispatch" where
  "with_rules_version version d = d\<lparr>ad_rules_version := version\<rparr>"

interpretation commands: registry on_command ad_commands
  by unfold_locales (auto simp: on_command_def)

interpretation facts: registry on_fact ad_facts
  by unfold_locales (auto simp: on_fact_def)

interpretation refusals: registry on_refused ad_refusals
  by unfold_locales (auto simp: on_refused_def)

interpretation appliers: registry apply_with_context rb_appliers
  by unfold_locales (auto simp: apply_with_context_def)

subsection \<open>Routing the input\<close>

definition REFUSED_TYPE :: string where
  "REFUSED_TYPE = ''io.angzarr.v1.CommandRefused''"

definition book_or_empty :: "event_book option \<Rightarrow> event_book" where
  "book_or_empty events = (case events of None \<Rightarrow> event_book_default | Some b \<Rightarrow> b)"

definition decide_command ::
  "runtime \<Rightarrow> 'st aggregate_dispatch \<Rightarrow> any_msg \<Rightarrow> exn + 'st decide" where
  "decide_command rt d payload =
     (case ad_commands d (type_name (any_type_url payload)) of
        None \<Rightarrow>
          Raise (Coded (unknown_type (rt_statuses rt) UNKNOWN_COMMAND_TYPE (any_type_url payload)))
      | Some thunk \<Rightarrow>
          Return (\<lambda>cur st ctx. bindR (thunk cur payload st ctx) (\<lambda>(events, st', ctx').
            Return (book_or_empty events, st', ctx'))))"

definition record_fact ::
  "exn + fact_record \<times> 'st \<times> command_context \<Rightarrow> exn + event_book \<times> 'st \<times> command_context" where
  "record_fact r = bindR r (\<lambda>(rec, st', ctx'). bindR (fact_book rec) (\<lambda>b. Return (b, st', ctx')))"

definition ingest :: "runtime \<Rightarrow> 'st aggregate_dispatch \<Rightarrow> any_msg \<Rightarrow> exn + 'st decide" where
  "ingest rt d payload =
     (let fq = type_name (any_type_url payload) in
      case ad_facts d fq of
        Some thunk \<Rightarrow> Return (\<lambda>cur st ctx. record_fact (thunk cur payload st ctx))
      | None \<Rightarrow>
          (if fq \<noteq> REFUSED_TYPE
           then Raise (Coded (unknown_type (rt_statuses rt) NO_FACT_HANDLER (any_type_url payload)))
           else bindR (decode_refused rt REFUSED_TYPE (any_value payload)) (\<lambda>refused.
             let command_type = any_type_url (command_payload (book_page (cr_command refused))) in
             case ad_refusals d (type_name command_type) of
               None \<Rightarrow> Raise (coded rt NO_REFUSAL_HANDLER [(''command_type'', command_type)])
             | Some thunk \<Rightarrow> Return (\<lambda>cur st ctx. record_fact (thunk cur refused st ctx)))))"

text \<open>The head of \<open>handle\<close>: the arm of the input's body picks \<open>_ingest\<close> or \<open>_decide\<close>.\<close>

definition route ::
  "runtime \<Rightarrow> 'st aggregate_dispatch \<Rightarrow> command_page \<Rightarrow> conflict_resolution \<Rightarrow> exn + 'st decide" where
  "route rt d page mode =
     (case cp_body page of
        Some (Fact_arm p) \<Rightarrow> ingest rt d (payload_of p)
      | _ \<Rightarrow>
          bindR (decide_command rt d (command_payload page)) (\<lambda>decide.
          if mode = RES_COMMUTATIVE \<and> ad_changed d = None
          then Raise (coded rt CONFLICT_RESOLUTION_UNSUPPORTED [])
          else Return decide))"

subsection \<open>Handling one input\<close>

abbreviation replay ::
  "runtime \<Rightarrow> 'st aggregate_dispatch \<Rightarrow> cover option \<Rightarrow> string \<Rightarrow> 'st \<Rightarrow> event_page list \<Rightarrow> exn + 'st" where
  "replay rt d cover code \<equiv>
     fold_pages rt (rb_factory (ad_rebuilder d)) cover (rb_appliers (ad_rebuilder d)) code"

definition command_ctx :: "contextual_command \<Rightarrow> command_context" where
  "command_ctx request =
     (let events = cc_events request in
      (book_context (cc_command request) (eb_next_sequence events))
        \<lparr>cx_had_prior_events := eb_pages events \<noteq> [] \<or> eb_snapshot events \<noteq> None,
         cx_recorded_at := cc_recorded_at request\<rparr>)"

definition seen_pages :: "contextual_command \<Rightarrow> nat" where
  "seen_pages request =
     length (filter (\<lambda>p. pg_sequence p < cx_expected_sequence (command_ctx request))
       (eb_pages (cc_events request)))"

text \<open>The state at the expected sequence, and the state after every page delivered.\<close>

definition rebuild ::
  "runtime \<Rightarrow> 'st aggregate_dispatch \<Rightarrow> event_book \<Rightarrow> nat \<Rightarrow> exn + 'st \<times> 'st" where
  "rebuild rt d events seen =
     bindR (start_state rt (rb_factory (ad_rebuilder d)) events) (\<lambda>st.
     bindR (replay rt d (eb_cover events) FOLD_FAILED st (take seen (eb_pages events))) (\<lambda>before.
     bindR (replay rt d (eb_cover events) FOLD_FAILED before (drop seen (eb_pages events))) (\<lambda>st'.
     Return (before, st'))))"

text \<open>The decision's own events as they will be persisted: from this sequence on, with this meta.\<close>

fun stamp :: "runtime \<Rightarrow> nat \<Rightarrow> event_meta \<Rightarrow> event_page list \<Rightarrow> exn + event_page list" where
  "stamp rt sequence meta [] = Return []"
| "stamp rt sequence meta (page # pages) =
     (if rt_seq_fits rt sequence
      then bindR (stamp rt (Suc sequence) meta pages) (\<lambda>rest.
        Return (page\<lparr>pg_sequence := sequence, pg_meta := Some meta\<rparr> # rest))
      else Raise (Other_exc ''ValueError''))"

definition changed_units :: "runtime \<Rightarrow> 'st aggregate_dispatch \<Rightarrow> 'st \<Rightarrow> 'st \<Rightarrow> exn + string list" where
  "changed_units rt d before after =
     call rt (cover_context None) (\<lambda>cur.
       case ad_changed d of
         None \<Rightarrow> Raise (Other_exc ''TypeError'')
       | Some changed \<Rightarrow> changed cur before after)"

definition with_state :: "any_msg \<Rightarrow> event_book \<Rightarrow> event_book" where
  "with_state packed book =
     book\<lparr>eb_snapshot := Some ((snapshot_of (eb_snapshot book))\<lparr>sn_state := Some packed\<rparr>)\<rparr>"

text \<open>
  The answer's conflict report. It is there when the handler's context holds a conflict, settled or
  not, and on every COMMUTATIVE answer, whose units are extended into it even when there are none.
\<close>

definition conflict_answer ::
  "conflict_resolution \<Rightarrow> command_context \<Rightarrow> string list \<Rightarrow> string list \<Rightarrow> conflict_report option" where
  "conflict_answer mode ctx window mine =
     (if cx_conflict ctx = None \<and> mode \<noteq> RES_COMMUTATIVE then None
      else Some \<lparr>rp_resolved_nonce =
                   (case cx_conflict ctx of None \<Rightarrow> [] | Some c \<Rightarrow> cf_resolved c),
                 rp_window_units = window, rp_command_units = mine\<rparr>)"

definition aggregate_handle ::
  "runtime \<Rightarrow> 'st aggregate_dispatch \<Rightarrow> contextual_command \<Rightarrow> exn + command_handler_response" where
  "aggregate_handle rt d request =
     (let command = cc_command request; events = cc_events request;
          mode = hd_conflict_resolution (book_handling command);
          cls = rb_factory (ad_rebuilder d) in
      bindR (route rt d (book_page command) mode) (\<lambda>decide.
      let seen = seen_pages request; ctx0 = command_ctx request in
      bindR (rebuild rt d events seen) (\<lambda>(before, state).
      let ctx1 = (if mode = RES_AGGREGATE_HANDLES
                  then ctx0\<lparr>cx_conflict :=
                    Some (new_conflict (drop seen (eb_pages events)) (cc_conflict_nonce request))\<rparr>
                  else ctx0) in
      bindR (call rt (cover_context (cx_cover ctx1)) (\<lambda>cur. decide cur state ctx1))
        (\<lambda>(out, head, ctx).
      bindR (stamp rt (eb_next_sequence events) (event_meta_of (ad_rules_version d) ctx) (eb_pages out))
        (\<lambda>emitted.
      bindR (replay rt d (eb_cover events) FOLD_FAILED_EMITTED head emitted) (\<lambda>after.
      bindR (if mode = RES_COMMUTATIVE
             then bindR (changed_units rt d before head) (\<lambda>window.
                  bindR (changed_units rt d head after) (\<lambda>mine. Return (window, mine)))
             else Return ([], [])) (\<lambda>(window, mine).
      Return \<lparr>hr_events = with_state (any_pack cls after) out,
              hr_rules_version = ad_rules_version d,
              hr_conflict = conflict_answer mode ctx window mine\<rparr>)))))))"

subsection \<open>Facts about one handling\<close>

lemma conflict_answer_None [simp]:
  "conflict_answer mode ctx window mine = None \<longleftrightarrow> cx_conflict ctx = None \<and> mode \<noteq> RES_COMMUTATIVE"
  by (simp add: conflict_answer_def)

text \<open>Read through the answer, the report is the same whether it is absent or empty.\<close>

lemma conflict_of_answer:
  assumes "hr_conflict resp = conflict_answer mode ctx window mine"
    and "mode \<noteq> RES_COMMUTATIVE \<Longrightarrow> window = [] \<and> mine = []"
  shows "conflict_of resp =
    \<lparr>rp_resolved_nonce = (case cx_conflict ctx of None \<Rightarrow> [] | Some c \<Rightarrow> cf_resolved c),
     rp_window_units = window, rp_command_units = mine\<rparr>"
  using assms by (auto simp: conflict_of_def conflict_answer_def conflict_report_default_def)

text \<open>A successful handling, step by step.\<close>

lemma aggregate_handleE:
  assumes "aggregate_handle rt d request = Return resp"
  obtains decide before state ctx1 out head ctx emitted after window mine where
    "route rt d (book_page (cc_command request))
       (hd_conflict_resolution (book_handling (cc_command request))) = Return decide"
    and "rebuild rt d (cc_events request) (seen_pages request) = Return (before, state)"
    and "ctx1 = (if hd_conflict_resolution (book_handling (cc_command request)) = RES_AGGREGATE_HANDLES
           then (command_ctx request)\<lparr>cx_conflict := Some (new_conflict
             (drop (seen_pages request) (eb_pages (cc_events request))) (cc_conflict_nonce request))\<rparr>
           else command_ctx request)"
    and "decide (Some (cover_context (cx_cover ctx1))) state ctx1 = Return (out, head, ctx)"
    and "stamp rt (eb_next_sequence (cc_events request)) (event_meta_of (ad_rules_version d) ctx)
           (eb_pages out) = Return emitted"
    and "replay rt d (eb_cover (cc_events request)) FOLD_FAILED_EMITTED head emitted = Return after"
    and "(if hd_conflict_resolution (book_handling (cc_command request)) = RES_COMMUTATIVE
          then bindR (changed_units rt d before head) (\<lambda>window.
               bindR (changed_units rt d head after) (\<lambda>mine. Return (window, mine)))
          else Return ([], [])) = Return (window, mine)"
    and "resp = \<lparr>hr_events = with_state (any_pack (rb_factory (ad_rebuilder d)) after) out,
           hr_rules_version = ad_rules_version d,
           hr_conflict = conflict_answer (hd_conflict_resolution (book_handling (cc_command request)))
             ctx window mine\<rparr>"
proof -
  note [simp del] = fold_pages.simps stamp.simps
  show thesis
    using assms unfolding aggregate_handle_def Let_def
    by (elim bindR_InrE; clarsimp simp: call_eq_Return elim!: bindR_InrE)
      (erule that; simp)
qed

lemma rebuild_eq_Return:
  "rebuild rt d events n = Return (before, st') \<longleftrightarrow>
     (\<exists>st. start_state rt (rb_factory (ad_rebuilder d)) events = Return st
       \<and> replay rt d (eb_cover events) FOLD_FAILED st (take n (eb_pages events)) = Return before
       \<and> replay rt d (eb_cover events) FOLD_FAILED before (drop n (eb_pages events)) = Return st')"
  by (auto simp: rebuild_def bindR_eq_Inr_iff)

text \<open>However the pages are split for the conflict, the state is the replay of all of them.\<close>

lemma rebuild_replay:
  assumes "rebuild rt d events n = Return (before, st')"
  obtains st where "start_state rt (rb_factory (ad_rebuilder d)) events = Return st"
    and "replay rt d (eb_cover events) FOLD_FAILED st (eb_pages events) = Return st'"
proof -
  from assms obtain st where st: "start_state rt (rb_factory (ad_rebuilder d)) events = Return st"
    and t: "replay rt d (eb_cover events) FOLD_FAILED st (take n (eb_pages events)) = Return before"
    and r: "replay rt d (eb_cover events) FOLD_FAILED before (drop n (eb_pages events)) = Return st'"
    by (auto simp: rebuild_eq_Return)
  have "replay rt d (eb_cover events) FOLD_FAILED st (eb_pages events) =
      bindR (replay rt d (eb_cover events) FOLD_FAILED st (take n (eb_pages events)))
        (\<lambda>st'. replay rt d (eb_cover events) FOLD_FAILED st' (drop n (eb_pages events)))"
    by (rule page_fold.run_split [symmetric])
  with t r st show thesis by (intro that) auto
qed

end
