(* ===== verification/Client_Errors.thy ===== *)
theory Client_Errors
  imports Router_Errors
begin

text \<open>
  \<open>angzarr_client/errors.py\<close> and \<open>angzarr_client/error_codes\<close>: the client's errors, each a
  code with its details, and what a gRPC failure is read as. A \<open>grpc.StatusCode\<close> is its
  number. Parsing a status from a trailer and unpacking an \<open>ErrorInfo\<close> are protobuf's: the
  parameters of \<open>protobuf\<close>. Unpacking answers nothing for a message of another type, and raises on
  an \<open>ErrorInfo\<close> whose bytes do not decode.
\<close>

subsection \<open>Codes and detail keys\<close>

definition CONNECTION_FAILED :: string where "CONNECTION_FAILED = ''CONNECTION_FAILED''"
definition TRANSPORT_ERROR :: string where "TRANSPORT_ERROR = ''TRANSPORT_ERROR''"
definition GRPC_ERROR :: string where "GRPC_ERROR = ''GRPC_ERROR''"
definition TIMESTAMP_PARSE_FAILED :: string where
  "TIMESTAMP_PARSE_FAILED = ''TIMESTAMP_PARSE_FAILED''"
definition PROTO_UUID_INVALID :: string where "PROTO_UUID_INVALID = ''PROTO_UUID_INVALID''"
definition DOMAIN_CONTAINS_COLON :: string where
  "DOMAIN_CONTAINS_COLON = ''DOMAIN_CONTAINS_COLON''"
definition COMMAND_TYPE_URL_MISSING :: string where
  "COMMAND_TYPE_URL_MISSING = ''COMMAND_TYPE_URL_MISSING''"
definition COMMAND_PAYLOAD_MISSING :: string where
  "COMMAND_PAYLOAD_MISSING = ''COMMAND_PAYLOAD_MISSING''"
definition HOST_SERVICE_UNNAMED :: string where "HOST_SERVICE_UNNAMED = ''HOST_SERVICE_UNNAMED''"
definition HOST_ALREADY_STARTED :: string where "HOST_ALREADY_STARTED = ''HOST_ALREADY_STARTED''"
definition DESCRIPTOR_RESOLUTION_UNSPECIFIED :: string where
  "DESCRIPTOR_RESOLUTION_UNSPECIFIED = ''DESCRIPTOR_RESOLUTION_UNSPECIFIED''"
definition UNDO_TARGETS_COMMAND :: string where "UNDO_TARGETS_COMMAND = ''UNDO_TARGETS_COMMAND''"
definition HOST_REASON_NO_COMPONENTS_REGISTERED :: string where
  "HOST_REASON_NO_COMPONENTS_REGISTERED = ''HOST_REASON_NO_COMPONENTS_REGISTERED''"
definition HOST_REASON_UPCASTER_WITH_COMPONENT :: string where
  "HOST_REASON_UPCASTER_WITH_COMPONENT = ''HOST_REASON_UPCASTER_WITH_COMPONENT''"
definition HOST_REASON_HANDSHAKE_MALFORMED :: string where
  "HOST_REASON_HANDSHAKE_MALFORMED = ''HOST_REASON_HANDSHAKE_MALFORMED''"
definition HOST_REASON_DESCRIPTOR_RULES_VERSION_MISMATCH :: string where
  "HOST_REASON_DESCRIPTOR_RULES_VERSION_MISMATCH =
     ''HOST_REASON_DESCRIPTOR_RULES_VERSION_MISMATCH''"
definition HOST_REASON_PROJECTOR_NO_INPUT_DOMAIN :: string where
  "HOST_REASON_PROJECTOR_NO_INPUT_DOMAIN = ''HOST_REASON_PROJECTOR_NO_INPUT_DOMAIN''"

subsection \<open>The client's errors\<close>

datatype error_class =
    Plain_client_error | Connection_error | Transport_error | Grpc_error int
  | Invalid_argument_error | Invalid_timestamp_error | Command_rejected_error string
  | Configuration_error

record client_error =
  er_class :: error_class
  er_code :: string
  er_details :: "(string, string) dict"

text \<open>\<open>ClientError.__init__\<close>: the details by \<open>str()\<close>, the exception's text by \<open>display\<close>.\<close>

definition client_error :: "error_class \<Rightarrow> string \<Rightarrow> (string, pyval) dict \<Rightarrow> client_error" where
  "client_error cls code details =
     \<lparr>er_class = cls, er_code = code, er_details = strings details\<rparr>"

definition client_error_text :: "client_error \<Rightarrow> string" where
  "client_error_text e = display (er_code e) (er_details e)"

text \<open>The error's English, from the catalogs' messages.\<close>

definition client_error_message :: "(string, string) dict \<Rightarrow> client_error \<Rightarrow> render_error + string" where
  "client_error_message cat e = render cat (er_code e) (er_details e)"

lemma uncatalogued_message:
  "map_of cat (er_code e) = None \<Longrightarrow> client_error_message cat e = Return (client_error_text e)"
  by (simp add: client_error_message_def client_error_text_def render_def)

definition SC_OK :: int where "SC_OK = 0"
definition SC_INVALID_ARGUMENT :: int where "SC_INVALID_ARGUMENT = 3"
definition SC_NOT_FOUND :: int where "SC_NOT_FOUND = 5"
definition SC_FAILED_PRECONDITION :: int where "SC_FAILED_PRECONDITION = 9"
definition SC_ABORTED :: int where "SC_ABORTED = 10"
definition SC_UNAVAILABLE :: int where "SC_UNAVAILABLE = 14"

lemmas status_codes =
  SC_OK_def SC_INVALID_ARGUMENT_def SC_NOT_FOUND_def SC_FAILED_PRECONDITION_def SC_ABORTED_def
  SC_UNAVAILABLE_def

definition is_not_found :: "client_error \<Rightarrow> bool" where
  "is_not_found e =
     (case er_class e of
        Grpc_error c \<Rightarrow> c = SC_NOT_FOUND
      | Command_rejected_error s \<Rightarrow> s = ''NOT_FOUND''
      | _ \<Rightarrow> False)"

definition is_precondition_failed :: "client_error \<Rightarrow> bool" where
  "is_precondition_failed e =
     (case er_class e of
        Grpc_error c \<Rightarrow> c = SC_FAILED_PRECONDITION
      | Command_rejected_error s \<Rightarrow> s = ''FAILED_PRECONDITION''
      | _ \<Rightarrow> False)"

definition is_invalid_argument :: "client_error \<Rightarrow> bool" where
  "is_invalid_argument e =
     (case er_class e of
        Grpc_error c \<Rightarrow> c = SC_INVALID_ARGUMENT
      | Invalid_argument_error \<Rightarrow> True
      | Command_rejected_error s \<Rightarrow> s = ''INVALID_ARGUMENT''
      | _ \<Rightarrow> False)"

definition is_aborted :: "client_error \<Rightarrow> bool" where
  "is_aborted e =
     (case er_class e of
        Grpc_error c \<Rightarrow> c = SC_ABORTED
      | Command_rejected_error s \<Rightarrow> s = ''ABORTED''
      | _ \<Rightarrow> False)"

definition is_connection_error :: "client_error \<Rightarrow> bool" where
  "is_connection_error e =
     (case er_class e of
        Connection_error \<Rightarrow> True
      | Transport_error \<Rightarrow> True
      | Grpc_error c \<Rightarrow> c = SC_UNAVAILABLE
      | _ \<Rightarrow> False)"

lemmas predicates =
  is_not_found_def is_precondition_failed_def is_invalid_argument_def is_aborted_def
  is_connection_error_def

text \<open>The factories of \<open>CommandRejectedError\<close>.\<close>

definition precondition_failed :: "string \<Rightarrow> (string, pyval) dict \<Rightarrow> client_error" where
  "precondition_failed code details =
     client_error (Command_rejected_error ''FAILED_PRECONDITION'') code details"

definition invalid_argument :: "string \<Rightarrow> (string, pyval) dict \<Rightarrow> client_error" where
  "invalid_argument code details =
     client_error (Command_rejected_error ''INVALID_ARGUMENT'') code details"

definition not_found :: "string \<Rightarrow> (string, pyval) dict \<Rightarrow> client_error" where
  "not_found code details = client_error (Command_rejected_error ''NOT_FOUND'') code details"

subsection \<open>A gRPC failure\<close>

text \<open>
  An \<open>RpcError\<close>: its status number, its details (the status message; may be None) and its
  trailing metadata (None when it has none, or no such method).
\<close>

record rpc_error =
  re_code :: int
  re_details :: "string option"
  re_trailing :: "(string \<times> bytes) list option"

record protobuf =
  pb_status_bytes :: "rpc_status \<Rightarrow> bytes"
  pb_status_parse :: "bytes \<Rightarrow> rpc_status option"
  pb_pack_info :: "error_info \<Rightarrow> any_msg"
  pb_unpack_info :: "any_msg \<Rightarrow> exn + error_info option"

text \<open>
  What protobuf documents of them: a status parses back from its bytes, and a packed
  \<open>ErrorInfo\<close> unpacks with its reason, its domain and its metadata as a map (whose order is
  not kept).
\<close>

definition protobuf_laws :: "protobuf \<Rightarrow> bool" where
  "protobuf_laws pb \<longleftrightarrow>
     (\<forall>s. pb_status_parse pb (pb_status_bytes pb s) = Some s)
   \<and> (\<forall>i. \<exists>m. pb_unpack_info pb (pb_pack_info pb i) = Return (Some (i\<lparr>ei_metadata := m\<rparr>))
          \<and> distinct (keys m) \<and> map_of m = map_of (ei_metadata i))"

definition STATUS_DETAILS_KEY :: string where
  "STATUS_DETAILS_KEY = ''grpc-status-details-bin''"

text \<open>The first entry under the key decides: its status, or the fallback when it does not parse.\<close>

fun trailing_status :: "protobuf \<Rightarrow> (string \<times> bytes) list \<Rightarrow> rpc_status option" where
  "trailing_status pb [] = None"
| "trailing_status pb ((key, val) # rest) =
     (if key = STATUS_DETAILS_KEY then pb_status_parse pb val else trailing_status pb rest)"

definition rpc_status_of :: "protobuf \<Rightarrow> rpc_error \<Rightarrow> rpc_status" where
  "rpc_status_of pb err =
     (case trailing_status pb (case re_trailing err of None \<Rightarrow> [] | Some md \<Rightarrow> md) of
        Some s \<Rightarrow> s
      | None \<Rightarrow> \<lparr>rs_code = re_code err,
                 rs_message = (case re_details err of None \<Rightarrow> [] | Some m \<Rightarrow> m), rs_details = []\<rparr>)"

fun first_info :: "protobuf \<Rightarrow> any_msg list \<Rightarrow> exn + error_info option" where
  "first_info pb [] = Return None"
| "first_info pb (detail # rest) =
     bindR (pb_unpack_info pb detail) (\<lambda>info.
     case info of Some i \<Rightarrow> Return (Some i) | None \<Rightarrow> first_info pb rest)"

text \<open>
  \<open>GRPCError.__init__\<close>: a code or details given with the error stand; what unpacking the details
  raises, making the error raises.
\<close>

definition grpc_error ::
  "protobuf \<Rightarrow> rpc_error \<Rightarrow> string option \<Rightarrow> (string, pyval) dict option \<Rightarrow> exn + client_error" where
  "grpc_error pb err code details =
     bindR (first_info pb (rs_details (rpc_status_of pb err))) (\<lambda>info.
     Return (client_error (Grpc_error (re_code err))
        (case code of
           Some c \<Rightarrow> c
         | None \<Rightarrow> (case info of Some i \<Rightarrow> ei_reason i | None \<Rightarrow> GRPC_ERROR))
        (case details of
           Some d \<Rightarrow> d
         | None \<Rightarrow> (case info of
             Some i \<Rightarrow> map (\<lambda>(k, v). (k, PStr v)) (ei_metadata i) | None \<Rightarrow> []))))"

abbreviation grpc_error_of :: "protobuf \<Rightarrow> rpc_error \<Rightarrow> exn + client_error" where
  "grpc_error_of pb err \<equiv> grpc_error pb err None None"

lemma client_error_sel [simp]:
  "er_class (client_error cls code details) = cls"
  "er_code (client_error cls code details) = code"
  "er_details (client_error cls code details) = strings details"
  by (simp_all add: client_error_def)

lemma strings_PStr [simp]: "strings (map (\<lambda>(k, v). (k, PStr v)) d) = d"
  by (induction d) (auto simp: strings_def)

subsection \<open>Properties\<close>

text \<open>
  An error is of at most one of the five kinds its predicates name, and a gRPC error's kind
  is its status's: so a caller's \<open>if\<close> cascade over the predicates is decided by the error and
  not by the cascade's order, and an error raised with no status of its own answers no
  predicate but its class's.
\<close>

theorem at_most_one_kind:
  "length (filter (\<lambda>p. p e) [is_not_found, is_precondition_failed, is_invalid_argument,
       is_aborted, is_connection_error])
     = (case er_class e of
          Grpc_error c \<Rightarrow> if c \<in> {3, 5, 9, 10, 14} then 1 else 0
        | Command_rejected_error s \<Rightarrow>
            if s \<in> {''NOT_FOUND'', ''FAILED_PRECONDITION'', ''INVALID_ARGUMENT'', ''ABORTED''}
            then 1 else 0
        | Connection_error \<Rightarrow> 1 | Transport_error \<Rightarrow> 1 | Invalid_argument_error \<Rightarrow> 1
        | _ \<Rightarrow> 0)"
  by (cases "er_class e") (auto simp: predicates status_codes)

end
