(* ===== verification/Utf8.thy ===== *)
theory Utf8
  imports Prelude
begin

text \<open>
  Python texts beyond ASCII, for the components that name paths: a text is the list of its code
  points, \<open>str.encode()\<close> and \<open>bytes.decode()\<close> are strict UTF-8, and an undecodable byte the
  operating system gave is the surrogate the \<open>surrogateescape\<close> handler stands it for.
\<close>

type_synonym ustr = "nat list"

named_theorems ascii_simps "ASCII texts as code points"

definition ascii :: "string \<Rightarrow> ustr" where
  "ascii s = map of_char s"

subsection \<open>Encoding\<close>

definition surrogate :: "nat \<Rightarrow> bool" where
  "surrogate n \<longleftrightarrow> 0xD800 \<le> n \<and> n < 0xE000"

definition scalar :: "nat \<Rightarrow> bool" where
  "scalar n \<longleftrightarrow> n < 0x110000 \<and> \<not> surrogate n"

definition utf8_char :: "nat \<Rightarrow> nat list" where
  "utf8_char n =
     (if n < 0x80 then [n]
      else if n < 0x800 then [192 + n div 64, 128 + n mod 64]
      else if n < 0x10000 then [224 + n div 4096, 128 + n div 64 mod 64, 128 + n mod 64]
      else [240 + n div 262144, 128 + n div 4096 mod 64, 128 + n div 64 mod 64, 128 + n mod 64])"

definition utf8_bytes :: "ustr \<Rightarrow> bytes" where
  "utf8_bytes t = map of_nat (concat (map utf8_char t))"

text \<open>\<open>t.encode()\<close>: a surrogate has no encoding.\<close>

definition utf8_encode :: "ustr \<Rightarrow> bytes option" where
  "utf8_encode t = (if list_all scalar t then Some (utf8_bytes t) else None)"

text \<open>\<open>t.encode(errors="surrogateescape")\<close>: the surrogates U+DC80 to U+DCFF are the bytes 80 to FF.\<close>

definition escape_surrogate :: "nat \<Rightarrow> nat list option" where
  "escape_surrogate n =
     (if scalar n then Some (utf8_char n)
      else if 0xDC80 \<le> n \<and> n \<le> 0xDCFF then Some [n - 0xDC00]
      else None)"

definition surrogateescape_encode :: "ustr \<Rightarrow> bytes option" where
  "surrogateescape_encode t =
     (if list_all (\<lambda>n. escape_surrogate n \<noteq> None) t
      then Some (map of_nat (concat (map (\<lambda>n. the (escape_surrogate n)) t))) else None)"

subsection \<open>Decoding\<close>

definition continuation :: "nat \<Rightarrow> bool" where
  "continuation b \<longleftrightarrow> 128 \<le> b \<and> b < 192"

text \<open>The first character of a byte sequence and the rest: no overlong form, no surrogate.\<close>

fun utf8_head :: "nat list \<Rightarrow> (nat \<times> nat list) option" where
  "utf8_head [] = None"
| "utf8_head (b # r) =
     (if b < 128 then Some (b, r)
      else if b < 192 then None
      else if b < 224 then
        (case r of
           c # r' \<Rightarrow>
             (let n = (b - 192) * 64 + (c - 128) in
              if continuation c \<and> 0x80 \<le> n then Some (n, r') else None)
         | _ \<Rightarrow> None)
      else if b < 240 then
        (case r of
           c # d # r' \<Rightarrow>
             (let n = (b - 224) * 4096 + (c - 128) * 64 + (d - 128) in
              if continuation c \<and> continuation d \<and> 0x800 \<le> n \<and> \<not> surrogate n
              then Some (n, r') else None)
         | _ \<Rightarrow> None)
      else
        (case r of
           c # d # e # r' \<Rightarrow>
             (let n = (b - 240) * 262144 + (c - 128) * 4096 + (d - 128) * 64 + (e - 128) in
              if continuation c \<and> continuation d \<and> continuation e \<and> 0x10000 \<le> n \<and> n < 0x110000
              then Some (n, r') else None)
         | _ \<Rightarrow> None))"

lemma utf8_head_shorter: "utf8_head bs = Some (n, r) \<Longrightarrow> length r < length bs"
  by (cases bs) (auto simp: Let_def split: if_splits list.splits)

function utf8_scan :: "nat list \<Rightarrow> ustr option" where
  "utf8_scan bs =
     (if bs = [] then Some []
      else (case utf8_head bs of
              None \<Rightarrow> None
            | Some (n, r) \<Rightarrow> map_option (Cons n) (utf8_scan r)))"
  by pat_completeness auto
termination
  by (relation "measure length") (auto dest: utf8_head_shorter)

declare utf8_scan.simps [simp del]

definition utf8_decode :: "bytes \<Rightarrow> ustr option" where
  "utf8_decode raw = utf8_scan (map unat raw)"

subsection \<open>What is encoded is decoded\<close>

lemma utf8_scan_Nil [simp]: "utf8_scan [] = Some []"
  by (simp add: utf8_scan.simps)

lemma utf8_char_nonempty [simp]: "utf8_char n \<noteq> []"
  by (simp add: utf8_char_def)

lemma utf8_scan_step:
  "utf8_head bs = Some (n, r) \<Longrightarrow> utf8_scan bs = map_option (Cons n) (utf8_scan r)"
  by (subst utf8_scan.simps) auto

lemma three_bytes: "(n div 4096) * 4096 + (n div 64 mod 64) * 64 + n mod 64 = (n :: nat)"
proof -
  have "n div 4096 = n div 64 div 64" by (simp add: div_mult2_eq [symmetric])
  then show ?thesis
    using div_mult_mod_eq [of n 64] div_mult_mod_eq [of "n div 64" 64] by linarith
qed

lemma four_bytes:
  "(n div 262144) * 262144 + (n div 4096 mod 64) * 4096 + (n div 64 mod 64) * 64 + n mod 64 = (n :: nat)"
proof -
  have "n div 262144 = n div 4096 div 64" by (simp add: div_mult2_eq [symmetric])
  then show ?thesis
    using three_bytes [of n] div_mult_mod_eq [of "n div 4096" 64] by linarith
qed

lemma utf8_head_char:
  assumes "scalar n"
  shows "utf8_head (utf8_char n @ r) = Some (n, r)"
proof -
  have small: "n < 0x110000" and plain: "\<not> surrogate n" using assms by (auto simp: scalar_def)
  consider "n < 0x80" | "0x80 \<le> n" "n < 0x800" | "0x800 \<le> n" "n < 0x10000" | "0x10000 \<le> n"
    by linarith
  then show ?thesis
  proof cases
    case 1
    then show ?thesis by (simp add: utf8_char_def)
  next
    case 2
    then have "n div 64 < 32" by auto
    with 2 show ?thesis by (simp add: utf8_char_def continuation_def)
  next
    case 3
    then have "n div 4096 < 16" by auto
    with 3 plain show ?thesis
      using three_bytes [of n] by (simp add: utf8_char_def continuation_def)
  next
    case 4
    with small show ?thesis
      using four_bytes [of n] by (simp add: utf8_char_def continuation_def)
  qed
qed

lemma utf8_scan_chars:
  "list_all scalar t \<Longrightarrow> utf8_scan (concat (map utf8_char t)) = Some t"
  by (induction t) (simp_all add: utf8_scan_step [OF utf8_head_char])

lemma utf8_char_bytes:
  assumes "scalar n"
  shows "\<forall>b \<in> set (utf8_char n). b < 256"
proof -
  have "n < 0x110000" using assms by (simp add: scalar_def)
  then have "n div 262144 < 8" "n < 0x800 \<Longrightarrow> n div 64 < 32" "n < 0x10000 \<Longrightarrow> n div 4096 < 16"
    by auto
  moreover have "n mod 64 < 64" "n div 64 mod 64 < 64" "n div 4096 mod 64 < 64" by auto
  ultimately show ?thesis by (auto simp: utf8_char_def)
qed

lemma unat_of_bytes:
  "\<forall>b \<in> set bs. b < 256 \<Longrightarrow> map (\<lambda>x. unat (of_nat x :: 8 word)) bs = bs"
  by (induction bs) (auto simp: unat_of_nat)

theorem decode_encode:
  assumes "utf8_encode t = Some raw"
  shows "utf8_decode raw = Some t"
proof -
  have t: "list_all scalar t" and raw: "raw = utf8_bytes t"
    using assms by (auto simp: utf8_encode_def split: if_splits)
  have "\<forall>b \<in> set (concat (map utf8_char t)). b < 256"
    using t utf8_char_bytes by (auto simp: list_all_iff)
  then have "map unat raw = concat (map utf8_char t)"
    by (simp add: raw utf8_bytes_def comp_def unat_of_bytes)
  then show ?thesis
    using utf8_scan_chars [OF t] by (simp add: utf8_decode_def)
qed

subsection \<open>What is decoded is encoded\<close>

lemma continuation_offset: "continuation c \<longleftrightarrow> (\<exists>x<64. c = 128 + x)"
  by (auto simp: continuation_def intro: exI [of _ "c - 128"])

lemma at_least: "k \<le> b \<Longrightarrow> b < m \<Longrightarrow> \<exists>x. b = k + x \<and> x < m - (k :: nat)"
  by (rule exI [of _ "b - k"]) auto

text \<open>The digits of a number in base 64.\<close>

lemma base64_digit:
  "y < 64 \<Longrightarrow> (x * 64 + y) div 64 = (x :: nat)" "y < 64 \<Longrightarrow> (x * 64 + y) mod 64 = (y :: nat)"
  by auto

lemma base64_three:
  assumes n: "n = x * 4096 + y * 64 + (z :: nat)" and "y < 64" "z < 64"
  shows "n div 4096 = x" "n div 64 mod 64 = y" "n mod 64 = z"
proof -
  have n': "n = (x * 64 + y) * 64 + z" by (simp add: n)
  have q: "n div 64 = x * 64 + y" unfolding n' using assms(3) by (rule base64_digit)
  show "n mod 64 = z" unfolding n' using assms(3) by (rule base64_digit)
  show "n div 64 mod 64 = y" unfolding q using assms(2) by (rule base64_digit)
  have "n div 4096 = n div 64 div 64" by (simp add: div_mult2_eq [symmetric])
  then show "n div 4096 = x" unfolding q using base64_digit(1) [OF assms(2)] by simp
qed

lemma base64_four:
  assumes n: "n = x * 262144 + y * 4096 + z * 64 + (w :: nat)" and "y < 64" "z < 64" "w < 64"
  shows "n div 262144 = x" "n div 4096 mod 64 = y" "n div 64 mod 64 = z" "n mod 64 = w"
proof -
  have n': "n = (x * 64 + y) * 4096 + z * 64 + w" by (simp add: n)
  note d = base64_three [OF n' assms(3,4)]
  show "n div 64 mod 64 = z" "n mod 64 = w" by (rule d)+
  show "n div 4096 mod 64 = y" unfolding d(1) using assms(2) by (rule base64_digit)
  have "n div 262144 = n div 4096 div 64" by (simp add: div_mult2_eq [symmetric])
  then show "n div 262144 = x" unfolding d(1) using base64_digit(1) [OF assms(2)] by simp
qed

lemma utf8_char_two:
  "y < 64 \<Longrightarrow> 0x80 \<le> x * 64 + y \<Longrightarrow> x < 32 \<Longrightarrow> utf8_char (x * 64 + y) = [192 + x, 128 + y]"
  by (simp add: utf8_char_def base64_digit)

lemma utf8_char_three:
  "y < 64 \<Longrightarrow> z < 64 \<Longrightarrow> 0x800 \<le> x * 4096 + y * 64 + z \<Longrightarrow> x < 16 \<Longrightarrow>
     utf8_char (x * 4096 + y * 64 + z) = [224 + x, 128 + y, 128 + z]"
  by (simp add: utf8_char_def base64_three [OF refl])

lemma utf8_char_four:
  "y < 64 \<Longrightarrow> z < 64 \<Longrightarrow> w < 64 \<Longrightarrow> 0x10000 \<le> x * 262144 + y * 4096 + z * 64 + w \<Longrightarrow>
     utf8_char (x * 262144 + y * 4096 + z * 64 + w) = [240 + x, 128 + y, 128 + z, 128 + w]"
  by (simp add: utf8_char_def base64_four [OF refl])

lemma utf8_head_inverse:
  assumes "utf8_head bs = Some (n, r)" and "\<forall>b \<in> set bs. b < 256"
  shows "bs = utf8_char n @ r \<and> scalar n"
proof -
  obtain b s where bs: "bs = b # s" using assms(1) by (cases bs) auto
  have b: "b < 256" using assms(2) bs by simp
  consider "b < 128" | "128 \<le> b" "b < 192" | "192 \<le> b" "b < 224" | "224 \<le> b" "b < 240" | "240 \<le> b"
    by linarith
  then show ?thesis
  proof cases
    case 1
    with assms(1) bs show ?thesis by (auto simp: utf8_char_def scalar_def surrogate_def)
  next
    case 2
    with assms(1) bs show ?thesis by simp
  next
    case 3
    then obtain x where x: "b = 192 + x" "x < 32" using at_least [of 192 b 224] by auto
    from assms(1) 3 obtain y where y: "y < 64" "s = (128 + y) # r" "n = x * 64 + y" "0x80 \<le> n"
      by (auto simp: bs x Let_def continuation_offset split: if_splits list.splits)
    then show ?thesis using x utf8_char_two [of y x] by (auto simp: bs scalar_def surrogate_def)
  next
    case 4
    then obtain x where x: "b = 224 + x" "x < 16" using at_least [of 224 b 240] by auto
    from assms(1) 4 obtain y z where y: "y < 64" "z < 64" "s = (128 + y) # (128 + z) # r"
      "n = x * 4096 + y * 64 + z" "0x800 \<le> n" "\<not> surrogate n"
      by (auto simp: bs x Let_def continuation_offset split: if_splits list.splits)
    then show ?thesis using x utf8_char_three [of y z x] by (auto simp: bs scalar_def)
  next
    case 5
    then obtain x where x: "b = 240 + x" using at_least [of 240 b 256] b by auto
    from assms(1) 5 obtain y z w where y: "y < 64" "z < 64" "w < 64"
      "s = (128 + y) # (128 + z) # (128 + w) # r"
      "n = x * 262144 + y * 4096 + z * 64 + w" "0x10000 \<le> n" "n < 0x110000"
      by (auto simp: bs x Let_def continuation_offset split: if_splits list.splits)
    then show ?thesis using x utf8_char_four [of y z w x] by (auto simp: bs scalar_def surrogate_def)
  qed
qed

lemma utf8_scan_inverse:
  "utf8_scan bs = Some t \<Longrightarrow> \<forall>b \<in> set bs. b < 256 \<Longrightarrow>
     concat (map utf8_char t) = bs \<and> list_all scalar t"
proof (induction bs arbitrary: t rule: utf8_scan.induct)
  case (1 bs)
  show ?case
  proof (cases "bs = []")
    case True
    with "1.prems"(1) show ?thesis by simp
  next
    case False
    with "1.prems"(1) obtain n r u where hd: "utf8_head bs = Some (n, r)"
      and u: "utf8_scan r = Some u" and t: "t = n # u"
      by (subst (asm) utf8_scan.simps) (auto split: option.splits)
    from utf8_head_inverse [OF hd "1.prems"(2)] have bs: "bs = utf8_char n @ r" and n: "scalar n"
      by auto
    with "1.prems"(2) have "\<forall>b \<in> set r. b < 256" by auto
    from "1.IH" [OF False hd refl u this] show ?thesis by (simp add: bs t n)
  qed
qed

lemma of_nat_map_unat [simp]: "map (of_nat \<circ> unat) (raw :: bytes) = raw"
  by (simp add: map_idI)

theorem encode_decode:
  assumes "utf8_decode raw = Some t"
  shows "utf8_encode t = Some raw"
proof -
  have "\<forall>b \<in> set (map unat raw). b < 256"
    using unsigned_less [where 'a = nat and 'b = 8] by auto
  with assms have "concat (map utf8_char t) = map unat raw" and "list_all scalar t"
    using utf8_scan_inverse by (auto simp: utf8_decode_def)
  then show ?thesis by (simp add: utf8_encode_def utf8_bytes_def)
qed

corollary decode_iff_encode: "utf8_decode raw = Some t \<longleftrightarrow> utf8_encode t = Some raw"
  using decode_encode encode_decode by blast

lemma utf8_decode_inject: "utf8_decode a = Some t \<Longrightarrow> utf8_decode b = Some t \<Longrightarrow> a = b"
  by (simp add: decode_iff_encode)

subsection \<open>ASCII texts\<close>

lemma ascii_append [simp]: "ascii (a @ b) = ascii a @ ascii b"
  by (simp add: ascii_def)

lemma utf8_bytes_append [simp]: "utf8_bytes (a @ b) = utf8_bytes a @ utf8_bytes b"
  by (simp add: utf8_bytes_def)

lemma utf8_encode_append:
  "utf8_encode (a @ b) = (case utf8_encode a of None \<Rightarrow> None
     | Some x \<Rightarrow> (case utf8_encode b of None \<Rightarrow> None | Some y \<Rightarrow> Some (x @ y)))"
  by (simp add: utf8_encode_def)

lemma utf8_plain: "list_all (\<lambda>n. n < 128) t \<Longrightarrow> utf8_encode t = Some (map of_nat t)"
  by (induction t)
    (auto simp: utf8_encode_def utf8_bytes_def utf8_char_def scalar_def surrogate_def split: if_splits)

subsection \<open>An ASCII character in the bytes of a text\<close>

lemma utf8_bytes_Nil [simp]: "utf8_bytes [] = []"
  by (simp add: utf8_bytes_def)

lemma utf8_bytes_Cons: "utf8_bytes (n # t) = map of_nat (utf8_char n) @ utf8_bytes t"
  by (simp add: utf8_bytes_def)

lemma utf8_bytes_ascii_char: "c < 128 \<Longrightarrow> utf8_bytes [c] = [of_nat c]"
  by (simp add: utf8_bytes_def utf8_char_def)

lemma ascii_not_in_char:
  assumes "scalar n" and "c < 128" and "n \<noteq> c"
  shows "(of_nat c :: 8 word) \<notin> set (map of_nat (utf8_char n))"
proof
  assume "(of_nat c :: 8 word) \<in> set (map of_nat (utf8_char n))"
  then obtain b where b: "b \<in> set (utf8_char n)" "(of_nat c :: 8 word) = of_nat b" by auto
  have "b < 256" using b(1) utf8_char_bytes [OF assms(1)] by auto
  then have "unat (of_nat b :: 8 word) = b" by (simp add: unat_of_nat)
  moreover have "unat (of_nat c :: 8 word) = c" using assms(2) by (simp add: unat_of_nat)
  ultimately have "b = c" using b(2) by metis
  with b(1) assms(2,3) show False by (auto simp: utf8_char_def split: if_splits)
qed

lemma takeWhile_utf8:
  assumes "list_all scalar t" and "c < 128"
  shows "takeWhile (\<lambda>b. b \<noteq> of_nat c) (utf8_bytes t) = utf8_bytes (takeWhile (\<lambda>n. n \<noteq> c) t)"
  using assms
proof (induction t)
  case (Cons n t)
  show ?case
  proof (cases "n = c")
    case True
    with Cons.prems(2) show ?thesis by (simp add: utf8_bytes_Cons utf8_char_def)
  next
    case False
    with Cons.prems have "(of_nat c :: 8 word) \<notin> set (map of_nat (utf8_char n))"
      by (intro ascii_not_in_char) auto
    then have "takeWhile (\<lambda>b. b \<noteq> of_nat c) (map of_nat (utf8_char n) @ utf8_bytes t)
        = map of_nat (utf8_char n) @ takeWhile (\<lambda>b. b \<noteq> of_nat c) (utf8_bytes t)"
      by (intro takeWhile_append2) metis
    with Cons False show ?thesis by (simp add: utf8_bytes_Cons)
  qed
qed simp

lemma utf8_bytes_last:
  assumes "list_all scalar t" and "c < 128" and "t \<noteq> []"
  shows "last (utf8_bytes t) = of_nat c \<longleftrightarrow> last t = c"
proof -
  obtain s n where t: "t = s @ [n]" using assms(3) by (cases t rule: rev_cases) auto
  have ne: "map of_nat (utf8_char n) \<noteq> ([] :: bytes)" by simp
  have "last (utf8_bytes t) = last (map of_nat (utf8_char n))"
    by (simp add: t utf8_bytes_Cons)
  moreover have "last (map of_nat (utf8_char n)) = (of_nat c :: 8 word) \<longleftrightarrow> n = c"
  proof (cases "n = c")
    case True
    with assms(2) show ?thesis by (simp add: utf8_char_def)
  next
    case False
    with assms t have "(of_nat c :: 8 word) \<notin> set (map of_nat (utf8_char n))"
      by (intro ascii_not_in_char) auto
    with False ne show ?thesis by (metis last_in_set)
  qed
  ultimately show ?thesis by (simp add: t)
qed

lemma utf8_bytes_eq_Nil [simp]: "utf8_bytes t = [] \<longleftrightarrow> t = []"
  by (cases t) (simp_all add: utf8_bytes_Cons)

lemma utf8_bytes_inject:
  "list_all scalar a \<Longrightarrow> list_all scalar b \<Longrightarrow> utf8_bytes a = utf8_bytes b \<longleftrightarrow> a = b"
  using decode_encode [of a "utf8_bytes a"] decode_encode [of b "utf8_bytes b"]
  unfolding utf8_encode_def by (metis option.inject)

end
