(* ===== verification/Identity.thy ===== *)
theory Identity
  imports Client_Errors Utf8
begin

text \<open>
  \<open>angzarr_client/identity.py\<close>, \<open>_args.py\<close> and the UUID helpers of \<open>helpers.py\<close>: a UUID is its
  16 bytes; its text form and what \<open>uuid.UUID(text)\<close> accepts follow the standard library. A
  failure is one of the client's errors, or an exception of Python's own.
\<close>

type_synonym uuid = bytes

datatype cl_exn = Client_exn client_error | Raised exn

abbreviation refuse :: "error_class \<Rightarrow> string \<Rightarrow> (string, pyval) dict \<Rightarrow> cl_exn + 'a" where
  "refuse cls code details \<equiv> Raise (Client_exn (client_error cls code details))"

subsection \<open>Texts of bytes\<close>

definition hex_char :: "nat \<Rightarrow> char" where
  "hex_char d = (if d < 10 then char_of (48 + d) else char_of (87 + d))"

text \<open>\<open>b.hex()\<close>\<close>

definition hex_text :: "bytes \<Rightarrow> string" where
  "hex_text b = concat (map (\<lambda>x. [hex_char (unat x div 16), hex_char (unat x mod 16)]) b)"

text \<open>\<open>PyUUID(bytes=b)\<close>, and \<open>str(u)\<close>.\<close>

definition uuid_of_bytes :: "bytes \<Rightarrow> exn + uuid" where
  "uuid_of_bytes b = (if length b = 16 then Return b else Raise (Other_exc ''ValueError''))"

definition uuid_text :: "uuid \<Rightarrow> string" where
  "uuid_text u =
     (let h = hex_text u in
      take 8 h @ ''-'' @ take 4 (drop 8 h) @ ''-'' @ take 4 (drop 12 h) @ ''-'' @
      take 4 (drop 16 h) @ ''-'' @ drop 20 h)"

subsection \<open>\<open>int(text, base)\<close>\<close>

definition space_char :: "char \<Rightarrow> bool" where
  "space_char c \<longleftrightarrow> (of_char c :: nat) \<in> {9, 10, 11, 12, 13, 32, 133, 160}"

definition strip_chars :: "('a \<Rightarrow> bool) \<Rightarrow> 'a list \<Rightarrow> 'a list" where
  "strip_chars P s = rev (dropWhile P (rev (dropWhile P s)))"

definition digit_value :: "char \<Rightarrow> nat option" where
  "digit_value c =
     (let n = (of_char c :: nat) in
      if 48 \<le> n \<and> n \<le> 57 then Some (n - 48)
      else if 97 \<le> n \<and> n \<le> 122 then Some (n - 87)
      else if 65 \<le> n \<and> n \<le> 90 then Some (n - 55)
      else None)"

text \<open>Digits of the base, single underscores between them.\<close>

fun int_digits :: "nat \<Rightarrow> bool \<Rightarrow> nat \<Rightarrow> string \<Rightarrow> nat option" where
  "int_digits base after_digit acc [] = (if after_digit then Some acc else None)"
| "int_digits base after_digit acc (c # cs) =
     (if c = CHR ''_'' then (if after_digit then int_digits base False acc cs else None)
      else (case digit_value c of
              None \<Rightarrow> None
            | Some d \<Rightarrow> if d < base then int_digits base True (base * acc + d) cs else None))"

definition unsigned_int :: "nat \<Rightarrow> string \<Rightarrow> nat option" where
  "unsigned_int base s =
     (if base = 16 \<and> (startswith ''0x'' s \<or> startswith ''0X'' s)
      then int_digits base False 0 (removeprefix ''_'' (drop 2 s))
      else int_digits base False 0 s)"

definition py_int :: "nat \<Rightarrow> string \<Rightarrow> int option" where
  "py_int base s =
     (let s = strip_chars space_char s in
      if startswith ''-'' s then map_option (\<lambda>n. - int n) (unsigned_int base (tl s))
      else if startswith ''+'' s then map_option int (unsigned_int base (tl s))
      else map_option int (unsigned_int base s))"

subsection \<open>\<open>uuid.UUID(text)\<close>\<close>

text \<open>\<open>s.replace(p, "")\<close>\<close>

function remove_all :: "'a list \<Rightarrow> 'a list \<Rightarrow> 'a list" where
  "remove_all p s =
     (if p = [] \<or> s = [] then s
      else if startswith p s then remove_all p (drop (length p) s)
      else hd s # remove_all p (tl s))"
  by pat_completeness auto
termination
  by (relation "measure (\<lambda>(p, s). length s)") auto

declare remove_all.simps [simp del]

definition nat_bytes :: "nat \<Rightarrow> nat \<Rightarrow> bytes" where
  "nat_bytes k n = map (\<lambda>i. of_nat (n div 256 ^ (k - 1 - i))) [0 ..< k]"

definition uuid_of_text :: "string \<Rightarrow> exn + uuid" where
  "uuid_of_text s =
     (let hex = remove_all ''uuid:'' (remove_all ''urn:'' s);
          hex = remove_all ''-'' (strip_chars (\<lambda>c. c = CHR ''{'' \<or> c = CHR ''}'') hex) in
      if length hex \<noteq> 32 then Raise (Other_exc ''ValueError'')
      else (case py_int 16 hex of
              None \<Rightarrow> Raise (Other_exc ''ValueError'')
            | Some n \<Rightarrow>
                if 0 \<le> n \<and> n < 2 ^ 128 then Return (nat_bytes 16 (nat n))
                else Raise (Other_exc ''ValueError'')))"

subsection \<open>Arguments\<close>

text \<open>
  What a caller passes for a UUID: a UUID, a text, None or bytes (on which the constructor raises
  TypeError; bytes with their \<open>str()\<close>), or any other object, which has no \<open>replace\<close>.
\<close>

datatype uuid_arg = Uuid_arg uuid | Text_arg string | None_arg | Bytes_arg string | Object_arg

definition as_uuid :: "uuid_arg \<Rightarrow> string \<Rightarrow> cl_exn + uuid" where
  "as_uuid v field =
     (case v of
        Uuid_arg u \<Rightarrow> Return u
      | Text_arg s \<Rightarrow>
          (case uuid_of_text s of
             Inr u \<Rightarrow> Return u
           | Inl _ \<Rightarrow> refuse Invalid_argument_error PROTO_UUID_INVALID
                [(''field'', PStr field), (''input'', PStr s)])
      | None_arg \<Rightarrow> refuse Invalid_argument_error PROTO_UUID_INVALID
                [(''field'', PStr field), (''input'', PStr ''None'')]
      | Bytes_arg repr \<Rightarrow> refuse Invalid_argument_error PROTO_UUID_INVALID
                [(''field'', PStr field), (''input'', PStr repr)]
      | Object_arg \<Rightarrow> Raise (Raised (Other_exc ''AttributeError'')))"

subsection \<open>Proto UUIDs\<close>

definition uuid_to_proto :: "uuid \<Rightarrow> bytes" where
  "uuid_to_proto u = u"

definition proto_to_uuid :: "bytes \<Rightarrow> exn + uuid" where
  "proto_to_uuid m = uuid_of_bytes m"

definition proto_uuid_to_hex :: "bytes option \<Rightarrow> string" where
  "proto_uuid_to_hex m = (case m of None \<Rightarrow> [] | Some b \<Rightarrow> hex_text b)"

definition bytes_to_uuid_text :: "bytes \<Rightarrow> string" where
  "bytes_to_uuid_text b = (if length b = 16 then uuid_text b else hex_text b)"

definition proto_uuid_to_text :: "bytes option \<Rightarrow> string" where
  "proto_uuid_to_text m = (case m of None \<Rightarrow> [] | Some b \<Rightarrow> bytes_to_uuid_text b)"

definition to_proto_bytes :: "uuid \<Rightarrow> bytes" where
  "to_proto_bytes u = u"

subsection \<open>Derived roots\<close>

text \<open>\<open>uuid.uuid5\<close> over SHA-1, a parameter: the digest's first 16 bytes, stamped version 5.\<close>

definition stamp_uuid :: "bytes \<Rightarrow> uuid" where
  "stamp_uuid b =
     (let b = b[6 := or (and (b ! 6) 0x0F) 0x50] in b[8 := or (and (b ! 8) 0x3F) 0x80])"

definition name_bytes :: "string \<Rightarrow> bytes" where
  "name_bytes name = utf8_bytes (map of_char name)"

definition uuid5 :: "(bytes \<Rightarrow> bytes) \<Rightarrow> uuid \<Rightarrow> string \<Rightarrow> uuid" where
  "uuid5 sha1 namespace name = stamp_uuid (take 16 (sha1 (namespace @ name_bytes name)))"

definition ANGZARR_ROOT_NAMESPACE :: uuid where
  "ANGZARR_ROOT_NAMESPACE =
     [0xd4, 0x74, 0x1b, 0x1a, 0x52, 0xcd, 0x43, 0xcf, 0xad, 0xd1, 0x3d, 0xbb, 0x96, 0x15, 0x51, 0x0b]"

definition compute_root :: "(bytes \<Rightarrow> bytes) \<Rightarrow> string \<Rightarrow> string \<Rightarrow> cl_exn + uuid" where
  "compute_root sha1 domain business_key =
     (if CHR '':'' \<in> set domain
      then refuse Invalid_argument_error DOMAIN_CONTAINS_COLON [(''domain'', PStr domain)]
      else Return (uuid5 sha1 ANGZARR_ROOT_NAMESPACE (domain @ '':'' @ business_key)))"

end
