(* ===== verification/Helpers.thy ===== *)
theory Helpers
  imports Identity Wire
begin

text \<open>
  \<open>angzarr_client/helpers.py\<close>: type URLs, unpacking payloads, building messages, call metadata.
  protobuf's own \<open>Any.Is\<close> (a type URL names a message) and \<open>Timestamp.FromJsonString\<close> are
  parameters; \<open>Any.Unpack\<close> is \<open>Is\<close>, then parsing, whose failure is a DecodeError.
\<close>

definition CORRELATION_ID_HEADER :: string where
  "CORRELATION_ID_HEADER = ''x-correlation-id''"

definition UNKNOWN_DOMAIN :: string where
  "UNKNOWN_DOMAIN = ''unknown''"

definition DEFAULT_EDITION :: string where
  "DEFAULT_EDITION = []"

definition META_ANGZARR_DOMAIN :: string where
  "META_ANGZARR_DOMAIN = ''_angzarr''"

definition PROJECTION_DOMAIN_PREFIX :: string where
  "PROJECTION_DOMAIN_PREFIX = ''_projection''"

definition PROJECTION_TYPE_URL :: string where
  "PROJECTION_TYPE_URL = ''io.angzarr.v1.Projection''"

definition TYPE_URL_PREFIX :: string where
  "TYPE_URL_PREFIX = ''/''"

type_synonym any_is = "string \<Rightarrow> string \<Rightarrow> bool"

definition any_unpack :: "any_is \<Rightarrow> any_msg \<Rightarrow> 'm message_class \<Rightarrow> exn + 'm option" where
  "any_unpack is_type a cls =
     (if \<not> is_type (any_type_url a) (mc_full_name cls) then Return None
      else (case mc_parse cls (any_value a) of
              Inl _ \<Rightarrow> Raise (Other_exc ''DecodeError'')
            | Inr m \<Rightarrow> Return (Some m)))"

subsection \<open>Type URLs\<close>

definition wire_name :: "string \<Rightarrow> string" where
  "wire_name full_name = full_name"

definition type_url :: "string \<Rightarrow> string" where
  "type_url name = TYPE_URL_PREFIX @ wire_name name"

definition type_name_from_url :: "string \<Rightarrow> string" where
  "type_name_from_url url =
     (if CHR ''/'' \<in> set url then snd (snd (rpartition CHR ''/'' url)) else url)"

definition type_url_matches :: "string \<Rightarrow> string \<Rightarrow> bool" where
  "type_url_matches url name \<longleftrightarrow> type_name_from_url url = wire_name name"

definition type_url_matches_exact :: "string \<Rightarrow> string \<Rightarrow> bool" where
  "type_url_matches_exact = type_url_matches"

definition full_type_name :: "'m message_class \<Rightarrow> string" where
  "full_type_name cls = mc_full_name cls"

definition full_type_url_for :: "'m message_class \<Rightarrow> string" where
  "full_type_url_for cls = TYPE_URL_PREFIX @ full_type_name cls"

definition full_type_url :: "'m message_class \<Rightarrow> string" where
  "full_type_url = full_type_url_for"

subsection \<open>Unpacking\<close>

record command_response =
  cmr_events :: "event_book option"

definition events_from_response :: "command_response option \<Rightarrow> event_page list" where
  "events_from_response resp =
     (case resp of
        None \<Rightarrow> []
      | Some r \<Rightarrow> (case cmr_events r of None \<Rightarrow> [] | Some book \<Rightarrow> eb_pages book))"

definition decode_event ::
  "any_is \<Rightarrow> event_page option \<Rightarrow> string \<Rightarrow> 'm message_class \<Rightarrow> exn + 'm option" where
  "decode_event is_type page full_name cls =
     (case page of
        None \<Rightarrow> Return None
      | Some p \<Rightarrow>
          (case pg_payload p of
             None \<Rightarrow> Return None
           | Some a \<Rightarrow>
               if \<not> type_url_matches (any_type_url a) full_name then Return None
               else any_unpack is_type a cls))"

definition type_matches :: "any_is \<Rightarrow> any_msg option \<Rightarrow> 'm message_class \<Rightarrow> bool" where
  "type_matches is_type a cls =
     (case a of None \<Rightarrow> False | Some x \<Rightarrow> is_type (any_type_url x) (mc_full_name cls))"

definition try_unpack :: "any_is \<Rightarrow> any_msg option \<Rightarrow> 'm message_class \<Rightarrow> exn + 'm option" where
  "try_unpack is_type a cls =
     (if \<not> type_matches is_type a cls then Return None
      else bindR (any_unpack is_type (payload_of a) cls) (\<lambda>unpacked.
           Return (case unpacked of Some m \<Rightarrow> Some m | None \<Rightarrow> Some (mc_fresh cls))))"

text \<open>The mismatch's message reads the payload's type URL, which None does not have.\<close>

definition unpack :: "any_is \<Rightarrow> any_msg option \<Rightarrow> 'm message_class \<Rightarrow> exn + 'm" where
  "unpack is_type a cls =
     (if \<not> type_matches is_type a cls
      then (case a of None \<Rightarrow> Raise (Other_exc ''AttributeError'') | Some _ \<Rightarrow> Raise (Other_exc ''ValueError''))
      else bindR (any_unpack is_type (payload_of a) cls) (\<lambda>unpacked.
           Return (case unpacked of Some m \<Rightarrow> m | None \<Rightarrow> mc_fresh cls)))"

subsection \<open>Timestamps\<close>

definition parse_timestamp :: "(string \<Rightarrow> string + timestamp) \<Rightarrow> string \<Rightarrow> cl_exn + timestamp" where
  "parse_timestamp from_json rfc3339 =
     (case from_json rfc3339 of
        Inr ts \<Rightarrow> Return ts
      | Inl text \<Rightarrow> refuse Invalid_timestamp_error TIMESTAMP_PARSE_FAILED [(''ext_err_txt'', PStr text)])"

subsection \<open>Building messages\<close>

definition new_cover :: "string \<Rightarrow> uuid \<Rightarrow> string option \<Rightarrow> cover" where
  "new_cover domain root edition =
     (let c = \<lparr>cv_domain = domain, cv_root = Some (uuid_to_proto root), cv_edition = None\<rparr> in
      case edition of None \<Rightarrow> c | Some e \<Rightarrow> c\<lparr>cv_edition := Some e\<rparr>)"

definition new_command_page :: "any_msg \<Rightarrow> command_page" where
  "new_command_page command = command_page_default\<lparr>cp_body := Some (Command_arm (Some command))\<rparr>"

definition new_command_book :: "cover \<Rightarrow> command_page \<Rightarrow> command_book" where
  "new_command_book c page = command_book_default\<lparr>cb_cover := Some c, cb_page := Some page\<rparr>"

record sequence_range =
  sr_lower :: nat
  sr_upper :: "nat option"

datatype temporal_query = As_of_sequence nat | As_of_time timestamp

definition range_selection :: "nat \<Rightarrow> nat option \<Rightarrow> sequence_range" where
  "range_selection lower upper =
     (let r = \<lparr>sr_lower = lower, sr_upper = None\<rparr> in
      case upper of None \<Rightarrow> r | Some u \<Rightarrow> r\<lparr>sr_upper := Some u\<rparr>)"

definition temporal_by_sequence :: "nat \<Rightarrow> temporal_query" where
  "temporal_by_sequence seq = As_of_sequence seq"

definition temporal_by_time :: "timestamp \<Rightarrow> temporal_query" where
  "temporal_by_time ts = As_of_time ts"

subsection \<open>Call metadata\<close>

datatype correlation = No_correlation | Correlation_text string | Correlation_uuid bytes

definition correlated_metadata :: "correlation \<Rightarrow> (string \<times> string) list" where
  "correlated_metadata c =
     (let t = (case c of
                 No_correlation \<Rightarrow> []
               | Correlation_text s \<Rightarrow> s
               | Correlation_uuid b \<Rightarrow> proto_uuid_to_text (Some b)) in
      if t = [] then [] else [(CORRELATION_ID_HEADER, t)])"

end
