(* ===== verification/Identity_Properties.thy ===== *)
theory Identity_Properties
  imports Identity
begin

text \<open>
  UUID texts are read back, whatever is accepted is a UUID, and a derived root separates
  aggregates as far as its hash does (\<open>identity.py\<close>, \<open>_args.py\<close>, \<open>helpers.py\<close>).
\<close>

subsection \<open>Hexadecimal texts\<close>

text \<open>Neither a separator, a sign, a prefix's letter nor a space.\<close>

definition plain_hex :: "char \<Rightarrow> bool" where
  "plain_hex c \<longleftrightarrow>
     (of_char c :: nat) \<notin> {45, 95, 123, 125, 43, 58, 117, 120, 88} \<and> \<not> space_char c"

lemma of_hex_char: "d < 16 \<Longrightarrow> (of_char (hex_char d) :: nat) = (if d < 10 then 48 + d else 87 + d)"
  by (simp add: hex_char_def)

lemma hex_char_digit: "d < 16 \<Longrightarrow> digit_value (hex_char d) = Some d \<and> plain_hex (hex_char d)"
  by (auto simp: digit_value_def plain_hex_def space_char_def of_hex_char Let_def)

lemma plain_hex_chars:
  "plain_hex c \<Longrightarrow> c \<noteq> CHR ''-'' \<and> c \<noteq> CHR ''_'' \<and> c \<noteq> CHR ''{'' \<and> c \<noteq> CHR ''}''
     \<and> c \<noteq> CHR ''+'' \<and> c \<noteq> CHR '':'' \<and> c \<noteq> CHR ''u'' \<and> c \<noteq> CHR ''x'' \<and> c \<noteq> CHR ''X''"
  by (auto simp: plain_hex_def)

lemma unat_byte: "unat (b :: 8 word) < 256"
  using unsigned_less [where 'a = nat and 'b = 8, of b] by simp

lemma hex_text_Nil [simp]: "hex_text [] = []"
  by (simp add: hex_text_def)

lemma hex_text_Cons:
  "hex_text (b # bs) = hex_char (unat b div 16) # hex_char (unat b mod 16) # hex_text bs"
  by (simp add: hex_text_def)

lemma hex_text_plain: "c \<in> set (hex_text bs) \<Longrightarrow> plain_hex c"
proof (induction bs)
  case (Cons b bs)
  have "unat b div 16 < 16" "unat b mod 16 < 16" using unat_byte [of b] by auto
  with Cons show ?case by (auto simp: hex_text_Cons hex_char_digit)
qed simp

lemma length_hex_text [simp]: "length (hex_text bs) = 2 * length bs"
  by (induction bs) (simp_all add: hex_text_Cons)

lemma hex_text_inject [simp]: "hex_text a = hex_text b \<longleftrightarrow> a = b"
proof (induction a arbitrary: b)
  case Nil
  then show ?case by (cases b) (simp_all add: hex_text_Cons)
next
  case (Cons x a)
  show ?case
  proof (cases b)
    case (Cons y bs)
    have "x = y" if "hex_char (unat x div 16) = hex_char (unat y div 16)"
      "hex_char (unat x mod 16) = hex_char (unat y mod 16)"
    proof -
      have "unat x div 16 < 16" "unat y div 16 < 16"
        using unat_byte [of x] unat_byte [of y] by auto
      with that have "unat x div 16 = unat y div 16" "unat x mod 16 = unat y mod 16"
        using hex_char_digit by (metis option.inject, metis option.inject mod_less_divisor zero_less_numeral)
      then have "unat x = unat y" by (metis div_mult_mod_eq)
      then show ?thesis by (simp add: word_unat_eq_iff)
    qed
    with Cons Cons.IH [of bs] show ?thesis by (auto simp: hex_text_Cons)
  qed (simp add: hex_text_Cons)
qed

subsection \<open>Numbers of bytes\<close>

fun bytes_nat :: "nat \<Rightarrow> bytes \<Rightarrow> nat" where
  "bytes_nat acc [] = acc"
| "bytes_nat acc (b # bs) = bytes_nat (256 * acc + unat b) bs"

lemma int_digits_hex:
  "bs \<noteq> [] \<or> after_digit \<Longrightarrow> int_digits 16 after_digit acc (hex_text bs) = Some (bytes_nat acc bs)"
proof (induction bs arbitrary: acc after_digit)
  case (Cons b bs)
  have d: "unat b div 16 < 16" "unat b mod 16 < 16" using unat_byte [of b] by auto
  note h = hex_char_digit [OF d(1)] hex_char_digit [OF d(2)]
  have n: "hex_char (unat b div 16) \<noteq> CHR ''_''" "hex_char (unat b mod 16) \<noteq> CHR ''_''"
    using h plain_hex_chars by blast+
  have "16 * (16 * acc + unat b div 16) + unat b mod 16 = 256 * acc + unat b"
    using div_mult_mod_eq [of "unat b" 16] by (simp add: algebra_simps)
  then show ?case
    using Cons.IH [of True "256 * acc + unat b"] d h n by (simp add: hex_text_Cons add.commute)
qed simp

lemma bytes_nat_bound: "bytes_nat acc bs < (acc + 1) * 256 ^ length bs"
proof (induction bs arbitrary: acc)
  case (Cons b bs)
  have "bytes_nat (256 * acc + unat b) bs < (256 * acc + unat b + 1) * 256 ^ length bs"
    by (rule Cons.IH)
  also have "\<dots> \<le> (256 * acc + 256) * 256 ^ length bs"
    using unat_byte [of b] by (intro mult_right_mono) auto
  finally show ?case by (simp add: algebra_simps)
qed simp

lemma bytes_nat_snoc: "bytes_nat acc (bs @ [b]) = 256 * bytes_nat acc bs + unat b"
  by (induction bs arbitrary: acc) simp_all

lemma nat_bytes_Suc:
  "nat_bytes (Suc k) n = nat_bytes k (n div 256) @ [of_nat n]"
proof -
  have "n div 256 ^ (k - i) = n div 256 div 256 ^ (k - 1 - i)" if "i < k" for i
  proof -
    have "k - i = Suc (k - 1 - i)" using that by simp
    then show ?thesis by (simp only: power_Suc div_mult2_eq)
  qed
  then have "map (\<lambda>i. of_nat (n div 256 ^ (k - i)) :: 8 word) [0 ..< k] =
      map (\<lambda>i. of_nat (n div 256 div 256 ^ (k - 1 - i))) [0 ..< k]"
    by (intro map_cong) auto
  then show ?thesis by (simp add: nat_bytes_def)
qed

lemma nat_bytes_of_bytes: "nat_bytes (length bs) (bytes_nat 0 bs) = bs"
proof (induction bs rule: rev_induct)
  case Nil
  then show ?case by (simp add: nat_bytes_def)
next
  case (snoc b bs)
  have "(of_nat (256 * bytes_nat 0 bs + unat b) :: 8 word) = b"
  proof -
    have "(256 :: 8 word) = 0" by code_simp
    then have "(of_nat (256 * bytes_nat 0 bs) :: 8 word) = 0"
      by (metis mult_zero_left of_nat_mult of_nat_numeral)
    then show ?thesis by simp
  qed
  moreover have "(256 * bytes_nat 0 bs + unat b) div 256 = bytes_nat 0 bs"
    using unat_byte [of b] by simp
  ultimately show ?case using snoc by (simp add: nat_bytes_Suc bytes_nat_snoc)
qed

subsection \<open>Reading a UUID's text\<close>

lemma remove_all_absent:
  assumes "p \<noteq> []" and "hd p \<notin> set s"
  shows "remove_all p s = s"
  using assms(2)
proof (induction s)
  case Nil
  then show ?case by (simp add: remove_all.simps)
next
  case (Cons c s)
  with assms(1) have "\<not> startswith p (c # s)"
    by (cases p) (auto simp: startswith_Cons)
  with Cons assms(1) show ?case by (subst remove_all.simps) simp
qed

lemma remove_all_prefix:
  assumes "p \<noteq> []"
  shows "remove_all p (p @ s) = remove_all p s"
  using assms by (subst remove_all.simps) simp

lemma remove_one_char:
  "remove_all [c] s = filter (\<lambda>x. x \<noteq> c) s"
proof (induction s)
  case (Cons x s)
  then show ?case by (subst remove_all.simps) (auto simp: startswith_Cons)
qed (simp add: remove_all.simps)

lemma dropWhile_none: "\<forall>c \<in> set s. \<not> P c \<Longrightarrow> s \<noteq> [] \<Longrightarrow> dropWhile P (s @ t) = s @ t"
  by (cases s) auto

lemma strip_chars_none: "\<forall>c \<in> set s. \<not> P c \<Longrightarrow> strip_chars P s = s"
  using dropWhile_none [of s P "[]"] dropWhile_none [of "rev s" P "[]"]
  by (cases "s = []") (simp_all add: strip_chars_def)

lemma strip_chars_braces:
  assumes "\<forall>c \<in> set s. \<not> P c" "s \<noteq> []" "P a" "P b"
  shows "strip_chars P (a # s @ [b]) = s"
  using assms dropWhile_none [of s P "[b]"] dropWhile_none [of "rev s" P "[]"]
  by (simp add: strip_chars_def)

lemma uuid_text_chars:
  "c \<in> set (uuid_text u) \<Longrightarrow> c = CHR ''-'' \<or> plain_hex c"
proof -
  have "set (take n (drop m (hex_text u))) \<subseteq> set (hex_text u)"
    "set (drop m (hex_text u)) \<subseteq> set (hex_text u)" "set (take n (hex_text u)) \<subseteq> set (hex_text u)" for m n
    by (meson order_trans set_drop_subset set_take_subset)+
  then show "c \<in> set (uuid_text u) \<Longrightarrow> ?thesis"
    unfolding uuid_text_def Let_def using hex_text_plain by fastforce
qed

lemma filter_uuid_text: "length u = 16 \<Longrightarrow> filter (\<lambda>c. c \<noteq> CHR ''-'') (uuid_text u) = hex_text u"
proof -
  let ?h = "hex_text u"
  have none: "filter (\<lambda>c. c \<noteq> CHR ''-'') s = s" if "set s \<subseteq> set ?h" for s
    using that hex_text_plain plain_hex_chars by (intro filter_True) blast
  have sub: "set (take n (drop m ?h)) \<subseteq> set ?h" "set (drop m ?h) \<subseteq> set ?h"
    "set (take n ?h) \<subseteq> set ?h" for m n
    by (meson order_trans set_drop_subset set_take_subset)+
  have "take 8 ?h @ take 4 (drop 8 ?h) @ take 4 (drop 12 ?h) @ take 4 (drop 16 ?h) @ drop 20 ?h = ?h"
    using append_take_drop_id [of 4 "drop 8 ?h"] append_take_drop_id [of 4 "drop 12 ?h"]
      append_take_drop_id [of 4 "drop 16 ?h"] append_take_drop_id [of 8 ?h]
    by (simp add: drop_drop)
  then show ?thesis
    by (simp add: uuid_text_def Let_def none sub)
qed

lemma hex_text_reads:
  assumes "length u = 16"
  shows "py_int 16 (hex_text u) = Some (int (bytes_nat 0 u))"
proof -
  have ne: "u \<noteq> []" using assms by auto
  then obtain a b r where h: "hex_text u = a # b # r"
    by (cases u) (auto simp: hex_text_Cons)
  have p: "plain_hex a" "plain_hex b" using hex_text_plain [of _ u] h by auto
  have "strip_chars space_char (hex_text u) = hex_text u"
    using hex_text_plain by (intro strip_chars_none) (auto simp: plain_hex_def)
  moreover have "\<not> startswith ''-'' (hex_text u)" "\<not> startswith ''+'' (hex_text u)"
    "\<not> startswith ''0x'' (hex_text u)" "\<not> startswith ''0X'' (hex_text u)"
    using p plain_hex_chars h by (auto simp: startswith_Cons)
  ultimately show ?thesis
    using int_digits_hex [of u False 0] ne by (simp add: py_int_def unsigned_int_def Let_def)
qed

lemma uuid_of_hex:
  assumes "length u = 16"
    and "remove_all ''-'' (strip_chars (\<lambda>c. c = CHR ''{'' \<or> c = CHR ''}'')
       (remove_all ''uuid:'' (remove_all ''urn:'' s))) = hex_text u"
  shows "uuid_of_text s = Return u"
proof -
  have "bytes_nat 0 u < 2 ^ 128"
    using bytes_nat_bound [of 0 u] assms(1) by simp
  then have "int (bytes_nat 0 u) < 2 ^ 128"
    by (metis of_nat_less_iff of_nat_numeral of_nat_power)
  then show ?thesis
    using assms hex_text_reads [OF assms(1)] nat_bytes_of_bytes [of u]
    by (simp add: uuid_of_text_def Let_def)
qed

lemma uuid_forms:
  assumes "length u = 16"
  shows "uuid_of_text (uuid_text u) = Return u"
    and "uuid_of_text (hex_text u) = Return u"
    and "uuid_of_text (''{'' @ uuid_text u @ ''}'') = Return u"
    and "uuid_of_text (''urn:uuid:'' @ uuid_text u) = Return u"
proof -
  let ?brace = "\<lambda>c. c = CHR ''{'' \<or> c = CHR ''}''"
  have t: "c \<noteq> CHR ''u'' \<and> c \<noteq> CHR ''{'' \<and> c \<noteq> CHR ''}''" if "c \<in> set (uuid_text u)" for c
    using uuid_text_chars [OF that] plain_hex_chars by auto
  have h: "c \<noteq> CHR ''u'' \<and> c \<noteq> CHR ''{'' \<and> c \<noteq> CHR ''}'' \<and> c \<noteq> CHR ''-''" if "c \<in> set (hex_text u)" for c
    using hex_text_plain [OF that] plain_hex_chars by blast
  have ne: "uuid_text u \<noteq> []" by (simp add: uuid_text_def Let_def)
  have gone: "remove_all ''urn:'' s = s" "remove_all ''uuid:'' s = s" if "CHR ''u'' \<notin> set s" for s
    using that by (simp_all add: remove_all_absent)
  have ut: "CHR ''u'' \<notin> set (uuid_text u)" "\<forall>c \<in> set (uuid_text u). \<not> ?brace c"
    and uh: "CHR ''u'' \<notin> set (hex_text u)" "\<forall>c \<in> set (hex_text u). \<not> ?brace c"
    using t h by auto
  have dash: "remove_all ''-'' (uuid_text u) = hex_text u" "remove_all ''-'' (hex_text u) = hex_text u"
    using filter_uuid_text [OF assms] h by (auto simp: remove_one_char intro: filter_True)
  show "uuid_of_text (uuid_text u) = Return u"
    by (rule uuid_of_hex [OF assms]) (simp only: gone [OF ut(1)] strip_chars_none [OF ut(2)] dash)
  show "uuid_of_text (hex_text u) = Return u"
    by (rule uuid_of_hex [OF assms]) (simp only: gone [OF uh(1)] strip_chars_none [OF uh(2)] dash)
  have b: "CHR ''u'' \<notin> set (''{'' @ uuid_text u @ ''}'')" using ut by simp
  have "strip_chars ?brace (''{'' @ uuid_text u @ ''}'') = uuid_text u"
    using strip_chars_braces [OF ut(2) ne] by simp
  then show "uuid_of_text (''{'' @ uuid_text u @ ''}'') = Return u"
    by (intro uuid_of_hex [OF assms]) (simp only: gone [OF b] dash)
  have "remove_all ''urn:'' (''urn:uuid:'' @ uuid_text u) = remove_all ''urn:'' (''uuid:'' @ uuid_text u)"
    using remove_all_prefix [of "''urn:''" "''uuid:'' @ uuid_text u"] by simp
  also have "\<dots> = ''uuid:'' @ uuid_text u"
    using gone(1) [OF ut(1)] by (simp add: remove_all.simps startswith_Cons)
  finally have "remove_all ''uuid:'' (remove_all ''urn:'' (''urn:uuid:'' @ uuid_text u)) = uuid_text u"
    using remove_all_prefix [of "''uuid:''" "uuid_text u"] gone(2) [OF ut(1)] by simp
  then show "uuid_of_text (''urn:uuid:'' @ uuid_text u) = Return u"
    by (intro uuid_of_hex [OF assms]) (simp only: strip_chars_none [OF ut(2)] dash)
qed

lemma uuid_of_text_length: "uuid_of_text s = Return u \<Longrightarrow> length u = 16"
  by (auto simp: uuid_of_text_def Let_def nat_bytes_def split: if_splits option.splits)

subsection \<open>Properties\<close>

text \<open>
  C37: a UUID argument is read as the UUID it names. The text a UUID is rendered as, its bare
  hexadecimal text, its braced text and its URN all give it back, and so does its proto; whatever
  is accepted is a UUID of 16 bytes; and what is not is refused as an invalid argument naming the
  field and carrying the text, unless it is an object of another type altogether, whose
  AttributeError is not caught.
\<close>

theorem uuid_text_read_back:
  assumes "length u = 16"
  shows "(\<forall>t \<in> {bytes_to_uuid_text u, hex_text u, ''{'' @ uuid_text u @ ''}'', ''urn:uuid:'' @ uuid_text u}.
            as_uuid (Text_arg t) field = Return u)
    \<and> proto_to_uuid (uuid_to_proto u) = Return u
    \<and> (\<forall>v w. as_uuid v field = Return w \<longrightarrow> length w = 16 \<or> v = Uuid_arg w)
    \<and> (\<forall>v e. as_uuid v field = Raise e \<longrightarrow>
         (case v of
            Object_arg \<Rightarrow> e = Raised (Other_exc ''AttributeError'')
          | _ \<Rightarrow> (\<exists>input. e = Client_exn (client_error Invalid_argument_error PROTO_UUID_INVALID
                     [(''field'', PStr field), (''input'', PStr input)])
                   \<and> (\<forall>s. v = Text_arg s \<longrightarrow> input = s))))"
proof -
  have "as_uuid (Text_arg t) field = Return u"
    if "t \<in> {bytes_to_uuid_text u, hex_text u, ''{'' @ uuid_text u @ ''}'', ''urn:uuid:'' @ uuid_text u}" for t
    using that uuid_forms [OF assms] assms by (auto simp: as_uuid_def bytes_to_uuid_text_def)
  moreover have "length w = 16 \<or> v = Uuid_arg w" if "as_uuid v field = Return w" for v w
    using that uuid_of_text_length
    by (auto simp: as_uuid_def split: uuid_arg.splits sum.splits)
  moreover have "(case v of
            Object_arg \<Rightarrow> e = Raised (Other_exc ''AttributeError'')
          | _ \<Rightarrow> (\<exists>input. e = Client_exn (client_error Invalid_argument_error PROTO_UUID_INVALID
                     [(''field'', PStr field), (''input'', PStr input)])
                   \<and> (\<forall>s. v = Text_arg s \<longrightarrow> input = s)))" if "as_uuid v field = Raise e" for v e
    using that by (auto simp: as_uuid_def split: uuid_arg.splits sum.splits)
  ultimately show ?thesis
    using assms by (auto simp: proto_to_uuid_def uuid_to_proto_def uuid_of_bytes_def)
qed

definition counting_uuid :: uuid where
  "counting_uuid = [0, 1, 2, 3, 4, 5, 6, 7, 8, 9, 10, 11, 12, 13, 14, 255]"

theorem uuid_text_read_back_witness:
  "as_uuid (Text_arg ''00010203-0405-0607-0809-0a0b0c0d0eff'') ''root'' = Return counting_uuid"
proof -
  have "bytes_to_uuid_text counting_uuid = ''00010203-0405-0607-0809-0a0b0c0d0eff''" by code_simp
  moreover have "length counting_uuid = 16" by code_simp
  ultimately show ?thesis using uuid_text_read_back [of counting_uuid "''root''"] by auto
qed

lemma text_scalars: "list_all scalar (map of_char s)"
proof -
  have "scalar (of_char c)" for c
    unfolding scalar_def surrogate_def using nat_of_char_less_256 [of c] by linarith
  then show ?thesis by (simp add: list_all_iff)
qed

text \<open>What a root is derived from separates the names: a domain ends at the first colon.\<close>

lemma root_names_separate:
  assumes "name_bytes (d @ '':'' @ k) = name_bytes (d' @ '':'' @ k')"
    and "CHR '':'' \<notin> set d" "CHR '':'' \<notin> set d'"
  shows "d = d' \<and> k = k'"
proof -
  have "map of_char (d @ '':'' @ k) = map (of_char :: char \<Rightarrow> nat) (d' @ '':'' @ k')"
    using assms(1) utf8_bytes_inject [OF text_scalars text_scalars] by (simp add: name_bytes_def del: map_append)
  then have "d @ '':'' @ k = d' @ '':'' @ k'"
    by (rule map_injective) (auto simp: inj_def)
  then have "partition CHR '':'' (d @ CHR '':'' # k) = partition CHR '':'' (d' @ CHR '':'' # k')"
    by simp
  then show ?thesis
    unfolding partition_append [OF assms(2)] partition_append [OF assms(3)] by simp
qed

lemma stamp_uuid_version:
  assumes "length b = 16"
  shows "length (stamp_uuid b) = 16 \<and> drop_bit 4 (stamp_uuid b ! 6) = 5 \<and> drop_bit 6 (stamp_uuid b ! 8) = 2"
proof -
  have "drop_bit 4 (or (and (x :: 8 word) 0x0F) 0x50) = 5" for x
    by (rule bit_word_eqI) (auto simp: bit_simps)
  moreover have "drop_bit 6 (or (and (x :: 8 word) 0x3F) 0x80) = 2" for x
    by (rule bit_word_eqI) (auto simp: bit_simps)
  ultimately show ?thesis using assms by (simp add: stamp_uuid_def Let_def)
qed

text \<open>
  C36: a derived root separates aggregates as far as its hash does. A domain with a colon is
  refused; otherwise the root is a version 5 UUID, depending on the domain and the key alone, and
  two different aggregates are given one root only where their distinct names collide under the
  hash: the name is read back into its domain and key at its first colon.
\<close>

theorem derived_roots_separate:
  assumes "\<And>x. length (sha1 x) = 20"
    and "compute_root sha1 d k = Return u"
  shows "length u = 16 \<and> drop_bit 4 (u ! 6) = 5 \<and> drop_bit 6 (u ! 8) = 2
    \<and> CHR '':'' \<notin> set d \<and> partition CHR '':'' (d @ '':'' @ k) = (d, '':'', k)
    \<and> (\<forall>d' k'. compute_root sha1 d' k' = Return u \<and> (d, k) \<noteq> (d', k') \<longrightarrow>
         (\<exists>x y. x \<noteq> y \<and> stamp_uuid (take 16 (sha1 x)) = u \<and> stamp_uuid (take 16 (sha1 y)) = u))
    \<and> (\<forall>d' k'. CHR '':'' \<in> set d' \<longrightarrow> compute_root sha1 d' k' =
         refuse Invalid_argument_error DOMAIN_CONTAINS_COLON [(''domain'', PStr d')])"
proof -
  let ?name = "\<lambda>d k. ANGZARR_ROOT_NAMESPACE @ name_bytes (d @ '':'' @ k)"
  have root: "CHR '':'' \<notin> set d' \<and> u = stamp_uuid (take 16 (sha1 (?name d' k')))"
    if "compute_root sha1 d' k' = Return u" for d' k'
    using that by (auto simp: compute_root_def uuid5_def split: if_splits)
  let ?b = "take 16 (sha1 (?name d k))"
  have u: "u = stamp_uuid ?b" and d: "CHR '':'' \<notin> set d" using root [OF assms(2)] by auto
  have len: "length ?b = 16" using assms(1) by simp
  have "length u = 16 \<and> drop_bit 4 (u ! 6) = 5 \<and> drop_bit 6 (u ! 8) = 2"
    using stamp_uuid_version [OF len] by (simp add: u)
  moreover have "\<exists>x y. x \<noteq> y \<and> stamp_uuid (take 16 (sha1 x)) = u \<and> stamp_uuid (take 16 (sha1 y)) = u"
    if "compute_root sha1 d' k' = Return u" "(d, k) \<noteq> (d', k')" for d' k'
    using root_names_separate [of d k d' k'] root [OF that(1)] d u that(2)
    by (intro exI [of _ "?name d k"] exI [of _ "?name d' k'"]) auto
  moreover have "partition CHR '':'' (d @ '':'' @ k) = (d, '':'', k)"
    using partition_append [OF d, of k] by simp
  moreover have "compute_root sha1 d' k' =
      refuse Invalid_argument_error DOMAIN_CONTAINS_COLON [(''domain'', PStr d')]"
    if "CHR '':'' \<in> set d'" for d' k'
    using that by (simp add: compute_root_def)
  ultimately show ?thesis using d by blast
qed

text \<open>Over a digest that is its input's length, every byte of it.\<close>

theorem derived_roots_separate_witness:
  "\<exists>u. compute_root (\<lambda>x. replicate 20 (of_nat (length x))) ''orders'' ''42'' = Return u
     \<and> length u = 16 \<and> drop_bit 4 (u ! 6) = 5"
proof -
  obtain u where u: "compute_root (\<lambda>x. replicate 20 (of_nat (length x))) ''orders'' ''42'' = Return u"
    by (simp add: compute_root_def)
  from derived_roots_separate [OF _ u] have "length u = 16 \<and> drop_bit 4 (u ! 6) = 5" by simp
  with u show ?thesis by blast
qed

end
