(* ===== verification/Wrappers.thy ===== *)
theory Wrappers
  imports Helpers Identity_Properties
begin

text \<open>
  \<open>angzarr_client/wrappers.py\<close>: the accessors over covers, books, pages and responses. A wrapper
  holds the message it wraps and nothing else, so it is that message; the accessors a
  cover-bearing wrapper inherits are functions of the cover it gives (\<open>_cover_proto\<close>).
\<close>

subsection \<open>What bears a cover\<close>

record query_msg =
  qy_cover :: "cover option"
  qy_correlation_id :: "uuid_msg option"
  qy_range :: "sequence_range option"
  qy_temporal :: "temporal_query option"

definition query_default :: query_msg where
  "query_default = \<lparr>qy_cover = None, qy_correlation_id = None, qy_range = None, qy_temporal = None\<rparr>"

definition cover_domain :: "cover option \<Rightarrow> string" where
  "cover_domain c =
     (case c of None \<Rightarrow> UNKNOWN_DOMAIN
      | Some x \<Rightarrow> if cv_domain x = [] then UNKNOWN_DOMAIN else cv_domain x)"

definition cover_root_uuid :: "cover option \<Rightarrow> uuid option" where
  "cover_root_uuid c =
     (case c of None \<Rightarrow> None
      | Some x \<Rightarrow> (case cv_root x of None \<Rightarrow> None
         | Some b \<Rightarrow> (case uuid_of_bytes b of Inr u \<Rightarrow> Some u | Inl _ \<Rightarrow> None)))"

definition cover_root_id_hex :: "cover option \<Rightarrow> string" where
  "cover_root_id_hex c =
     (case c of None \<Rightarrow> []
      | Some x \<Rightarrow> (case cv_root x of None \<Rightarrow> [] | Some b \<Rightarrow> hex_text b))"

definition cover_edition :: "cover option \<Rightarrow> string option" where
  "cover_edition c =
     (case c of None \<Rightarrow> None
      | Some x \<Rightarrow> (case cv_edition x of None \<Rightarrow> None | Some e \<Rightarrow> if e = [] then None else Some e))"

definition routing_key :: "cover option \<Rightarrow> string" where
  "routing_key c = cover_domain c"

definition cache_key :: "cover option \<Rightarrow> string" where
  "cache_key c =
     (case cover_edition c of None \<Rightarrow> [] | Some e \<Rightarrow> e) @ '':'' @ cover_domain c @ '':'' @
     cover_root_id_hex c"

text \<open>The cover each wrapper bears: \<open>Cover\<close> its own, the books and the query theirs, if set.\<close>

definition cover_bearer :: "cover \<Rightarrow> cover option" where
  "cover_bearer c = Some c"

definition event_book_bearer :: "event_book \<Rightarrow> cover option" where
  "event_book_bearer b = eb_cover b"

definition command_book_bearer :: "command_book \<Rightarrow> cover option" where
  "command_book_bearer b = cb_cover b"

definition query_bearer :: "query_msg \<Rightarrow> cover option" where
  "query_bearer q = qy_cover q"

text \<open>\<open>cover()\<close>: the default cover when none is set.\<close>

definition event_book_cover :: "event_book \<Rightarrow> cover" where
  "event_book_cover b = cover_of (eb_cover b)"

definition command_book_cover :: "command_book \<Rightarrow> cover" where
  "command_book_cover b = cover_of (cb_cover b)"

definition query_cover :: "query_msg \<Rightarrow> cover" where
  "query_cover q = cover_of (qy_cover q)"

subsection \<open>Books\<close>

definition next_sequence :: "event_book \<Rightarrow> nat" where
  "next_sequence b = eb_next_sequence b"

definition is_empty :: "event_book \<Rightarrow> bool" where
  "is_empty b \<longleftrightarrow> length (eb_pages b) = 0"

definition book_pages :: "event_book \<Rightarrow> event_page list" where
  "book_pages b = eb_pages b"

definition first_page :: "event_book \<Rightarrow> event_page option" where
  "first_page b = (if eb_pages b = [] then None else Some (eb_pages b ! 0))"

definition last_page :: "event_book \<Rightarrow> event_page option" where
  "last_page b = (if eb_pages b = [] then None else Some (last (eb_pages b)))"

definition first_command :: "command_book \<Rightarrow> command_page option" where
  "first_command b = cb_page b"

subsection \<open>Pages\<close>

definition sequence_num :: "event_page \<Rightarrow> nat" where
  "sequence_num p = pg_sequence p"

definition event_type_url :: "event_page \<Rightarrow> string option" where
  "event_type_url p = map_option any_type_url (pg_payload p)"

definition event_payload :: "event_page \<Rightarrow> bytes option" where
  "event_payload p = map_option any_value (pg_payload p)"

definition decode_typed :: "any_is \<Rightarrow> event_page \<Rightarrow> 'm message_class \<Rightarrow> exn + 'm option" where
  "decode_typed is_type p cls =
     (case pg_payload p of
        None \<Rightarrow> Return None
      | Some a \<Rightarrow>
          if \<not> type_url_matches (any_type_url a) (mc_full_name cls) then Return None
          else any_unpack is_type a cls)"

definition body_payload :: "command_page \<Rightarrow> any_msg option" where
  "body_payload p =
     (case cp_body p of
        None \<Rightarrow> None
      | Some (Command_arm a) \<Rightarrow> a
      | Some (Fact_arm a) \<Rightarrow> a)"

definition command_type_url :: "command_page \<Rightarrow> string option" where
  "command_type_url p = map_option any_type_url (body_payload p)"

definition command_page_payload :: "command_page \<Rightarrow> bytes option" where
  "command_page_payload p = map_option any_value (body_payload p)"

subsection \<open>Responses\<close>

definition events_book :: "command_response \<Rightarrow> event_book option" where
  "events_book r = cmr_events r"

definition response_events :: "command_response \<Rightarrow> event_page list" where
  "response_events r = (case cmr_events r of None \<Rightarrow> [] | Some b \<Rightarrow> eb_pages b)"

subsection \<open>What the accessors share\<close>

lemma type_name_from_url_eq: "type_name_from_url url = type_name url"
  by (simp add: type_name_from_url_def type_name_def rpartition_absent)

text \<open>
  protobuf documents \<open>Any.Is\<close> as comparing the name after the last slash, and a type URL as
  having one.
\<close>

definition any_is_law :: "any_is \<Rightarrow> bool" where
  "any_is_law is_type \<longleftrightarrow>
     (\<forall>url name. is_type url name \<longleftrightarrow> CHR ''/'' \<in> set url \<and> type_name url = name)"

text \<open>What a payload decodes to: nothing of another type, a message, or a decoding error.\<close>

definition decoded :: "any_msg option \<Rightarrow> string \<Rightarrow> 'm message_class \<Rightarrow> exn + 'm option" where
  "decoded payload name cls =
     (case payload of
        None \<Rightarrow> Return None
      | Some a \<Rightarrow>
          if CHR ''/'' \<in> set (any_type_url a) \<and> type_name (any_type_url a) = name \<and> name = mc_full_name cls
          then (case mc_parse cls (any_value a) of
                  Inl _ \<Rightarrow> Raise (Other_exc ''DecodeError'') | Inr m \<Rightarrow> Return (Some m))
          else Return None)"

subsection \<open>Properties\<close>

text \<open>
  The ways to decode a payload agree. \<open>decode_event\<close> under a name, \<open>decode_typed\<close>,
  \<open>try_unpack\<close> and \<open>unpack\<close> all decode a payload exactly when its type URL names the message's
  type after its last slash, a mismatch being None (a ValueError of \<open>unpack\<close>) and never an empty
  message, and bytes that do not decode being the same error in all of them; so a message packed
  by any of the package's builders is read back by each.
\<close>

theorem decoders_agree:
  assumes "any_is_law is_type"
  shows "decode_event is_type (Some p) name cls = decoded (pg_payload p) name cls
    \<and> decode_typed is_type p cls = decoded (pg_payload p) (mc_full_name cls) cls
    \<and> try_unpack is_type (pg_payload p) cls = decode_typed is_type p cls
    \<and> unpack is_type (pg_payload p) cls =
        bindR (decode_typed is_type p cls) (\<lambda>r. case r of
          Some m \<Rightarrow> Return m
        | None \<Rightarrow> Raise (Other_exc (if pg_payload p = None then ''AttributeError'' else ''ValueError'')))
    \<and> (parses_back cls \<and> CHR ''/'' \<notin> set (mc_full_name cls) \<longrightarrow>
         decode_typed is_type (p\<lparr>pg_payload := Some \<lparr>any_type_url = type_url (mc_full_name cls),
           any_value = mc_serialize cls m\<rparr>\<rparr>) cls = Return (Some m))"
proof -
  have law: "is_type url n \<longleftrightarrow> CHR ''/'' \<in> set url \<and> type_name url = n" for url n
    using assms by (simp add: any_is_law_def)
  note defs = decode_event_def decode_typed_def decoded_def any_unpack_def type_url_matches_def
    wire_name_def type_name_from_url_eq law
  have "decode_event is_type (Some p) name cls = decoded (pg_payload p) name cls"
    by (auto simp: defs split: option.split)
  moreover have "decode_typed is_type p cls = decoded (pg_payload p) (mc_full_name cls) cls"
    by (auto simp: defs split: option.split)
  moreover have "try_unpack is_type (pg_payload p) cls = decode_typed is_type p cls"
    by (auto simp: defs try_unpack_def type_matches_def split: option.split sum.split)
  moreover have "unpack is_type (pg_payload p) cls =
        bindR (decode_typed is_type p cls) (\<lambda>r. case r of
          Some m \<Rightarrow> Return m
        | None \<Rightarrow> Raise (Other_exc (if pg_payload p = None then ''AttributeError'' else ''ValueError'')))"
    by (auto simp: defs unpack_def type_matches_def split: option.split sum.split)
  moreover have "decode_typed is_type (p\<lparr>pg_payload := Some \<lparr>any_type_url = type_url (mc_full_name cls),
           any_value = mc_serialize cls m\<rparr>\<rparr>) cls = Return (Some m)"
    if "parses_back cls" "CHR ''/'' \<notin> set (mc_full_name cls)"
    using that by (simp add: defs type_url_def TYPE_URL_PREFIX_def parses_back_def)
  ultimately show ?thesis by blast
qed

text \<open>An event of three bytes, decoded as a class whose messages are their bytes.\<close>

definition bytes_class :: "bytes message_class" where
  "bytes_class = \<lparr>mc_full_name = ''p.Raw'', mc_fresh = [], mc_parse = Inr, mc_serialize = (\<lambda>m. m)\<rparr>"

definition documented_any_is :: any_is where
  "documented_any_is url name \<longleftrightarrow> CHR ''/'' \<in> set url \<and> type_name url = name"

theorem decoders_agree_witness:
  "try_unpack documented_any_is (Some \<lparr>any_type_url = ''type.googleapis.com/p.Raw'', any_value = [1, 2, 3]\<rparr>)
     bytes_class = Return (Some [1, 2, 3])"
proof -
  let ?p = "\<lparr>pg_payload = Some \<lparr>any_type_url = ''type.googleapis.com/p.Raw'', any_value = [1, 2, 3]\<rparr>,
    pg_sequence = 0, pg_meta = None\<rparr>"
  have "any_is_law documented_any_is" by (simp add: any_is_law_def documented_any_is_def)
  from decoders_agree [OF this, of ?p "''p.Raw''" bytes_class]
  have "try_unpack documented_any_is (pg_payload ?p) bytes_class = decoded (pg_payload ?p) (mc_full_name bytes_class) bytes_class"
    by (simp only: simp_thms)
  also have "\<dots> = Return (Some [1, 2, 3])"
    by (simp add: decoded_def bytes_class_def type_name_def rpartition_def)
  finally show ?thesis by simp
qed

text \<open>
  A cache key is a key. Two covers have one key exactly when they have one edition, one domain
  and one root as their accessors answer them, whatever an edition holds, as long as no domain has
  a colon, which \<open>compute_root\<close> refuses too.
\<close>

theorem cache_key_identifies:
  assumes "CHR '':'' \<notin> set (cover_domain a)" and "CHR '':'' \<notin> set (cover_domain b)"
  shows "cache_key a = cache_key b \<longleftrightarrow>
    cover_edition a = cover_edition b \<and> cover_domain a = cover_domain b
    \<and> cover_root_id_hex a = cover_root_id_hex b"
proof -
  let ?e = "\<lambda>c. case cover_edition c of None \<Rightarrow> [] | Some e \<Rightarrow> e"
  have hex: "CHR '':'' \<notin> set (cover_root_id_hex c)" for c
  proof -
    have "CHR '':'' \<notin> set (hex_text x)" for x
      using hex_text_plain plain_hex_chars by blast
    then show ?thesis by (simp add: cover_root_id_hex_def split: option.split)
  qed
  have last: "rpartition CHR '':'' (cache_key c) = (?e c @ CHR '':'' # cover_domain c, '':'', cover_root_id_hex c)" for c
    using rpartition_append [OF hex [of c], of "?e c @ CHR '':'' # cover_domain c"]
    by (simp add: cache_key_def)
  have edition: "?e a = ?e b \<longleftrightarrow> cover_edition a = cover_edition b"
    by (auto simp: cover_edition_def split: option.splits if_splits)
  show ?thesis
  proof
    assume "cache_key a = cache_key b"
    with last [of a] last [of b] have h: "cover_root_id_hex a = cover_root_id_hex b"
      and "?e a @ CHR '':'' # cover_domain a = ?e b @ CHR '':'' # cover_domain b" by simp_all
    then have "(?e a, '':'', cover_domain a) = (?e b, '':'', cover_domain b)"
      using rpartition_append [OF assms(1), of "?e a"] rpartition_append [OF assms(2), of "?e b"] by metis
    with h edition show "cover_edition a = cover_edition b \<and> cover_domain a = cover_domain b
        \<and> cover_root_id_hex a = cover_root_id_hex b" by simp
  qed (simp add: cache_key_def)
qed

text \<open>The main timeline's cover and an edition's that holds a colon.\<close>

theorem cache_key_identifies_witness:
  "cache_key (Some \<lparr>cv_domain = ''orders'', cv_root = Some [1, 255], cv_edition = None\<rparr>) = '':orders:01ff''
   \<and> cache_key (Some \<lparr>cv_domain = ''orders'', cv_root = Some [1, 255], cv_edition = None\<rparr>)
     \<noteq> cache_key (Some \<lparr>cv_domain = ''orders'', cv_root = Some [1, 255], cv_edition = Some ''a:b''\<rparr>)"
proof -
  let ?a = "Some \<lparr>cv_domain = ''orders'', cv_root = Some [1, 255], cv_edition = None\<rparr>"
  let ?b = "Some \<lparr>cv_domain = ''orders'', cv_root = Some [1, 255], cv_edition = Some ''a:b''\<rparr>"
  have "CHR '':'' \<notin> set (cover_domain ?a)" "CHR '':'' \<notin> set (cover_domain ?b)"
    by (simp_all add: cover_domain_def)
  from cache_key_identifies [OF this] have "cache_key ?a \<noteq> cache_key ?b"
    by (simp add: cover_edition_def)
  moreover have "cache_key ?a = '':orders:01ff''" by code_simp
  ultimately show ?thesis by blast
qed

end
