(* ===== verification/Builder.thy ===== *)
theory Builder
  imports Wrappers Context
begin

text \<open>
  \<open>angzarr_client/builder.py\<close>: the fluent builders of commands and queries. A setter answers the
  builder changed, or raises and leaves it as it was. Assigning a number its message field does
  not hold raises ValueError: which numbers those are is the parameter \<open>fits\<close>. The operations that
  send what is built are with the clients.
\<close>

abbreviation value_error :: cl_exn where
  "value_error \<equiv> Raised (Other_exc ''ValueError'')"

subsection \<open>Commands\<close>

record command_builder =
  bd_domain :: string
  bd_root :: uuid
  bd_correlation_id :: "uuid option"
  bd_type_url :: "string option"
  bd_payload :: "bytes option"
  bd_expected_sequence :: "int option"
  bd_conflict_resolution :: conflict_resolution

definition command_builder :: "string \<Rightarrow> uuid \<Rightarrow> command_builder" where
  "command_builder domain root =
     \<lparr>bd_domain = domain, bd_root = root, bd_correlation_id = None, bd_type_url = None,
      bd_payload = None, bd_expected_sequence = None, bd_conflict_resolution = RES_UNSPECIFIED\<rparr>"

definition with_correlation_id :: "uuid_arg \<Rightarrow> command_builder \<Rightarrow> cl_exn + command_builder" where
  "with_correlation_id v b =
     bindR (as_uuid v ''correlation_id'') (\<lambda>u. Return (b\<lparr>bd_correlation_id := Some u\<rparr>))"

definition with_command :: "string \<Rightarrow> proto_msg \<Rightarrow> command_builder \<Rightarrow> command_builder" where
  "with_command url message b =
     b\<lparr>bd_type_url := Some url, bd_payload := Some (pm_serialized message)\<rparr>"

definition with_type_url :: "string \<Rightarrow> command_builder \<Rightarrow> command_builder" where
  "with_type_url url b = b\<lparr>bd_type_url := Some url\<rparr>"

definition with_payload :: "bytes \<Rightarrow> command_builder \<Rightarrow> command_builder" where
  "with_payload payload b = b\<lparr>bd_payload := Some payload\<rparr>"

definition with_expected_sequence :: "int \<Rightarrow> command_builder \<Rightarrow> command_builder" where
  "with_expected_sequence n b = b\<lparr>bd_expected_sequence := Some n\<rparr>"

definition with_conflict_resolution :: "conflict_resolution \<Rightarrow> command_builder \<Rightarrow> command_builder" where
  "with_conflict_resolution r b = b\<lparr>bd_conflict_resolution := r\<rparr>"

text \<open>Assigning a field of \<open>book.handling\<close> makes the message present.\<close>

definition set_handling ::
  "(handling_msg \<Rightarrow> handling_msg) \<Rightarrow> command_book \<Rightarrow> command_book" where
  "set_handling f book = book\<lparr>cb_handling := Some (f (book_handling book))\<rparr>"

definition build_command :: "(int \<Rightarrow> bool) \<Rightarrow> command_builder \<Rightarrow> cl_exn + command_book" where
  "build_command fits b =
     (case bd_type_url b of
        None \<Rightarrow> refuse Invalid_argument_error COMMAND_TYPE_URL_MISSING []
      | Some url \<Rightarrow>
          if url = [] then refuse Invalid_argument_error COMMAND_TYPE_URL_MISSING []
          else (case bd_payload b of
            None \<Rightarrow> refuse Invalid_argument_error COMMAND_PAYLOAD_MISSING []
          | Some payload \<Rightarrow>
              (let cover = \<lparr>cv_domain = bd_domain b, cv_root = Some (uuid_to_proto (bd_root b)),
                            cv_edition = None\<rparr>;
                   page = command_page_default\<lparr>cp_body :=
                            Some (Command_arm (Some \<lparr>any_type_url = url, any_value = payload\<rparr>))\<rparr>;
                   page = (case bd_correlation_id b of None \<Rightarrow> page
                           | Some c \<Rightarrow> page\<lparr>cp_correlation_id := Some (uuid_to_proto c)\<rparr>);
                   book = command_book_default\<lparr>cb_cover := Some cover, cb_page := Some page\<rparr> in
               bindR (case bd_expected_sequence b of
                        None \<Rightarrow> Return book
                      | Some n \<Rightarrow>
                          if fits n
                          then Return (set_handling (\<lambda>h. h\<lparr>hd_expected_sequence := Some (nat n)\<rparr>) book)
                          else Raise value_error) (\<lambda>book.
               Return (if bd_conflict_resolution b = RES_UNSPECIFIED then book
                       else set_handling
                         (\<lambda>h. h\<lparr>hd_conflict_resolution := bd_conflict_resolution b\<rparr>) book)))))"

subsection \<open>Queries\<close>

record query_builder =
  qb_domain :: string
  qb_root :: "uuid option"
  qb_correlation_id :: "uuid option"
  qb_range :: "sequence_range option"
  qb_temporal :: "temporal_query option"
  qb_edition :: "string option"

definition query_builder :: "string \<Rightarrow> uuid option \<Rightarrow> query_builder" where
  "query_builder domain root =
     \<lparr>qb_domain = domain, qb_root = root, qb_correlation_id = None, qb_range = None,
      qb_temporal = None, qb_edition = None\<rparr>"

definition by_correlation_id :: "uuid_arg \<Rightarrow> query_builder \<Rightarrow> cl_exn + query_builder" where
  "by_correlation_id v b =
     bindR (as_uuid v ''correlation_id'') (\<lambda>u.
     Return (b\<lparr>qb_correlation_id := Some u, qb_root := None\<rparr>))"

definition edition :: "string \<Rightarrow> query_builder \<Rightarrow> query_builder" where
  "edition e b = b\<lparr>qb_edition := Some e\<rparr>"

definition range_from :: "(int \<Rightarrow> bool) \<Rightarrow> int \<Rightarrow> query_builder \<Rightarrow> cl_exn + query_builder" where
  "range_from fits lower b =
     (if fits lower
      then Return (b\<lparr>qb_range := Some \<lparr>sr_lower = nat lower, sr_upper = None\<rparr>, qb_temporal := None\<rparr>)
      else Raise value_error)"

definition range_to :: "(int \<Rightarrow> bool) \<Rightarrow> int \<Rightarrow> int \<Rightarrow> query_builder \<Rightarrow> cl_exn + query_builder" where
  "range_to fits lower upper b =
     (if fits lower \<and> fits upper
      then Return (b\<lparr>qb_range := Some \<lparr>sr_lower = nat lower, sr_upper = Some (nat upper)\<rparr>,
                     qb_temporal := None\<rparr>)
      else Raise value_error)"

definition as_of_sequence :: "(int \<Rightarrow> bool) \<Rightarrow> int \<Rightarrow> query_builder \<Rightarrow> cl_exn + query_builder" where
  "as_of_sequence fits n b =
     (if fits n then Return (b\<lparr>qb_temporal := Some (As_of_sequence (nat n)), qb_range := None\<rparr>)
      else Raise value_error)"

definition as_of_time ::
  "(string \<Rightarrow> string + timestamp) \<Rightarrow> string \<Rightarrow> query_builder \<Rightarrow> cl_exn + query_builder" where
  "as_of_time from_json rfc3339 b =
     bindR (parse_timestamp from_json rfc3339) (\<lambda>ts.
     Return (b\<lparr>qb_temporal := Some (As_of_time ts), qb_range := None\<rparr>))"

definition build_query :: "query_builder \<Rightarrow> query_msg" where
  "build_query b =
     (let cover = \<lparr>cv_domain = qb_domain b, cv_root = None, cv_edition = None\<rparr>;
          cover = (case qb_root b of None \<Rightarrow> cover | Some r \<Rightarrow> cover\<lparr>cv_root := Some (uuid_to_proto r)\<rparr>);
          cover = (case qb_edition b of None \<Rightarrow> cover
                   | Some e \<Rightarrow> if e = [] then cover else cover\<lparr>cv_edition := Some e\<rparr>);
          query = query_default\<lparr>qy_cover := Some cover\<rparr>;
          query = (case qb_correlation_id b of None \<Rightarrow> query
                   | Some c \<Rightarrow> query\<lparr>qy_correlation_id := Some (uuid_to_proto c)\<rparr>) in
      case qb_range b of
        Some r \<Rightarrow> query\<lparr>qy_range := Some r\<rparr>
      | None \<Rightarrow> (case qb_temporal b of Some t \<Rightarrow> query\<lparr>qy_temporal := Some t\<rparr> | None \<Rightarrow> query))"

subsection \<open>Chains of settings\<close>

text \<open>The setters as data, and a chain of them by a caller that goes on after one that raises.\<close>

datatype command_setting =
    Set_correlation uuid_arg | Set_command string proto_msg | Set_type_url string
  | Set_payload bytes | Set_expected int | Set_resolution conflict_resolution

fun set_command :: "command_setting \<Rightarrow> command_builder \<Rightarrow> cl_exn + command_builder" where
  "set_command (Set_correlation v) b = with_correlation_id v b"
| "set_command (Set_command url m) b = Return (with_command url m b)"
| "set_command (Set_type_url url) b = Return (with_type_url url b)"
| "set_command (Set_payload p) b = Return (with_payload p b)"
| "set_command (Set_expected n) b = Return (with_expected_sequence n b)"
| "set_command (Set_resolution r) b = Return (with_conflict_resolution r b)"

datatype query_setting =
    By_correlation uuid_arg | Edition string | Range_from int | Range_to int int
  | Of_sequence int | Of_time string

fun set_query ::
  "(int \<Rightarrow> bool) \<Rightarrow> (string \<Rightarrow> string + timestamp) \<Rightarrow> query_setting \<Rightarrow> query_builder \<Rightarrow>
     cl_exn + query_builder" where
  "set_query fits from_json (By_correlation v) b = by_correlation_id v b"
| "set_query fits from_json (Edition e) b = Return (edition e b)"
| "set_query fits from_json (Range_from l) b = range_from fits l b"
| "set_query fits from_json (Range_to l u) b = range_to fits l u b"
| "set_query fits from_json (Of_sequence n) b = as_of_sequence fits n b"
| "set_query fits from_json (Of_time s) b = as_of_time from_json s b"

definition kept_going :: "('s \<Rightarrow> 'b \<Rightarrow> 'e + 'b) \<Rightarrow> 's list \<Rightarrow> 'b \<Rightarrow> 'b" where
  "kept_going set_one settings b =
     fold (\<lambda>s b. case set_one s b of Inr b' \<Rightarrow> b' | Inl _ \<Rightarrow> b) settings b"

text \<open>The last setting that gives a slot its value.\<close>

definition last_given :: "('s \<Rightarrow> 'v option) \<Rightarrow> 's list \<Rightarrow> 'v option" where
  "last_given slot settings = fold (\<lambda>s v. case slot s of Some x \<Rightarrow> Some x | None \<Rightarrow> v) settings None"

subsection \<open>Slots\<close>

text \<open>
  The contract of a builder's slot: the settings that give it a value write that value, and every
  other setting, and one that raises, leaves it. So after any chain it holds the last value given,
  or what it held.
\<close>

locale builder_slot =
  fixes set_one :: "'s \<Rightarrow> 'b \<Rightarrow> 'e + 'b"
    and read :: "'b \<Rightarrow> 'v option"
    and slot :: "'s \<Rightarrow> 'v option"
  assumes writes: "read (case set_one s b of Inr b' \<Rightarrow> b' | Inl _ \<Rightarrow> b) =
      (case slot s of Some x \<Rightarrow> Some x | None \<Rightarrow> read b)"
begin

lemma after_settings:
  "read (kept_going set_one settings b) =
     (case last_given slot settings of Some x \<Rightarrow> Some x | None \<Rightarrow> read b)"
proof -
  have "read (fold (\<lambda>s b. case set_one s b of Inr b' \<Rightarrow> b' | Inl _ \<Rightarrow> b) settings b) =
      fold (\<lambda>s v. case slot s of Some x \<Rightarrow> Some x | None \<Rightarrow> v) settings (read b)" for b
    by (induction settings arbitrary: b) (simp_all add: writes)
  moreover have "fold (\<lambda>s v. case slot s of Some x \<Rightarrow> Some x | None \<Rightarrow> v) settings v =
      (case last_given slot settings of Some x \<Rightarrow> Some x | None \<Rightarrow> v)" for v
    unfolding last_given_def
    by (induction settings rule: rev_induct) (auto split: option.split)
  ultimately show ?thesis by (simp add: kept_going_def)
qed

lemma never_written: "(\<And>s. slot s = None) \<Longrightarrow> read (kept_going set_one settings b) = read b"
proof -
  assume none: "\<And>s. slot s = None"
  have "last_given slot settings = None"
    unfolding last_given_def by (induction settings) (simp_all add: none)
  then show ?thesis by (simp add: after_settings)
qed

end

text \<open>A UUID argument that is accepted.\<close>

definition accepted_uuid :: "uuid_arg \<Rightarrow> uuid option" where
  "accepted_uuid v = (case as_uuid v ''correlation_id'' of Inr u \<Rightarrow> Some u | Inl _ \<Rightarrow> None)"

lemmas command_setters =
  with_correlation_id_def with_command_def with_type_url_def with_payload_def
  with_expected_sequence_def with_conflict_resolution_def accepted_uuid_def

fun url_given :: "command_setting \<Rightarrow> string option" where
  "url_given (Set_command url _) = Some url"
| "url_given (Set_type_url url) = Some url"
| "url_given _ = None"

fun payload_given :: "command_setting \<Rightarrow> bytes option" where
  "payload_given (Set_command _ m) = Some (pm_serialized m)"
| "payload_given (Set_payload p) = Some p"
| "payload_given _ = None"

fun correlation_given :: "command_setting \<Rightarrow> uuid option" where
  "correlation_given (Set_correlation v) = accepted_uuid v"
| "correlation_given _ = None"

fun expected_given :: "command_setting \<Rightarrow> int option" where
  "expected_given (Set_expected n) = Some n"
| "expected_given _ = None"

fun resolution_given :: "command_setting \<Rightarrow> conflict_resolution option" where
  "resolution_given (Set_resolution r) = Some r"
| "resolution_given _ = None"

interpretation url_slot: builder_slot set_command bd_type_url url_given
  by unfold_locales
    (case_tac s; auto simp: command_setters bindR_def split: sum.split option.split)

interpretation payload_slot: builder_slot set_command bd_payload payload_given
  by unfold_locales
    (case_tac s; auto simp: command_setters bindR_def split: sum.split option.split)

interpretation correlation_slot: builder_slot set_command bd_correlation_id correlation_given
  by unfold_locales
    (case_tac s; auto simp: command_setters bindR_def split: sum.split option.split)

interpretation expected_slot: builder_slot set_command bd_expected_sequence expected_given
  by unfold_locales
    (case_tac s; auto simp: command_setters bindR_def split: sum.split option.split)

interpretation resolution_slot:
  builder_slot set_command "\<lambda>b. Some (bd_conflict_resolution b)" resolution_given
  by unfold_locales
    (case_tac s; auto simp: command_setters bindR_def split: sum.split option.split)

interpretation target_slot:
  builder_slot set_command "\<lambda>b. Some (bd_domain b, bd_root b)" "\<lambda>_. None"
  by unfold_locales
    (case_tac s; auto simp: command_setters bindR_def split: sum.split option.split)

text \<open>A query's one selection, as its two fields hold it.\<close>

datatype selection = By_range sequence_range | By_time temporal_query

definition selected :: "query_builder \<Rightarrow> selection option" where
  "selected b =
     (case qb_range b of
        Some r \<Rightarrow> Some (By_range r)
      | None \<Rightarrow> map_option By_time (qb_temporal b))"

fun selection_given ::
  "(int \<Rightarrow> bool) \<Rightarrow> (string \<Rightarrow> string + timestamp) \<Rightarrow> query_setting \<Rightarrow> selection option" where
  "selection_given fits from_json (Range_from l) =
     (if fits l then Some (By_range \<lparr>sr_lower = nat l, sr_upper = None\<rparr>) else None)"
| "selection_given fits from_json (Range_to l u) =
     (if fits l \<and> fits u then Some (By_range \<lparr>sr_lower = nat l, sr_upper = Some (nat u)\<rparr>) else None)"
| "selection_given fits from_json (Of_sequence n) =
     (if fits n then Some (By_time (As_of_sequence (nat n))) else None)"
| "selection_given fits from_json (Of_time s) =
     (case from_json s of Inr ts \<Rightarrow> Some (By_time (As_of_time ts)) | Inl _ \<Rightarrow> None)"
| "selection_given fits from_json _ = None"

fun query_correlation_given :: "query_setting \<Rightarrow> uuid option" where
  "query_correlation_given (By_correlation v) = accepted_uuid v"
| "query_correlation_given _ = None"

fun root_given :: "query_setting \<Rightarrow> uuid option option" where
  "root_given (By_correlation v) = map_option (\<lambda>_. None) (accepted_uuid v)"
| "root_given _ = None"

fun edition_given :: "query_setting \<Rightarrow> string option" where
  "edition_given (Edition e) = Some e"
| "edition_given _ = None"

lemmas query_setters =
  by_correlation_id_def edition_def range_from_def range_to_def as_of_sequence_def as_of_time_def
  parse_timestamp_def accepted_uuid_def selected_def

interpretation selection_slot:
  builder_slot "set_query fits from_json" selected "selection_given fits from_json"
  by unfold_locales
    (case_tac s; auto simp: query_setters bindR_def split: sum.split option.split)

interpretation query_correlation_slot:
  builder_slot "set_query fits from_json" qb_correlation_id query_correlation_given
  by unfold_locales
    (case_tac s; auto simp: query_setters bindR_def split: sum.split option.split)

interpretation root_slot:
  builder_slot "set_query fits from_json" "\<lambda>b. Some (qb_root b)" root_given
  by unfold_locales
    (case_tac s; auto simp: query_setters bindR_def split: sum.split option.split)

interpretation edition_slot: builder_slot "set_query fits from_json" qb_edition edition_given
  by unfold_locales
    (case_tac s; auto simp: query_setters bindR_def split: sum.split option.split)

interpretation query_domain_slot:
  builder_slot "set_query fits from_json" "\<lambda>b. Some (qb_domain b)" "\<lambda>_. None"
  by unfold_locales
    (case_tac s; auto simp: query_setters bindR_def split: sum.split option.split)

lemma build_query_eq:
  "build_query b =
     \<lparr>qy_cover = Some \<lparr>cv_domain = qb_domain b, cv_root = qb_root b,
        cv_edition = (case qb_edition b of
           Some e \<Rightarrow> if e = [] then None else Some e | None \<Rightarrow> None)\<rparr>,
      qy_correlation_id = qb_correlation_id b,
      qy_range = (case selected b of Some (By_range r) \<Rightarrow> Some r | _ \<Rightarrow> None),
      qy_temporal = (case selected b of Some (By_time t) \<Rightarrow> Some t | _ \<Rightarrow> None)\<rparr>"
  by (cases "qb_range b"; cases "qb_temporal b"; cases "qb_root b"; cases "qb_edition b";
      cases "qb_correlation_id b")
    (simp_all add: build_query_def selected_def query_default_def uuid_to_proto_def Let_def)

subsection \<open>Properties\<close>

text \<open>
  C29: a command is built from the last settings given. Whatever chain of settings a caller makes,
  in any order and going on after those that raise, what is built carries the target it was made
  for, the last type URL and payload, the last correlation accepted, and in its handling the last
  expected sequence (0 included) and resolution, with no handling at all when neither was set; it
  is refused for a missing type URL, or payload, and for a sequence the field does not hold.
\<close>

theorem command_is_its_last_settings:
  assumes "b = kept_going set_command settings (command_builder domain root)"
    and "url = last_given url_given settings" and "payload = last_given payload_given settings"
    and "expected = last_given expected_given settings"
    and "resolution = (case last_given resolution_given settings of Some r \<Rightarrow> r | None \<Rightarrow> RES_UNSPECIFIED)"
  shows "build_command fits b =
    (if url = None \<or> url = Some [] then refuse Invalid_argument_error COMMAND_TYPE_URL_MISSING []
     else if payload = None then refuse Invalid_argument_error COMMAND_PAYLOAD_MISSING []
     else if \<exists>n. expected = Some n \<and> \<not> fits n then Raise value_error
     else Return
       \<lparr>cb_cover = Some \<lparr>cv_domain = domain, cv_root = Some root, cv_edition = None\<rparr>,
        cb_page = Some \<lparr>cp_body = Some (Command_arm (Some
              \<lparr>any_type_url = the url, any_value = the payload\<rparr>)),
            cp_command_id = None, cp_correlation_id = last_given correlation_given settings,
            cp_fact_origin = None\<rparr>,
        cb_handling =
          (if expected = None \<and> resolution = RES_UNSPECIFIED then None
           else Some \<lparr>hd_expected_sequence = map_option nat expected,
                      hd_conflict_resolution = resolution\<rparr>)\<rparr>)"
proof -
  have b: "bd_type_url b = url" "bd_payload b = payload" "bd_expected_sequence b = expected"
    "bd_correlation_id b = last_given correlation_given settings"
    using url_slot.after_settings payload_slot.after_settings expected_slot.after_settings
      correlation_slot.after_settings assms(1-4)
    by (simp_all add: command_builder_def split: option.split)
  have r: "bd_conflict_resolution b = resolution"
    using resolution_slot.after_settings [of settings "command_builder domain root"] assms(1,5)
    by (simp add: command_builder_def split: option.splits)
  have t: "bd_domain b = domain" "bd_root b = root"
    using target_slot.never_written [of settings "command_builder domain root"] assms(1)
    by (simp_all add: command_builder_def)
  show ?thesis
    by (auto simp: build_command_def b r t Let_def set_handling_def book_handling_def
        handling_default_def uuid_to_proto_def command_page_default_def command_book_default_def
        split: option.split)
qed

text \<open>Settings that overwrite one another, the last correlation being no UUID.\<close>

definition chained :: "command_setting list" where
  "chained = [Set_payload [1], Set_type_url ''/p.Old'', Set_expected 7,
     Set_correlation (Uuid_arg counting_uuid),
     Set_command ''/p.Open'' \<lparr>pm_full_name = ''p.Open'', pm_serialized = [2]\<rparr>,
     Set_correlation (Text_arg ''none''), Set_expected 0]"

theorem command_is_its_last_settings_witness:
  "\<exists>book. build_command (\<lambda>n. 0 \<le> n)
       (kept_going set_command chained (command_builder ''orders'' counting_uuid)) = Return book
     \<and> cb_handling book = Some \<lparr>hd_expected_sequence = Some 0, hd_conflict_resolution = RES_UNSPECIFIED\<rparr>
     \<and> cp_correlation_id (book_page book) = Some counting_uuid
     \<and> command_payload (book_page book) = \<lparr>any_type_url = ''/p.Open'', any_value = [2]\<rparr>"
proof -
  have "accepted_uuid (Text_arg ''none'') = None" by code_simp
  moreover have "accepted_uuid (Uuid_arg counting_uuid) = Some counting_uuid"
    by (simp add: accepted_uuid_def as_uuid_def)
  ultimately have g: "last_given url_given chained = Some ''/p.Open''"
    "last_given payload_given chained = Some [2]" "last_given expected_given chained = Some 0"
    "last_given resolution_given chained = None"
    "last_given correlation_given chained = Some counting_uuid"
    by (simp_all add: last_given_def chained_def)
  from command_is_its_last_settings [of "kept_going set_command chained (command_builder ''orders'' counting_uuid)"
      chained "''orders''" counting_uuid "Some ''/p.Open''" "Some [2]" "Some 0" RES_UNSPECIFIED
      "\<lambda>n. 0 \<le> n"] g
  show ?thesis by (simp add: book_page_def command_payload_def)
qed

text \<open>
  C31: a query is made of its last selection, and of one only: whatever chain of settings is made,
  the ranges and the temporal selections share one slot, which the last of them that did not raise
  holds, a malformed timestamp or a number no field holds leaving it as it was; and the root gives
  way to an accepted correlation.
\<close>

theorem query_has_one_selection:
  "build_query (kept_going (set_query fits from_json) settings (query_builder domain root)) =
    (let correlation = last_given query_correlation_given settings in
     \<lparr>qy_cover = Some \<lparr>cv_domain = domain,
        cv_root = (if correlation = None then root else None),
        cv_edition = (case last_given edition_given settings of
           Some e \<Rightarrow> if e = [] then None else Some e | None \<Rightarrow> None)\<rparr>,
      qy_correlation_id = correlation,
      qy_range = (case last_given (selection_given fits from_json) settings of
         Some (By_range r) \<Rightarrow> Some r | _ \<Rightarrow> None),
      qy_temporal = (case last_given (selection_given fits from_json) settings of
         Some (By_time t) \<Rightarrow> Some t | _ \<Rightarrow> None)\<rparr>)"
proof -
  let ?b = "kept_going (set_query fits from_json) settings (query_builder domain root)"
  have sel: "selected ?b = last_given (selection_given fits from_json) settings"
    using selection_slot.after_settings [of fits from_json settings "query_builder domain root"]
    by (simp add: query_builder_def selected_def split: option.splits)
  have slots: "qb_correlation_id ?b = last_given query_correlation_given settings"
    "qb_edition ?b = last_given edition_given settings" "qb_domain ?b = domain"
    using query_correlation_slot.after_settings [of fits from_json settings "query_builder domain root"]
      edition_slot.after_settings [of fits from_json settings "query_builder domain root"]
      query_domain_slot.never_written [of fits from_json settings "query_builder domain root"]
    by (simp_all add: query_builder_def split: option.splits)
  have given: "root_given s = map_option (\<lambda>_. None) (query_correlation_given s)" for s
    by (cases s) simp_all
  have "last_given root_given settings = map_option (\<lambda>_. None) (last_given query_correlation_given settings)"
    unfolding last_given_def
    by (induction settings rule: rev_induct) (auto simp: given split: option.splits)
  then have root: "qb_root ?b = (if last_given query_correlation_given settings = None then root else None)"
    using root_slot.after_settings [of fits from_json settings "query_builder domain root"]
    by (auto simp: query_builder_def split: option.splits)
  show ?thesis
    unfolding build_query_eq Let_def sel slots root by simp
qed

text \<open>
  C28: what a builder sets is what the handler is handed. Of a command built and delivered as it
  is, the handler's context has the target's domain and root, the expected sequence set, or the
  head's when none was, the resolution and the correlation set; the router routes it by the name
  in the type URL given, and hands over the payload given.
\<close>

theorem built_command_reaches_its_handler:
  assumes "build_command fits b = Return book" and "length (bd_root b) = 16"
  shows "cover_domain (cx_cover (book_context book head)) =
      (if bd_domain b = [] then UNKNOWN_DOMAIN else bd_domain b)
    \<and> cover_root_uuid (cx_cover (book_context book head)) = Some (bd_root b)
    \<and> cover_edition (cx_cover (book_context book head)) = None
    \<and> cx_expected_sequence (book_context book head) =
        (case bd_expected_sequence b of None \<Rightarrow> head | Some n \<Rightarrow> nat n)
    \<and> cx_conflict_resolution (book_context book head) = bd_conflict_resolution b
    \<and> cx_correlation_id (book_context book head) = bd_correlation_id b
    \<and> cx_fact_origin (book_context book head) = None
    \<and> (\<exists>url payload. bd_type_url b = Some url \<and> bd_payload b = Some payload
         \<and> command_payload (book_page book) = \<lparr>any_type_url = url, any_value = payload\<rparr>
         \<and> command_type_url (book_page book) = Some url)"
proof -
  from assms(1) obtain url payload where u: "bd_type_url b = Some url" "bd_payload b = Some payload"
    by (auto simp: build_command_def split: option.splits if_splits)
  from assms(1) have "cb_cover book = Some \<lparr>cv_domain = bd_domain b, cv_root = Some (bd_root b), cv_edition = None\<rparr>"
    and "cb_page book = Some (command_page_default\<lparr>cp_body := Some (Command_arm (Some
           \<lparr>any_type_url = url, any_value = payload\<rparr>)), cp_correlation_id := bd_correlation_id b\<rparr>)"
    and "hd_expected_sequence (book_handling book) = map_option nat (bd_expected_sequence b)"
    and "hd_conflict_resolution (book_handling book) = bd_conflict_resolution b"
    using u
    by (auto simp: build_command_def Let_def set_handling_def book_handling_def handling_default_def
        uuid_to_proto_def command_page_default_def command_book_default_def
        split: option.splits if_splits)
  with u assms(2) show ?thesis
    by (auto simp: book_context_def Let_def book_page_def cover_domain_def cover_root_uuid_def
        uuid_of_bytes_def cover_edition_def command_payload_def command_type_url_def
        body_payload_def command_page_default_def split: option.split)
qed

theorem built_command_reaches_its_handler_witness:
  "\<exists>book. build_command (\<lambda>n. 0 \<le> n) (with_payload [2] (with_type_url ''/p.Open''
       (command_builder ''orders'' counting_uuid))) = Return book
     \<and> cx_expected_sequence (book_context book 9) = 9
     \<and> cover_root_uuid (cx_cover (book_context book 9)) = Some counting_uuid"
proof -
  let ?b = "with_payload [2] (with_type_url ''/p.Open'' (command_builder ''orders'' counting_uuid))"
  have b: "bd_root ?b = counting_uuid" "bd_expected_sequence ?b = None"
    by (simp_all add: with_payload_def with_type_url_def command_builder_def)
  obtain book where book: "build_command (\<lambda>n. 0 \<le> n) ?b = Return book"
    by (simp add: build_command_def Let_def with_payload_def with_type_url_def command_builder_def)
  have "length (bd_root ?b) = 16" unfolding b by (simp add: counting_uuid_def)
  from built_command_reaches_its_handler [OF book this, of 9] book b show ?thesis by auto
qed

end
