(* ===== verification/Builder_Types.thy ===== *)
theory Builder_Types
  imports Builder
begin

text \<open>
  What the builders make is well typed on the wire (\<open>angzarr_client/builder.py\<close>): a type of each
  builder's state that every setter keeps, and the type of the message built of such a state.
\<close>

subsection \<open>The contract of a typed builder\<close>

text \<open>
  A type of a builder's state that every setting of a given type keeps, when it does not raise:
  so whatever chain of typed settings is made, the state has the type.
\<close>

locale typed_builder =
  fixes set_one :: "'s \<Rightarrow> 'b \<Rightarrow> 'e + 'b"
    and setting_typed :: "'s \<Rightarrow> bool"
    and typed :: "'b \<Rightarrow> bool"
  assumes kept: "typed b \<Longrightarrow> setting_typed s \<Longrightarrow> set_one s b = Inr b' \<Longrightarrow> typed b'"
begin

lemma chain_typed: "typed b \<Longrightarrow> list_all setting_typed settings \<Longrightarrow> typed (kept_going set_one settings b)"
  unfolding kept_going_def
  by (induction settings arbitrary: b) (auto split: sum.split intro: kept)

end

subsection \<open>The types\<close>

text \<open>A UUID object has its 16 bytes; every other argument is of the type it is.\<close>

definition uuid_typed :: "uuid option \<Rightarrow> bool" where
  "uuid_typed u \<longleftrightarrow> (case u of None \<Rightarrow> True | Some b \<Rightarrow> length b = 16)"

definition arg_typed :: "uuid_arg \<Rightarrow> bool" where
  "arg_typed v \<longleftrightarrow> (case v of Uuid_arg u \<Rightarrow> length u = 16 | _ \<Rightarrow> True)"

fun command_setting_typed :: "command_setting \<Rightarrow> bool" where
  "command_setting_typed (Set_correlation v) = arg_typed v"
| "command_setting_typed _ = True"

fun query_setting_typed :: "query_setting \<Rightarrow> bool" where
  "query_setting_typed (By_correlation v) = arg_typed v"
| "query_setting_typed _ = True"

definition command_builder_typed :: "command_builder \<Rightarrow> bool" where
  "command_builder_typed b \<longleftrightarrow> length (bd_root b) = 16 \<and> uuid_typed (bd_correlation_id b)"

definition range_typed :: "(int \<Rightarrow> bool) \<Rightarrow> sequence_range \<Rightarrow> bool" where
  "range_typed fits r \<longleftrightarrow> fits (int (sr_lower r))
     \<and> (case sr_upper r of None \<Rightarrow> True | Some u \<Rightarrow> fits (int u))"

definition temporal_typed :: "(int \<Rightarrow> bool) \<Rightarrow> temporal_query \<Rightarrow> bool" where
  "temporal_typed fits t \<longleftrightarrow> (case t of As_of_sequence n \<Rightarrow> fits (int n) | As_of_time _ \<Rightarrow> True)"

definition query_builder_typed :: "(int \<Rightarrow> bool) \<Rightarrow> query_builder \<Rightarrow> bool" where
  "query_builder_typed fits b \<longleftrightarrow> uuid_typed (qb_root b) \<and> uuid_typed (qb_correlation_id b)
     \<and> (case qb_range b of None \<Rightarrow> True | Some r \<Rightarrow> range_typed fits r \<and> qb_temporal b = None)
     \<and> (case qb_temporal b of None \<Rightarrow> True | Some t \<Rightarrow> temporal_typed fits t)"

definition command_typed :: "(int \<Rightarrow> bool) \<Rightarrow> command_book \<Rightarrow> bool" where
  "command_typed fits book \<longleftrightarrow>
     (\<exists>cover page url payload. cb_cover book = Some cover \<and> cb_page book = Some page
        \<and> cv_root cover \<noteq> None \<and> uuid_typed (cv_root cover)
        \<and> cp_body page = Some (Command_arm (Some \<lparr>any_type_url = url, any_value = payload\<rparr>)) \<and> url \<noteq> []
        \<and> uuid_typed (cp_correlation_id page))
   \<and> (case hd_expected_sequence (book_handling book) of None \<Rightarrow> True | Some n \<Rightarrow> fits (int n))"

definition query_typed :: "(int \<Rightarrow> bool) \<Rightarrow> query_msg \<Rightarrow> bool" where
  "query_typed fits q \<longleftrightarrow>
     (\<exists>cover. qy_cover q = Some cover \<and> uuid_typed (cv_root cover) \<and> cv_edition cover \<noteq> Some [])
   \<and> uuid_typed (qy_correlation_id q) \<and> (qy_range q = None \<or> qy_temporal q = None)
   \<and> (case qy_range q of None \<Rightarrow> True | Some r \<Rightarrow> range_typed fits r)
   \<and> (case qy_temporal q of None \<Rightarrow> True | Some t \<Rightarrow> temporal_typed fits t)"

subsection \<open>Every setter keeps its builder's type\<close>

lemma as_uuid_typed: "arg_typed v \<Longrightarrow> as_uuid v field = Return u \<Longrightarrow> length u = 16"
  using uuid_of_text_length
  by (auto simp: as_uuid_def arg_typed_def split: uuid_arg.splits sum.splits)

interpretation typed_commands: typed_builder set_command command_setting_typed command_builder_typed
proof
  fix b b' s
  assume "command_builder_typed b" "command_setting_typed s" "set_command s b = Inr b'"
  then show "command_builder_typed b'"
    by (cases s) (auto simp: command_setters command_builder_typed_def uuid_typed_def
      bindR_eq_Inr_iff dest: as_uuid_typed)
qed

text \<open>An unsigned field holds no negative number.\<close>

definition unsigned :: "(int \<Rightarrow> bool) \<Rightarrow> bool" where
  "unsigned fits \<longleftrightarrow> (\<forall>n. fits n \<longrightarrow> 0 \<le> n)"

lemma unsigned_nat: "unsigned fits \<Longrightarrow> fits n \<Longrightarrow> fits (int (nat n))"
  by (simp add: unsigned_def)

lemma query_setter_typed:
  assumes "unsigned fits" and "query_builder_typed fits b" and "query_setting_typed s"
    and "set_query fits from_json s b = Inr b'"
  shows "query_builder_typed fits b'"
proof (cases s)
  case (By_correlation v)
  with assms(3,4) obtain u where "length u = 16" "b' = b\<lparr>qb_correlation_id := Some u, qb_root := None\<rparr>"
    by (auto simp: by_correlation_id_def bindR_eq_Inr_iff dest: as_uuid_typed)
  with assms(2) show ?thesis
    by (auto simp: query_builder_typed_def uuid_typed_def split: option.splits)
next
  case (Edition e)
  with assms(2,4) show ?thesis by (auto simp: query_builder_typed_def edition_def split: option.splits)
next
  case (Range_from l)
  with assms(4) have "fits l" "b' = b\<lparr>qb_range := Some \<lparr>sr_lower = nat l, sr_upper = None\<rparr>, qb_temporal := None\<rparr>"
    by (simp_all add: range_from_def split: if_splits)
  with assms(2) unsigned_nat [OF assms(1)] show ?thesis
    by (simp add: query_builder_typed_def range_typed_def)
next
  case (Range_to l u)
  with assms(4) have "fits l \<and> fits u"
    "b' = b\<lparr>qb_range := Some \<lparr>sr_lower = nat l, sr_upper = Some (nat u)\<rparr>, qb_temporal := None\<rparr>"
    by (simp_all add: range_to_def split: if_splits)
  with assms(2) unsigned_nat [OF assms(1)] show ?thesis
    by (simp add: query_builder_typed_def range_typed_def)
next
  case (Of_sequence n)
  with assms(4) have "fits n" "b' = b\<lparr>qb_temporal := Some (As_of_sequence (nat n)), qb_range := None\<rparr>"
    by (simp_all add: as_of_sequence_def split: if_splits)
  with assms(2) unsigned_nat [OF assms(1)] show ?thesis
    by (simp add: query_builder_typed_def temporal_typed_def)
next
  case (Of_time t)
  with assms(4) obtain ts where "b' = b\<lparr>qb_temporal := Some (As_of_time ts), qb_range := None\<rparr>"
    by (auto simp: as_of_time_def bindR_eq_Inr_iff)
  with assms(2) show ?thesis by (simp add: query_builder_typed_def temporal_typed_def)
qed

interpretation typed_queries:
  typed_builder "set_query fits from_json" query_setting_typed
    "\<lambda>b. unsigned fits \<longrightarrow> query_builder_typed fits b"
  by unfold_locales (blast intro: query_setter_typed)

subsection \<open>Properties\<close>

text \<open>
  C30: what the builders make is of its wire type. Whatever chain of settings is made, a command
  built names a type and carries a 16-byte root, a correlation of 16 bytes or none, and a sequence
  its field holds; a query built has at most one selection, every number of it held by its field,
  no empty edition, and UUIDs of 16 bytes; and a command is not built for two reasons of the
  caller's, a missing type or payload, and one of the field's, a number out of its range.
\<close>

theorem built_messages_are_typed:
  assumes "unsigned fits" and "length root = 16" and "uuid_typed query_root"
    and "list_all command_setting_typed settings" and "list_all query_setting_typed query_settings"
  shows "(case build_command fits (kept_going set_command settings (command_builder domain root)) of
        Inr book \<Rightarrow> command_typed fits book
      | Inl e \<Rightarrow> e \<in> {Client_exn (client_error Invalid_argument_error COMMAND_TYPE_URL_MISSING []),
          Client_exn (client_error Invalid_argument_error COMMAND_PAYLOAD_MISSING []), value_error})
    \<and> query_typed fits (build_query
        (kept_going (set_query fits from_json) query_settings (query_builder domain query_root)))"
proof
  let ?b = "kept_going set_command settings (command_builder domain root)"
  have b: "length (bd_root ?b) = 16" "uuid_typed (bd_correlation_id ?b)"
    using typed_commands.chain_typed [OF _ assms(4), of "command_builder domain root"] assms(2)
    by (simp_all add: command_builder_typed_def command_builder_def uuid_typed_def)
  show "case build_command fits ?b of
        Inr book \<Rightarrow> command_typed fits book
      | Inl e \<Rightarrow> e \<in> {Client_exn (client_error Invalid_argument_error COMMAND_TYPE_URL_MISSING []),
          Client_exn (client_error Invalid_argument_error COMMAND_PAYLOAD_MISSING []), value_error}"
    using b unsigned_nat [OF assms(1)]
    by (auto simp: build_command_def Let_def command_typed_def uuid_typed_def uuid_to_proto_def
        set_handling_def book_handling_def handling_default_def command_page_default_def
        command_book_default_def split: option.splits)
  let ?q = "kept_going (set_query fits from_json) query_settings (query_builder domain query_root)"
  have "query_builder_typed fits ?q"
    using typed_queries.chain_typed [OF _ assms(5), of fits "query_builder domain query_root" from_json] assms(1,3)
    by (simp add: query_builder_typed_def query_builder_def uuid_typed_def)
  then show "query_typed fits (build_query ?q)"
    by (auto simp: query_builder_typed_def query_typed_def build_query_def Let_def uuid_typed_def
        uuid_to_proto_def query_default_def split: option.splits)
qed

theorem built_messages_are_typed_witness:
  "\<exists>book. build_command (\<lambda>n. 0 \<le> n \<and> n < 2 ^ 32) (kept_going set_command
       [Set_type_url ''/p.Open'', Set_expected 7, Set_payload [1]] (command_builder ''orders'' counting_uuid))
         = Return book
     \<and> command_typed (\<lambda>n. 0 \<le> n \<and> n < 2 ^ 32) book
     \<and> query_typed (\<lambda>n. 0 \<le> n \<and> n < 2 ^ 32) (build_query (kept_going
         (set_query (\<lambda>n. 0 \<le> n \<and> n < 2 ^ 32) (\<lambda>_. Inl [])) [Of_sequence (-1), Range_to 2 9]
         (query_builder ''orders'' None)))"
proof -
  let ?f = "\<lambda>n :: int. 0 \<le> n \<and> n < 2 ^ 32"
  let ?b = "kept_going set_command [Set_type_url ''/p.Open'', Set_expected 7, Set_payload [1]]
      (command_builder ''orders'' counting_uuid)"
  have typed: "unsigned ?f" "length counting_uuid = 16" "uuid_typed None"
    by (simp_all add: unsigned_def counting_uuid_def uuid_typed_def)
  have "list_all command_setting_typed [Set_type_url ''/p.Open'', Set_expected 7, Set_payload [1]]"
    "list_all query_setting_typed [Of_sequence (-1), Range_to 2 9]" by simp_all
  note typed_messages = built_messages_are_typed [OF typed this]
  obtain book where "build_command ?f ?b = Return book"
    by (simp add: build_command_def kept_going_def with_type_url_def with_payload_def
        with_expected_sequence_def command_builder_def Let_def)
  with typed_messages [of "''orders''" "\<lambda>_. Inl []"] show ?thesis by auto
qed

end
