(* ===== verification/Fixup.thy ===== *)
theory Fixup
  imports Router_Errors
begin

text \<open>
  \<open>scripts/fixup_gen_imports.py\<close>: the build's rewriting of the imports the protobuf plugins
  generate, and what it does to a file. The regular expression of \<open>fixup\<close> is the scanner
  \<open>reroot\<close>, position by position as \<open>re.sub\<close> finds its matches; the directory is a map of the
  files' texts by their paths, whatever those are, with the sorted listing of each glob.
\<close>

subsection \<open>The pattern\<close>

text \<open>
  \<open>sorted(mapping, key=len, reverse=True)\<close>, which keeps keys of one length in order; the
  alternatives of no prefix at all are the empty text.
\<close>

definition prefixes :: "(string, string) dict \<Rightarrow> string list" where
  "prefixes mapping = sort_key (\<lambda>k. - int (length k)) (keys mapping)"

definition alternatives :: "(string, string) dict \<Rightarrow> string list" where
  "alternatives mapping = (if prefixes mapping = [] then [[]] else prefixes mapping)"

definition import_word :: "string \<Rightarrow> (string \<times> string) option" where
  "import_word s =
     (if startswith ''from '' s then Some (''from '', drop 5 s)
      else if startswith ''import '' s then Some (''import '', drop 7 s) else None)"

text \<open>A prefix and the lookahead: the module ends there, or goes on with a dot.\<close>

definition module_at :: "string \<Rightarrow> string \<Rightarrow> bool" where
  "module_at s p \<longleftrightarrow> startswith p s \<and>
     (case drop (length p) s of [] \<Rightarrow> False | c # _ \<Rightarrow> c = CHR ''.'' \<or> isspace c)"

text \<open>
  A match at the start of a line: its indentation and keyword, the prefix, the text after it. No
  keyword begins with a space, so the greedy indentation never gives anything back.
\<close>

definition match_import :: "string list \<Rightarrow> string \<Rightarrow> (string \<times> string \<times> string) option" where
  "match_import ps s =
     (case import_word (dropWhile isspace s) of
        None \<Rightarrow> None
      | Some (word, rest) \<Rightarrow>
          (case find (module_at rest) ps of
             None \<Rightarrow> None
           | Some p \<Rightarrow> Some (takeWhile isspace s @ word, p, drop (length p) rest)))"

definition keyword :: "string \<Rightarrow> bool" where
  "keyword w \<longleftrightarrow> w = ''from '' \<or> w = ''import ''"

lemma keyword_head: "keyword w \<Longrightarrow> \<exists>c u. w = c # u \<and> \<not> isspace c"
  unfolding keyword_def by (elim disjE) (simp_all add: isspace_def)

lemma keyword_Nil [simp]: "\<not> keyword []"
  by (simp add: keyword_def)

lemma keyword_line: "keyword w \<Longrightarrow> CHR 10 \<notin> set w"
  unfolding keyword_def by (elim disjE) simp_all

lemma import_word_Some:
  "import_word s = Some (w, r) \<longleftrightarrow> keyword w \<and> s = w @ r"
proof
  assume l: "import_word s = Some (w, r)"
  show "keyword w \<and> s = w @ r"
  proof (cases "startswith ''from '' s")
    case True
    then obtain t where "s = ''from '' @ t" by (auto simp only: startswith_iff)
    with l show ?thesis by (simp add: import_word_def keyword_def startswith_Cons)
  next
    case False
    with l have "startswith ''import '' s" by (simp add: import_word_def split: if_splits)
    then obtain t where "s = ''import '' @ t" by (auto simp only: startswith_iff)
    with l show ?thesis by (simp add: import_word_def keyword_def startswith_Cons)
  qed
next
  assume r: "keyword w \<and> s = w @ r"
  then show "import_word s = Some (w, r)"
  proof (cases "w = ''from ''")
    case False
    with r have "w = ''import ''" by (simp add: keyword_def)
    with r show ?thesis by (simp add: import_word_def startswith_Cons)
  qed (simp add: import_word_def startswith_Cons)
qed

lemma match_import_Some:
  "match_import ps s = Some (h, p, r) \<longleftrightarrow>
     (\<exists>ws w. h = ws @ w \<and> (\<forall>c \<in> set ws. isspace c) \<and> keyword w
       \<and> s = ws @ w @ p @ r \<and> find (module_at (p @ r)) ps = Some p)" (is "?l \<longleftrightarrow> ?r")
proof
  assume ?l
  then obtain w t where w: "import_word (dropWhile isspace s) = Some (w, t)"
    and p: "find (module_at t) ps = Some p" and h: "h = takeWhile isspace s @ w" "r = drop (length p) t"
    by (auto simp: match_import_def split: option.splits)
  from p have "startswith p t" by (auto simp: find_Some_iff module_at_def)
  then have t: "t = p @ r" by (auto simp: startswith_iff h(2))
  define ws where "ws = takeWhile isspace s"
  have "s = ws @ w @ p @ r" "keyword w"
    using w t unfolding ws_def by (metis import_word_Some takeWhile_dropWhile_id)+
  moreover have "\<forall>c \<in> set ws. isspace c" by (auto simp: ws_def dest: set_takeWhileD)
  moreover have "h = ws @ w" by (simp add: h(1) ws_def)
  moreover have "find (module_at (p @ r)) ps = Some p" using p by (simp only: t)
  ultimately show ?r by blast
next
  assume ?r
  then obtain ws w where e: "h = ws @ w" "\<forall>c \<in> set ws. isspace c" "keyword w"
    "s = ws @ w @ p @ r" "find (module_at (p @ r)) ps = Some p" by blast
  from keyword_head [OF e(3)] have "takeWhile isspace s = ws" "dropWhile isspace s = w @ p @ r"
    using e(2) by (auto simp: e(4))
  moreover have "import_word (w @ p @ r) = Some (w, p @ r)" using e(3) by (auto simp: import_word_Some)
  ultimately show ?l using e(1,5) by (simp add: match_import_def)
qed

function reroot :: "(string, string) dict \<Rightarrow> bool \<Rightarrow> string \<Rightarrow> exn + string" where
  "reroot mapping bol s =
     (case (if bol then match_import (alternatives mapping) s else None) of
        Some (head, p, rest) \<Rightarrow>
          (case map_of mapping p of
             None \<Rightarrow> Raise (Other_exc ''KeyError'')
           | Some target \<Rightarrow>
               bindR (reroot mapping (last (head @ p) = CHR 10) rest) (\<lambda>done_rest.
                 Return (head @ target @ done_rest)))
      | None \<Rightarrow>
          (case s of
             [] \<Rightarrow> Return []
           | c # cs \<Rightarrow> bindR (reroot mapping (c = CHR 10) cs) (\<lambda>done_rest. Return (c # done_rest))))"
  by pat_completeness auto

termination
proof (relation "measure (\<lambda>(_, _, s). length s)")
  show "wf (measure (\<lambda>(_ :: (string, string) dict, _ :: bool, s :: string). length s))" by simp
qed (auto split: if_splits simp: match_import_Some)

declare reroot.simps [simp del]

subsection \<open>The files\<close>

text \<open>\<open>read_text\<close> reads any line ending as a newline.\<close>

fun universal_newlines :: "string \<Rightarrow> string" where
  "universal_newlines [] = []"
| "universal_newlines [c] = [if c = CHR 13 then CHR 10 else c]"
| "universal_newlines (c # d # cs) =
     (if c = CHR 13 \<and> d = CHR 10 then CHR 10 # universal_newlines cs
      else (if c = CHR 13 then CHR 10 else c) # universal_newlines (d # cs))"

definition GLOBS :: "string list" where
  "GLOBS = [''*_pb2.py'', ''*_pb2.pyi'', ''*_pb2_grpc.py'']"

record 'p gen_tree =
  gt_listing :: "string \<Rightarrow> 'p list"
  gt_texts :: "'p \<rightharpoonup> string"

fun fixup_files ::
  "(string, string) dict \<Rightarrow> 'p list \<Rightarrow> nat \<Rightarrow> 'p gen_tree \<Rightarrow> (exn + nat) \<times> 'p gen_tree" where
  "fixup_files mapping [] rewritten t = (Return rewritten, t)"
| "fixup_files mapping (path # paths) rewritten t =
     (case gt_texts t path of
        None \<Rightarrow> (Raise (Other_exc ''FileNotFoundError''), t)
      | Some raw \<Rightarrow>
          (let content = universal_newlines raw in
           case reroot mapping True content of
             Inl e \<Rightarrow> (Raise e, t)
           | Inr new \<Rightarrow>
               if new \<noteq> content
               then fixup_files mapping paths (rewritten + 1) (t\<lparr>gt_texts := (gt_texts t)(path \<mapsto> new)\<rparr>)
               else fixup_files mapping paths rewritten t))"

definition fixup :: "'p gen_tree \<Rightarrow> (string, string) dict \<Rightarrow> (exn + nat) \<times> 'p gen_tree" where
  "fixup t mapping = fixup_files mapping (concat (map (gt_listing t) GLOBS)) 0 t"

text \<open>
  \<open>main\<close>: the exit status, the directory being as \<open>is_dir\<close> says of the argument. The arguments
  are the mappings of \<open>argv[2:]\<close>, split at their first equals sign.
\<close>

definition mapping_of :: "string list \<Rightarrow> (string, string) dict" where
  "mapping_of args = fold (\<lambda>a m. case partition CHR ''='' a of (k, _, v) \<Rightarrow> dict_set k v m) args []"

definition fixup_main ::
  "(string \<Rightarrow> 'p gen_tree option) \<Rightarrow> string list \<Rightarrow> (exn + nat) \<times> 'p gen_tree option" where
  "fixup_main is_dir argv =
     (if length argv < 3 \<or> \<not> list_all (\<lambda>a. CHR ''='' \<in> set a) (drop 2 argv) then (Return 2, None)
      else
        (case is_dir (argv ! 1) of
           None \<Rightarrow> (Return 1, None)
         | Some t \<Rightarrow>
             (case fixup t (mapping_of (drop 2 argv)) of
                (Inl e, t') \<Rightarrow> (Raise e, Some t')
              | (Inr _, t') \<Rightarrow> (Return 0, Some t'))))"

subsection \<open>The rewriting line by line\<close>

fun chunks :: "string \<Rightarrow> string list" where
  "chunks [] = []"
| "chunks (c # cs) =
     (if c = CHR 10 then [c] # chunks cs
      else (case chunks cs of [] \<Rightarrow> [[c]] | l # ls \<Rightarrow> (c # l) # ls))"

definition reroot_line :: "(string, string) dict \<Rightarrow> string \<Rightarrow> string" where
  "reroot_line mapping l =
     (case match_import (alternatives mapping) l of
        None \<Rightarrow> l
      | Some (head, p, rest) \<Rightarrow> head @ the (map_of mapping p) @ rest)"

text \<open>A mapping of module names: at least one, and none empty or holding a space.\<close>

definition plain_mapping :: "(string, string) dict \<Rightarrow> bool" where
  "plain_mapping mapping \<longleftrightarrow> mapping \<noteq> [] \<and>
     list_all (\<lambda>k. k \<noteq> [] \<and> list_all (\<lambda>c. \<not> isspace c) k) (keys mapping)"

lemma plain_alternatives:
  assumes "plain_mapping m" and "p \<in> set (alternatives m)"
  shows "p \<in> set (keys m)" "p \<noteq> []" "CHR 10 \<notin> set p" "\<exists>t. map_of m p = Some t"
proof -
  have "prefixes m = [] \<longleftrightarrow> m = []"
    by (metis prefixes_def length_0_conv length_map length_sort)
  moreover have "isspace (CHR 10)" by (simp add: isspace_def)
  moreover from calculation show p: "p \<in> set (keys m)"
    using assms by (auto simp: alternatives_def plain_mapping_def prefixes_def split: if_splits)
  ultimately show "p \<noteq> []" "CHR 10 \<notin> set p"
    using assms(1) by (auto simp: plain_mapping_def list_all_iff)
  show "\<exists>t. map_of m p = Some t"
    using p by (metis domD dom_map_of_conv_image_fst image_set)
qed

lemma match_import_Nil [simp]: "match_import ps [] = None"
  by (simp add: match_import_def import_word_def startswith_def)

lemma match_import_space:
  "isspace c \<Longrightarrow> match_import ps (c # cs) =
     map_option (\<lambda>(h, p, r). (c # h, p, r)) (match_import ps cs)"
  by (simp add: match_import_def split: option.split)

lemma match_head: "match_import ps s = Some (h, p, r) \<Longrightarrow> h \<noteq> []"
  by (auto simp: match_import_Some)

lemma reroot_unmatched:
  "match_import (alternatives m) s = None \<Longrightarrow> reroot m bol s = reroot m False s"
  by (subst (1 2) reroot.simps) simp

lemma reroot_space:
  assumes "isspace c"
  shows "reroot m True (c # cs) = bindR (reroot m True cs) (\<lambda>r. Return (c # r))"
proof (cases "match_import (alternatives m) cs")
  case None
  then have "reroot m (c = CHR 10) cs = reroot m True cs" by (metis reroot_unmatched)
  with None assms show ?thesis
    by (subst reroot.simps) (simp add: match_import_space)
next
  case (Some x)
  then obtain h p r where x: "match_import (alternatives m) cs = Some (h, p, r)" by (cases x) auto
  then have "last (c # h @ p) = last (h @ p)" using match_head by fastforce
  with x assms show ?thesis
    by (subst (1 2) reroot.simps) (simp add: match_import_space bindR_assoc split: option.split)
qed

lemma reroot_False:
  "reroot m False (c # cs) = bindR (reroot m (c = CHR 10) cs) (\<lambda>r. Return (c # r))"
  "reroot m bol [] = Return []"
  by (subst reroot.simps, simp)+

lemma reroot_copies:
  "CHR 10 \<notin> set u \<Longrightarrow> reroot m False (u @ CHR 10 # v) = bindR (reroot m True v) (\<lambda>r. Return (u @ CHR 10 # r))"
  "CHR 10 \<notin> set u \<Longrightarrow> reroot m False u = Return u"
  by (induction u) (auto simp: reroot_False bindR_assoc)

lemma startswith_before:
  "c \<notin> set w \<Longrightarrow> startswith w (x @ c # v) \<longleftrightarrow> startswith w x"
proof (induction w arbitrary: x)
  case (Cons a w)
  then show ?case by (cases x) (auto simp: startswith_Cons)
qed simp

lemma module_at_before:
  "CHR 10 \<notin> set p \<Longrightarrow> module_at (x @ CHR 10 # v) p \<longleftrightarrow> module_at (x @ [CHR 10]) p"
proof -
  assume n: "CHR 10 \<notin> set p"
  show ?thesis
  proof (cases "startswith p x")
    case True
    then obtain t where "x = p @ t" by (auto simp: startswith_iff)
    then show ?thesis by (cases t) (simp_all add: module_at_def)
  qed (simp add: module_at_def startswith_before [OF n])
qed

lemma match_in_line:
  assumes "\<And>p. p \<in> set ps \<Longrightarrow> CHR 10 \<notin> set p" and "x = c # u" "\<not> isspace c"
  shows "match_import ps (x @ CHR 10 # v) =
    map_option (\<lambda>(h, p, r). (h, p, r @ v)) (match_import ps (x @ [CHR 10]))"
proof -
  have word: "import_word (x @ CHR 10 # v) = map_option (\<lambda>(w, r). (w, r @ CHR 10 # v)) (import_word x)" for v
  proof -
    have words: "startswith ''from '' (x @ CHR 10 # v) \<longleftrightarrow> startswith ''from '' x"
      "startswith ''import '' (x @ CHR 10 # v) \<longleftrightarrow> startswith ''import '' x"
      by (rule startswith_before; simp)+
    have len: "length p \<le> length x" if "startswith p x" for p
      using that by (auto simp: startswith_iff)
    have "startswith ''from '' x \<Longrightarrow> 5 - length x = 0" "startswith ''import '' x \<Longrightarrow> 7 - length x = 0"
      using len [of "''from ''"] len [of "''import ''"] by auto
    then show ?thesis unfolding import_word_def words by simp
  qed
  have "find (module_at (y @ CHR 10 # v)) ps = find (module_at (y @ [CHR 10])) ps" for y
    by (rule find_cong [OF refl]) (rule module_at_before [OF assms(1)])
  moreover have "drop (length p) (y @ CHR 10 # v) = drop (length p) (y @ [CHR 10]) @ v"
    if "find (module_at (y @ [CHR 10])) ps = Some p" for y p
  proof -
    from that have "p \<in> set ps" "module_at (y @ [CHR 10]) p" by (auto simp: find_Some_iff)
    then have "startswith p y" using assms(1) by (simp add: module_at_def startswith_before)
    then show ?thesis by (auto simp: startswith_iff)
  qed
  moreover have "takeWhile isspace (x @ z) = []" "dropWhile isspace (x @ z) = x @ z" for z
    using assms(2,3) by simp_all
  ultimately show ?thesis
    by (cases "import_word x") (auto simp: match_import_def word [of v] word [of "[]"] split: option.split)
qed

lemma chunks_line: "CHR 10 \<notin> set u \<Longrightarrow> chunks (u @ CHR 10 # v) = (u @ [CHR 10]) # chunks v"
  by (induction u) auto

lemma chunks_last: "CHR 10 \<notin> set u \<Longrightarrow> u \<noteq> [] \<Longrightarrow> chunks u = [u]"
proof (induction u)
  case (Cons a u)
  then show ?case by (cases "u = []") auto
qed simp

text \<open>What is rewritten, as a whole.\<close>

definition rerooted :: "(string, string) dict \<Rightarrow> string \<Rightarrow> string" where
  "rerooted m s = concat (map (reroot_line m) (chunks s))"

lemma reroot_line_space: "isspace c \<Longrightarrow> reroot_line m (c # l) = c # reroot_line m l"
  by (auto simp: reroot_line_def match_import_space split: option.split)

lemma rerooted_space: "isspace c \<Longrightarrow> rerooted m (c # cs) = c # rerooted m cs"
proof -
  assume c: "isspace c"
  have "reroot_line m [] = []" by (simp add: reroot_line_def)
  then show ?thesis
    using reroot_line_space [OF c] by (auto simp: rerooted_def split: list.split)
qed

lemma rerooted_simps:
  "rerooted m [] = []"
  "CHR 10 \<notin> set u \<Longrightarrow> rerooted m (u @ CHR 10 # v) = reroot_line m (u @ [CHR 10]) @ rerooted m v"
  "CHR 10 \<notin> set u \<Longrightarrow> u \<noteq> [] \<Longrightarrow> rerooted m u = reroot_line m u"
  by (simp_all add: rerooted_def chunks_line chunks_last)

lemma line_cases:
  obtains (empty) "s = []" | (line) u v where "s = u @ CHR 10 # v" "CHR 10 \<notin> set u"
  | (last) "s \<noteq> []" "CHR 10 \<notin> set s"
  by (metis split_list_first)

lemma reroot_matched:
  assumes "plain_mapping m" and "match_import (alternatives m) s = Some (h, p, r)"
    and "CHR 10 \<notin> set h"
  shows "reroot m True s = bindR (reroot m False r) (\<lambda>d. Return (h @ the (map_of m p) @ d))"
proof -
  have p: "p \<in> set (alternatives m)"
    using assms(2) by (auto simp: match_import_Some find_Some_iff)
  obtain t where "map_of m p = Some t" using plain_alternatives(4) [OF assms(1) p] by blast
  moreover have "CHR 10 \<notin> set (h @ p)" "h @ p \<noteq> []"
    using assms(3) plain_alternatives(2,3) [OF assms(1) p] by simp_all
  then have "last (h @ p) \<noteq> CHR 10" by (metis last_in_set)
  ultimately show ?thesis by (subst reroot.simps) (simp add: assms(2))
qed

lemma reroot_unindented:
  assumes "plain_mapping m" and u: "CHR 10 \<notin> set u" "u = c # cs" "\<not> isspace c"
    and v: "reroot m True v = Return (rerooted m v)"
  shows "reroot m True (u @ CHR 10 # v) = Return (rerooted m (u @ CHR 10 # v))"
proof -
  have nl: "\<And>p. p \<in> set (alternatives m) \<Longrightarrow> CHR 10 \<notin> set p"
    using plain_alternatives(3) [OF assms(1)] .
  note match = match_in_line [OF nl u(2,3), where v = v]
  show ?thesis
  proof (cases "match_import (alternatives m) (u @ [CHR 10])")
    case None
    with match have "match_import (alternatives m) (u @ CHR 10 # v) = None" by simp
    then have "reroot m True (u @ CHR 10 # v) = reroot m False (u @ CHR 10 # v)" by (rule reroot_unmatched)
    with None u(1) v show ?thesis by (simp add: reroot_copies rerooted_simps reroot_line_def)
  next
    case (Some x)
    then obtain h p r where x: "match_import (alternatives m) (u @ [CHR 10]) = Some (h, p, r)"
      by (cases x) auto
    then have e: "u @ [CHR 10] = h @ p @ r" "r \<noteq> []"
      by (auto simp: match_import_Some find_Some_iff module_at_def)
    obtain r' z where "r = r' @ [z]" using e(2) by (metis rev_exhaust)
    with e(1) have r: "r = r' @ [CHR 10]" "u = h @ p @ r'" by simp_all
    then have n: "CHR 10 \<notin> set h" "CHR 10 \<notin> set r'" using u(1) by auto
    have "reroot m True (u @ CHR 10 # v) =
        bindR (reroot m False (r' @ CHR 10 # v)) (\<lambda>d. Return (h @ the (map_of m p) @ d))"
      using match x by (intro reroot_matched [OF assms(1) _ n(1)]) (simp add: r(1))
    with v n u(1) show ?thesis by (simp add: reroot_copies rerooted_simps reroot_line_def x r(1))
  qed
qed

lemma reroot_last:
  assumes "plain_mapping m" and s: "CHR 10 \<notin> set s" "s \<noteq> []"
  shows "reroot m True s = Return (rerooted m s)"
proof (cases "match_import (alternatives m) s")
  case None
  then have "reroot m True s = reroot m False s" by (rule reroot_unmatched)
  then have "reroot m True s = Return s" using s by (simp add: reroot_copies)
  with None s show ?thesis by (simp add: rerooted_simps reroot_line_def)
next
  case (Some x)
  then obtain h p r where x: "match_import (alternatives m) s = Some (h, p, r)" by (cases x) auto
  then have "s = h @ p @ r" by (auto simp: match_import_Some)
  with s have "CHR 10 \<notin> set h" "CHR 10 \<notin> set r" by auto
  with reroot_matched [OF assms(1) x] s x show ?thesis
    by (simp add: reroot_copies rerooted_simps reroot_line_def)
qed

lemma reroot_rerooted:
  assumes "plain_mapping m"
  shows "reroot m True s = Return (rerooted m s)"
proof (induction s rule: length_induct)
  case (1 s)
  have indented: "reroot m True (c # cs) = Return (rerooted m (c # cs))" if "s = c # cs" "isspace c" for c cs
    using that 1 by (simp add: reroot_space rerooted_space)
  show ?case
  proof (cases rule: line_cases [of s])
    case empty
    then show ?thesis by (simp add: reroot_False rerooted_simps)
  next
    case (line u v)
    then have v: "reroot m True v = Return (rerooted m v)" using 1 by simp
    show ?thesis
    proof (cases "u = [] \<or> isspace (hd u)")
      case True
      have "isspace (CHR 10)" by (simp add: isspace_def)
      with True line(1) have "\<exists>c cs. s = c # cs \<and> isspace c" by (cases u) auto
      with indented show ?thesis by blast
    next
      case False
      then obtain c cs where "u = c # cs" "\<not> isspace c" by (cases u) auto
      from reroot_unindented [OF assms line(2) this v] line(1) show ?thesis by simp
    qed
  next
    case last
    then show ?thesis using reroot_last [OF assms] by simp
  qed
qed

subsection \<open>Running it again\<close>

text \<open>
  A mapping whose targets hold no line ending and name no mapped module, as the framework's
  targets, in the package \<open>angzarr_client\<close>, do.
\<close>

definition settled_mapping :: "(string, string) dict \<Rightarrow> bool" where
  "settled_mapping mapping \<longleftrightarrow>
     list_all (\<lambda>t. CHR 10 \<notin> set t \<and> CHR 13 \<notin> set t
       \<and> list_all (\<lambda>k. \<not> startswith k t \<and> \<not> startswith t k) (keys mapping)) (map snd mapping)"

lemma matched_line:
  assumes "plain_mapping m" and "settled_mapping m"
    and "match_import (alternatives m) l = Some (h, p, r)"
  obtains t where "map_of m p = Some t" "l = h @ p @ r" "r \<noteq> []" "p \<noteq> []"
    "CHR 10 \<notin> set t" "CHR 13 \<notin> set t" "match_import (alternatives m) (h @ t @ r) = None"
proof -
  obtain ws w where h: "h = ws @ w" "\<forall>c \<in> set ws. isspace c" "keyword w" "l = ws @ w @ p @ r"
    and f: "find (module_at (p @ r)) (alternatives m) = Some p"
    using assms(3) by (auto simp: match_import_Some)
  then have p: "p \<in> set (alternatives m)" and r: "r \<noteq> []"
    by (auto simp: find_Some_iff module_at_def)
  obtain t where t: "map_of m p = Some t" using plain_alternatives(4) [OF assms(1) p] by blast
  then have mem: "t \<in> set (map snd m)" by (force dest: map_of_SomeD)
  have none: "\<not> module_at (t @ r) k" if "k \<in> set (alternatives m)" for k
  proof
    assume "module_at (t @ r) k"
    then obtain y where "t @ r = k @ y" by (auto simp: module_at_def startswith_iff)
    then have "startswith k t \<or> startswith t k"
      by (auto simp: append_eq_append_conv2 startswith_iff)
    with assms(2) mem plain_alternatives(1) [OF assms(1) that] show False
      by (auto simp: settled_mapping_def list_all_iff)
  qed
  have "match_import (alternatives m) (h @ t @ r) = None"
  proof -
    from keyword_head [OF h(3)] h(2) have "dropWhile isspace (h @ t @ r) = w @ t @ r"
      by (auto simp: h(1))
    moreover have "import_word (w @ t @ r) = Some (w, t @ r)" using h(3) by (simp add: import_word_Some)
    moreover have "find (module_at (t @ r)) (alternatives m) = None" using none by (simp add: find_None_iff)
    ultimately show ?thesis by (simp add: match_import_def)
  qed
  with t r h(1,4) mem assms(2) plain_alternatives(2) [OF assms(1) p] show ?thesis
    by (intro that [of t]) (auto simp: settled_mapping_def list_all_iff)
qed

lemma reroot_line_twice:
  assumes "plain_mapping m" "settled_mapping m"
  shows "reroot_line m (reroot_line m l) = reroot_line m l"
proof (cases "match_import (alternatives m) l")
  case (Some x)
  then obtain h p r where x: "match_import (alternatives m) l = Some (h, p, r)" by (cases x) auto
  from matched_line [OF assms x] x show ?thesis by (metis (no_types, lifting) case_prod_conv
      option.case option.sel reroot_line_def)
qed (simp add: reroot_line_def)

lemma reroot_line_shape:
  assumes "plain_mapping m" "settled_mapping m" and "CHR 10 \<notin> set u"
  shows "\<exists>u'. reroot_line m (u @ [CHR 10]) = u' @ [CHR 10] \<and> CHR 10 \<notin> set u'"
    and "CHR 10 \<notin> set (reroot_line m u)" and "u \<noteq> [] \<Longrightarrow> reroot_line m u \<noteq> []"
proof -
  have "\<exists>u'. reroot_line m l = u' @ v \<and> CHR 10 \<notin> set u' \<and> (u @ v \<noteq> [] \<longrightarrow> u' @ v \<noteq> [])"
    if l: "l = u @ v" "v = [] \<or> v = [CHR 10]" for l v
  proof (cases "match_import (alternatives m) l")
    case None
    with l assms(3) show ?thesis by (auto simp: reroot_line_def)
  next
    case (Some x)
    then obtain h p r where x: "match_import (alternatives m) l = Some (h, p, r)" by (cases x) auto
    from matched_line [OF assms(1,2) x] obtain t where t: "map_of m p = Some t" "l = h @ p @ r"
      "r \<noteq> []" "CHR 10 \<notin> set t" by blast
    obtain r' where r: "r = r' @ v"
    proof (cases "v = []")
      case False
      obtain q z where "r = q @ [z]" using t(3) by (metis rev_exhaust)
      with that l t(2) False show ?thesis by auto
    qed (use that in simp)
    with t l have "u = h @ p @ r'" by simp
    with assms(3) t(4) have "CHR 10 \<notin> set (h @ t @ r')" for t' by auto
    moreover have "reroot_line m l = (h @ t @ r') @ v" by (simp add: reroot_line_def x t(1) r)
    ultimately show ?thesis using match_head [OF x] by (intro exI [of _ "h @ t @ r'"]) auto
  qed
  from this [OF refl, of "[CHR 10]"] this [OF refl, of "[]"]
  show "\<exists>u'. reroot_line m (u @ [CHR 10]) = u' @ [CHR 10] \<and> CHR 10 \<notin> set u'"
    "CHR 10 \<notin> set (reroot_line m u)" "u \<noteq> [] \<Longrightarrow> reroot_line m u \<noteq> []" by auto
qed

lemma rerooted_twice:
  assumes "plain_mapping m" "settled_mapping m"
  shows "rerooted m (rerooted m s) = rerooted m s"
proof (induction s rule: length_induct)
  case (1 s)
  show ?case
  proof (cases rule: line_cases [of s])
    case (line u v)
    obtain u' where u: "reroot_line m (u @ [CHR 10]) = u' @ [CHR 10]" "CHR 10 \<notin> set u'"
      using reroot_line_shape(1) [OF assms line(2)] by blast
    then have "rerooted m s = u' @ CHR 10 # rerooted m v" using line by (simp add: rerooted_simps)
    moreover have "rerooted m (rerooted m v) = rerooted m v" using 1 line(1) by simp
    moreover have "reroot_line m (u' @ [CHR 10]) = u' @ [CHR 10]"
      using reroot_line_twice [OF assms, of "u @ [CHR 10]"] by (simp only: u(1))
    ultimately show ?thesis by (simp add: rerooted_simps u(2))
  next
    case last
    with reroot_line_shape(2,3) [OF assms last(2)] reroot_line_twice [OF assms, of s] show ?thesis
      by (simp add: rerooted_simps)
  qed (simp add: rerooted_simps)
qed

lemma universal_newlines_none: "CHR 13 \<notin> set (universal_newlines s)"
  by (induction s rule: universal_newlines.induct) auto

lemma universal_newlines_same: "CHR 13 \<notin> set s \<Longrightarrow> universal_newlines s = s"
  by (induction s rule: universal_newlines.induct) auto

lemma rerooted_none:
  assumes "plain_mapping m" "settled_mapping m" and "CHR 13 \<notin> set s"
  shows "CHR 13 \<notin> set (rerooted m s)"
proof -
  have "CHR 13 \<notin> set (reroot_line m l)" if "CHR 13 \<notin> set l" for l
  proof (cases "match_import (alternatives m) l")
    case (Some x)
    then obtain h p r where x: "match_import (alternatives m) l = Some (h, p, r)" by (cases x) auto
    from matched_line [OF assms(1,2) x] obtain t where "map_of m p = Some t" "l = h @ p @ r"
      "CHR 13 \<notin> set t" by blast
    with that x show ?thesis by (simp add: reroot_line_def)
  qed (simp add: reroot_line_def that)
  moreover have "concat (chunks s) = s"
    by (induction s) (auto split: list.split)
  then have "set s = (\<Union>l \<in> set (chunks s). set l)" by (metis set_concat)
  ultimately show ?thesis using assms(3) by (fastforce simp: rerooted_def)
qed

text \<open>
  What is imported: the module's name, which ends there or goes on with a dot. Of the mapped modules
  imported at one place the longest is found.
\<close>

definition imported_at :: "string \<Rightarrow> string \<Rightarrow> bool" where
  "imported_at s p \<longleftrightarrow> (\<exists>c u. s = p @ c # u \<and> (c = CHR ''.'' \<or> isspace c))"

lemma module_at_imported: "module_at s p \<longleftrightarrow> imported_at s p"
proof
  assume m: "module_at s p"
  then obtain t where "s = p @ t" by (auto simp: module_at_def startswith_iff)
  with m show "imported_at s p" by (cases t) (auto simp: module_at_def imported_at_def)
qed (auto simp: module_at_def imported_at_def)

lemma plain_sorted:
  "plain_mapping m \<Longrightarrow> alternatives m = sort_key (\<lambda>k. - int (length k)) (keys m)"
  by (cases m) (auto simp: alternatives_def prefixes_def plain_mapping_def dest!: arg_cong [where f = length])

lemma longest_found:
  assumes "plain_mapping m" and "find (module_at s) (alternatives m) = Some p"
    and "q \<in> set (keys m)" "module_at s q"
  shows "length q \<le> length p"
proof -
  note alts = plain_sorted [OF assms(1)]
  obtain i where i: "i < length (alternatives m)" "alternatives m ! i = p"
    "\<And>j. j < i \<Longrightarrow> \<not> module_at s (alternatives m ! j)"
    using assms(2) by (auto simp: find_Some_iff)
  have "q \<in> set (alternatives m)" using assms(3) by (simp add: alts)
  then obtain j where j: "j < length (alternatives m)" "alternatives m ! j = q"
    by (auto simp: in_set_conv_nth)
  with i(3) assms(4) have "i \<le> j" by (metis not_le_imp_less)
  moreover have "sorted (map (\<lambda>k. - int (length k)) (alternatives m))" by (simp add: alts)
  ultimately have "- int (length p) \<le> - int (length q)"
    using i(1,2) j sorted_nth_mono [of "map (\<lambda>k. - int (length k)) (alternatives m)" i j] by simp
  then show ?thesis by simp
qed

text \<open>A line is rewritten at its import, under the longest mapped module that is imported there.\<close>

lemma mapped_line:
  assumes "plain_mapping m" and "list_all isspace ws" "w = ''from '' \<or> w = ''import ''"
    and "map_of m p = Some target" "imported_at (p @ r) p"
    and "\<forall>q \<in> set (keys m). imported_at (p @ r) q \<longrightarrow> length q \<le> length p"
  shows "reroot_line m (ws @ w @ p @ r) = ws @ w @ target @ r"
proof -
  have p: "p \<in> set (keys m)" "module_at (p @ r) p"
    using assms(4,5) by (force dest: map_of_SomeD, simp add: module_at_imported)
  then have "p \<in> set (alternatives m)" by (simp add: plain_sorted [OF assms(1)])
  with p(2) obtain p' where found: "find (module_at (p @ r)) (alternatives m) = Some p'"
    by (cases "find (module_at (p @ r)) (alternatives m)") (auto simp: find_None_iff)
  then have p': "p' \<in> set (alternatives m)" "module_at (p @ r) p'" by (auto simp: find_Some_iff)
  then have "length p' \<le> length p"
    using assms(6) plain_alternatives(1) [OF assms(1) p'(1)] by (metis module_at_imported)
  with longest_found [OF assms(1) found p] have "length p' = length p" by simp
  then have "p' = p" using p'(2) by (auto simp: module_at_imported imported_at_def append_eq_append_conv)
  with found assms(2,3) have "match_import (alternatives m) (ws @ w @ p @ r) = Some (ws @ w, p, r)"
    by (auto simp: match_import_Some keyword_def list_all_iff)
  then show ?thesis by (simp add: reroot_line_def assms(4))
qed

lemma rewritten_line:
  assumes "plain_mapping m" and "reroot_line m l \<noteq> l"
  shows "\<exists>ws w p t r. l = ws @ w @ p @ r \<and> reroot_line m l = ws @ w @ t @ r
    \<and> list_all isspace ws \<and> keyword w \<and> map_of m p = Some t \<and> module_at (p @ r) p
    \<and> (\<forall>q \<in> set (keys m). module_at (p @ r) q \<longrightarrow> length q \<le> length p)"
proof -
  obtain h p r where x: "match_import (alternatives m) l = Some (h, p, r)"
    using assms(2) by (auto simp: reroot_line_def split: option.splits)
  then obtain ws w where h: "h = ws @ w" "\<forall>c \<in> set ws. isspace c" "keyword w" "l = ws @ w @ p @ r"
    and f: "find (module_at (p @ r)) (alternatives m) = Some p"
    by (auto simp: match_import_Some)
  then have p: "p \<in> set (alternatives m)" "module_at (p @ r) p" by (auto simp: find_Some_iff)
  then obtain t where t: "map_of m p = Some t" using plain_alternatives(4) [OF assms(1)] by blast
  have "\<forall>q \<in> set (keys m). module_at (p @ r) q \<longrightarrow> length q \<le> length p"
    using longest_found [OF assms(1) f] by blast
  moreover have "reroot_line m l = ws @ w @ t @ r" by (simp add: reroot_line_def x t h(1))
  moreover have "list_all isspace ws" using h(2) by (simp add: list_all_iff)
  ultimately show ?thesis using h(3,4) p(2) t by blast
qed

lemma fixup_files_result:
  assumes "plain_mapping m" "settled_mapping m" and "\<forall>path \<in> set paths. gt_texts t path \<noteq> None"
  shows "\<exists>k t'. fixup_files m paths n t = (Return k, t') \<and> gt_listing t' = gt_listing t
    \<and> (\<forall>path. path \<notin> set paths \<longrightarrow> gt_texts t' path = gt_texts t path)
    \<and> (\<forall>path \<in> set paths. \<exists>new. gt_texts t' path = Some new
         \<and> universal_newlines new = rerooted m (universal_newlines (the (gt_texts t path))))"
  using assms(3)
proof (induction paths arbitrary: n t)
  case (Cons path paths)
  then obtain raw where raw: "gt_texts t path = Some raw" by auto
  let ?c = "universal_newlines raw"
  define t1 where "t1 = (if rerooted m ?c \<noteq> ?c
    then t\<lparr>gt_texts := (gt_texts t)(path \<mapsto> rerooted m ?c)\<rparr> else t)"
  have t1: "gt_listing t1 = gt_listing t" "\<And>q. q \<noteq> path \<Longrightarrow> gt_texts t1 q = gt_texts t q"
    by (simp_all add: t1_def)
  have here: "\<exists>x. gt_texts t1 path = Some x \<and> universal_newlines x = rerooted m ?c"
    using raw universal_newlines_same [OF rerooted_none [OF assms(1,2) universal_newlines_none [of raw]]]
    by (simp add: t1_def)
  with Cons.prems t1 have "\<forall>q \<in> set paths. gt_texts t1 q \<noteq> None" by (metis list.set_intros(2) option.distinct(1))
  from Cons.IH [OF this, of "if rerooted m ?c \<noteq> ?c then n + 1 else n"] obtain k t' where
    rest: "fixup_files m paths (if rerooted m ?c \<noteq> ?c then n + 1 else n) t1 = (Return k, t')"
    "gt_listing t' = gt_listing t1" "\<forall>q. q \<notin> set paths \<longrightarrow> gt_texts t' q = gt_texts t1 q"
    "\<forall>q \<in> set paths. \<exists>new. gt_texts t' q = Some new
         \<and> universal_newlines new = rerooted m (universal_newlines (the (gt_texts t1 q)))"
    by blast
  have "fixup_files m (path # paths) n t = (Return k, t')"
    using rest(1) by (auto simp: raw reroot_rerooted [OF assms(1)] t1_def split: if_splits)
  moreover have "\<exists>new. gt_texts t' q = Some new
      \<and> universal_newlines new = rerooted m (universal_newlines (the (gt_texts t q)))"
    if "q \<in> set (path # paths)" for q
  proof (cases "q = path")
    case True
    from here obtain x where x: "gt_texts t1 path = Some x" "universal_newlines x = rerooted m ?c" by blast
    then show ?thesis
      using rest(3,4) True raw rerooted_twice [OF assms(1,2), of ?c]
      by (cases "path \<in> set paths") fastforce+
  next
    case False
    with that rest(4) t1(2) show ?thesis by auto
  qed
  moreover have "\<forall>q. q \<notin> set (path # paths) \<longrightarrow> gt_texts t' q = gt_texts t q"
    using rest(3) t1(2) by simp
  ultimately show ?case using rest(2) t1(1) by auto
qed simp

lemma fixup_files_settled:
  assumes "plain_mapping m"
    and "\<forall>path \<in> set paths. \<exists>x. gt_texts t path = Some x
      \<and> rerooted m (universal_newlines x) = universal_newlines x"
  shows "fixup_files m paths n t = (Return n, t)"
  using assms(2) by (induction paths) (auto simp: reroot_rerooted [OF assms(1)])

subsection \<open>Properties\<close>

text \<open>
  C38: the imports of a generated tree are rerooted line by line, once. With a mapping of module
  names none of whose targets names a mapped module, as the framework's are, a run succeeds: every
  listed file's text is the one read with its lines rewritten; no other file changes; and a second
  run changes nothing and counts no file. So the multi-line pattern acts line by line, and building
  again is building once. Every line that imports a mapped module, by \<open>from\<close> or by \<open>import\<close>,
  however indented, has the longest module mapped there replaced by its target and nothing else
  changed; and a line that imports none stays as it is.
\<close>

theorem imports_rerooted_once:
  assumes "plain_mapping m" "settled_mapping m"
    and "listed = concat (map (gt_listing t) GLOBS)"
    and "\<forall>path \<in> set listed. gt_texts t path \<noteq> None"
  shows "\<exists>n t'. fixup t m = (Return n, t') \<and> fixup t' m = (Return 0, t')
    \<and> (\<forall>path. path \<notin> set listed \<longrightarrow> gt_texts t' path = gt_texts t path)
    \<and> (\<forall>path \<in> set listed. \<exists>new. gt_texts t' path = Some new
         \<and> universal_newlines new =
             concat (map (reroot_line m) (chunks (universal_newlines (the (gt_texts t path))))))
    \<and> (\<forall>ws w p target r. list_all isspace ws \<and> (w = ''from '' \<or> w = ''import '')
         \<and> map_of m p = Some target \<and> imported_at (p @ r) p
         \<and> (\<forall>q \<in> set (keys m). imported_at (p @ r) q \<longrightarrow> length q \<le> length p) \<longrightarrow>
         reroot_line m (ws @ w @ p @ r) = ws @ w @ target @ r)
    \<and> (\<forall>l. reroot_line m l = l \<or> (\<exists>ws w p target r. l = ws @ w @ p @ r
         \<and> reroot_line m l = ws @ w @ target @ r
         \<and> list_all isspace ws \<and> keyword w \<and> map_of m p = Some target \<and> module_at (p @ r) p
         \<and> (\<forall>q \<in> set (keys m). module_at (p @ r) q \<longrightarrow> length q \<le> length p)))"
proof -
  obtain n t' where run: "fixup_files m listed 0 t = (Return n, t')" "gt_listing t' = gt_listing t"
    "\<forall>path. path \<notin> set listed \<longrightarrow> gt_texts t' path = gt_texts t path"
    "\<forall>path \<in> set listed. \<exists>new. gt_texts t' path = Some new
       \<and> universal_newlines new = rerooted m (universal_newlines (the (gt_texts t path)))"
    using fixup_files_result [OF assms(1,2,4)] by blast
  have "fixup_files m listed 0 t' = (Return 0, t')"
    using run(4) rerooted_twice [OF assms(1,2)] by (intro fixup_files_settled [OF assms(1)]) metis
  with run(1,2) have "fixup t m = (Return n, t')" "fixup t' m = (Return 0, t')"
    by (simp_all add: fixup_def assms(3))
  moreover have "\<forall>ws w p target r. list_all isspace ws \<and> (w = ''from '' \<or> w = ''import '')
      \<and> map_of m p = Some target \<and> imported_at (p @ r) p
      \<and> (\<forall>q \<in> set (keys m). imported_at (p @ r) q \<longrightarrow> length q \<le> length p) \<longrightarrow>
      reroot_line m (ws @ w @ p @ r) = ws @ w @ target @ r"
    using mapped_line [OF assms(1)] by blast
  moreover have "\<forall>l. reroot_line m l = l \<or> (\<exists>ws w p target r. l = ws @ w @ p @ r
      \<and> reroot_line m l = ws @ w @ target @ r
      \<and> list_all isspace ws \<and> keyword w \<and> map_of m p = Some target \<and> module_at (p @ r) p
      \<and> (\<forall>q \<in> set (keys m). module_at (p @ r) q \<longrightarrow> length q \<le> length p))"
    using rewritten_line [OF assms(1)] by blast
  ultimately show ?thesis
    using run(3,4) unfolding rerooted_def
    by (intro exI [of _ n] exI [of _ t'] conjI) assumption+
qed

text \<open>The framework's mapping, of \<open>proto_build.py\<close>, on a tree of one file.\<close>

definition FRAMEWORK :: "(string, string) dict" where
  "FRAMEWORK = [(''io'', ''angzarr_client.proto.io''), (''sererr'', ''angzarr_client.proto.sererr'')]"

definition small_module :: string where
  "small_module = ''from io.angzarr.v1 import x'' @ [CHR 10] @ ''import iota'' @ [CHR 10]"

definition small_tree :: "string gen_tree" where
  "small_tree = \<lparr>gt_listing = (\<lambda>g. if g = ''*_pb2.py'' then [''a_pb2.py''] else []),
     gt_texts = [''a_pb2.py'' \<mapsto> small_module]\<rparr>"

theorem imports_rerooted_once_witness:
  "\<exists>n t'. fixup small_tree FRAMEWORK = (Return n, t') \<and> fixup t' FRAMEWORK = (Return 0, t')
     \<and> (\<exists>new. gt_texts t' ''a_pb2.py'' = Some new \<and> universal_newlines new =
          ''from angzarr_client.proto.io.angzarr.v1 import x'' @ [CHR 10] @ ''import iota'' @ [CHR 10])"
proof -
  have m: "plain_mapping FRAMEWORK" "settled_mapping FRAMEWORK" by code_simp+
  have l: "[''a_pb2.py''] = concat (map (gt_listing small_tree) GLOBS)"
    by (simp add: small_tree_def GLOBS_def)
  have r: "gt_texts small_tree ''a_pb2.py'' = Some small_module" by (simp add: small_tree_def)
  have out: "concat (map (reroot_line FRAMEWORK) (chunks (universal_newlines small_module))) =
      ''from angzarr_client.proto.io.angzarr.v1 import x'' @ [CHR 10] @ ''import iota'' @ [CHR 10]"
    by code_simp
  have read: "\<forall>path \<in> set [''a_pb2.py'']. gt_texts small_tree path \<noteq> None" by (simp add: r)
  obtain n t' where "fixup small_tree FRAMEWORK = (Return n, t')" "fixup t' FRAMEWORK = (Return 0, t')"
    and t': "\<forall>path \<in> set [''a_pb2.py'']. \<exists>new. gt_texts t' path = Some new
         \<and> universal_newlines new = concat (map (reroot_line FRAMEWORK)
             (chunks (universal_newlines (the (gt_texts small_tree path)))))"
    using imports_rerooted_once [OF m l read] by (elim exE conjE)
  moreover from t' have "\<exists>new. gt_texts t' ''a_pb2.py'' = Some new \<and> universal_newlines new =
      ''from angzarr_client.proto.io.angzarr.v1 import x'' @ [CHR 10] @ ''import iota'' @ [CHR 10]"
    unfolding set_simps ball_simps r out option.sel by (rule conjunct1)
  ultimately show ?thesis by (intro exI [of _ n] exI [of _ t'] conjI)
qed

end
