(* ===== verification/Reasons.thy ===== *)
theory Reasons
  imports Fixup "HOL-Library.List_Lexorder" "HOL-Library.Char_ord"
begin

text \<open>
  \<open>scripts/proto_build.py\<close>: what the build reads of the reason keys' descriptors and the module
  it writes of them, \<open>reason_args.py\<close>. A descriptor is what protobuf answers of it: its enums,
  and of each value its number and its \<open>(reason)\<close> option, if it has one.
\<close>

subsection \<open>The keys' args and statuses\<close>

record enum_value =
  ev_name :: string
  ev_number :: int
  ev_reason :: "(string list \<times> int) option"

type_synonym reasons_file = "(string \<times> enum_value list) list"

datatype build_error = Proto_build_error string | Key_error string | Build_raises exn

definition READINESS :: int where
  "READINESS = 100"

type_synonym reason_tables = "(string, string list) dict \<times> (string, int option) dict"

text \<open>The body of the loop over an enum's values.\<close>

fun add_values :: "enum_value list \<Rightarrow> reason_tables \<Rightarrow> build_error + reason_tables" where
  "add_values [] tables = Return tables"
| "add_values (v # vs) (declared, statuses) =
     (if ev_number v = 0 then add_values vs (declared, statuses)
      else (case ev_reason v of
              None \<Rightarrow> Raise (Proto_build_error (ev_name v @ '' declares no args (its (reason) option)''))
            | Some (args, st) \<Rightarrow>
                if st = 0
                then Raise (Proto_build_error (ev_name v @ '' declares no status (its (reason) option)''))
                else add_values vs (dict_set (ev_name v) args declared,
                       dict_set (ev_name v) (if st = READINESS then None else Some st) statuses)))"

fun add_enums :: "reasons_file \<Rightarrow> string list \<Rightarrow> reason_tables \<Rightarrow> build_error + reason_tables" where
  "add_enums file [] tables = Return tables"
| "add_enums file (e # es) tables =
     (case map_of (rev file) e of
        None \<Rightarrow> Raise (Key_error e)
      | Some vs \<Rightarrow> bindR (add_values vs tables) (add_enums file es))"

definition package_args :: "reasons_file \<Rightarrow> string list \<Rightarrow> build_error + reason_tables" where
  "package_args file enums = add_enums file enums ([], [])"

subsection \<open>The module written\<close>

text \<open>\<open>repr\<close> of a text of code points below 256, of a tuple of them, and of a status.\<close>

definition repr_char :: "char \<Rightarrow> char \<Rightarrow> string" where
  "repr_char q c =
     (let n = (of_char c :: nat);
          digit = (\<lambda>d. char_of (if d < 10 then 48 + d else 87 + d :: nat)) in
      if c = q \<or> c = CHR 0x5C then [CHR 0x5C, c]
      else if n = 10 then [CHR 0x5C, CHR ''n'']
      else if n = 13 then [CHR 0x5C, CHR ''r'']
      else if n = 9 then [CHR 0x5C, CHR ''t'']
      else if n < 32 \<or> 127 \<le> n \<and> n \<le> 160 \<or> n = 173
      then [CHR 0x5C, CHR ''x'', digit (n div 16), digit (n mod 16)]
      else [c])"

definition repr_str :: "string \<Rightarrow> string" where
  "repr_str s =
     (let q = (if CHR 0x27 \<in> set s \<and> CHR 0x22 \<notin> set s then CHR 0x22 else CHR 0x27) in
      [q] @ concat (map (repr_char q) s) @ [q])"

fun comma_join :: "string list \<Rightarrow> string" where
  "comma_join [] = []"
| "comma_join [s] = s"
| "comma_join (s # t # ts) = s @ '', '' @ comma_join (t # ts)"

definition repr_tuple :: "string list \<Rightarrow> string" where
  "repr_tuple args =
     (case args of
        [a] \<Rightarrow> ''('' @ repr_str a @ '',)''
      | _ \<Rightarrow> ''('' @ comma_join (map repr_str args) @ '')'')"

definition repr_status :: "int option \<Rightarrow> string" where
  "repr_status st = (case st of None \<Rightarrow> ''None'' | Some n \<Rightarrow> int_str n)"

text \<open>\<open>upper\<close> of an ASCII text, which an arg's name is.\<close>

definition upper :: "string \<Rightarrow> string" where
  "upper s = map (\<lambda>c. let n = (of_char c :: nat) in if 97 \<le> n \<and> n \<le> 122 then char_of (n - 32) else c) s"

text \<open>The lines of the module; the text is them, joined by newlines.\<close>

definition reason_args_lines ::
  "(string, string list) dict \<Rightarrow> (string, int option) dict \<Rightarrow> string list" where
  "reason_args_lines declared statuses =
     (let names = sort (remdups (concat (map snd declared))) in
      [replicate 3 (CHR 0x22) @ ''Each of this package'' @ [CHR 0x27] @
         ''s reason keys'' @ [CHR 0x27] @ '' args and status, generated by'',
       ''scripts/proto_build.py from its reasons.proto'' @ [CHR 0x27] @ ''s (io.angzarr.v1.reason)'',
       ''options (decisions 14.60, 14.64 and 14.65). Do not edit.'' @ replicate 3 (CHR 0x22),
       [],
       ''ARGS: dict[str, tuple[str, ...]] = {''] @
      map (\<lambda>(key, args). ''    '' @ repr_str key @ '': '' @ repr_tuple args @ '','') declared @
      [''}'', [],
       ''# The google.rpc.Code each key travels with; None for a readiness'',
       ''# refusal, which never travels as a status.'',
       ''STATUSES: dict[str, int | None] = {''] @
      map (\<lambda>(key, st). ''    '' @ repr_str key @ '': '' @ repr_status st @ '','') statuses @
      [''}'', []] @
      map (\<lambda>name. upper name @ '' = '' @ repr_str name) names @
      [[]])"

fun newline_join :: "string list \<Rightarrow> string" where
  "newline_join [] = []"
| "newline_join [s] = s"
| "newline_join (s # t # ts) = s @ [CHR 10] @ newline_join (t # ts)"

definition reason_args :: "(string, string list) dict \<Rightarrow> (string, int option) dict \<Rightarrow> string" where
  "reason_args declared statuses = newline_join (reason_args_lines declared statuses)"

subsection \<open>What a package's tables hold\<close>

definition live :: "enum_value list \<Rightarrow> enum_value list" where
  "live vs = filter (\<lambda>v. ev_number v \<noteq> 0) vs"

definition sound_value :: "enum_value \<Rightarrow> bool" where
  "sound_value v \<longleftrightarrow> (case ev_reason v of None \<Rightarrow> False | Some (_, st) \<Rightarrow> st \<noteq> 0)"

definition value_args :: "enum_value \<Rightarrow> string \<times> string list" where
  "value_args v = (ev_name v, fst (the (ev_reason v)))"

definition value_status :: "enum_value \<Rightarrow> string \<times> int option" where
  "value_status v =
     (ev_name v, let st = snd (the (ev_reason v)) in if st = READINESS then None else Some st)"

lemma add_values_live:
  assumes "distinct (map ev_name (live vs))"
    and "set (map ev_name (live vs)) \<inter> (set (keys declared) \<union> set (keys statuses)) = {}"
  shows "add_values vs (declared, statuses) = Return t \<longleftrightarrow>
    (\<forall>v \<in> set (live vs). sound_value v)
    \<and> t = (declared @ map value_args (live vs), statuses @ map value_status (live vs))"
  using assms
proof (induction vs arbitrary: declared statuses)
  case (Cons v vs)
  show ?case
  proof (cases "ev_number v = 0")
    case True
    then have "live (v # vs) = live vs" by (simp add: live_def)
    with True Cons show ?thesis by simp
  next
    case live_value: False
    then have live: "live (v # vs) = v # live vs" by (simp add: live_def)
    show ?thesis
    proof (cases "sound_value v")
      case False
      with live_value show ?thesis
        by (simp add: live) (simp add: sound_value_def split: option.splits prod.splits)
    next
      case True
      with live_value obtain args st where r: "ev_reason v = Some (args, st)" "st \<noteq> 0" "ev_number v \<noteq> 0"
        by (auto simp: sound_value_def split: option.splits)
      let ?d = "declared @ [(ev_name v, args)]"
      let ?s = "statuses @ [(ev_name v, if st = READINESS then None else Some st)]"
      have "ev_name v \<notin> set (keys declared)" "ev_name v \<notin> set (keys statuses)"
        using Cons.prems(2) r(3) by (auto simp: live_def)
      then have "add_values (v # vs) (declared, statuses) = add_values vs (?d, ?s)"
        by (simp add: r dict_set_new)
      moreover have "distinct (map ev_name (live vs))"
        "set (map ev_name (live vs)) \<inter> (set (keys ?d) \<union> set (keys ?s)) = {}"
        using Cons.prems r(3) by (auto simp: live_def)
      note Cons.IH [OF this]
      ultimately show ?thesis
        using r True by (simp add: live value_args_def value_status_def Let_def)
    qed
  qed
qed (auto simp: live_def)

text \<open>
  A package's tables hold exactly its live keys, in the order its enums name them and declare
  them: each with the args its option declares, and with the status it travels with, none for a
  readiness refusal; and they are built exactly when every enum is found and every live value
  has an option with a status, so no key is left out silently.
\<close>

theorem package_tables:
  assumes "\<And>e. e \<in> set enums \<Longrightarrow> map_of (rev file) e = Some (vals e)"
    and "distinct (concat (map (\<lambda>e. map ev_name (live (vals e))) enums))"
  shows "package_args file enums = Return t \<longleftrightarrow>
    (\<forall>v \<in> set (concat (map (\<lambda>e. live (vals e)) enums)). sound_value v)
    \<and> t = (map value_args (concat (map (\<lambda>e. live (vals e)) enums)),
           map value_status (concat (map (\<lambda>e. live (vals e)) enums)))"
proof -
  have "add_enums file enums (map value_args pre, map value_status pre) = Return t \<longleftrightarrow>
      (\<forall>v \<in> set (concat (map (\<lambda>e. live (vals e)) enums)). sound_value v)
      \<and> t = (map value_args (pre @ concat (map (\<lambda>e. live (vals e)) enums)),
             map value_status (pre @ concat (map (\<lambda>e. live (vals e)) enums)))"
    if "distinct (map ev_name pre @ concat (map (\<lambda>e. map ev_name (live (vals e))) enums))" for pre
    using that assms(1)
  proof (induction enums arbitrary: pre)
    case (Cons e es)
    have "add_values (vals e) (map value_args pre, map value_status pre) = Return t' \<longleftrightarrow>
        (\<forall>v \<in> set (live (vals e)). sound_value v)
        \<and> t' = (map value_args (pre @ live (vals e)), map value_status (pre @ live (vals e)))" for t'
      using Cons.prems(1) by (subst add_values_live) (auto simp: value_args_def value_status_def)
    moreover have "distinct (map ev_name (pre @ live (vals e)) @
        concat (map (\<lambda>e. map ev_name (live (vals e))) es))"
      using Cons.prems(1) by auto
    note Cons.IH [OF this Cons.prems(2)]
    ultimately show ?case
      using Cons.prems(2) [of e] by (auto simp: bindR_eq_Inr_iff)
  qed auto
  from this [of "[]"] assms(2) show ?thesis by (simp add: package_args_def)
qed

end
