(* ===== verification/Generate.thy ===== *)
theory Generate
  imports Reasons
begin

text \<open>
  \<open>scripts/proto_build.py\<close>: the generation of the package's modules. The disk is its directories
  and its files' texts, by their paths, a path being its parts from the file system's root. What
  is not under \<open>src/\<close> is the record \<open>build_tools\<close>: the directory of \<open>grpc_tools\<close>, what
  \<open>protoc\<close> makes of its arguments and a disk, what running a generated module gives, with what it
  writes (its compiled form), how protobuf reads a descriptor set, and the name of a new temporary
  directory. Not modelled: a removal that fails, for which the code has no handling, and links.
\<close>

subsection \<open>The disk\<close>

type_synonym path = "string list"

record disk =
  dk_dirs :: "path list"
  dk_files :: "(path, string) dict"

definition file_text :: "disk \<Rightarrow> path \<rightharpoonup> string" where
  "file_text d p = map_of (dk_files d) p"

definition is_dir :: "path \<Rightarrow> disk \<Rightarrow> bool" where
  "is_dir p d \<longleftrightarrow> p = [] \<or> p \<in> set (dk_dirs d)"

text \<open>An effect on the disk, which may raise.\<close>

type_synonym 'a build = "disk \<Rightarrow> (build_error + 'a) \<times> disk"

definition returnB :: "'a \<Rightarrow> 'a build" where
  "returnB x = (\<lambda>d. (Return x, d))"

definition raiseB :: "build_error \<Rightarrow> 'a build" where
  "raiseB e = (\<lambda>d. (Raise e, d))"

definition bindB :: "'a build \<Rightarrow> ('a \<Rightarrow> 'b build) \<Rightarrow> 'b build" where
  "bindB m f = (\<lambda>d. case m d of (Inl e, d') \<Rightarrow> (Inl e, d') | (Inr x, d') \<Rightarrow> f x d')"

definition os_error :: "string \<Rightarrow> build_error" where
  "os_error name = Build_raises (Other_exc name)"

fun slash_join :: "string list \<Rightarrow> string" where
  "slash_join [] = []"
| "slash_join [s] = s"
| "slash_join (s # t # ts) = s @ CHR ''/'' # slash_join (t # ts)"

definition posix :: "path \<Rightarrow> string" where
  "posix p = CHR ''/'' # slash_join p"

text \<open>\<open>shutil.rmtree\<close> with \<open>ignore_errors\<close>, which leaves what is not a directory.\<close>

definition rmtree :: "path \<Rightarrow> disk \<Rightarrow> disk" where
  "rmtree p d =
     (if file_text d p \<noteq> None then d
      else \<lparr>dk_dirs = filter (\<lambda>q. \<not> startswith p q) (dk_dirs d),
            dk_files = filter (\<lambda>(q, _). \<not> startswith p q) (dk_files d)\<rparr>)"

text \<open>\<open>os.mkdir\<close>, and \<open>Path.mkdir\<close> with \<open>parents\<close>.\<close>

definition os_mkdir :: "path \<Rightarrow> unit build" where
  "os_mkdir p d =
     (if is_dir p d \<or> file_text d p \<noteq> None then (Raise (os_error ''FileExistsError''), d)
      else if file_text d (butlast p) \<noteq> None then (Raise (os_error ''NotADirectoryError''), d)
      else if \<not> is_dir (butlast p) d then (Raise (os_error ''FileNotFoundError''), d)
      else (Return (), d\<lparr>dk_dirs := dk_dirs d @ [p]\<rparr>))"

definition mkdir_once :: "bool \<Rightarrow> path \<Rightarrow> unit build" where
  "mkdir_once exist_ok p d =
     (case os_mkdir p d of
        (Inl e, d') \<Rightarrow>
          if e \<noteq> os_error ''FileNotFoundError'' \<and> exist_ok \<and> is_dir p d then (Return (), d')
          else (Raise e, d')
      | made \<Rightarrow> made)"

function mkdir :: "bool \<Rightarrow> path \<Rightarrow> unit build" where
  "mkdir exist_ok p d =
     (if fst (os_mkdir p d) = Raise (os_error ''FileNotFoundError'') \<and> p \<noteq> []
      then bindB (mkdir True (butlast p)) (\<lambda>_. mkdir_once exist_ok p) d
      else mkdir_once exist_ok p d)"
  by pat_completeness auto

termination
  by (relation "measure (\<lambda>(_, p, _). length p)") auto

declare mkdir.simps [simp del]

definition read_file :: "path \<Rightarrow> string build" where
  "read_file p d =
     (case file_text d p of
        None \<Rightarrow> (Raise (os_error (if is_dir p d then ''IsADirectoryError'' else ''FileNotFoundError'')), d)
      | Some s \<Rightarrow> (Return s, d))"

definition write_file :: "path \<Rightarrow> string \<Rightarrow> unit build" where
  "write_file p s d =
     (if is_dir p d then (Raise (os_error ''IsADirectoryError''), d)
      else if \<not> is_dir (butlast p) d then (Raise (os_error ''FileNotFoundError''), d)
      else (Return (), d\<lparr>dk_files := dict_set p s (dk_files d)\<rparr>))"

definition copyfile :: "path \<Rightarrow> path \<Rightarrow> unit build" where
  "copyfile src dst = bindB (read_file src) (write_file dst)"

text \<open>A glob of one name, with at most one star, at its start; and what it finds below a directory.\<close>

definition glob_match :: "string \<Rightarrow> string \<Rightarrow> bool" where
  "glob_match g name = (case g of CHR ''*'' # s \<Rightarrow> endswith s name | _ \<Rightarrow> name = g)"

definition rglob :: "string \<Rightarrow> path \<Rightarrow> disk \<Rightarrow> path list" where
  "rglob g p d =
     filter (\<lambda>q. startswith p q \<and> q \<noteq> p \<and> glob_match g (last q)) (dk_dirs d @ keys (dk_files d))"

subsection \<open>The tools\<close>

datatype protoc_arg = Include path | Output string path | Source string

fun protoc_text :: "protoc_arg \<Rightarrow> string" where
  "protoc_text (Include p) = ''-I'' @ posix p"
| "protoc_text (Output flag p) = ''--'' @ flag @ ''='' @ posix p"
| "protoc_text (Source s) = s"

record 'x build_tools =
  bt_grpc :: "exn + path"
  bt_protoc :: "protoc_arg list \<Rightarrow> disk \<Rightarrow> int \<times> disk"
  bt_exec :: "path \<Rightarrow> disk \<Rightarrow> (exn + 'x) \<times> disk"
  bt_parse :: "'x \<Rightarrow> string \<Rightarrow> exn + (string \<times> reasons_file) list"
  bt_scratch :: "disk \<Rightarrow> path"

fun space_join :: "string list \<Rightarrow> string" where
  "space_join [] = []"
| "space_join [s] = s"
| "space_join (s # t # ts) = s @ CHR '' '' # space_join (t # ts)"

subsection \<open>The steps of a build\<close>

definition PROTO_OUT :: "path \<Rightarrow> path" where
  "PROTO_OUT root = root @ [''angzarr_client'', ''proto'']"

definition PROJECT_PROTO :: "path \<Rightarrow> path" where
  "PROJECT_PROTO root = root @ [''angzarr-project'', ''proto'']"

definition FIXTURE_PROTO :: "path \<Rightarrow> path" where
  "FIXTURE_PROTO root = root @ [''angzarr-project'', ''features'', ''handler-contract'', ''fixture'']"

definition FIXTURE_OUT :: "path \<Rightarrow> path" where
  "FIXTURE_OUT root = root @ [''tests'', ''router'', ''gen'']"

definition PROJECT_TREES :: "path list" where
  "PROJECT_TREES =
     [[''io'', ''angzarr'', ''v1''], [''io'', ''angzarr'', ''component''],
      [''io'', ''angzarr'', ''transport''], [''sererr'']]"

definition REASON_PACKAGES :: "(path, string list) dict" where
  "REASON_PACKAGES =
     [([''io'', ''angzarr'', ''v1''], [''RouterReason'', ''HostReason'', ''CoordinatorReason'']),
      ([''io'', ''angzarr'', ''transport'', ''embedded'', ''v1''], [''HostReason'']),
      ([''io'', ''angzarr'', ''transport'', ''distributed'', ''v1''], [''CoordinatorReason''])]"

definition CORE_REASONS :: path where
  "CORE_REASONS = [''io'', ''angzarr'', ''v1'']"

definition grpc_tools_include :: "'x build_tools \<Rightarrow> path build" where
  "grpc_tools_include tools =
     (case bt_grpc tools of
        Inl e \<Rightarrow> raiseB (Build_raises e)
      | Inr p \<Rightarrow> returnB (p @ [''_proto'']))"

definition protos :: "path \<Rightarrow> path list \<Rightarrow> disk \<Rightarrow> string list" where
  "protos root trees d =
     concat (map (\<lambda>tree. sort (map (\<lambda>p. slash_join (drop (length root) p)) (rglob ''*.proto'' (root @ tree) d)))
       trees)"

definition protoc :: "'x build_tools \<Rightarrow> protoc_arg list \<Rightarrow> unit build" where
  "protoc tools args =
     bindB (grpc_tools_include tools) (\<lambda>_ d.
       case bt_protoc tools args d of (code, d') \<Rightarrow>
         (if code \<noteq> 0
          then Raise (Proto_build_error (''protoc failed ('' @ int_str code @ ''): '' @
                 space_join (map protoc_text args)))
          else Return (), d'))"

text \<open>\<open>_fixup\<close>: \<open>fixup_gen_imports.fixup\<close> on the disk's files.\<close>

definition gen_tree_of :: "path \<Rightarrow> disk \<Rightarrow> path gen_tree" where
  "gen_tree_of out d = \<lparr>gt_listing = (\<lambda>g. sort (rglob g out d)), gt_texts = file_text d\<rparr>"

definition with_texts :: "path gen_tree \<Rightarrow> disk \<Rightarrow> disk" where
  "with_texts t d =
     d\<lparr>dk_files := map (\<lambda>(p, s). (p, case gt_texts t p of None \<Rightarrow> s | Some s' \<Rightarrow> s')) (dk_files d)\<rparr>"

definition fixup_out :: "path \<Rightarrow> unit build" where
  "fixup_out out d =
     (case fixup (gen_tree_of out d) FRAMEWORK of
        (Inl e, t) \<Rightarrow> (Raise (Build_raises e), with_texts t d)
      | (Inr _, t) \<Rightarrow> (Return (), with_texts t d))"

definition require :: "path \<Rightarrow> unit build" where
  "require p d =
     (if \<not> is_dir p d
      then (Raise (Proto_build_error (posix p @ '' is missing: initialise the submodule '' @
              ''(git submodule update --init angzarr-project)'')), d)
      else (Return (), d))"

definition generated :: "path \<Rightarrow> disk \<Rightarrow> path list" where
  "generated out d =
     sort (filter (\<lambda>p. startswith out p \<and> p \<noteq> out \<and> ''__pycache__'' \<notin> set p) (keys (dk_files d)))"

subsection \<open>The reason keys of every package\<close>

text \<open>A temporary directory, for the time of a block.\<close>

definition with_scratch :: "'x build_tools \<Rightarrow> (path \<Rightarrow> 'a build) \<Rightarrow> 'a build" where
  "with_scratch tools body d =
     (let s = bt_scratch tools d in
      case body s (d\<lparr>dk_dirs := dk_dirs d @ [s]\<rparr>) of (r, d') \<Rightarrow> (r, rmtree s d'))"

definition reasons_proto :: "path \<Rightarrow> string" where
  "reasons_proto package = slash_join package @ ''/reasons.proto''"

fun tables_of ::
  "(string \<times> reasons_file) list \<Rightarrow> (path, string list) dict \<Rightarrow> build_error + (path, reason_tables) dict" where
  "tables_of files [] = Return []"
| "tables_of files ((package, enums) # packages) =
     (case map_of (rev files) (reasons_proto package) of
        None \<Rightarrow> Raise (Key_error (reasons_proto package))
      | Some file \<Rightarrow>
          bindR (package_args file enums) (\<lambda>tables.
          bindR (tables_of files packages) (\<lambda>rest. Return ((package, tables) # rest))))"

definition exec_module :: "'x build_tools \<Rightarrow> path \<Rightarrow> 'x build" where
  "exec_module tools p d =
     (case bt_exec tools p d of
        (Inl e, d') \<Rightarrow> (Raise (Build_raises e), d')
      | (Inr x, d') \<Rightarrow> (Return x, d'))"

definition lift :: "build_error + 'a \<Rightarrow> 'a build" where
  "lift r = (\<lambda>d. (r, d))"

definition parse_set :: "'x build_tools \<Rightarrow> 'x \<Rightarrow> string \<Rightarrow> build_error + (string \<times> reasons_file) list" where
  "parse_set tools core s =
     (case bt_parse tools core s of Inl e \<Rightarrow> Raise (Build_raises e) | Inr files \<Rightarrow> Return files)"

definition descriptor_args :: "path \<Rightarrow> path \<Rightarrow> path \<Rightarrow> protoc_arg list" where
  "descriptor_args root include set_path =
     [Include (PROJECT_PROTO root), Include include, Output ''descriptor_set_out'' set_path] @
     map (\<lambda>package. Source (reasons_proto package)) (keys REASON_PACKAGES)"

definition declared_tables ::
  "'x build_tools \<Rightarrow> path \<Rightarrow> path \<Rightarrow> (path, reason_tables) dict build" where
  "declared_tables tools root core_reasons_pb2 =
     bindB (exec_module tools core_reasons_pb2) (\<lambda>core.
     bindB (with_scratch tools (\<lambda>scratch.
       let set_path = scratch @ [''reasons.binpb''] in
       bindB (grpc_tools_include tools) (\<lambda>include.
       bindB (protoc tools (descriptor_args root include set_path)) (\<lambda>_.
       bindB (read_file set_path) (\<lambda>s. lift (parse_set tools core s)))))) (\<lambda>files.
     lift (tables_of files REASON_PACKAGES)))"

subsection \<open>The builds\<close>

definition clear_stale :: "path \<Rightarrow> disk \<Rightarrow> disk" where
  "clear_stale out d = fold (\<lambda>stale. rmtree (out @ [stale])) [''io'', ''sererr''] d"

text \<open>The body of the loop over the packages with reason keys.\<close>

fun write_packages ::
  "path \<Rightarrow> path \<Rightarrow> (path, reason_tables) dict \<Rightarrow> path list \<Rightarrow> unit build" where
  "write_packages root out tables [] = returnB ()"
| "write_packages root out tables (package # packages) =
     bindB (copyfile (PROJECT_PROTO root @ package @ [''reasons.en-US.ftl''])
                     (out @ package @ [''reasons.en-US.ftl''])) (\<lambda>_.
     case map_of tables package of
       None \<Rightarrow> raiseB (Key_error (slash_join package))
     | Some (args, statuses) \<Rightarrow>
         bindB (write_file (out @ package @ [''reason_args.py'']) (reason_args args statuses)) (\<lambda>_.
         write_packages root out tables packages))"

definition framework_args :: "path \<Rightarrow> path \<Rightarrow> path \<Rightarrow> disk \<Rightarrow> protoc_arg list" where
  "framework_args root out include d =
     [Include (PROJECT_PROTO root), Include include, Output ''python_out'' out,
      Output ''pyi_out'' out, Output ''grpc_python_out'' out] @
     map Source (protos (PROJECT_PROTO root) PROJECT_TREES d)"

definition generate_protos :: "'x build_tools \<Rightarrow> path \<Rightarrow> path \<Rightarrow> path list build" where
  "generate_protos tools root out =
     bindB (require (PROJECT_PROTO root)) (\<lambda>_.
     bindB (\<lambda>d. (Return (), clear_stale out d)) (\<lambda>_.
     bindB (mkdir True out) (\<lambda>_.
     bindB (grpc_tools_include tools) (\<lambda>include.
     bindB (\<lambda>d. protoc tools (framework_args root out include d) d) (\<lambda>_.
     bindB (fixup_out out) (\<lambda>_.
     bindB (declared_tables tools root (out @ CORE_REASONS @ [''reasons_pb2.py''])) (\<lambda>tables.
     bindB (write_packages root out tables (keys REASON_PACKAGES)) (\<lambda>_ d.
       (Return (generated out d), d)))))))))"

definition fixture_args :: "path \<Rightarrow> path \<Rightarrow> path \<Rightarrow> disk \<Rightarrow> protoc_arg list" where
  "fixture_args root out include d =
     [Include (FIXTURE_PROTO root), Include (PROJECT_PROTO root), Include include,
      Output ''python_out'' out] @
     map Source (sort (map last (filter (\<lambda>p. butlast p = FIXTURE_PROTO root)
       (rglob ''*.proto'' (FIXTURE_PROTO root) d))))"

definition generate_fixtures :: "'x build_tools \<Rightarrow> path \<Rightarrow> path \<Rightarrow> path list build" where
  "generate_fixtures tools root out =
     bindB (require (FIXTURE_PROTO root)) (\<lambda>_.
     bindB (\<lambda>d. (Return (), rmtree out d)) (\<lambda>_.
     bindB (mkdir False out) (\<lambda>_.
     bindB (grpc_tools_include tools) (\<lambda>include.
     bindB (\<lambda>d. protoc tools (fixture_args root out include d) d) (\<lambda>_.
     bindB (fixup_out out) (\<lambda>_ d. (Return (generated out d), d)))))))"

text \<open>\<open>main\<close>: the exit status, and the line it prints.\<close>

definition build_main :: "'x build_tools \<Rightarrow> path \<Rightarrow> string list \<Rightarrow> (nat \<times> string) build" where
  "build_main tools root argv =
     (case argv of
        [_, ''proto''] \<Rightarrow>
          bindB (generate_protos tools root (PROTO_OUT root)) (\<lambda>files.
            returnB (0, nat_str (length files) @ '' files under '' @ posix (PROTO_OUT root)))
      | [_, ''fixtures''] \<Rightarrow>
          bindB (generate_fixtures tools root (FIXTURE_OUT root)) (\<lambda>files.
            returnB (0, nat_str (length files) @ '' files under '' @ posix (FIXTURE_OUT root)))
      | _ \<Rightarrow> returnB (2, ''usage: proto_build.py proto | fixtures''))"


subsection \<open>What the steps leave alone\<close>

lemma file_text_simps [simp]:
  "file_text (d\<lparr>dk_dirs := ds\<rparr>) p = file_text d p"
  "file_text (d\<lparr>dk_files := dict_set q s (dk_files d)\<rparr>) p = (if p = q then Some s else file_text d p)"
  by (simp_all add: file_text_def)

lemma map_of_filter_keys:
  "map_of (filter (\<lambda>(q, _). Q q) xs) p = (if Q p then map_of xs p else None)"
  by (induction xs) auto

lemma file_text_rmtree [simp]:
  "file_text (rmtree s d) p = (if startswith s p \<and> file_text d s = None then None else file_text d p)"
  by (simp add: rmtree_def file_text_def map_of_filter_keys [where Q = "\<lambda>q. \<not> startswith s q"])

definition keeps :: "path \<Rightarrow> 'a build \<Rightarrow> bool" where
  "keeps p m \<longleftrightarrow> (\<forall>d. file_text (snd (m d)) p = file_text d p)"

named_theorems keeps_intros "steps that keep a file"

lemma keepsD: "keeps p m \<Longrightarrow> m d = (r, d') \<Longrightarrow> file_text d' p = file_text d p"
  by (metis keeps_def snd_conv)

lemma keeps_basic [keeps_intros]:
  "keeps p (returnB x)" "keeps p (raiseB e)" "keeps p (lift r)" "keeps p (require q)"
  "keeps p (read_file q)" "keeps p (grpc_tools_include tools)"
  by (simp_all add: keeps_def returnB_def raiseB_def lift_def require_def read_file_def
      grpc_tools_include_def split: option.split sum.split)

lemma keeps_bindB [keeps_intros]:
  "keeps p m \<Longrightarrow> (\<And>x. keeps p (f x)) \<Longrightarrow> keeps p (bindB m f)"
  by (simp add: keeps_def bindB_def split: prod.split sum.split) (metis snd_conv)

lemma keeps_mkdir [keeps_intros]: "keeps p (mkdir exist_ok q)"
proof -
  have once: "keeps p (mkdir_once e q)" for e q
    by (auto simp: keeps_def mkdir_once_def os_mkdir_def)
  have "file_text (snd (mkdir exist_ok q d)) p = file_text d p" for d
  proof (induction exist_ok q d rule: mkdir.induct)
    case (1 exist_ok q d)
    show ?case
    proof (cases "fst (os_mkdir q d) = Raise (os_error ''FileNotFoundError'') \<and> q \<noteq> []")
      case True
      with 1 have "keeps p (mkdir True (butlast q))" by (simp add: keeps_def)
      then have "keeps p (bindB (mkdir True (butlast q)) (\<lambda>_. mkdir_once exist_ok q))"
        by (intro keeps_bindB once)
      with True show ?thesis by (subst mkdir.simps) (simp add: keeps_def)
    next
      case False
      then show ?thesis using once [of exist_ok q] by (subst mkdir.simps) (auto simp: keeps_def)
    qed
  qed
  then show ?thesis by (simp add: keeps_def)
qed

lemma keeps_write [keeps_intros]: "p \<noteq> q \<Longrightarrow> keeps p (write_file q s)"
  by (simp add: keeps_def write_file_def)

lemma keeps_copyfile [keeps_intros]: "p \<noteq> dst \<Longrightarrow> keeps p (copyfile src dst)"
  unfolding copyfile_def by (intro keeps_intros)

text \<open>
  What is documented of the tools: \<open>protoc\<close> writes only where an output option points, a module
  that is run writes only its compiled form, beside it, and a temporary directory is new.
\<close>

definition sound_tools :: "'x build_tools \<Rightarrow> bool" where
  "sound_tools tools \<longleftrightarrow>
     (\<forall>args d p. (\<forall>flag out. Output flag out \<in> set args \<longrightarrow> \<not> startswith out p) \<longrightarrow>
        file_text (snd (bt_protoc tools args d)) p = file_text d p)
     \<and> (\<forall>path d p. \<not> startswith (butlast path @ [''__pycache__'']) p \<longrightarrow>
        file_text (snd (bt_exec tools path d)) p = file_text d p)
     \<and> (\<forall>d p. startswith (bt_scratch tools d) p \<longrightarrow> file_text d p = None)"

lemma keeps_protoc [keeps_intros]:
  assumes "sound_tools tools" "\<And>flag out. Output flag out \<in> set args \<Longrightarrow> \<not> startswith out p"
  shows "keeps p (protoc tools args)"
proof -
  have "file_text (snd (bt_protoc tools args d)) p = file_text d p" for d
    using assms by (simp add: sound_tools_def)
  then have "keeps p (\<lambda>d. case bt_protoc tools args d of (code, d') \<Rightarrow>
      (if code \<noteq> 0
       then Raise (Proto_build_error (''protoc failed ('' @ int_str code @ ''): '' @
              space_join (map protoc_text args)))
       else Return (), d'))"
    by (simp add: keeps_def split: prod.split) (metis snd_conv)
  then show ?thesis unfolding protoc_def by (intro keeps_intros)
qed

lemma keeps_exec [keeps_intros]:
  "sound_tools tools \<Longrightarrow> \<not> startswith (butlast path @ [''__pycache__'']) p \<Longrightarrow> keeps p (exec_module tools path)"
  by (simp add: keeps_def exec_module_def sound_tools_def split: prod.split sum.split) (metis snd_conv)

lemma keeps_with_scratch [keeps_intros]:
  assumes "sound_tools tools" "\<And>s. keeps s (body s)" "\<And>s. \<not> startswith s p \<Longrightarrow> keeps p (body s)"
  shows "keeps p (with_scratch tools body)"
  unfolding keeps_def
proof
  fix d
  let ?s = "bt_scratch tools d"
  obtain r d' where body: "body ?s (d\<lparr>dk_dirs := dk_dirs d @ [?s]\<rparr>) = (r, d')" by fastforce
  have fresh: "file_text d q = None" if "startswith ?s q" for q
    using assms(1) that by (simp add: sound_tools_def)
  have "startswith ?s ?s" by (simp add: startswith_def)
  with fresh keepsD [OF assms(2) body] have "file_text d' ?s = None" by simp
  moreover have "file_text d' p = file_text d p" if "\<not> startswith ?s p"
    using keepsD [OF assms(3) [OF that] body] by simp
  ultimately show "file_text (snd (with_scratch tools body d)) p = file_text d p"
    using fresh by (auto simp: with_scratch_def Let_def body)
qed

lemma keeps_declared [keeps_intros]:
  assumes "sound_tools tools" "\<not> startswith (butlast path @ [''__pycache__'']) p"
  shows "keeps p (declared_tables tools root path)"
proof -
  have below: "\<not> startswith (s @ [x]) s" for s :: path and x by (simp add: startswith_def)
  have above: "\<not> startswith (s @ [x]) p" if "\<not> startswith s p" for s x
    using that by (auto simp: startswith_iff)
  show ?thesis unfolding declared_tables_def Let_def
    by (intro keeps_intros assms) (auto simp: descriptor_args_def below above)
qed

subsection \<open>What a build writes\<close>

lemma bindB_ReturnE:
  assumes "bindB m f d = (Return y, d')"
  obtains x d1 where "m d = (Return x, d1)" "f x d1 = (Return y, d')"
  using assms by (auto simp: bindB_def split: prod.splits sum.splits)

lemma map_of_map_values: "map_of (map (\<lambda>(p, s). (p, f p s)) xs) p = map_option (f p) (map_of xs p)"
  by (induction xs) auto

lemma file_text_with_texts:
  "(gt_texts t p = None \<longleftrightarrow> file_text d p = None) \<Longrightarrow> file_text (with_texts t d) p = gt_texts t p"
  by (auto simp: with_texts_def file_text_def map_of_map_values split: option.splits)

lemma fixup_files_other:
  "fixup_files m paths n t = (r, t') \<Longrightarrow>
     (gt_texts t' q = None \<longleftrightarrow> gt_texts t q = None) \<and> (q \<notin> set paths \<longrightarrow> gt_texts t' q = gt_texts t q)"
  by (induction m paths n t rule: fixup_files.induct)
    (fastforce simp: Let_def split: option.splits sum.splits if_splits)+

lemma fixup_files_read:
  "fixup_files m paths n t = (Inr k, t') \<Longrightarrow> path \<in> set paths \<Longrightarrow> gt_texts t path \<noteq> None"
proof (induction m paths n t rule: fixup_files.induct)
  case (2 m first paths n t)
  show ?case
  proof (cases "path = first")
    case False
    with 2 show ?thesis by (fastforce simp: Let_def split: option.splits sum.splits if_splits)
  qed (use 2 in \<open>auto split: option.splits\<close>)
qed simp

definition generated_module :: "path \<Rightarrow> path \<Rightarrow> bool" where
  "generated_module out p \<longleftrightarrow>
     startswith out p \<and> p \<noteq> out \<and> list_ex (\<lambda>g. glob_match g (last p)) GLOBS"

lemma FRAMEWORK_mapping: "plain_mapping FRAMEWORK" "settled_mapping FRAMEWORK"
  by code_simp+

lemma fixup_out_result:
  assumes "fixup_out out d = (Return u, d')"
  shows "if generated_module out p
    then (case file_text d p of None \<Rightarrow> file_text d' p = None
          | Some s \<Rightarrow> \<exists>new. file_text d' p = Some new
              \<and> universal_newlines new = rerooted FRAMEWORK (universal_newlines s))
    else file_text d' p = file_text d p"
proof -
  define listed where "listed = concat (map (gt_listing (gen_tree_of out d)) GLOBS)"
  obtain k t where run: "fixup_files FRAMEWORK listed 0 (gen_tree_of out d) = (Inr k, t)" and d': "d' = with_texts t d"
    using assms by (auto simp: fixup_out_def fixup_def listed_def split: prod.splits sum.splits)
  have texts: "gt_texts (gen_tree_of out d) = file_text d" by (simp add: gen_tree_of_def)
  have now: "file_text d' q = gt_texts t q" for q
    unfolding d' using fixup_files_other [OF run, of q] by (intro file_text_with_texts) (simp add: texts)
  have listed: "q \<in> set listed \<longleftrightarrow> generated_module out q \<and> q \<in> set (dk_dirs d @ keys (dk_files d))" for q
    by (auto simp: listed_def gen_tree_of_def rglob_def generated_module_def list_ex_iff)
  have there: "q \<in> set (keys (dk_files d))" if "file_text d q \<noteq> None" for q
    using that by (metis file_text_def map_of_eq_None_iff set_map)
  have read: "\<forall>q \<in> set listed. gt_texts (gen_tree_of out d) q \<noteq> None"
    using fixup_files_read [OF run] by blast
  from fixup_files_result [OF FRAMEWORK_mapping read, of 0] run
  have rewritten: "\<forall>q \<in> set listed. \<exists>new. gt_texts t q = Some new
      \<and> universal_newlines new = rerooted FRAMEWORK (universal_newlines (the (file_text d q)))"
    by (auto simp: texts)
  show ?thesis
  proof (cases "p \<in> set listed")
    case True
    then have "generated_module out p" "file_text d p \<noteq> None" using read by (simp_all add: listed texts)
    moreover from True rewritten obtain new where "gt_texts t p = Some new"
      "universal_newlines new = rerooted FRAMEWORK (universal_newlines (the (file_text d p)))" by blast
    ultimately show ?thesis by (auto simp: now)
  next
    case False
    with fixup_files_other [OF run, of p] have "file_text d' p = file_text d p" by (simp add: now texts)
    with False listed there show ?thesis by (auto split: option.split)
  qed
qed

lemma tables_of_result:
  assumes "tables_of files packages = Return tables" "distinct (keys packages)" "(package, enums) \<in> set packages"
  shows "\<exists>rf tables'. map_of (rev files) (reasons_proto package) = Some rf
    \<and> package_args rf enums = Return tables' \<and> map_of tables package = Some tables'"
  using assms
proof (induction files packages arbitrary: tables rule: tables_of.induct)
  case (2 files p es packages)
  then obtain rf t rest where *: "map_of (rev files) (reasons_proto p) = Some rf"
    "package_args rf es = Return t" "tables_of files packages = Return rest" "tables = (p, t) # rest"
    by (auto simp: bindR_eq_Inr_iff split: option.splits)
  then show ?case using 2 by (cases "package = p") (force simp: bindR_eq_Inr_iff)+
qed simp

lemma read_file_ReturnD: "read_file p d = (Return s, d') \<Longrightarrow> file_text d p = Some s \<and> d' = d"
  by (simp add: read_file_def split: option.splits)

lemma write_file_ReturnD: "write_file p s d = (Return u, d') \<Longrightarrow> file_text d' p = Some s"
  by (auto simp: write_file_def split: if_splits)

lemma copyfile_ReturnD:
  "copyfile src dst d = (Return u, d') \<Longrightarrow> file_text d' dst = file_text d src \<and> file_text d src \<noteq> None"
  unfolding copyfile_def by (elim bindB_ReturnE) (auto dest!: read_file_ReturnD dest: write_file_ReturnD)

definition written :: "path \<Rightarrow> path list \<Rightarrow> path set" where
  "written out packages = (\<Union>package \<in> set packages.
     {out @ package @ [''reasons.en-US.ftl''], out @ package @ [''reason_args.py'']})"

lemma write_packages_keeps:
  "write_packages root out tables packages d = (r, d') \<Longrightarrow> p \<notin> written out packages \<Longrightarrow>
     file_text d' p = file_text d p"
proof -
  assume p: "p \<notin> written out packages"
  have "keeps p (write_packages root out tables packages)"
    using p
  proof (induction packages)
    case (Cons package packages)
    then show ?case
      by (auto simp: written_def intro!: keeps_intros split: option.split prod.split)
  qed (simp add: keeps_intros)
  then show "write_packages root out tables packages d = (r, d') \<Longrightarrow> file_text d' p = file_text d p"
    by (rule keepsD)
qed

lemma write_packages_result:
  assumes "write_packages root out tables packages d = (Return u, d')" "distinct packages"
    and "\<And>x. \<not> startswith out (PROJECT_PROTO root @ x)" and "package \<in> set packages"
  shows "\<exists>catalog args statuses.
      file_text d (PROJECT_PROTO root @ package @ [''reasons.en-US.ftl'']) = Some catalog
    \<and> file_text d' (out @ package @ [''reasons.en-US.ftl'']) = Some catalog
    \<and> map_of tables package = Some (args, statuses)
    \<and> file_text d' (out @ package @ [''reason_args.py'']) = Some (reason_args args statuses)"
  using assms(1,2,4)
proof (induction packages arbitrary: d)
  case (Cons p packages)
  let ?src = "\<lambda>q. PROJECT_PROTO root @ q @ [''reasons.en-US.ftl'']"
  let ?cat = "\<lambda>q. out @ q @ [''reasons.en-US.ftl'']" and ?args = "\<lambda>q. out @ q @ [''reason_args.py'']"
  from Cons.prems(1) obtain d1 d2 args statuses where
    copied: "copyfile (?src p) (?cat p) d = (Return (), d1)" and t: "map_of tables p = Some (args, statuses)"
    and wrote: "write_file (?args p) (reason_args args statuses) d1 = (Return (), d2)"
    and rest: "write_packages root out tables packages d2 = (Return u, d')"
    by (auto elim!: bindB_ReturnE simp: raiseB_def split: option.splits)
  have src: "file_text d2 (?src q) = file_text d (?src q)" for q
  proof -
    have "?src q \<noteq> ?cat p" "?src q \<noteq> ?args p" using assms(3) by (metis startswith_append)+
    then show ?thesis using keepsD [OF keeps_copyfile copied] keepsD [OF keeps_write wrote] by simp
  qed
  show ?case
  proof (cases "package = p")
    case True
    have "?cat p \<notin> written out packages" "?args p \<notin> written out packages"
      using Cons.prems(2) by (auto simp: written_def)
    with write_packages_keeps [OF rest] have "file_text d' (?cat p) = file_text d2 (?cat p)"
      "file_text d' (?args p) = file_text d2 (?args p)" by blast+
    moreover have "file_text d2 (?cat p) = file_text d1 (?cat p)"
      by (intro keepsD [OF keeps_write wrote]) simp
    ultimately show ?thesis
      using copyfile_ReturnD [OF copied] write_file_ReturnD [OF wrote] t True by auto
  next
    case False
    with Cons.IH [OF rest] Cons.prems src show ?thesis by auto
  qed
qed simp

subsection \<open>A whole build\<close>

lemma clear_stale_text:
  assumes "\<forall>stale \<in> {''io'', ''sererr''}. file_text d (out @ [stale]) = None"
  shows "file_text (clear_stale out d) p =
    (if startswith (out @ [''io'']) p \<or> startswith (out @ [''sererr'']) p then None else file_text d p)"
  using assms by (simp add: clear_stale_def)

lemma clear_stale_dirs: "\<not> startswith out p \<Longrightarrow> p \<in> set (dk_dirs (clear_stale out d)) \<longleftrightarrow> p \<in> set (dk_dirs d)"
  by (auto simp: clear_stale_def rmtree_def startswith_iff)

lemma grpc_tools_include_ReturnD: "grpc_tools_include tools d = (Return p, d') \<Longrightarrow> d' = d"
  by (simp add: grpc_tools_include_def returnB_def raiseB_def split: sum.splits)

lemma protoc_ReturnD:
  "protoc tools args d = (Return u, d') \<Longrightarrow> bt_protoc tools args d = (0, d')"
  unfolding protoc_def
  by (elim bindB_ReturnE) (auto dest: grpc_tools_include_ReturnD split: prod.splits if_splits)

text \<open>A text \<open>protoc\<close> writes, asked for the descriptors of the reason packages.\<close>

definition descriptor_set :: "'x build_tools \<Rightarrow> path \<Rightarrow> string \<Rightarrow> bool" where
  "descriptor_set tools root s \<longleftrightarrow>
     (\<exists>include set_path before after. file_text after set_path = Some s
        \<and> bt_protoc tools (descriptor_args root include set_path) before = (0, after))"

lemma declared_tables_ReturnD:
  assumes "declared_tables tools root path d = (Return tables, d')"
  shows "\<exists>core s parsed. fst (bt_exec tools path d) = Return core \<and> descriptor_set tools root s
    \<and> bt_parse tools core s = Return parsed \<and> tables_of parsed REASON_PACKAGES = Return tables"
proof -
  let ?body = "\<lambda>core scratch. let set_path = scratch @ [''reasons.binpb''] in
       bindB (grpc_tools_include tools) (\<lambda>include.
       bindB (protoc tools (descriptor_args root include set_path)) (\<lambda>_.
       bindB (read_file set_path) (\<lambda>s. lift (parse_set tools core s))))"
  from assms obtain core d1 parsed d2 where run: "exec_module tools path d = (Return core, d1)"
    and scratch: "with_scratch tools (?body core) d1 = (Return parsed, d2)"
    and tables: "tables_of parsed REASON_PACKAGES = Return tables"
    unfolding declared_tables_def by (elim bindB_ReturnE) (auto simp: lift_def)
  from scratch obtain set_path inc d3 d4 s where
    "protoc tools (descriptor_args root inc set_path) d3 = (Return (), d4)" "file_text d4 set_path = Some s"
    "parse_set tools core s = Return parsed"
    unfolding with_scratch_def Let_def
    by (auto split: prod.splits elim!: bindB_ReturnE simp: lift_def dest!: read_file_ReturnD)
  moreover from calculation have "descriptor_set tools root s"
    unfolding descriptor_set_def using protoc_ReturnD by blast
  moreover have "fst (bt_exec tools path d) = Return core"
    using run by (simp add: exec_module_def split: prod.splits sum.splits)
  moreover have "bt_parse tools core s = Return parsed"
    using calculation(3) by (simp add: parse_set_def split: sum.splits)
  ultimately show ?thesis using tables by blast
qed

text \<open>The states a build that returns goes through.\<close>

lemma generate_protos_ReturnE:
  assumes "generate_protos tools root out d = (Return files, d')"
  obtains prepared inc compiled rooted tables after where
    "is_dir (PROJECT_PROTO root) d"
    and "mkdir True out (clear_stale out d) = (Return (), prepared)"
    and "protoc tools (framework_args root out inc prepared) prepared = (Return (), compiled)"
    and "fixup_out out compiled = (Return (), rooted)"
    and "declared_tables tools root (out @ CORE_REASONS @ [''reasons_pb2.py'']) rooted = (Return tables, after)"
    and "write_packages root out tables (keys REASON_PACKAGES) after = (Return (), d')"
    and "files = generated out d'"
  using assms unfolding generate_protos_def
  by (elim bindB_ReturnE) (auto simp: require_def dest: grpc_tools_include_ReturnD split: if_splits)

lemma rooted_outside:
  assumes tools: "sound_tools tools" and dirs: "\<forall>stale \<in> {''io'', ''sererr''}. file_text d (out @ [stale]) = None"
    and made: "mkdir True out (clear_stale out d) = (Return (), prepared)"
    and ran: "protoc tools (framework_args root out inc prepared) prepared = (Return (), compiled)"
    and rooted: "fixup_out out compiled = (Return (), rooted)" and p: "\<not> startswith out p"
  shows "file_text rooted p = file_text d p"
proof -
  have outs: "\<not> startswith o' p" if "Output flag o' \<in> set (framework_args root out inc prepared)" for flag o'
    using that p by (auto simp: framework_args_def)
  have "file_text rooted p = file_text compiled p"
    using fixup_out_result [OF rooted, of p] p by (simp add: generated_module_def)
  also have "\<dots> = file_text prepared p" by (rule keepsD [OF keeps_protoc [OF tools outs] ran])
  also have "\<dots> = file_text (clear_stale out d) p" by (rule keepsD [OF keeps_mkdir made])
  also have "\<dots> = file_text d p" using p by (auto simp: clear_stale_text [OF dirs] startswith_iff)
  finally show ?thesis .
qed

lemma declared_outside:
  assumes "sound_tools tools"
    and "declared_tables tools root (out @ CORE_REASONS @ [''reasons_pb2.py'']) rooted = (r, after)"
    and "''__pycache__'' \<notin> set p \<or> \<not> startswith out p"
  shows "file_text after p = file_text rooted p"
proof (rule keepsD [OF keeps_declared [OF assms(1)] assms(2)])
  have "butlast (out @ CORE_REASONS @ [''reasons_pb2.py'']) @ [''__pycache__''] =
      out @ CORE_REASONS @ [''__pycache__'']" by (simp add: butlast_append)
  with assms(3) show "\<not> startswith (butlast (out @ CORE_REASONS @ [''reasons_pb2.py'']) @ [''__pycache__'']) p"
    by (auto simp: startswith_iff)
qed

lemma written_inside: "p \<in> written out packages \<Longrightarrow> startswith out p"
  by (auto simp: written_def)

lemma reasons_written:
  assumes wrote: "write_packages root out tables (keys REASON_PACKAGES) after = (Return (), d')"
    and "tables_of parsed REASON_PACKAGES = Return tables"
    and apart: "\<And>x. \<not> startswith out (PROJECT_PROTO root @ x)"
    and same: "\<And>p. \<not> startswith out p \<Longrightarrow> file_text after p = file_text d p"
    and p: "(package, enums) \<in> set REASON_PACKAGES"
  shows "\<exists>catalog reasons args statuses.
      file_text d (PROJECT_PROTO root @ package @ [''reasons.en-US.ftl'']) = Some catalog
    \<and> file_text d' (out @ package @ [''reasons.en-US.ftl'']) = Some catalog
    \<and> map_of (rev parsed) (reasons_proto package) = Some reasons
    \<and> package_args reasons enums = Return (args, statuses)
    \<and> file_text d' (out @ package @ [''reason_args.py'']) = Some (reason_args args statuses)"
proof -
  have packages: "distinct (keys REASON_PACKAGES)" by (simp add: REASON_PACKAGES_def)
  from p have "package \<in> set (keys REASON_PACKAGES)" by force
  from write_packages_result [OF wrote packages apart this] tables_of_result [OF assms(2) packages p]
    same [OF apart]
  show ?thesis by fastforce
qed

text \<open>What is stale makes no difference.\<close>

lemma cleared_build:
  assumes "generate_protos tools root out d = (Return files, d')"
    and "\<not> startswith out (PROJECT_PROTO root)" and "clear_stale out d2 = clear_stale out d"
  shows "generate_protos tools root out d2 = (Return files, d')"
proof -
  have "is_dir (PROJECT_PROTO root) d" using assms(1) by (rule generate_protos_ReturnE)
  moreover from this assms(2,3) have "is_dir (PROJECT_PROTO root) d2" by (metis clear_stale_dirs is_dir_def)
  ultimately show ?thesis using assms(1,3) by (simp add: generate_protos_def bindB_def require_def)
qed

text \<open>
  C39: what the build of the package's modules leaves. From tools that keep to their contracts, a
  build that returns has compiled a tree with no module of an earlier build; every generated module
  is what \<open>protoc\<close> wrote with its imports rerooted, and every other file what \<open>protoc\<close> left; each
  package with reason keys has the project's catalog and the module of its keys' args and statuses,
  as the descriptors protobuf parses
  declare them, read through core's module as it was generated; no file outside the output changes, temporary ones included; the
  files returned are those written; and a build over a stale tree is a build over a cleared one.
\<close>

theorem generated_package:
  assumes tools: "sound_tools tools"
    and apart: "\<And>x. \<not> startswith out (PROJECT_PROTO root @ x)"
    and dirs: "\<forall>stale \<in> {''io'', ''sererr''}. file_text d (out @ [stale]) = None"
    and built: "generate_protos tools root out d = (Return files, d')"
  shows "\<exists>include prepared compiled rooted core s parsed.
      bt_protoc tools (framework_args root out include prepared) prepared = (0, compiled)
    \<and> (\<forall>stale \<in> {''io'', ''sererr''}. \<forall>p. file_text prepared (out @ [stale] @ p) = None)
    \<and> (\<forall>p. ''__pycache__'' \<notin> set p \<and> p \<notin> written out (keys REASON_PACKAGES) \<longrightarrow>
        (if generated_module out p
         then (case file_text compiled p of None \<Rightarrow> file_text d' p = None
               | Some s \<Rightarrow> \<exists>new. file_text d' p = Some new
                   \<and> universal_newlines new = rerooted FRAMEWORK (universal_newlines s))
         else file_text d' p = file_text compiled p))
    \<and> (\<forall>p. ''__pycache__'' \<notin> set p \<and> p \<notin> written out (keys REASON_PACKAGES) \<longrightarrow>
        file_text rooted p = file_text d' p)
    \<and> fst (bt_exec tools (out @ CORE_REASONS @ [''reasons_pb2.py'']) rooted) = Return core
    \<and> descriptor_set tools root s
    \<and> bt_parse tools core s = Return parsed
    \<and> (\<forall>(package, enums) \<in> set REASON_PACKAGES. \<exists>catalog reasons args statuses.
        file_text d (PROJECT_PROTO root @ package @ [''reasons.en-US.ftl'']) = Some catalog
      \<and> file_text d' (out @ package @ [''reasons.en-US.ftl'']) = Some catalog
      \<and> map_of (rev parsed) (reasons_proto package) = Some reasons
      \<and> package_args reasons enums = Return (args, statuses)
      \<and> file_text d' (out @ package @ [''reason_args.py'']) = Some (reason_args args statuses))
    \<and> (\<forall>p. \<not> startswith out p \<longrightarrow> file_text d' p = file_text d p)
    \<and> files = generated out d'
    \<and> (\<forall>d2. clear_stale out d2 = clear_stale out d \<longrightarrow>
        generate_protos tools root out d2 = (Return files, d'))"
proof -
  let ?core = "out @ CORE_REASONS @ [''reasons_pb2.py'']"
  from built obtain prepared inc compiled rooted tables after where
    made: "mkdir True out (clear_stale out d) = (Return (), prepared)"
    and ran: "protoc tools (framework_args root out inc prepared) prepared = (Return (), compiled)"
    and rooted: "fixup_out out compiled = (Return (), rooted)"
    and tables: "declared_tables tools root ?core rooted = (Return tables, after)"
    and wrote: "write_packages root out tables (keys REASON_PACKAGES) after = (Return (), d')"
    and files: "files = generated out d'" by (rule generate_protos_ReturnE)
  obtain core s parsed where read: "fst (bt_exec tools ?core rooted) = Return core"
      "descriptor_set tools root s" "bt_parse tools core s = Return parsed"
    and parsed: "tables_of parsed REASON_PACKAGES = Return tables"
    using declared_tables_ReturnD [OF tables] by blast
  have kept: "file_text rooted p = file_text d' p"
    if "''__pycache__'' \<notin> set p" "p \<notin> written out (keys REASON_PACKAGES)" for p
    using that declared_outside [OF tools tables] write_packages_keeps [OF wrote] by simp
  have same: "file_text after p = file_text d p" if "\<not> startswith out p" for p
    using that declared_outside [OF tools tables] rooted_outside [OF tools dirs made ran rooted] by simp
  have outside: "file_text d' p = file_text d p" if "\<not> startswith out p" for p
    using that same write_packages_keeps [OF wrote] written_inside by metis
  have "file_text prepared p = file_text (clear_stale out d) p" for p by (rule keepsD [OF keeps_mkdir made])
  then have cleared: "file_text prepared (out @ [stale] @ p) = None" if "stale \<in> {''io'', ''sererr''}" for stale p
    using that by (auto simp: clear_stale_text [OF dirs] startswith_def)
  have "\<not> startswith out (PROJECT_PROTO root)" using apart [of "[]"] by simp
  note again = cleared_build [OF built this]
  have modules: "if generated_module out p
      then (case file_text compiled p of None \<Rightarrow> file_text d' p = None
            | Some s \<Rightarrow> \<exists>new. file_text d' p = Some new
                \<and> universal_newlines new = rerooted FRAMEWORK (universal_newlines s))
      else file_text d' p = file_text compiled p"
    if "''__pycache__'' \<notin> set p" "p \<notin> written out (keys REASON_PACKAGES)" for p
    using fixup_out_result [OF rooted, of p] by (simp only: kept [OF that])
  show ?thesis
  proof (intro exI conjI allI impI ballI)
    show "bt_protoc tools (framework_args root out inc prepared) prepared = (0, compiled)"
      by (rule protoc_ReturnD [OF ran])
  qed (use cleared modules kept read outside files again reasons_written [OF wrote parsed apart same] in auto)
qed

text \<open>
  The fixtures' build replaces its output whole: it compiles over no file of an earlier build, and
  changes no file outside.
\<close>

lemma generated_fixtures:
  assumes tools: "sound_tools tools" and "file_text d out = None"
    and built: "generate_fixtures tools root out d = (Return files, d')"
  shows "\<exists>include prepared compiled.
      bt_protoc tools (fixture_args root out include prepared) prepared = (0, compiled)
    \<and> (\<forall>p. file_text prepared (out @ p) = None)
    \<and> (\<forall>p. \<not> startswith out p \<longrightarrow> file_text d' p = file_text d p)
    \<and> (\<forall>p. \<not> generated_module out p \<longrightarrow> file_text d' p = file_text compiled p)
    \<and> files = generated out d'"
proof -
  from built obtain prepared inc compiled where
    made: "mkdir False out (rmtree out d) = (Return (), prepared)"
    and ran: "protoc tools (fixture_args root out inc prepared) prepared = (Return (), compiled)"
    and rooted: "fixup_out out compiled = (Return (), d')" and files: "files = generated out d'"
    unfolding generate_fixtures_def
    by (elim bindB_ReturnE)
      (auto simp: require_def dest: grpc_tools_include_ReturnD split: if_splits)
  have prepared: "file_text prepared p = file_text (rmtree out d) p" for p
    by (rule keepsD [OF keeps_mkdir made])
  have "file_text d' p = file_text d p" if p: "\<not> startswith out p" for p
  proof -
    have outs: "\<not> startswith o' p" if "Output flag o' \<in> set (fixture_args root out inc prepared)" for flag o'
      using that p by (auto simp: fixture_args_def)
    have "file_text d' p = file_text compiled p"
      using fixup_out_result [OF rooted, of p] p by (simp add: generated_module_def)
    also have "\<dots> = file_text prepared p" by (rule keepsD [OF keeps_protoc [OF tools outs] ran])
    finally show ?thesis using p by (simp add: prepared)
  qed
  moreover have "file_text prepared (out @ p) = None" for p by (simp add: prepared assms(2))
  moreover have "file_text d' p = file_text compiled p" if "\<not> generated_module out p" for p
    using fixup_out_result [OF rooted, of p] that by simp
  ultimately show ?thesis using protoc_ReturnD [OF ran] files by blast
qed

text \<open>
  A build that can happen: a \<open>protoc\<close> that writes core's reasons module and the descriptor sets,
  over a project with its catalogs, and an output with a module of an earlier build.
\<close>

fun plain_output :: "protoc_arg \<Rightarrow> disk \<Rightarrow> disk" where
  "plain_output (Output flag out) d =
     (if flag = ''python_out''
      then d\<lparr>dk_dirs := dk_dirs d @ map (\<lambda>dir. out @ dir)
             [[''io''], [''io'', ''angzarr''], [''io'', ''angzarr'', ''v1''],
              [''io'', ''angzarr'', ''transport'', ''embedded'', ''v1''],
              [''io'', ''angzarr'', ''transport'', ''distributed'', ''v1'']],
             dk_files := dict_set (out @ CORE_REASONS @ [''reasons_pb2.py'']) small_module (dk_files d)\<rparr>
      else if flag = ''descriptor_set_out'' then d\<lparr>dk_files := dict_set out ''set'' (dk_files d)\<rparr>
      else d)"
| "plain_output a d = d"

definition plain_reasons :: reasons_file where
  "plain_reasons = map (\<lambda>e. (e, [\<lparr>ev_name = CHR ''K'' # e, ev_number = 1, ev_reason = Some ([''name''], 9)\<rparr>]))
     [''RouterReason'', ''HostReason'', ''CoordinatorReason'']"

definition plain_tools :: "unit build_tools" where
  "plain_tools =
     \<lparr>bt_grpc = Return [''grpc_tools''], bt_protoc = (\<lambda>args d. (0, fold plain_output args d)),
      bt_exec = (\<lambda>p d. (Return (), d\<lparr>dk_files :=
        dict_set (butlast p @ [''__pycache__'', ''reasons_pb2.pyc'']) [] (dk_files d)\<rparr>)),
      bt_parse = (\<lambda>_ _. Return (map (\<lambda>p. (reasons_proto p, plain_reasons)) (keys REASON_PACKAGES))),
      bt_scratch = (\<lambda>d. [CHR ''t'' # concat (concat (keys (dk_files d)))])\<rparr>"

definition plain_disk :: disk where
  "plain_disk = \<lparr>dk_dirs = [[''r''], PROJECT_PROTO [''r'']],
     dk_files = map (\<lambda>p. (PROJECT_PROTO [''r''] @ p @ [''reasons.en-US.ftl''], ''ftl'')) (keys REASON_PACKAGES) @
       [(PROTO_OUT [''r''] @ [''io'', ''old_pb2.py''], ''import io.old'')]\<rparr>"

lemma sound_plain_tools: "sound_tools plain_tools"
proof -
  have step: "file_text (plain_output (Output flag out) d) p = file_text d p" if "\<not> startswith out p" for flag out d p
  proof -
    from that have "p \<noteq> out @ CORE_REASONS @ [''reasons_pb2.py'']" "p \<noteq> out" by (auto simp: startswith_def)
    then show ?thesis unfolding plain_output.simps by (simp add: file_text_def)
  qed
  have "file_text (fold plain_output args d) p = file_text d p"
    if "\<forall>flag out. Output flag out \<in> set args \<longrightarrow> \<not> startswith out p" for args d p
    using that
  proof (induction args arbitrary: d)
    case (Cons a args)
    then have "file_text (plain_output a d) p = file_text d p"
      by (cases a) (simp_all del: plain_output.simps(1) add: step)
    with Cons show ?case by simp
  qed simp
  moreover have "file_text d p = None" if "startswith [CHR ''t'' # concat (concat (keys (dk_files d)))] p" for d p
  proof (rule ccontr)
    assume "file_text d p \<noteq> None"
    then have "p \<in> set (keys (dk_files d))" by (metis file_text_def map_of_eq_None_iff set_map)
    then obtain ps qs where "keys (dk_files d) = ps @ p # qs" by (meson split_list)
    then have "length (concat p) \<le> length (concat (concat (keys (dk_files d))))" by simp
    moreover from that obtain t where "p = (CHR ''t'' # concat (concat (keys (dk_files d)))) # t"
      by (auto simp: startswith_iff)
    then have "length (concat p) \<ge> Suc (length (concat (concat (keys (dk_files d)))))" by (metis concat.simps(2) length_Cons length_append le_add1)
    ultimately show False by simp
  qed
  ultimately show ?thesis
    by (auto simp: sound_tools_def plain_tools_def startswith_iff file_text_def)
qed

theorem generated_package_witness:
  "\<exists>files d'. generate_protos plain_tools [''r''] (PROTO_OUT [''r'']) plain_disk = (Return files, d')
    \<and> files = generated (PROTO_OUT [''r'']) d' \<and> length files = 7
    \<and> (\<forall>p. \<not> startswith (PROTO_OUT [''r'']) p \<longrightarrow> file_text d' p = file_text plain_disk p)"
proof -
  have count: "map_sum (\<lambda>_. ()) length (fst (generate_protos plain_tools [''r''] (PROTO_OUT [''r'']) plain_disk)) = Inr 7"
    by code_simp
  obtain r d' where run: "generate_protos plain_tools [''r''] (PROTO_OUT [''r'']) plain_disk = (r, d')"
    by (rule prod.exhaust)
  with count obtain files where "r = Return files" "length files = 7" by (cases r) simp_all
  with run have built: "generate_protos plain_tools [''r''] (PROTO_OUT [''r'']) plain_disk = (Return files, d')"
    "length files = 7" by simp_all
  have apart: "\<not> startswith (PROTO_OUT [''r'']) (PROJECT_PROTO [''r''] @ x)" for x
    by (simp add: PROTO_OUT_def PROJECT_PROTO_def startswith_def)
  have dirs: "\<forall>stale \<in> {''io'', ''sererr''}. file_text plain_disk (PROTO_OUT [''r''] @ [stale]) = None"
    by code_simp
  from generated_package [OF sound_plain_tools apart dirs built(1)] built show ?thesis by blast
qed

end
