(* ===== verification/Validation.thy ===== *)
theory Validation
  imports Complex_Main Context
begin

text \<open>
  \<open>angzarr_client/validation.py\<close>: the precondition helpers of a handler. Each passes, or logs the
  rejection at info level and raises it; so a helper answers what it logged beside its outcome.
\<close>

subsection \<open>Values\<close>

text \<open>
  A number as the helpers compare one: an int or a finite float or Decimal is the rational it
  denotes; the infinities and the float NaN compare as IEEE floats do, and ordering a Decimal NaN
  raises.
\<close>

datatype number = Finite rat | Positive_infinity | Negative_infinity | Float_nan | Decimal_nan

definition compared :: "(rat \<Rightarrow> bool) \<Rightarrow> bool \<Rightarrow> number \<Rightarrow> exn + bool" where
  "compared holds below v =
     (case v of
        Finite q \<Rightarrow> Return (holds q)
      | Positive_infinity \<Rightarrow> Return (\<not> below)
      | Negative_infinity \<Rightarrow> Return below
      | Float_nan \<Rightarrow> Return False
      | Decimal_nan \<Rightarrow> Raise (Other_exc ''InvalidOperation''))"

definition num_le_zero :: "number \<Rightarrow> exn + bool" where
  "num_le_zero = compared (\<lambda>q. q \<le> 0) True"

definition num_lt_zero :: "number \<Rightarrow> exn + bool" where
  "num_lt_zero = compared (\<lambda>q. q < 0) True"

subsection \<open>Rejecting\<close>

definition VALUE_NOT_POSITIVE :: string where "VALUE_NOT_POSITIVE = ''VALUE_NOT_POSITIVE''"
definition VALUE_NOT_NON_NEGATIVE :: string where
  "VALUE_NOT_NON_NEGATIVE = ''VALUE_NOT_NON_NEGATIVE''"
definition VALUE_EMPTY :: string where "VALUE_EMPTY = ''VALUE_EMPTY''"
definition COLLECTION_EMPTY :: string where "COLLECTION_EMPTY = ''COLLECTION_EMPTY''"
definition ENTITY_NOT_FOUND :: string where "ENTITY_NOT_FOUND = ''ENTITY_NOT_FOUND''"
definition ENTITY_ALREADY_EXISTS :: string where "ENTITY_ALREADY_EXISTS = ''ENTITY_ALREADY_EXISTS''"
definition STATUS_MISMATCH :: string where "STATUS_MISMATCH = ''STATUS_MISMATCH''"
definition STATUS_FORBIDDEN :: string where "STATUS_FORBIDDEN = ''STATUS_FORBIDDEN''"

lemmas validation_codes =
  VALUE_NOT_POSITIVE_def VALUE_NOT_NON_NEGATIVE_def VALUE_EMPTY_def COLLECTION_EMPTY_def
  ENTITY_NOT_FOUND_def ENTITY_ALREADY_EXISTS_def STATUS_MISMATCH_def STATUS_FORBIDDEN_def

record log_entry =
  lg_code :: string
  lg_field :: string
  lg_predicate :: string
  lg_status :: grpc_code

type_synonym checked = "log_entry list \<times> (exn + unit)"

definition passed :: checked where
  "passed = ([], Return ())"

definition reject ::
  "statuses \<Rightarrow> string \<Rightarrow> string \<Rightarrow> grpc_code \<Rightarrow> string \<Rightarrow> (string \<times> pyval) list \<Rightarrow> checked" where
  "reject sts field predicate st code args =
     ([\<lparr>lg_code = code, lg_field = field, lg_predicate = predicate, lg_status = st\<rparr>],
      (case Rejection sts code (grpc_num st) args of
         Inl exc \<Rightarrow> Raise exc
       | Inr rejection \<Rightarrow> Raise (Coded rejection)))"

subsection \<open>The helpers\<close>

definition require_exists :: "statuses \<Rightarrow> bool \<Rightarrow> string \<Rightarrow> checked" where
  "require_exists sts exists ctx =
     (if \<not> exists then reject sts ''<entity>'' ''exists'' NOT_FOUND ENTITY_NOT_FOUND
            [(''context'', PStr ctx)]
      else passed)"

definition require_not_exists :: "statuses \<Rightarrow> bool \<Rightarrow> string \<Rightarrow> checked" where
  "require_not_exists sts exists ctx =
     (if exists then reject sts ''<entity>'' ''not_exists'' FAILED_PRECONDITION
            ENTITY_ALREADY_EXISTS [(''context'', PStr ctx)]
      else passed)"

definition require_positive :: "statuses \<Rightarrow> number \<Rightarrow> string \<Rightarrow> checked" where
  "require_positive sts v field =
     (case num_le_zero v of
        Inl exc \<Rightarrow> ([], Raise exc)
      | Inr le \<Rightarrow>
          if le then reject sts field ''positive'' INVALID_ARGUMENT VALUE_NOT_POSITIVE
                 [(''field'', PStr field)]
          else passed)"

definition require_non_negative :: "statuses \<Rightarrow> number \<Rightarrow> string \<Rightarrow> checked" where
  "require_non_negative sts v field =
     (case num_lt_zero v of
        Inl exc \<Rightarrow> ([], Raise exc)
      | Inr lt \<Rightarrow>
          if lt then reject sts field ''non_negative'' INVALID_ARGUMENT VALUE_NOT_NON_NEGATIVE
                 [(''field'', PStr field)]
          else passed)"

definition require_not_empty :: "statuses \<Rightarrow> 'a list \<Rightarrow> string \<Rightarrow> checked" where
  "require_not_empty sts items field =
     (if items = [] then reject sts field ''not_empty'' INVALID_ARGUMENT COLLECTION_EMPTY
            [(''field'', PStr field)]
      else passed)"

definition require_not_empty_str :: "statuses \<Rightarrow> string \<Rightarrow> string \<Rightarrow> checked" where
  "require_not_empty_str sts v field =
     (if v = [] then reject sts field ''not_empty_str'' INVALID_ARGUMENT VALUE_EMPTY
            [(''field'', PStr field)]
      else passed)"

definition require_status :: "statuses \<Rightarrow> string \<Rightarrow> string \<Rightarrow> string \<Rightarrow> checked" where
  "require_status sts actual expected ctx =
     (if actual \<noteq> expected then reject sts ''status'' ''status_eq'' FAILED_PRECONDITION
            STATUS_MISMATCH [(''context'', PStr ctx)]
      else passed)"

definition require_status_not :: "statuses \<Rightarrow> string \<Rightarrow> string \<Rightarrow> string \<Rightarrow> checked" where
  "require_status_not sts actual forbidden ctx =
     (if actual = forbidden then reject sts ''status'' ''status_not'' FAILED_PRECONDITION
            STATUS_FORBIDDEN [(''context'', PStr ctx)]
      else passed)"

lemmas require_defs =
  require_exists_def require_not_exists_def require_positive_def require_non_negative_def
  require_not_empty_def require_not_empty_str_def require_status_def require_status_not_def

subsection \<open>A helper's failure as the router answers it\<close>

text \<open>
  What a check asks, as the helpers document it (a value that is no number is neither positive nor
  non-negative), and the rejection it raises.
\<close>

datatype check =
    Exists bool string | Not_exists bool string | Positive number string
  | Non_negative number string | Not_empty "unit list" string | Not_empty_str string string
  | Status string string string | Status_not string string string

fun run_check :: "statuses \<Rightarrow> check \<Rightarrow> checked" where
  "run_check sts (Exists b c) = require_exists sts b c"
| "run_check sts (Not_exists b c) = require_not_exists sts b c"
| "run_check sts (Positive v f) = require_positive sts v f"
| "run_check sts (Non_negative v f) = require_non_negative sts v f"
| "run_check sts (Not_empty xs f) = require_not_empty sts xs f"
| "run_check sts (Not_empty_str s f) = require_not_empty_str sts s f"
| "run_check sts (Status a e c) = require_status sts a e c"
| "run_check sts (Status_not a e c) = require_status_not sts a e c"

fun check_holds :: "check \<Rightarrow> bool" where
  "check_holds (Exists b _) \<longleftrightarrow> b"
| "check_holds (Not_exists b _) \<longleftrightarrow> \<not> b"
| "check_holds (Positive v _) \<longleftrightarrow>
     (case v of Finite q \<Rightarrow> 0 < q | Positive_infinity \<Rightarrow> True | _ \<Rightarrow> False)"
| "check_holds (Non_negative v _) \<longleftrightarrow>
     (case v of Finite q \<Rightarrow> 0 \<le> q | Positive_infinity \<Rightarrow> True | _ \<Rightarrow> False)"
| "check_holds (Not_empty xs _) \<longleftrightarrow> xs \<noteq> []"
| "check_holds (Not_empty_str s _) \<longleftrightarrow> s \<noteq> []"
| "check_holds (Status a e _) \<longleftrightarrow> a = e"
| "check_holds (Status_not a e _) \<longleftrightarrow> a \<noteq> e"

fun is_decimal_nan :: "check \<Rightarrow> bool" where
  "is_decimal_nan (Positive v _) \<longleftrightarrow> v = Decimal_nan"
| "is_decimal_nan (Non_negative v _) \<longleftrightarrow> v = Decimal_nan"
| "is_decimal_nan _ \<longleftrightarrow> False"

fun is_float_nan :: "check \<Rightarrow> bool" where
  "is_float_nan (Positive v _) \<longleftrightarrow> v = Float_nan"
| "is_float_nan (Non_negative v _) \<longleftrightarrow> v = Float_nan"
| "is_float_nan _ \<longleftrightarrow> False"

fun check_rejects :: "check \<Rightarrow> string \<times> grpc_code \<times> (string \<times> string) list" where
  "check_rejects (Exists _ c) = (ENTITY_NOT_FOUND, NOT_FOUND, [(''context'', c)])"
| "check_rejects (Not_exists _ c) = (ENTITY_ALREADY_EXISTS, FAILED_PRECONDITION, [(''context'', c)])"
| "check_rejects (Positive _ f) = (VALUE_NOT_POSITIVE, INVALID_ARGUMENT, [(''field'', f)])"
| "check_rejects (Non_negative _ f) = (VALUE_NOT_NON_NEGATIVE, INVALID_ARGUMENT, [(''field'', f)])"
| "check_rejects (Not_empty _ f) = (COLLECTION_EMPTY, INVALID_ARGUMENT, [(''field'', f)])"
| "check_rejects (Not_empty_str _ f) = (VALUE_EMPTY, INVALID_ARGUMENT, [(''field'', f)])"
| "check_rejects (Status _ _ c) = (STATUS_MISMATCH, FAILED_PRECONDITION, [(''context'', c)])"
| "check_rejects (Status_not _ _ c) = (STATUS_FORBIDDEN, FAILED_PRECONDITION, [(''context'', c)])"

lemma reject_raises:
  "grpc_num st \<in> set business_statuses \<Longrightarrow>
     snd (reject sts field predicate st code [(k, PStr v)]) =
       Raise (Coded (coded_error sts code (Some (grpc_num st)) [(k, v)] None))"
  by (simp add: reject_def Rejection_def check_status_def strings_def)

lemma run_check_outcome:
  "snd (run_check sts c) =
     (if is_decimal_nan c then Raise (Other_exc ''InvalidOperation'')
      else if check_holds c \<or> is_float_nan c then Return ()
      else (case check_rejects c of (code, st, args) \<Rightarrow>
        Raise (Coded (coded_error sts code (Some (grpc_num st)) args None))))"
  by (cases c)
    (auto simp: require_defs reject_raises business_statuses_def passed_def num_le_zero_def
      num_lt_zero_def compared_def not_less split: number.split)

end
