(* ===== verification/Compensation.thy ===== *)
theory Compensation
  imports Client_Errors Context
begin

text \<open>
  \<open>angzarr_client/compensation.py\<close>: a process manager's steps, each with the undo that
  reverses it, and the events that roll it back. The author's callbacks are parameters; one that
  raises, raises out of the operation that called it.
\<close>

subsection \<open>Steps\<close>

text \<open>
  What a protobuf message class (or its descriptor) says of itself: its full name, and its
  \<open>(command)\<close> option's \<open>fact\<close> flag when it has the option. An event is a Python object of a
  class, named by \<open>type_of\<close>.
\<close>

record message_desc =
  md_full_name :: string
  md_command :: "bool option"

definition is_command :: "message_desc \<Rightarrow> bool" where
  "is_command m = (case md_command m of None \<Rightarrow> False | Some fact_flag \<Rightarrow> \<not> fact_flag)"

record undo_warning =
  uw_step :: string
  uw_command :: string

definition warning_args :: "undo_warning \<Rightarrow> (string, string) dict" where
  "warning_args w = [(''step'', uw_step w), (''command'', uw_command w)]"

definition warning_text :: "undo_warning \<Rightarrow> string" where
  "warning_text w = display UNDO_TARGETS_COMMAND (warning_args w)"

record ('st, 'ev) comp_step =
  cs_name :: string
  cs_completed_by :: string
  cs_target :: string
  cs_recorded :: "'st \<Rightarrow> exn + 'ev option"
  cs_undo :: "'ev \<Rightarrow> exn + 'ev"

record ('st, 'ev) compensation =
  co_failed :: "'st \<Rightarrow> string \<Rightarrow> exn + 'ev"
  co_rolled_back :: "'st \<Rightarrow> exn + bool"
  co_compensation_failed :: "'st \<Rightarrow> string \<Rightarrow> exn + 'ev"
  co_steps :: "('st, 'ev) comp_step list"
  co_warnings :: "undo_warning list"

definition compensation_new ::
  "('st \<Rightarrow> string \<Rightarrow> exn + 'ev) \<Rightarrow> ('st \<Rightarrow> exn + bool) \<Rightarrow> ('st \<Rightarrow> string \<Rightarrow> exn + 'ev)
     \<Rightarrow> ('st, 'ev) compensation" where
  "compensation_new failed rolled_back compensation_failed =
     \<lparr>co_failed = failed, co_rolled_back = rolled_back,
      co_compensation_failed = compensation_failed, co_steps = [], co_warnings = []\<rparr>"

definition step ::
  "string \<Rightarrow> string \<Rightarrow> message_desc \<Rightarrow> ('st \<Rightarrow> exn + 'ev option) \<Rightarrow> ('ev \<Rightarrow> exn + 'ev)
     \<Rightarrow> ('st, 'ev) compensation \<Rightarrow> ('st, 'ev) compensation" where
  "step name completed_by undoes recorded undo c =
     (let target = md_full_name undoes;
          c' = (if is_command undoes
                then c\<lparr>co_warnings := co_warnings c @ [\<lparr>uw_step = name, uw_command = target\<rparr>]\<rparr>
                else c) in
      c'\<lparr>co_steps := co_steps c' @
        [\<lparr>cs_name = name, cs_completed_by = completed_by, cs_target = target,
          cs_recorded = recorded, cs_undo = undo\<rparr>]\<rparr>)"

subsection \<open>Rolling back\<close>

fun undo_done :: "'st \<Rightarrow> 'ev list \<Rightarrow> ('st, 'ev) comp_step list \<Rightarrow> exn + 'ev list" where
  "undo_done st events [] = Return events"
| "undo_done st events (s # steps) =
     bindR (cs_recorded s st) (\<lambda>recorded.
     case recorded of
       None \<Rightarrow> undo_done st events steps
     | Some ev \<Rightarrow> bindR (cs_undo s ev) (\<lambda>u. undo_done st (events @ [u]) steps))"

definition rollback :: "('st, 'ev) compensation \<Rightarrow> 'st \<Rightarrow> string \<Rightarrow> exn + 'ev list" where
  "rollback c st reason =
     bindR (co_failed c st reason) (\<lambda>f. undo_done st [f] (rev (co_steps c)))"

fun undo_reply :: "('ev \<Rightarrow> string) \<Rightarrow> 'ev \<Rightarrow> ('st, 'ev) comp_step list \<Rightarrow> exn + 'ev list" where
  "undo_reply type_of reply [] = Return []"
| "undo_reply type_of reply (s # steps) =
     (if type_of reply = cs_completed_by s then bindR (cs_undo s reply) (\<lambda>u. Return [u])
      else undo_reply type_of reply steps)"

definition reply :: "('ev \<Rightarrow> string) \<Rightarrow> ('st, 'ev) compensation \<Rightarrow> 'st \<Rightarrow> 'ev \<Rightarrow> exn + 'ev list" where
  "reply type_of c st r =
     bindR (co_rolled_back c st) (\<lambda>back.
     if back then bindR (undo_reply type_of r (co_steps c)) (\<lambda>us. Return (r # us))
     else Return [r])"

text \<open>The refused undo is given by its message class or by its full name.\<close>

datatype undo_ref = Undo_name string | Undo_message message_desc

fun undo_target :: "undo_ref \<Rightarrow> string" where
  "undo_target (Undo_name n) = n"
| "undo_target (Undo_message m) = md_full_name m"

fun find_target :: "string \<Rightarrow> ('st, 'ev) comp_step list \<Rightarrow> ('st, 'ev) comp_step option" where
  "find_target target [] = None"
| "find_target target (s # steps) =
     (if cs_target s = target then Some s else find_target target steps)"

definition undo_refused :: "('st, 'ev) compensation \<Rightarrow> 'st \<Rightarrow> undo_ref \<Rightarrow> exn + 'ev option" where
  "undo_refused c st undoes =
     (case find_target (undo_target undoes) (co_steps c) of
        None \<Rightarrow> Return None
      | Some s \<Rightarrow> bindR (co_compensation_failed c st (cs_name s)) (\<lambda>ev. Return (Some ev)))"

subsection \<open>Facts about rollbacks\<close>

lemma step_sel [simp]:
  "co_failed (step n ty u r un c) = co_failed c"
  "co_rolled_back (step n ty u r un c) = co_rolled_back c"
  "co_compensation_failed (step n ty u r un c) = co_compensation_failed c"
  "co_steps (step n ty u r un c) = co_steps c @
     [\<lparr>cs_name = n, cs_completed_by = ty, cs_target = md_full_name u, cs_recorded = r, cs_undo = un\<rparr>]"
  "co_warnings (step n ty u r un c) = co_warnings c @
     (if is_command u then [\<lparr>uw_step = n, uw_command = md_full_name u\<rparr>] else [])"
  by (simp_all add: step_def Let_def)

lemma compensation_new_sel [simp]:
  "co_failed (compensation_new f b cf) = f"
  "co_rolled_back (compensation_new f b cf) = b"
  "co_compensation_failed (compensation_new f b cf) = cf"
  "co_steps (compensation_new f b cf) = []"
  "co_warnings (compensation_new f b cf) = []"
  by (simp_all add: compensation_new_def)

text \<open>A step's undo when the state records it done.\<close>

definition undo_of :: "'st \<Rightarrow> ('st, 'ev) comp_step \<Rightarrow> exn + 'ev list" where
  "undo_of st s =
     bindR (cs_recorded s st) (\<lambda>r. case r of None \<Rightarrow> Return []
       | Some ev \<Rightarrow> bindR (cs_undo s ev) (\<lambda>u. Return [u]))"

lemma undo_done_Cons:
  "undo_done st events (s # steps) =
     bindR (undo_of st s) (\<lambda>us. undo_done st (events @ us) steps)"
  by (auto simp: undo_of_def bindR_assoc intro!: bindR_cong split: option.split)

interpretation undoing: sequential_fold "undo_done st"
  by unfold_locales (auto simp: bindR_assoc intro!: bindR_cong split: option.split)

lemma undo_done_iff:
  "undo_done st events steps = Return evs \<longleftrightarrow>
     (\<exists>us. list_all2 (\<lambda>s u. undo_of st s = Return u) steps us \<and> evs = events @ concat us)"
proof (induction steps arbitrary: events evs)
  case (Cons s steps)
  show ?case
    by (auto simp: undo_done_Cons bindR_eq_Inr_iff Cons.IH list_all2_Cons1 simp del: undo_done.simps)
      fastforce+
qed auto

lemma undo_reply_unique:
  assumes "distinct (map cs_completed_by steps)" and "s \<in> set steps"
    and "type_of r = cs_completed_by s"
  shows "undo_reply type_of r steps = bindR (cs_undo s r) (\<lambda>u. Return [u])"
  using assms by (induction steps) (auto simp: image_iff)

lemma find_target_filter:
  "find_target target steps =
     (case filter (\<lambda>s. cs_target s = target) steps of [] \<Rightarrow> None | s # _ \<Rightarrow> Some s)"
  by (induction steps) auto

text \<open>Registering a list of steps, one after another.\<close>

record ('st, 'ev) registration =
  rg_name :: string
  rg_completed_by :: string
  rg_undoes :: message_desc
  rg_recorded :: "'st \<Rightarrow> exn + 'ev option"
  rg_undo :: "'ev \<Rightarrow> exn + 'ev"

definition register_steps ::
  "('st, 'ev) registration list \<Rightarrow> ('st, 'ev) compensation \<Rightarrow> ('st, 'ev) compensation" where
  "register_steps rs c =
     foldl (\<lambda>c r. step (rg_name r) (rg_completed_by r) (rg_undoes r) (rg_recorded r) (rg_undo r) c) c rs"

definition step_of :: "('st, 'ev) registration \<Rightarrow> ('st, 'ev) comp_step" where
  "step_of r =
     \<lparr>cs_name = rg_name r, cs_completed_by = rg_completed_by r,
      cs_target = md_full_name (rg_undoes r), cs_recorded = rg_recorded r, cs_undo = rg_undo r\<rparr>"

lemma register_steps_sel:
  "co_steps (register_steps rs c) = co_steps c @ map step_of rs"
  "co_warnings (register_steps rs c) = co_warnings c @
     map (\<lambda>r. \<lparr>uw_step = rg_name r, uw_command = md_full_name (rg_undoes r)\<rparr>)
       (filter (\<lambda>r. is_command (rg_undoes r)) rs)"
  "co_failed (register_steps rs c) = co_failed c"
  "co_rolled_back (register_steps rs c) = co_rolled_back c"
  "co_compensation_failed (register_steps rs c) = co_compensation_failed c"
  by (induction rs arbitrary: c) (simp_all add: register_steps_def step_of_def)

subsection \<open>Properties\<close>

text \<open>
  C11: a rollback is the failed event followed by the undos of exactly the steps the state
  records done, each once and newest first (the reverse of their registration), each built from
  the event that recorded it; it fails only when a callback does.
\<close>

theorem rollback_newest_first:
  "rollback (register_steps rs (compensation_new failed back comp_failed)) st reason = Return evs \<longleftrightarrow>
     (\<exists>f us. failed st reason = Return f
        \<and> list_all2 (\<lambda>r u. bindR (rg_recorded r st) (\<lambda>e. case e of None \<Rightarrow> Return []
             | Some ev \<Rightarrow> bindR (rg_undo r ev) (\<lambda>v. Return [v])) = Return u) rs us
        \<and> evs = f # concat (rev us))"
proof -
  let ?c = "register_steps rs (compensation_new failed back comp_failed)"
  let ?Q = "\<lambda>us. list_all2 (\<lambda>r u. bindR (rg_recorded r st) (\<lambda>e. case e of None \<Rightarrow> Return []
             | Some ev \<Rightarrow> bindR (rg_undo r ev) (\<lambda>v. Return [v])) = Return u) rs us"
  have "list_all2 (\<lambda>s u. undo_of st s = Return u) (rev (map step_of rs)) us = ?Q (rev us)" for us
    by (simp add: list_all2_rev1 list_all2_map1 undo_of_def step_of_def)
  then have "rollback ?c st reason = Return evs \<longleftrightarrow>
      (\<exists>f. failed st reason = Return f \<and> (\<exists>us. ?Q (rev us) \<and> evs = f # concat us))"
    unfolding rollback_def bindR_eq_Inr_iff undo_done_iff register_steps_sel
    by simp
  moreover have "(\<exists>us. Q (rev us) \<and> evs = f # concat us) \<longleftrightarrow> (\<exists>us. Q us \<and> evs = f # concat (rev us))"
    for Q :: "'a list list \<Rightarrow> bool" and f by (metis rev_rev_ident)
  ultimately show ?thesis by (simp only: ex_simps)
qed

text \<open>
  C12: no completed step goes without its undo, whether its reply arrives before the rollback or
  after: before, the reply is recorded alone, and any later rollback of a state that records it
  undoes it; after, the reply is recorded with its undo at once.
\<close>

theorem every_reply_is_undone_once:
  assumes "distinct (map cs_completed_by (co_steps c))" and "s \<in> set (co_steps c)"
    and "type_of r = cs_completed_by s" and "cs_undo s r = Return u"
  shows "(co_rolled_back c st = Return True \<longrightarrow> reply type_of c st r = Return [r, u])
    \<and> (co_rolled_back c st = Return False \<longrightarrow> reply type_of c st r = Return [r])
    \<and> (\<forall>st' reason evs. cs_recorded s st' = Return (Some r) \<longrightarrow>
          rollback c st' reason = Return evs \<longrightarrow> u \<in> set (tl evs))"
proof (intro conjI allI impI)
  assume "co_rolled_back c st = Return True"
  then show "reply type_of c st r = Return [r, u]"
    by (simp add: reply_def undo_reply_unique [where type_of = type_of, OF assms(1-3)] assms(4))
next
  assume "co_rolled_back c st = Return False"
  then show "reply type_of c st r = Return [r]" by (simp add: reply_def)
next
  fix st' reason evs
  assume rec: "cs_recorded s st' = Return (Some r)" and "rollback c st' reason = Return evs"
  then obtain f us where us: "list_all2 (\<lambda>s u. undo_of st' s = Return u) (rev (co_steps c)) us"
    and evs: "evs = f # concat us"
    by (auto simp: rollback_def bindR_eq_Inr_iff undo_done_iff)
  from assms(2) obtain i where i: "i < length (rev (co_steps c))" "rev (co_steps c) ! i = s"
    by (metis in_set_conv_nth set_rev)
  with us rec assms(4) have "us ! i = [u]" "i < length us"
    by (auto simp: list_all2_conv_all_nth undo_of_def)
  then have "[u] \<in> set us" by (metis nth_mem)
  then show "u \<in> set (tl evs)" by (auto simp: evs intro: bexI [of _ "[u]"])
qed

text \<open>A two-step compensation for the witness, over a state that lists the recorded events.\<close>

definition two_steps :: "(string list, string) compensation" where
  "two_steps =
     step ''b'' ''B'' \<lparr>md_full_name = ''t.UndoB'', md_command = Some False\<rparr>
       (\<lambda>st. Return (if ''B'' \<in> set st then Some ''B'' else None)) (\<lambda>ev. Return (''-'' @ ev))
       (step ''a'' ''A'' \<lparr>md_full_name = ''t.UndoA'', md_command = None\<rparr>
         (\<lambda>st. Return (if ''A'' \<in> set st then Some ''A'' else None)) (\<lambda>ev. Return (''-'' @ ev))
         (compensation_new (\<lambda>st reason. Return (''failed'' @ reason))
           (\<lambda>st. Return (''failed'' \<in> set st)) (\<lambda>st name. Return (''cf '' @ name))))"

theorem every_reply_is_undone_once_witness:
  "reply (\<lambda>ev. ev) two_steps [''failed''] ''A'' = Return [''A'', ''-A'']"
  by (rule every_reply_is_undone_once [of two_steps "(co_steps two_steps) ! 0" "\<lambda>ev. ev",
        THEN conjunct1, rule_format])
    (simp_all add: two_steps_def)

text \<open>
  Registering steps never refuses one: every step is kept, in order, and the warnings are
  exactly the steps whose undo its destination declares a command, in order, each naming its
  step and that command. An undo's refusal is recorded as the failure of the first registered
  step whose undo it is, found alike by its message class and by its full name, and as nothing
  when no step's undo it is.
\<close>

theorem registration_warns_and_refusals_find_their_step:
  fixes failed :: "'st \<Rightarrow> string \<Rightarrow> exn + 'ev" and comp_failed :: "'st \<Rightarrow> string \<Rightarrow> exn + 'ev"
  shows "map (\<lambda>w. (uw_step w, uw_command w))
      (co_warnings (register_steps rs (compensation_new failed back comp_failed)))
    = map (\<lambda>r. (rg_name r, md_full_name (rg_undoes r)))
        (filter (\<lambda>r. md_command (rg_undoes r) = Some False) rs)
    \<and> undo_refused (register_steps rs (compensation_new failed back comp_failed)) st
        (Undo_message undoes)
    = (case filter (\<lambda>r. md_full_name (rg_undoes r) = md_full_name undoes) rs of
         [] \<Rightarrow> Return None
       | r # _ \<Rightarrow> bindR (comp_failed st (rg_name r)) (\<lambda>ev. Return (Some ev)))
    \<and> undo_refused (register_steps rs (compensation_new failed back comp_failed)) st
        (Undo_name (md_full_name undoes))
    = undo_refused (register_steps rs (compensation_new failed back comp_failed)) st
        (Undo_message undoes)"
proof -
  have "is_command m \<longleftrightarrow> md_command m = Some False" for m
    by (auto simp: is_command_def split: option.split)
  moreover have "find_target t (map step_of rs) =
      (case filter (\<lambda>r. md_full_name (rg_undoes r) = t) rs of [] \<Rightarrow> None | r # _ \<Rightarrow> Some (step_of r))" for t
    by (induction rs) (auto simp: step_of_def)
  ultimately show ?thesis
    by (simp add: register_steps_sel undo_refused_def comp_def)
      (simp add: register_steps_sel step_of_def split: list.split)
qed

end
