(* ===== verification/Policy.thy ===== *)
theory Policy
  imports Context
begin

text \<open>
  \<open>angzarr_client/router/policy.py\<close>: a policy's dispatch table and its two operations,
  \<open>handle\<close> (a source book in, one reaction per page of a declared type out) and \<open>refused\<close>
  (a refusal of one of its commands in, the translated fact or nothing out).
\<close>

text \<open>A refusal as the coordinator delivers it: the refused command's book, the rest carried.\<close>

record refusal =
  rf_command :: command_book
  rf_rest :: bytes

type_synonym policy_event_thunk =
  "ambient \<Rightarrow> any_msg \<Rightarrow> page_context \<Rightarrow> exn + command_book list option"
type_synonym refusal_thunk = "ambient \<Rightarrow> refusal \<Rightarrow> command_context \<Rightarrow> exn + py_msg"

record policy_dispatch =
  po_name :: string
  po_input_domain :: string
  po_output_domain :: string
  po_events :: "string \<rightharpoonup> policy_event_thunk"
  po_refusals :: "string \<rightharpoonup> refusal_thunk"
  po_rules_version :: string

definition policy_new :: "string \<Rightarrow> string \<Rightarrow> string \<Rightarrow> policy_dispatch" where
  "policy_new name input_domain output_domain =
     \<lparr>po_name = name, po_input_domain = input_domain, po_output_domain = output_domain,
      po_events = Map.empty, po_refusals = Map.empty, po_rules_version = []\<rparr>"

definition policy_on_event ::
  "string \<Rightarrow> policy_event_thunk \<Rightarrow> policy_dispatch \<Rightarrow> policy_dispatch" where
  "policy_on_event full_name thunk d = d\<lparr>po_events := (po_events d)(full_name \<mapsto> thunk)\<rparr>"

definition policy_on_refused ::
  "string \<Rightarrow> refusal_thunk \<Rightarrow> policy_dispatch \<Rightarrow> policy_dispatch" where
  "policy_on_refused command thunk d = d\<lparr>po_refusals := (po_refusals d)(command \<mapsto> thunk)\<rparr>"

definition policy_with_rules_version :: "string \<Rightarrow> policy_dispatch \<Rightarrow> policy_dispatch" where
  "policy_with_rules_version version d = d\<lparr>po_rules_version := version\<rparr>"

interpretation policy_events: registry policy_on_event po_events
  by unfold_locales (auto simp: policy_on_event_def)

interpretation policy_refusals: registry policy_on_refused po_refusals
  by unfold_locales (auto simp: policy_on_refused_def)

subsection \<open>Handling a source book\<close>

definition trigger_context :: "event_book \<Rightarrow> event_page \<Rightarrow> page_context" where
  "trigger_context source page =
     \<lparr>pc_cover = eb_cover source, pc_sequence = pg_sequence page, pc_meta = pg_meta page\<rparr>"

text \<open>\<open>call(...) or []\<close>: no list and an empty one alike.\<close>

definition or_empty :: "'a list option \<Rightarrow> 'a list" where
  "or_empty xs = (case xs of None \<Rightarrow> [] | Some l \<Rightarrow> l)"

fun react ::
  "runtime \<Rightarrow> policy_dispatch \<Rightarrow> event_book \<Rightarrow> reaction list \<Rightarrow> event_page list \<Rightarrow> exn + reaction list" where
  "react rt d source reactions [] = Return reactions"
| "react rt d source reactions (page # pages) =
     (case po_events d (page_type page) of
        None \<Rightarrow> react rt d source reactions pages
      | Some thunk \<Rightarrow>
          (let ctx = trigger_context source page in
           bindR (call rt ctx (\<lambda>cur. thunk cur (page_any page) ctx)) (\<lambda>outputs.
           react rt d source
             (reactions @ [\<lparr>rx_trigger_sequence = pg_sequence page, rx_outputs = or_empty outputs\<rparr>])
             pages)))"

definition policy_handle ::
  "runtime \<Rightarrow> policy_dispatch \<Rightarrow> event_book \<Rightarrow> exn + reaction list" where
  "policy_handle rt d source = react rt d source [] (eb_pages source)"

subsection \<open>Translating a refusal\<close>

text \<open>The answered fact: None when nothing translates the refused command's type.\<close>

definition policy_refused ::
  "runtime \<Rightarrow> policy_dispatch \<Rightarrow> refusal \<Rightarrow> exn + command_book option" where
  "policy_refused rt d refusal =
     (let command = rf_command refusal in
      case po_refusals d (type_name (any_type_url (command_payload (book_page command)))) of
        None \<Rightarrow> Return None
      | Some thunk \<Rightarrow>
          (let ctx = book_context command 0 in
           bindR (call rt (cover_context (cx_cover ctx)) (\<lambda>cur. thunk cur refusal ctx)) (\<lambda>translated.
           bindR (as_any translated) (\<lambda>payload.
           Return (Some (command_book_default\<lparr>cb_page :=
             Some (command_page_default\<lparr>cp_body := Some (Fact_arm (Some payload))\<rparr>)\<rparr>))))))"

subsection \<open>The fold of a policy\<close>

interpretation policy_react: sequential_fold "react rt d source"
  by unfold_locales (auto simp: Let_def bindR_assoc split: option.split)

lemma react_acc: "react rt d source acc pages = bindR (react rt d source [] pages) (\<lambda>rs. Return (acc @ rs))"
proof (induction pages arbitrary: acc)
  case (Cons page pages)
  show ?case
  proof (cases "po_events d (page_type page)")
    case None
    then show ?thesis by (simp only: react.simps option.case) (rule Cons.IH)
  next
    case (Some thunk)
    have *: "react rt d source (acc @ [r]) pages =
        bindR (react rt d source [r] pages) (\<lambda>rs. Return (acc @ rs))" for acc r
      using Cons.IH [of "acc @ [r]"] Cons.IH [of "[r]"] by (simp add: bindR_assoc)
    show ?thesis
      unfolding react.simps Some Let_def option.case bindR_assoc
      by (rule bindR_cong, simp) (simp only: append_Nil *)
  qed
qed simp

text \<open>What one page of a declared type is answered with.\<close>

definition reacts :: "policy_dispatch \<Rightarrow> event_book \<Rightarrow> event_page \<Rightarrow> reaction \<Rightarrow> bool" where
  "reacts d source page r \<longleftrightarrow> rx_trigger_sequence r = pg_sequence page
     \<and> (\<exists>thunk outputs. po_events d (page_type page) = Some thunk
        \<and> thunk (Some (trigger_context source page)) (page_any page) (trigger_context source page)
            = Return outputs
        \<and> rx_outputs r = or_empty outputs)"

lemma reaction_eq_iff:
  "r = \<lparr>rx_trigger_sequence = n, rx_outputs = out\<rparr> \<longleftrightarrow> rx_trigger_sequence r = n \<and> rx_outputs r = out"
  for r :: reaction
  by (cases r) simp

lemma react_iff:
  "react rt d source [] pages = Return rs \<longleftrightarrow>
     list_all2 (reacts d source) (filter (\<lambda>p. po_events d (page_type p) \<noteq> None) pages) rs"
proof (induction pages arbitrary: rs)
  case (Cons page pages)
  show ?case
  proof (cases "po_events d (page_type page)")
    case (Some thunk)
    let ?c = "trigger_context source page"
    have "react rt d source [] (page # pages) = Return rs \<longleftrightarrow>
        (\<exists>outputs rs'. thunk (Some ?c) (page_any page) ?c = Return outputs
          \<and> react rt d source [] pages = Return rs'
          \<and> rs = \<lparr>rx_trigger_sequence = pg_sequence page, rx_outputs = or_empty outputs\<rparr> # rs')"
      by (auto simp: Some Let_def bindR_eq_Inr_iff call_eq_Return
          react_acc [of rt d source "[_]" pages])
    moreover have "reacts d source page r \<longleftrightarrow> (\<exists>outputs.
        thunk (Some ?c) (page_any page) ?c = Return outputs
        \<and> r = \<lparr>rx_trigger_sequence = pg_sequence page, rx_outputs = or_empty outputs\<rparr>)" for r
      by (auto simp: reacts_def Some reaction_eq_iff)
    then have "list_all2 (reacts d source)
        (filter (\<lambda>p. po_events d (page_type p) \<noteq> None) (page # pages)) rs \<longleftrightarrow>
        (\<exists>outputs rs'. thunk (Some ?c) (page_any page) ?c = Return outputs
          \<and> list_all2 (reacts d source)
              (filter (\<lambda>p. po_events d (page_type p) \<noteq> None) pages) rs'
          \<and> rs = \<lparr>rx_trigger_sequence = pg_sequence page, rx_outputs = or_empty outputs\<rparr> # rs')"
      by (simp add: Some list_all2_Cons1 del: not_None_eq) blast
    ultimately show ?thesis by (simp only: Cons.IH)
  qed (use Cons in simp)
qed auto

lemma answered_react: "answered (react rt d source acc pages)"
  by (induction pages arbitrary: acc) (auto simp: Let_def intro!: answered_bindR split: option.split)

subsection \<open>Properties\<close>

text \<open>
  A policy answers exactly one reaction per page of a declared type, in page order, naming
  the page's sequence and carrying the commands its handler returned (none when it returned
  none); a page of an undeclared type has none. Each handler runs once, under and with its
  page's whole context: the source cover, the page's sequence and its meta as delivered.
\<close>

theorem one_reaction_per_handled_page:
  "policy_handle rt d source = Return reactions \<longleftrightarrow>
     list_all2 (reacts d source) (filter (\<lambda>p. po_events d (page_type p) \<noteq> None) (eb_pages source)) reactions"
  by (simp add: policy_handle_def react_iff)

text \<open>
  A policy keeps nothing between pages: a book delivered in two parts is answered, part
  for part, as delivered at once, and a failure of the first part is the failure of the whole.
\<close>

theorem policy_is_stateless:
  "policy_handle rt d (source\<lparr>eb_pages := ps @ qs\<rparr>) =
     bindR (policy_handle rt d (source\<lparr>eb_pages := ps\<rparr>)) (\<lambda>rs.
     bindR (policy_handle rt d (source\<lparr>eb_pages := qs\<rparr>)) (\<lambda>rs'. Return (rs @ rs')))"
proof -
  have src: "react rt d (source\<lparr>eb_pages := xs\<rparr>) acc ys = react rt d source acc ys" for xs acc ys
    by (induction ys arbitrary: acc) (simp_all add: trigger_context_def Let_def split: option.split)
  have acc: "react rt d source = (\<lambda>acc pages. bindR (react rt d source [] pages) (\<lambda>rs. Return (acc @ rs)))"
    by (intro ext) (rule react_acc)
  show ?thesis
    by (simp add: policy_handle_def src policy_react.run_append) (subst (2) acc, simp)
qed

text \<open>
  A refusal is translated by the callback registered for the refused command's type, run
  with that command's context; its message or Any is answered as a fact page that carries the
  payload and nothing else (no cover, no identity: the coordinator addresses it), and a refusal
  nothing translates is answered with no fact. What fails is coded, but for one case: a callback
  that answers no message at all, whose \<open>AttributeError\<close> leaves the router as it is.
\<close>

lemma policy_refused_cases:
  "case po_refusals d (type_name (any_type_url (command_payload (book_page (rf_command refusal))))) of
     None \<Rightarrow> policy_refused rt d refusal = Return None
   | Some thunk \<Rightarrow>
       (case thunk (Some (cover_context (cb_cover (rf_command refusal)))) refusal
               (book_context (rf_command refusal) 0) of
          Inl exc \<Rightarrow> policy_refused rt d refusal =
            Raise (if is_exception exc then Coded (escaped (rt_statuses rt) exc) else exc)
        | Inr No_msg \<Rightarrow> policy_refused rt d refusal = Raise (Other_exc ''AttributeError'')
        | Inr (Any_obj a) \<Rightarrow> policy_refused rt d refusal =
            Return (Some \<lparr>cb_cover = None, cb_page = Some \<lparr>cp_body = Some (Fact_arm (Some a)),
              cp_command_id = None, cp_correlation_id = None, cp_fact_origin = None\<rparr>,
              cb_handling = None\<rparr>)
        | Inr (Msg_obj m) \<Rightarrow> policy_refused rt d refusal =
            Return (Some \<lparr>cb_cover = None, cb_page = Some \<lparr>cp_body = Some (Fact_arm (Some
                \<lparr>any_type_url = ''/'' @ pm_full_name m, any_value = pm_serialized m\<rparr>)),
              cp_command_id = None, cp_correlation_id = None, cp_fact_origin = None\<rparr>,
              cb_handling = None\<rparr>))"
  by (auto simp: policy_refused_def Let_def call_def handling_def book_context_def pack_def
      command_book_default_def command_page_default_def split: option.split sum.split py_msg.split)

end
