(* ===== verification/Projector.thy ===== *)
theory Projector
  imports Context
begin

text \<open>
  \<open>angzarr_client/router/projector.py\<close>: a projector's dispatch table and \<open>handle\<close>, which
  folds a book of a consumed domain into one projection and answers it with the position after
  the book.
\<close>

record 'pr projector_dispatch =
  pd_name :: string
  pd_factory :: "'pr message_class"
  pd_domains :: "string list"
  pd_events :: "string \<rightharpoonup> 'pr applier"
  pd_rules_version :: string

definition projector_new :: "string \<Rightarrow> 'pr message_class \<Rightarrow> 'pr projector_dispatch" where
  "projector_new name factory =
     \<lparr>pd_name = name, pd_factory = factory, pd_domains = [], pd_events = Map.empty,
      pd_rules_version = []\<rparr>"

definition for_domains :: "string list \<Rightarrow> 'pr projector_dispatch \<Rightarrow> 'pr projector_dispatch" where
  "for_domains domains d = d\<lparr>pd_domains := domains\<rparr>"

definition projector_on_event ::
  "string \<Rightarrow> 'pr applier \<Rightarrow> 'pr projector_dispatch \<Rightarrow> 'pr projector_dispatch" where
  "projector_on_event full_name thunk d = d\<lparr>pd_events := (pd_events d)(full_name \<mapsto> thunk)\<rparr>"

definition projector_with_rules_version ::
  "string \<Rightarrow> 'pr projector_dispatch \<Rightarrow> 'pr projector_dispatch" where
  "projector_with_rules_version version d = d\<lparr>pd_rules_version := version\<rparr>"

interpretation projector_events: registry projector_on_event pd_events
  by unfold_locales (auto simp: projector_on_event_def)

text \<open>
  A position that a Projection's field does not hold raises \<open>ValueError\<close> as the answer is built.
\<close>

definition position_after :: "event_book \<Rightarrow> nat" where
  "position_after book =
     (if eb_pages book \<noteq> [] then pg_sequence (last (eb_pages book)) + 1 else eb_next_sequence book)"

definition projector_handle ::
  "runtime \<Rightarrow> 'pr projector_dispatch \<Rightarrow> event_book \<Rightarrow> exn + projection" where
  "projector_handle rt d book =
     (let fresh = mc_fresh (pd_factory d) in
      bindR (if pd_domains d = [] \<or> cv_domain (cover_of (eb_cover book)) \<in> set (pd_domains d)
             then fold_pages rt (pd_factory d) (eb_cover book) (pd_events d) FOLD_FAILED fresh
                    (eb_pages book)
             else Return fresh) (\<lambda>folded.
      if rt_seq_fits rt (position_after book)
      then Return \<lparr>pj_cover = cover_of (eb_cover book), pj_projector = pd_name d,
                   pj_next_sequence = position_after book,
                   pj_projection = any_pack (pd_factory d) folded\<rparr>
      else Raise (Other_exc ''ValueError'')))"

lemma projector_handle_failure:
  assumes "projector_handle rt d book = Raise exc" and "is_exception exc"
  shows "is_coded exc \<or> exc = Other_exc ''ValueError'' \<and> \<not> rt_seq_fits rt (position_after book)"
proof -
  have "answered (fold_pages rt (pd_factory d) (eb_cover book) (pd_events d) FOLD_FAILED
    (mc_fresh (pd_factory d)) (eb_pages book))" by simp
  with assms show ?thesis
    by (auto simp: projector_handle_def Let_def bindR_eq_Inl_iff answered_def split: if_splits)
qed

text \<open>
  A projector answers every book with its cover, its own name and the position after the
  book (one past the last delivered page, or the book's own next sequence when it has none),
  and the projection: the fold of every delivered page of a declared type into a fresh one when
  the book's domain is consumed (or none is named), and the fresh one untouched otherwise, so a
  book of another domain, \<open>"*"\<close> among them, runs no handler whatever it holds.
\<close>

theorem projector_answer:
  assumes "rt_seq_fits rt (position_after book)"
  shows "projector_handle rt d book =
    bindR (if pd_domains d \<noteq> [] \<and> cv_domain (cover_of (eb_cover book)) \<notin> set (pd_domains d)
           then Return (mc_fresh (pd_factory d))
           else fold_pages rt (pd_factory d) (eb_cover book) (pd_events d) FOLD_FAILED
                  (mc_fresh (pd_factory d))
                  (filter (\<lambda>p. pd_events d (page_type p) \<noteq> None) (eb_pages book)))
      (\<lambda>folded. Return \<lparr>pj_cover = cover_of (eb_cover book), pj_projector = pd_name d,
         pj_next_sequence = (case rev (eb_pages book) of
            [] \<Rightarrow> eb_next_sequence book | p # _ \<Rightarrow> Suc (pg_sequence p)),
         pj_projection = any_pack (pd_factory d) folded\<rparr>)"
proof -
  have f: "fold_pages rt cls c appliers code st (filter (\<lambda>p. appliers (page_type p) \<noteq> None) ps)
      = fold_pages rt cls c appliers code st ps" for cls c appliers code st ps
    by (induction ps arbitrary: st) (auto simp: Let_def split: option.split sum.split)
  have "position_after book =
      (case rev (eb_pages book) of [] \<Rightarrow> eb_next_sequence book | p # _ \<Rightarrow> Suc (pg_sequence p))"
    by (cases "eb_pages book" rule: rev_cases) (auto simp: position_after_def)
  with assms show ?thesis
    by (auto simp: projector_handle_def Let_def f simp del: fold_pages.simps not_None_eq)
qed

text \<open>For the witness: a projector of domain \<open>a\<close> that counts the pages it folds.\<close>

definition totals :: "nat projector_dispatch" where
  "totals =
     for_domains [''a''] (projector_on_event ''t.Added'' (\<lambda>cur st event ctx. Return (Suc st))
       (projector_new ''Totals'' \<lparr>mc_full_name = ''t.Totals'', mc_fresh = 0,
          mc_parse = (\<lambda>bs. Inr (length bs)), mc_serialize = (\<lambda>n. replicate n 0)\<rparr>))"

definition added_book :: "string \<Rightarrow> event_book" where
  "added_book domain =
     event_book_default\<lparr>eb_cover := Some (cover_default\<lparr>cv_domain := domain\<rparr>),
       eb_pages := [\<lparr>pg_payload = Some \<lparr>any_type_url = ''/t.Added'', any_value = []\<rparr>,
                    pg_sequence = 6, pg_meta = None\<rparr>]\<rparr>"

theorem projector_answer_witness:
  "\<exists>rt. (\<forall>n < 2 ^ 32. rt_seq_fits rt n)
    \<and> projector_handle rt totals (added_book ''*'') =
        Return \<lparr>pj_cover = cover_default\<lparr>cv_domain := ''*''\<rparr>, pj_projector = ''Totals'',
          pj_next_sequence = 7, pj_projection = \<lparr>any_type_url = ''/t.Totals'', any_value = []\<rparr>\<rparr>
    \<and> projector_handle rt totals (added_book ''a'') =
        Return \<lparr>pj_cover = cover_default\<lparr>cv_domain := ''a''\<rparr>, pj_projector = ''Totals'',
          pj_next_sequence = 7, pj_projection = \<lparr>any_type_url = ''/t.Totals'', any_value = [0]\<rparr>\<rparr>"
proof -
  let ?rt = "\<lparr>rt_statuses = Map.empty, rt_seq_fits = (\<lambda>n. n < 2 ^ 32), rt_parse_refused = (\<lambda>_. Inl [])\<rparr>"
  have fits: "rt_seq_fits ?rt (position_after (added_book domain))" for domain
    by (simp add: position_after_def added_book_def)
  note defs = totals_def added_book_def for_domains_def projector_on_event_def projector_new_def
    cover_of_def handling_def any_pack_def event_book_default_def
  show ?thesis
    using projector_answer [of ?rt, OF fits, of totals "''*''"]
      projector_answer [of ?rt, OF fits, of totals "''a''"]
    by (intro exI [of _ ?rt]) (simp add: defs)
qed

end
