(* ===== verification/Router.thy ===== *)
theory Router
  imports Aggregate Policy Projector
begin

text \<open>
  \<open>angzarr_client/router/router.py\<close>: the router hosts one component's dispatch table and
  hands each delivery to it. Its state is the hosted component, if any. \<open>_register\<close> runs
  under the router's lock, so registrations from several threads are a sequence of steps.
\<close>

subsection \<open>The hosted component\<close>

datatype kind = AGGREGATE | PROCESS_MANAGER | POLICY | PROJECTOR

text \<open>\<open>_kind_name\<close>: the enum's name without its prefix.\<close>

fun ComponentKind_Name :: "kind \<Rightarrow> string" where
  "ComponentKind_Name AGGREGATE = ''COMPONENT_KIND_AGGREGATE''"
| "ComponentKind_Name PROCESS_MANAGER = ''COMPONENT_KIND_PROCESS_MANAGER''"
| "ComponentKind_Name POLICY = ''COMPONENT_KIND_POLICY''"
| "ComponentKind_Name PROJECTOR = ''COMPONENT_KIND_PROJECTOR''"

definition kind_name :: "kind \<Rightarrow> string" where
  "kind_name k = removeprefix ''COMPONENT_KIND_'' (ComponentKind_Name k)"

datatype ('st, 'pr) component =
    Aggregate_component "'st aggregate_dispatch"
  | Process_manager_component "'st aggregate_dispatch"
  | Policy_component policy_dispatch
  | Projector_component "'pr projector_dispatch"

fun component_kind :: "('st, 'pr) component \<Rightarrow> kind" where
  "component_kind (Aggregate_component _) = AGGREGATE"
| "component_kind (Process_manager_component _) = PROCESS_MANAGER"
| "component_kind (Policy_component _) = POLICY"
| "component_kind (Projector_component _) = PROJECTOR"

fun component_name :: "('st, 'pr) component \<Rightarrow> string" where
  "component_name (Aggregate_component d) = ad_name d"
| "component_name (Process_manager_component d) = ad_name d"
| "component_name (Policy_component d) = po_name d"
| "component_name (Projector_component d) = pd_name d"

type_synonym ('st, 'pr) router = "('st, 'pr) component option"

definition router_new :: "('st, 'pr) router" where
  "router_new = None"

definition router_close :: "('st, 'pr) router \<Rightarrow> ('st, 'pr) router" where
  "router_close r = None"

definition router_register ::
  "runtime \<Rightarrow> ('st, 'pr) component \<Rightarrow> ('st, 'pr) router \<Rightarrow> exn + ('st, 'pr) router" where
  "router_register rt dispatch r =
     (case r of
        Some held \<Rightarrow> Raise (coded rt DUPLICATE_COMPONENT
          [(''component'', component_name held),
           (''component_kind'', kind_name (component_kind held))])
      | None \<Rightarrow> Return (Some dispatch))"

definition hosted :: "runtime \<Rightarrow> kind list \<Rightarrow> ('st, 'pr) router \<Rightarrow> exn + ('st, 'pr) component" where
  "hosted rt kinds r =
     (case r of
        None \<Rightarrow> Raise (coded rt NO_HANDLERS_REGISTERED [])
      | Some c \<Rightarrow>
          if component_kind c \<notin> set kinds then Raise (coded rt NO_COMPONENT_OF_KIND [])
          else Return c)"

subsection \<open>Dispatch\<close>

text \<open>
  A component of the right kind has the operation called on it; the last equations are the
  calls \<open>_hosted\<close> has refused.
\<close>

fun component_handle ::
  "runtime \<Rightarrow> contextual_command \<Rightarrow> ('st, 'pr) component \<Rightarrow> exn + command_handler_response" where
  "component_handle rt request (Aggregate_component d) = aggregate_handle rt d request"
| "component_handle rt request (Process_manager_component d) = aggregate_handle rt d request"
| "component_handle rt request _ = Raise (Other_exc ''AttributeError'')"

fun component_handle_source ::
  "runtime \<Rightarrow> event_book \<Rightarrow> ('st, 'pr) component \<Rightarrow> exn + reaction list" where
  "component_handle_source rt source (Policy_component d) = policy_handle rt d source"
| "component_handle_source rt source _ = Raise (Other_exc ''AttributeError'')"

fun component_refused ::
  "runtime \<Rightarrow> refusal \<Rightarrow> ('st, 'pr) component \<Rightarrow> exn + command_book option" where
  "component_refused rt refusal (Policy_component d) = policy_refused rt d refusal"
| "component_refused rt refusal _ = Raise (Other_exc ''AttributeError'')"

fun component_project ::
  "runtime \<Rightarrow> event_book \<Rightarrow> ('st, 'pr) component \<Rightarrow> exn + projection" where
  "component_project rt book (Projector_component d) = projector_handle rt d book"
| "component_project rt book _ = Raise (Other_exc ''AttributeError'')"

definition dispatch ::
  "runtime \<Rightarrow> ('st, 'pr) router \<Rightarrow> contextual_command \<Rightarrow> exn + command_handler_response" where
  "dispatch rt r request =
     bindR (hosted rt [AGGREGATE, PROCESS_MANAGER] r) (component_handle rt request)"

definition dispatch_policy :: "runtime \<Rightarrow> ('st, 'pr) router \<Rightarrow> event_book \<Rightarrow> exn + reaction list" where
  "dispatch_policy rt r source = bindR (hosted rt [POLICY] r) (component_handle_source rt source)"

definition dispatch_refusal ::
  "runtime \<Rightarrow> ('st, 'pr) router \<Rightarrow> refusal \<Rightarrow> exn + command_book option" where
  "dispatch_refusal rt r refusal = bindR (hosted rt [POLICY] r) (component_refused rt refusal)"

definition dispatch_projector :: "runtime \<Rightarrow> ('st, 'pr) router \<Rightarrow> event_book \<Rightarrow> exn + projection" where
  "dispatch_projector rt r book = bindR (hosted rt [PROJECTOR] r) (component_project rt book)"

subsection \<open>The contract of a delivery\<close>

text \<open>
  What the transport relies on of an operation it delivers to: a failure is a coded error, or
  one of the few known to leave it otherwise (\<open>odd\<close>). The router adds coded errors only.
\<close>

locale delivery =
  fixes rt :: runtime
    and kinds :: "kind list"
    and operation :: "'req \<Rightarrow> ('st, 'pr) component \<Rightarrow> exn + 'resp"
    and odd_failure :: "('st, 'pr) component \<Rightarrow> 'req \<Rightarrow> exn \<Rightarrow> bool"
  assumes operation_answers:
    "\<lbrakk>component_kind c \<in> set kinds; operation req c = Raise exc; is_exception exc\<rbrakk>
       \<Longrightarrow> is_coded exc \<or> odd_failure c req exc"
begin

lemma routed_answers:
  assumes "bindR (hosted rt kinds r) (operation req) = Raise exc" and "is_exception exc"
  shows "is_coded exc \<or> (\<exists>c. r = Some c \<and> odd_failure c req exc)"
  using assms operation_answers
  by (auto simp: hosted_def bindR_eq_Inl_iff split: option.splits if_splits)

lemma routed_nothing_hosted:
  "bindR (hosted rt kinds None) (operation req) = Raise (coded rt NO_HANDLERS_REGISTERED [])"
  by (simp add: hosted_def)

lemma routed_other_kind:
  "component_kind c \<notin> set kinds \<Longrightarrow>
     bindR (hosted rt kinds (Some c)) (operation req) = Raise (coded rt NO_COMPONENT_OF_KIND [])"
  by (simp add: hosted_def)

lemma routed_hosted:
  "component_kind c \<in> set kinds \<Longrightarrow>
     bindR (hosted rt kinds (Some c)) (operation req) = operation req c"
  by (simp add: hosted_def)

end

end
