(* ===== verification/Descriptor.thy ===== *)
theory Descriptor
  imports Router Client_Errors
begin

text \<open>
  \<open>angzarr_client/descriptor.py\<close>: \<open>describe\<close>, the ComponentDescriptor of a dispatch table,
  and \<open>_refusal\<close>, the coordinator's first refusal of one. What a message class's
  \<open>(io.angzarr.v1.state)\<close> option lists (protobuf's descriptor pool) is the parameter
  \<open>options\<close>: the listed resolutions of a message by its full name, none when it has no such
  option.
\<close>

subsection \<open>Descriptors\<close>

record state_descriptor =
  sd_type_url :: string
  sd_resolutions :: "conflict_resolution list"

record descriptor =
  ds_name :: string
  ds_kind :: kind
  ds_rules_version :: string
  ds_inputs :: "string list"
  ds_state :: "state_descriptor option"
  ds_starting_types :: "string list"
  ds_output_domain :: string

text \<open>A type, given by its name (or type URL) or as a message class of that full name.\<close>

datatype type_ref = Type_text string | Message_class string

fun type_full_name :: "type_ref \<Rightarrow> string" where
  "type_full_name (Type_text s) = type_name s"
| "type_full_name (Message_class n) = n"

definition base_resolutions :: "conflict_resolution list" where
  "base_resolutions = [RES_STRICT, RES_AGGREGATE_HANDLES]"

definition declared_resolutions ::
  "(string \<Rightarrow> conflict_resolution list option) \<Rightarrow> type_ref \<Rightarrow> conflict_resolution list" where
  "declared_resolutions options st =
     (case st of
        Type_text _ \<Rightarrow> []
      | Message_class n \<Rightarrow> (case options n of None \<Rightarrow> [] | Some rs \<Rightarrow> rs))"

definition stateful :: "kind \<Rightarrow> bool" where
  "stateful k \<longleftrightarrow> k = AGGREGATE \<or> k = PROCESS_MANAGER"

text \<open>\<open>_state_class\<close>: the class of what the table's rebuilder makes.\<close>

fun state_class :: "('st, 'pr) component \<Rightarrow> type_ref option" where
  "state_class (Aggregate_component d) = Some (Message_class (mc_full_name (rb_factory (ad_rebuilder d))))"
| "state_class (Process_manager_component d) =
     Some (Message_class (mc_full_name (rb_factory (ad_rebuilder d))))"
| "state_class _ = None"

fun component_inputs :: "('st, 'pr) component \<Rightarrow> string list" where
  "component_inputs (Policy_component d) =
     (if po_input_domain d \<noteq> [] then [po_input_domain d] else [])"
| "component_inputs (Projector_component d) = pd_domains d"
| "component_inputs _ = []"

fun component_rules_version :: "('st, 'pr) component \<Rightarrow> string" where
  "component_rules_version (Aggregate_component d) = ad_rules_version d"
| "component_rules_version (Process_manager_component d) = ad_rules_version d"
| "component_rules_version (Policy_component d) = po_rules_version d"
| "component_rules_version (Projector_component d) = pd_rules_version d"

fun component_output_domain :: "('st, 'pr) component \<Rightarrow> string" where
  "component_output_domain (Policy_component d) = po_output_domain d"
| "component_output_domain _ = []"

subsection \<open>The coordinator's refusal\<close>

definition descriptor_refusal :: "descriptor \<Rightarrow> (string \<times> (string, pyval) dict) option" where
  "descriptor_refusal d =
     (let component = [(''component'', PStr (ds_name d))]; kind = ds_kind d;
          with_kind = dict_merge component
            [(''component_kind'', PStr (ComponentKind_Name kind))] in
      if ds_rules_version d = [] then Some (''COORDINATOR_REASON_MISSING_RULES_VERSION'', component)
      else if kind \<noteq> PROCESS_MANAGER \<and> ds_starting_types d \<noteq> []
      then Some (''COORDINATOR_REASON_STARTING_TYPES_ON_NON_PM'', with_kind)
      else if stateful kind \<and> ds_state d = None
      then Some (''COORDINATOR_REASON_MISSING_STATE_TYPE'', with_kind)
      else if kind \<in> {POLICY, PROJECTOR} \<and> ds_state d \<noteq> None
      then Some (''COORDINATOR_REASON_STATE_ON_STATELESS_KIND'', with_kind)
      else if kind = POLICY
      then (if length (ds_inputs d) \<noteq> 1
            then Some (''COORDINATOR_REASON_POLICY_INPUT_COUNT'', dict_merge component
                   [(''input_count'', PInt (int (length (ds_inputs d))))])
            else if ds_output_domain d = []
            then Some (''COORDINATOR_REASON_POLICY_NO_OUTPUT_DOMAIN'', component)
            else None)
      else if ds_output_domain d \<noteq> []
      then Some (''COORDINATOR_REASON_OUTPUT_DOMAIN_ON_NON_POLICY'', with_kind)
      else None)"

subsection \<open>Describing\<close>

text \<open>\<open>Not_a_table\<close> is the \<open>TypeError\<close> an object of no component kind raises.\<close>

datatype describe_error = Not_a_table | Refused_description client_error

definition config_error :: "string \<Rightarrow> (string, pyval) dict \<Rightarrow> client_error" where
  "config_error code details = client_error Configuration_error code details"

text \<open>The state part: none for a stateless kind given neither a state type nor resolutions.\<close>

definition describe_state ::
  "(string \<Rightarrow> conflict_resolution list option) \<Rightarrow> ('st, 'pr) component \<Rightarrow> type_ref option \<Rightarrow>
     conflict_resolution list option \<Rightarrow> client_error + state_descriptor option" where
  "describe_state options tbl state_type resolutions =
     (if stateful (component_kind tbl) \<or> state_type \<noteq> None \<or> resolutions \<noteq> None
      then (let st = (case state_type of
                        None \<Rightarrow> if stateful (component_kind tbl) then state_class tbl else None
                      | Some s \<Rightarrow> Some s);
                listed = (case resolutions of
                            Some rs \<Rightarrow> rs
                          | None \<Rightarrow> (case st of None \<Rightarrow> [] | Some s \<Rightarrow> declared_resolutions options s)) in
            if RES_UNSPECIFIED \<in> set listed
            then Inl (config_error DESCRIPTOR_RESOLUTION_UNSPECIFIED
                   [(''component'', PStr (component_name tbl))])
            else Inr (Some
              \<lparr>sd_type_url = (case st of None \<Rightarrow> [] | Some s \<Rightarrow> ''/'' @ type_full_name s),
               sd_resolutions = sort (remdups (base_resolutions @ listed))\<rparr>))
      else Inr None)"

definition describe ::
  "(string \<Rightarrow> conflict_resolution list option) \<Rightarrow> ('st, 'pr) component option \<Rightarrow>
     string option \<Rightarrow> type_ref option \<Rightarrow> conflict_resolution list option \<Rightarrow> type_ref list \<Rightarrow>
     describe_error + descriptor" where
  "describe options table rules_version state_type resolutions starting_types =
     (case table of
        None \<Rightarrow> Inl Not_a_table
      | Some tbl \<Rightarrow>
          (let kind = component_kind tbl; name = component_name tbl in
           case describe_state options tbl state_type resolutions of
             Inl e \<Rightarrow> Inl (Refused_description e)
           | Inr st \<Rightarrow>
               (let descriptor =
                  \<lparr>ds_name = name, ds_kind = kind,
                   ds_rules_version = (case rules_version of
                      None \<Rightarrow> component_rules_version tbl | Some v \<Rightarrow> v),
                   ds_inputs = component_inputs tbl, ds_state = st,
                   ds_starting_types = map type_full_name starting_types,
                   ds_output_domain =
                     (if kind = POLICY then component_output_domain tbl else [])\<rparr> in
                case descriptor_refusal descriptor of
                  Some (code, details) \<Rightarrow> Inl (Refused_description (config_error code details))
                | None \<Rightarrow>
                    if kind = PROJECTOR \<and> ds_inputs descriptor = []
                    then Inl (Refused_description (config_error HOST_REASON_PROJECTOR_NO_INPUT_DOMAIN
                           [(''component'', PStr name)]))
                    else Inr descriptor)))"

subsection \<open>The rules, as the coordinator states them\<close>

text \<open>Each rule a descriptor may break, with the key its breach is refused under, in order.\<close>

definition descriptor_rules :: "(string \<times> (descriptor \<Rightarrow> bool)) list" where
  "descriptor_rules =
     [(''COORDINATOR_REASON_MISSING_RULES_VERSION'', \<lambda>d. ds_rules_version d \<noteq> []),
      (''COORDINATOR_REASON_STARTING_TYPES_ON_NON_PM'',
        \<lambda>d. ds_starting_types d \<noteq> [] \<longrightarrow> ds_kind d = PROCESS_MANAGER),
      (''COORDINATOR_REASON_MISSING_STATE_TYPE'',
        \<lambda>d. ds_kind d \<in> {AGGREGATE, PROCESS_MANAGER} \<longrightarrow> ds_state d \<noteq> None),
      (''COORDINATOR_REASON_STATE_ON_STATELESS_KIND'',
        \<lambda>d. ds_kind d \<in> {POLICY, PROJECTOR} \<longrightarrow> ds_state d = None),
      (''COORDINATOR_REASON_POLICY_INPUT_COUNT'',
        \<lambda>d. ds_kind d = POLICY \<longrightarrow> length (ds_inputs d) = 1),
      (''COORDINATOR_REASON_POLICY_NO_OUTPUT_DOMAIN'',
        \<lambda>d. ds_kind d = POLICY \<longrightarrow> ds_output_domain d \<noteq> []),
      (''COORDINATOR_REASON_OUTPUT_DOMAIN_ON_NON_POLICY'',
        \<lambda>d. ds_kind d \<noteq> POLICY \<longrightarrow> ds_output_domain d = [])]"

definition accepted :: "descriptor \<Rightarrow> bool" where
  "accepted d \<longleftrightarrow> (\<forall>(key, rule) \<in> set descriptor_rules. rule d)"

lemma refusal_first_rule:
  "map_option fst (descriptor_refusal d) = map_option fst (find (\<lambda>(key, rule). \<not> rule d) descriptor_rules)"
  by (cases "ds_kind d") (auto simp: descriptor_refusal_def descriptor_rules_def Let_def stateful_def)

lemma refusal_None: "descriptor_refusal d = None \<longleftrightarrow> accepted d"
proof -
  have "descriptor_refusal d = None \<longleftrightarrow> find (\<lambda>(key, rule). \<not> rule d) descriptor_rules = None"
    using refusal_first_rule [of d]
    by (cases "descriptor_refusal d"; cases "find (\<lambda>(key, rule). \<not> rule d) descriptor_rules") auto
  then show ?thesis by (auto simp: find_None_iff accepted_def)
qed

lemma resolutions_of_state:
  assumes "describe_state options tbl state_type resolutions = Inr (Some s)"
  shows "sorted (sd_resolutions s)" and "distinct (sd_resolutions s)"
    and "set base_resolutions \<subseteq> set (sd_resolutions s)"
    and "RES_UNSPECIFIED \<notin> set (sd_resolutions s)"
proof -
  from assms obtain listed where u: "RES_UNSPECIFIED \<notin> set listed"
    and r: "sd_resolutions s = sort (remdups (base_resolutions @ listed))"
    by (auto simp: describe_state_def Let_def split: if_splits)
  have "RES_UNSPECIFIED \<notin> set base_resolutions" by (simp add: base_resolutions_def)
  with u show "sorted (sd_resolutions s)" and "distinct (sd_resolutions s)"
    and "set base_resolutions \<subseteq> set (sd_resolutions s)"
    and "RES_UNSPECIFIED \<notin> set (sd_resolutions s)"
    by (auto simp: r)
qed

subsection \<open>Properties\<close>

text \<open>
  \<open>_refusal\<close> is the coordinator's validation: it refuses a descriptor under the key of the
  first rule it breaks, in the documented order, and accepts it exactly when it breaks none.
\<close>

theorem refusal_is_first_broken_rule:
  "map_option fst (descriptor_refusal d) =
     map_option fst (find (\<lambda>(key, rule). \<not> rule d) descriptor_rules)
   \<and> (descriptor_refusal d = None \<longleftrightarrow> accepted d)"
  using refusal_first_rule refusal_None by blast

text \<open>
  C22: what \<open>describe\<close> answers is never refused: it breaks none of the coordinator's rules, and
  a projector's names a domain. It carries the table's name, kind and inputs, a state exactly
  for an aggregate or a process manager, whose resolutions are in enum order, without
  duplicates and without UNSPECIFIED, and hold the base every state supports.
\<close>

theorem described_is_accepted:
  assumes "describe options table rules_version state_type resolutions starting_types = Inr d"
  shows "accepted d \<and> (ds_kind d = PROJECTOR \<longrightarrow> ds_inputs d \<noteq> [])
    \<and> (\<exists>c. table = Some c \<and> ds_name d = component_name c \<and> ds_kind d = component_kind c
        \<and> ds_inputs d = component_inputs c)
    \<and> (ds_state d \<noteq> None \<longleftrightarrow> ds_kind d \<in> {AGGREGATE, PROCESS_MANAGER})
    \<and> (\<forall>s. ds_state d = Some s \<longrightarrow> sorted (sd_resolutions s) \<and> distinct (sd_resolutions s)
        \<and> {RES_STRICT, RES_AGGREGATE_HANDLES} \<subseteq> set (sd_resolutions s)
        \<and> RES_UNSPECIFIED \<notin> set (sd_resolutions s))"
proof -
  from assms obtain c st where c: "table = Some c"
    and st: "describe_state options c state_type resolutions = Inr st"
    and d: "ds_name d = component_name c" "ds_kind d = component_kind c"
      "ds_inputs d = component_inputs c" "ds_state d = st"
    and r: "descriptor_refusal d = None" and p: "ds_kind d = PROJECTOR \<longrightarrow> ds_inputs d \<noteq> []"
    by (auto simp: describe_def Let_def split: option.splits sum.splits if_splits)
  from r have a: "accepted d" by (simp add: refusal_None)
  moreover from a have "ds_state d \<noteq> None \<longleftrightarrow> ds_kind d \<in> {AGGREGATE, PROCESS_MANAGER}"
    by (cases "ds_kind d") (auto simp: accepted_def descriptor_rules_def)
  moreover have "sorted (sd_resolutions s) \<and> distinct (sd_resolutions s)
      \<and> {RES_STRICT, RES_AGGREGATE_HANDLES} \<subseteq> set (sd_resolutions s)
      \<and> RES_UNSPECIFIED \<notin> set (sd_resolutions s)" if "ds_state d = Some s" for s
    using resolutions_of_state [of options c state_type resolutions s] st d that
    by (simp add: base_resolutions_def)
  ultimately show ?thesis using c d p by blast
qed

definition plain_aggregate :: "nat aggregate_dispatch" where
  "plain_aggregate = aggregate_new ''A'' ''a''
     (rebuilder_new \<lparr>mc_full_name = ''t.S'', mc_fresh = 0, mc_parse = (\<lambda>bs. Inr (length bs)),
        mc_serialize = (\<lambda>n. replicate n 0)\<rparr>)"

theorem described_is_accepted_witness:
  "accepted \<lparr>ds_name = ''A'', ds_kind = AGGREGATE, ds_rules_version = ''1.0'', ds_inputs = [],
     ds_state = Some \<lparr>sd_type_url = ''/t.S'',
       sd_resolutions = [RES_COMMUTATIVE, RES_STRICT, RES_AGGREGATE_HANDLES]\<rparr>,
     ds_starting_types = [], ds_output_domain = []\<rparr>"
proof -
  have "describe (\<lambda>n. Some [RES_COMMUTATIVE, RES_STRICT])
      (Some (Aggregate_component plain_aggregate :: (nat, nat) component)) (Some ''1.0'') None None [] =
    Inr \<lparr>ds_name = ''A'', ds_kind = AGGREGATE, ds_rules_version = ''1.0'', ds_inputs = [],
     ds_state = Some \<lparr>sd_type_url = ''/t.S'',
       sd_resolutions = [RES_COMMUTATIVE, RES_STRICT, RES_AGGREGATE_HANDLES]\<rparr>,
     ds_starting_types = [], ds_output_domain = []\<rparr>"
    by (simp add: describe_def describe_state_def plain_aggregate_def aggregate_new_def
        rebuilder_new_def stateful_def declared_resolutions_def base_resolutions_def
        descriptor_refusal_def less_eq_conflict_resolution_def)
  from described_is_accepted [OF this] show ?thesis by blast
qed

text \<open>
  Every component that keeps the rules is described, with nothing lost: an aggregate or a
  process manager whose starting types, if any, are a process manager's, a policy of one source
  and one destination, and a projector naming a domain; its build version the one given, else
  its table's. The state's resolutions are exactly the base and the listed ones.
\<close>

theorem sound_component_is_described:
  assumes "(case rules_version of None \<Rightarrow> component_rules_version c | Some v \<Rightarrow> v) \<noteq> []"
    and "starting_types \<noteq> [] \<longrightarrow> component_kind c = PROCESS_MANAGER"
    and "\<forall>p. c = Policy_component p \<longrightarrow> po_input_domain p \<noteq> [] \<and> po_output_domain p \<noteq> []"
    and "\<forall>p. c = Projector_component p \<longrightarrow> pd_domains p \<noteq> []"
    and "\<forall>n rs. options n = Some rs \<longrightarrow> RES_UNSPECIFIED \<notin> set rs"
  shows "\<exists>d. describe options (Some c) rules_version None None starting_types = Inr d
    \<and> ds_rules_version d = (case rules_version of None \<Rightarrow> component_rules_version c | Some v \<Rightarrow> v)
    \<and> ds_starting_types d = map type_full_name starting_types
    \<and> (\<forall>s. ds_state d = Some s \<longrightarrow> (\<exists>n. state_class c = Some (Message_class n)
        \<and> sd_type_url s = ''/'' @ n
        \<and> set (sd_resolutions s) = {RES_STRICT, RES_AGGREGATE_HANDLES} \<union>
            (case options n of None \<Rightarrow> {} | Some rs \<Rightarrow> set rs)))"
  using assms
  by (cases c)
    (auto simp: describe_def describe_state_def descriptor_refusal_def stateful_def Let_def
      declared_resolutions_def base_resolutions_def split: option.splits)

theorem sound_component_is_described_witness:
  "\<exists>d. describe (\<lambda>n. None)
      (Some (Policy_component (policy_new ''P'' ''a'' ''b'')) :: (nat, nat) component option)
      (Some ''1.0'') None None [] = Inr d \<and> ds_rules_version d = ''1.0''"
  using sound_component_is_described [where rules_version = "Some ''1.0''" and starting_types = "[]"
      and c = "Policy_component (policy_new ''P'' ''a'' ''b'') :: (nat, nat) component"
      and options = "\<lambda>n. None"]
  by (auto simp: policy_new_def)

end
