(* ===== verification/Server.thy ===== *)
theory Server
  imports Prelude
begin

text \<open>
  \<open>angzarr_client/server.py\<close>: the bind address a host's environment selects. The environment
  is a map from names to values; the file system is the files and directories that exist (its
  operations are taken to succeed). \<open>configure_logging\<close> is configuration of a library and is
  not modelled.
\<close>

type_synonym environ = "string \<rightharpoonup> string"

record file_system =
  fs_files :: "string list"
  fs_dirs :: "string list"

definition lower_char :: "char \<Rightarrow> char" where
  "lower_char c =
     (let n = (of_char c :: nat) in if 65 \<le> n \<and> n \<le> 90 then char_of (n + 32) else c)"

definition lower :: "string \<Rightarrow> string" where
  "lower s = map lower_char s"

text \<open>\<open>os.environ.get(name, default)\<close>, and \<open>a or b\<close> over an optional text.\<close>

definition env_get :: "environ \<Rightarrow> string \<Rightarrow> string \<Rightarrow> string" where
  "env_get env name dflt = (case env name of None \<Rightarrow> dflt | Some v \<Rightarrow> v)"

definition or_else :: "string option \<Rightarrow> string \<Rightarrow> string" where
  "or_else v other = (case v of Some s \<Rightarrow> if s \<noteq> [] then s else other | None \<Rightarrow> other)"

definition DEFAULT_BIND_HOST :: string where
  "DEFAULT_BIND_HOST = ''[::]''"

definition resolve_bind_address :: "environ \<Rightarrow> nat \<Rightarrow> string" where
  "resolve_bind_address env default_port =
     (case env ''ANGZARR_BIND_ADDRESS'' of
        Some addr \<Rightarrow>
          if addr \<noteq> [] then addr
          else DEFAULT_BIND_HOST @ '':'' @ env_get env ''PORT'' (nat_str default_port)
      | None \<Rightarrow> DEFAULT_BIND_HOST @ '':'' @ env_get env ''PORT'' (nat_str default_port))"

text \<open>\<open>os.path.dirname\<close>: up to the last slash, trailing slashes dropped unless it is all slashes.\<close>

definition dirname :: "string \<Rightarrow> string" where
  "dirname path =
     (let head = rev (dropWhile (\<lambda>c. c \<noteq> CHR ''/'') (rev path)) in
      if \<forall>c \<in> set head. c = CHR ''/'' then head
      else rev (dropWhile (\<lambda>c. c = CHR ''/'') (rev head)))"

text \<open>\<open>os.makedirs(path, exist_ok=True)\<close>: the directory and the ones above it.\<close>

definition makedirs :: "string \<Rightarrow> file_system \<Rightarrow> file_system" where
  "makedirs path fs =
     fs\<lparr>fs_dirs := fs_dirs fs @
       filter (\<lambda>d. d \<notin> set (fs_dirs fs))
         (map (\<lambda>i. take i path)
           (filter (\<lambda>i. i = length path \<or> path ! i = CHR ''/'') [1 ..< Suc (length path)]))\<rparr>"

definition remove_file :: "string \<Rightarrow> file_system \<Rightarrow> file_system" where
  "remove_file path fs = fs\<lparr>fs_files := filter (\<lambda>f. f \<noteq> path) (fs_files fs)\<rparr>"

definition uds_socket_path :: "environ \<Rightarrow> string" where
  "uds_socket_path env =
     (let base_path = env_get env ''UDS_BASE_PATH'' ''/tmp/angzarr'';
          service_name = env_get env ''SERVICE_NAME'' ''business'';
          qualifier = or_else (env ''DOMAIN'') (or_else (env ''SAGA_NAME'')
            (or_else (env ''PROJECTOR_NAME'') [])) in
      if qualifier \<noteq> [] then base_path @ ''/'' @ service_name @ ''-'' @ qualifier @ ''.sock''
      else base_path @ ''/'' @ service_name @ ''.sock'')"

definition get_transport_config ::
  "environ \<Rightarrow> file_system \<Rightarrow> (string \<times> string) \<times> file_system" where
  "get_transport_config env fs =
     (if lower (env_get env ''TRANSPORT_TYPE'' ''tcp'') = ''uds''
      then (let socket_path = uds_socket_path env;
                fs1 = makedirs (dirname socket_path) fs;
                fs2 = (if socket_path \<in> set (fs_files fs1) then remove_file socket_path fs1 else fs1) in
            ((''uds'', ''unix:'' @ socket_path), fs2))
      else ((''tcp'', resolve_bind_address env 50052), fs))"

text \<open>How a host reads the socket's path back from the address it binds (\<open>host.py\<close>).\<close>

definition address_socket_path :: "string \<Rightarrow> string option" where
  "address_socket_path address =
     (if startswith ''unix:'' address
      then Some (removeprefix ''//'' (drop (length ''unix:'') address)) else None)"

subsection \<open>Properties\<close>

text \<open>
  The environment selects the address: under TRANSPORT_TYPE \<open>uds\<close>, in any case, a socket
  that no stale file occupies, under the base path, named by the service and the first
  non-empty of DOMAIN, SAGA_NAME and PROJECTOR_NAME, and whose path the host reads back from the
  address as it is; otherwise ANGZARR_BIND_ADDRESS as given, or the wildcard host at PORT, no
  file being touched.
\<close>

theorem transport_selection:
  assumes "get_transport_config env fs = ((transport, address), fs')"
    and "\<not> startswith ''//'' (env_get env ''UDS_BASE_PATH'' ''/tmp/angzarr'')"
    and "env_get env ''UDS_BASE_PATH'' ''/tmp/angzarr'' \<noteq> []"
    and "env_get env ''UDS_BASE_PATH'' ''/tmp/angzarr'' \<noteq> ''/''"
  shows "(if lower (env_get env ''TRANSPORT_TYPE'' ''tcp'') = ''uds''
    then transport = ''uds'' \<and> address_socket_path address = Some (uds_socket_path env)
      \<and> uds_socket_path env \<notin> set (fs_files fs')
      \<and> (\<forall>f. f \<noteq> uds_socket_path env \<longrightarrow> (f \<in> set (fs_files fs') \<longleftrightarrow> f \<in> set (fs_files fs)))
      \<and> set (fs_dirs fs) \<subseteq> set (fs_dirs fs')
    else transport = ''tcp'' \<and> fs' = fs
      \<and> address = (if env ''ANGZARR_BIND_ADDRESS'' \<in> {None, Some []}
          then ''[::]:'' @ (case env ''PORT'' of None \<Rightarrow> ''50052'' | Some p \<Rightarrow> p)
          else the (env ''ANGZARR_BIND_ADDRESS'')))"
proof (cases "lower (env_get env ''TRANSPORT_TYPE'' ''tcp'') = ''uds''")
  case True
  obtain rest where path: "uds_socket_path env = env_get env ''UDS_BASE_PATH'' ''/tmp/angzarr'' @ ''/'' @ rest"
    by (simp add: uds_socket_path_def Let_def) (metis append_Cons)
  have base: "\<not> startswith ''//'' (b @ ''/'' @ rest)" if "b \<noteq> []" "b \<noteq> ''/''" "\<not> startswith ''//'' b" for b
  proof (cases b)
    case (Cons c cs)
    with that show ?thesis by (cases cs) (simp_all add: startswith_Cons)
  qed (use that in simp)
  have n: "\<not> startswith ''//'' (uds_socket_path env)"
    unfolding path by (rule base [OF assms(3,4,2)])
  define sock where "sock = uds_socket_path env"
  define fs1 where "fs1 = makedirs (dirname sock) fs"
  have "get_transport_config env fs = ((''uds'', ''unix:'' @ sock),
      if sock \<in> set (fs_files fs1) then remove_file sock fs1 else fs1)"
    by (simp only: get_transport_config_def True Let_def sock_def fs1_def if_True simp_thms)
  with assms(1) have eqs: "transport = ''uds''" "address = ''unix:'' @ sock"
    "fs' = (if sock \<in> set (fs_files fs1) then remove_file sock fs1 else fs1)" by simp_all
  have "address_socket_path address = Some sock"
    using n by (simp add: address_socket_path_def removeprefix_def eqs sock_def startswith_Cons)
  moreover have "fs_files fs1 = fs_files fs" "set (fs_dirs fs) \<subseteq> set (fs_dirs fs1)"
    by (simp_all add: fs1_def makedirs_def)
  then have "sock \<notin> set (fs_files fs')" "set (fs_dirs fs) \<subseteq> set (fs_dirs fs')"
    "\<forall>f. f \<noteq> sock \<longrightarrow> (f \<in> set (fs_files fs') \<longleftrightarrow> f \<in> set (fs_files fs))"
    by (auto simp: eqs remove_file_def)
  ultimately show ?thesis using True eqs(1) by (simp only: sock_def if_True simp_thms)
next
  case False
  have port: "nat_str 50052 = ''50052''" by (simp add: nat_str.simps digits)
  have "get_transport_config env fs = ((''tcp'', resolve_bind_address env 50052), fs)"
    by (simp only: get_transport_config_def False if_False)
  with assms(1) have "transport = ''tcp''" "address = resolve_bind_address env 50052" "fs' = fs"
    by simp_all
  moreover have "resolve_bind_address env 50052 = (if env ''ANGZARR_BIND_ADDRESS'' \<in> {None, Some []}
      then ''[::]:'' @ (case env ''PORT'' of None \<Rightarrow> ''50052'' | Some p \<Rightarrow> p)
      else the (env ''ANGZARR_BIND_ADDRESS''))"
    by (cases "env ''ANGZARR_BIND_ADDRESS''")
      (simp_all add: resolve_bind_address_def DEFAULT_BIND_HOST_def env_get_def port)
  ultimately show ?thesis by (simp only: False if_False simp_thms)
qed

theorem transport_selection_witness:
  "address_socket_path (snd (fst (get_transport_config
     [''TRANSPORT_TYPE'' \<mapsto> ''UDS'', ''UDS_BASE_PATH'' \<mapsto> ''/run'', ''DOMAIN'' \<mapsto> ''orders'']
     \<lparr>fs_files = [''/run/business-orders.sock''], fs_dirs = []\<rparr>))) = Some ''/run/business-orders.sock''"
proof -
  let ?env = "[''TRANSPORT_TYPE'' \<mapsto> ''UDS'', ''UDS_BASE_PATH'' \<mapsto> ''/run'', ''DOMAIN'' \<mapsto> ''orders'']"
  let ?fs = "\<lparr>fs_files = [''/run/business-orders.sock''], fs_dirs = []\<rparr>"
  have l: "lower ''UDS'' = ''uds''" by code_simp
  obtain transport address fs' where g: "get_transport_config ?env ?fs = ((transport, address), fs')"
    by (metis prod.collapse)
  have "address_socket_path address = Some (uds_socket_path ?env)"
    using transport_selection [OF g] l by (simp add: env_get_def startswith_def)
  with g show ?thesis
    by (simp add: uds_socket_path_def env_get_def or_else_def)
qed

end
