(* ===== verification/Readiness.thy ===== *)
theory Readiness
  imports Server
begin

text \<open>
  \<open>angzarr_client/readiness.py\<close>: the readiness supervisor. A tick evaluates every probe,
  publishes one status to every service name and sleeps. What a probe's check gives within its
  timeout (the dependency's health, the clock) is the input of a tick; the history the host's
  health service keeps (\<open>host.py\<close>, \<open>_RecordingHealth\<close>) is the state. \<open>float()\<close> is a
  parameter.
\<close>

datatype health = SERVING | NOT_SERVING

text \<open>What awaiting one probe gives: its answer, a timeout, or an exception's text.\<close>

datatype probe_result = Checked bool | Timed_out | Panicked string

record probe_outcome =
  pr_name :: string
  pr_result :: probe_result

type_synonym health_history = "(string, health list) dict"

definition history_of :: "health_history \<Rightarrow> string \<Rightarrow> health list" where
  "history_of h name = (case map_of h name of None \<Rightarrow> [] | Some hs \<Rightarrow> hs)"

text \<open>\<open>_RecordingHealth.set\<close>: remembered in order, per name.\<close>

definition health_set :: "string \<Rightarrow> health \<Rightarrow> health_history \<Rightarrow> health_history" where
  "health_set name st h = dict_set name (history_of h name @ [st]) h"

definition publish :: "string list \<Rightarrow> health \<Rightarrow> health_history \<Rightarrow> health_history" where
  "publish names st h = fold (\<lambda>name. health_set name st) names h"

subsection \<open>One tick\<close>

fun probe_ok :: "probe_result \<Rightarrow> bool" where
  "probe_ok (Checked ok) = ok"
| "probe_ok Timed_out = False"
| "probe_ok (Panicked _) = False"

text \<open>The warning a probe's result logs, each cause its own.\<close>

fun probe_warning :: "probe_result \<Rightarrow> string option" where
  "probe_warning (Checked ok) = (if ok then None else Some ''readiness probe failed'')"
| "probe_warning Timed_out = Some ''readiness probe timed out''"
| "probe_warning (Panicked _) = Some ''readiness probe panicked''"

fun run_probes ::
  "probe_outcome list \<Rightarrow> bool \<Rightarrow> (string \<times> string) list \<Rightarrow> bool \<times> (string \<times> string) list" where
  "run_probes [] all_ok warnings = (all_ok, warnings)"
| "run_probes (p # ps) all_ok warnings =
     run_probes ps (if \<not> probe_ok (pr_result p) then False else all_ok)
       (case probe_warning (pr_result p) of
          None \<Rightarrow> warnings | Some w \<Rightarrow> warnings @ [(w, pr_name p)])"

definition supervisor_tick :: "string list \<Rightarrow> probe_outcome list \<Rightarrow> health_history \<Rightarrow> health_history" where
  "supervisor_tick names probes h =
     publish names (if fst (run_probes probes True []) then SERVING else NOT_SERVING) h"

text \<open>The supervisor's loop, as far as it has run: one tick after another until cancelled.\<close>

definition run_supervisor ::
  "string list \<Rightarrow> probe_outcome list list \<Rightarrow> health_history \<Rightarrow> health_history" where
  "run_supervisor names ticks h = fold (supervisor_tick names) ticks h"

subsection \<open>The transport probe\<close>

text \<open>A \<open>TransportSignal\<close> is whether it has been marked bound; the probe answers just that.\<close>

definition mark_bound :: "bool \<Rightarrow> bool" where
  "mark_bound signal = True"

definition transport_check :: "bool \<Rightarrow> probe_outcome" where
  "transport_check signal = \<lparr>pr_name = ''transport'', pr_result = Checked signal\<rparr>"

subsection \<open>Settings\<close>

definition read_setting :: "(string \<Rightarrow> 'f option) \<Rightarrow> environ \<Rightarrow> string \<Rightarrow> 'f \<Rightarrow> 'f" where
  "read_setting parse_float env var dflt =
     (case env var of
        None \<Rightarrow> dflt
      | Some raw \<Rightarrow>
          if raw = [] then dflt
          else (case parse_float raw of None \<Rightarrow> dflt | Some f \<Rightarrow> f))"

definition DEFAULT_PROBE_INTERVAL :: "'f::numeral" where "DEFAULT_PROBE_INTERVAL = 30"
definition DEFAULT_PROBE_TIMEOUT :: "'f::numeral" where "DEFAULT_PROBE_TIMEOUT = 2"

definition ENV_INTERVAL :: string where "ENV_INTERVAL = ''ANGZARR_READINESS_PROBE_INTERVAL''"
definition ENV_TIMEOUT :: string where "ENV_TIMEOUT = ''ANGZARR_READINESS_PROBE_TIMEOUT''"

definition probe_config_from_env :: "(string \<Rightarrow> 'f::numeral option) \<Rightarrow> environ \<Rightarrow> 'f \<times> 'f" where
  "probe_config_from_env parse_float env =
     (read_setting parse_float env ENV_INTERVAL DEFAULT_PROBE_INTERVAL,
      read_setting parse_float env ENV_TIMEOUT DEFAULT_PROBE_TIMEOUT)"

text \<open>
  Each setting is read alone: one that is a number is used, whatever it is, and one that is not,
  or is unset or empty, leaves its default.
\<close>

lemma probe_config_settings:
  "fst (probe_config_from_env parse_float env) =
     (case Option.bind (env ENV_INTERVAL) (\<lambda>raw. if raw = [] then None else parse_float raw) of None \<Rightarrow> 30 | Some f \<Rightarrow> f)"
  "snd (probe_config_from_env parse_float env) =
     (case Option.bind (env ENV_TIMEOUT) (\<lambda>raw. if raw = [] then None else parse_float raw) of None \<Rightarrow> 2 | Some f \<Rightarrow> f)"
  by (simp_all add: probe_config_from_env_def read_setting_def DEFAULT_PROBE_INTERVAL_def DEFAULT_PROBE_TIMEOUT_def
      split: option.split)

subsection \<open>Facts about publishing\<close>

lemma history_of_health_set [simp]:
  "history_of (health_set name st h) name' =
     (if name' = name then history_of h name @ [st] else history_of h name')"
  by (simp add: health_set_def history_of_def)

lemma history_of_publish:
  "distinct names \<Longrightarrow> history_of (publish names st h) name =
     history_of h name @ (if name \<in> set names then [st] else [])"
  by (induction names arbitrary: h) (auto simp: publish_def)

lemma history_of_publish_any:
  "history_of (publish names st h) name =
     history_of h name @ replicate (count_list names name) st"
  by (induction names arbitrary: h) (auto simp: publish_def replicate_append_same [symmetric])

lemma run_probes_eq:
  "run_probes ps ok ws = (ok \<and> list_all (\<lambda>p. probe_ok (pr_result p)) ps,
     ws @ concat (map (\<lambda>p. case probe_warning (pr_result p) of None \<Rightarrow> [] | Some w \<Rightarrow> [(w, pr_name p)]) ps))"
  by (induction ps arbitrary: ok ws) (auto split: option.split)

lemma tick_status:
  "supervisor_tick names probes h =
     publish names (if \<forall>p \<in> set probes. probe_ok (pr_result p) then SERVING else NOT_SERVING) h"
  by (simp add: supervisor_tick_def run_probes_eq list_all_iff)

subsection \<open>Properties\<close>

text \<open>
  Readiness is the conjunction of the probes, tick by tick: each tick publishes one status
  to every supervised name, SERVING exactly when every probe answered true within its timeout,
  so a probe that fails, times out or raises makes that tick NOT_SERVING, never ends the
  supervisor and is forgotten once it passes again; no other name is touched, and each probe
  that did not pass logs one warning naming its cause.
\<close>

theorem readiness_is_all_probes:
  assumes "distinct names"
  shows "history_of (run_supervisor names ticks h) name =
      history_of h name @
        (if name \<in> set names
         then map (\<lambda>probes. if \<forall>p \<in> set probes. pr_result p = Checked True
                           then SERVING else NOT_SERVING) ticks
         else [])
    \<and> length (snd (run_probes probes True [])) = length (filter (\<lambda>p. pr_result p \<noteq> Checked True) probes)"
proof
  have ok: "probe_ok r \<longleftrightarrow> r = Checked True" for r by (cases r) auto
  show "history_of (run_supervisor names ticks h) name =
      history_of h name @
        (if name \<in> set names
         then map (\<lambda>probes. if \<forall>p \<in> set probes. pr_result p = Checked True
                           then SERVING else NOT_SERVING) ticks
         else [])"
    by (induction ticks arbitrary: h)
      (auto simp: run_supervisor_def tick_status history_of_publish [OF assms] ok)
  have "length (case probe_warning r of None \<Rightarrow> [] | Some w \<Rightarrow> [(w, n)]) = (if r \<noteq> Checked True then 1 else 0)"
    for r and n :: string by (cases r) auto
  then show "length (snd (run_probes probes True [])) = length (filter (\<lambda>p. pr_result p \<noteq> Checked True) probes)"
    by (induction probes) (auto simp: run_probes_eq)
qed

theorem readiness_is_all_probes_witness:
  "history_of (run_supervisor ['''', ''s''] [[transport_check False], [transport_check True],
      [transport_check True, \<lparr>pr_name = ''db'', pr_result = Timed_out\<rparr>]] []) ''s''
   = [NOT_SERVING, SERVING, NOT_SERVING]"
  using readiness_is_all_probes [of "['''', ''s'']" "[[transport_check False], [transport_check True],
      [transport_check True, \<lparr>pr_name = ''db'', pr_result = Timed_out\<rparr>]]" "[]" "''s''"]
  by (simp add: transport_check_def history_of_def)

end
