(* ===== verification/Host.thy ===== *)
theory Host
  imports Descriptor Readiness
begin

text \<open>
  \<open>angzarr_client/host.py\<close>: the component host. Its state is the registration (the router it
  hosts on, the kind service, the descriptor, the names refused), the application services, and
  the lifecycle (running, supervised, stopped, the health history). An operation that raises
  keeps what it had changed by then, so each answers its outcome beside the new state. The gRPC
  server, its sockets and threads are not under \<open>src/\<close>: what serving on an address comes to is
  the parameter \<open>serve_outcome\<close> of a start.
\<close>

subsection \<open>The services\<close>

definition COMMAND_HANDLER_SERVICE :: string where
  "COMMAND_HANDLER_SERVICE = ''io.angzarr.component.v1.CommandHandlerService''"
definition COMPONENT_SERVICE :: string where
  "COMPONENT_SERVICE = ''io.angzarr.component.v1.ComponentService''"
definition POLICY_SERVICE :: string where
  "POLICY_SERVICE = ''io.angzarr.component.v1.PolicyService''"
definition PROJECTOR_SERVICE :: string where
  "PROJECTOR_SERVICE = ''io.angzarr.component.v1.ProjectorService''"
definition UPCASTER_SERVICE :: string where
  "UPCASTER_SERVICE = ''io.angzarr.component.v1.UpcasterService''"

lemmas service_names =
  COMMAND_HANDLER_SERVICE_def COMPONENT_SERVICE_def POLICY_SERVICE_def PROJECTOR_SERVICE_def
  UPCASTER_SERVICE_def

definition FRAMEWORK_SERVICES :: "string list" where
  "FRAMEWORK_SERVICES =
     [COMPONENT_SERVICE, COMMAND_HANDLER_SERVICE, POLICY_SERVICE, PROJECTOR_SERVICE,
      UPCASTER_SERVICE]"

subsection \<open>The host's state\<close>

record ('st, 'pr) host =
  ho_router :: "('st, 'pr) router"
  ho_owns_router :: bool
  ho_rules_version :: string
  ho_kind :: "string option"
  ho_descriptor :: "descriptor option"
  ho_component_name :: "string option"
  ho_refused :: "string list"
  ho_upcaster :: bool
  ho_app_services :: "string list"
  ho_running :: bool
  ho_supervised :: "string list option"
  ho_health :: "health_history option"
  ho_socket_path :: "string option"
  ho_stopped :: bool
  ho_address :: string

text \<open>A host given no router makes its own, and closes it when it stops.\<close>

definition host_new :: "('st, 'pr) router option \<Rightarrow> string \<Rightarrow> ('st, 'pr) host" where
  "host_new router rules_version =
     \<lparr>ho_router = (case router of None \<Rightarrow> router_new | Some r \<Rightarrow> r),
      ho_owns_router = (router = None), ho_rules_version = rules_version, ho_kind = None,
      ho_descriptor = None, ho_component_name = None, ho_refused = [], ho_upcaster = False,
      ho_app_services = [], ho_running = False, ho_supervised = None, ho_health = None,
      ho_socket_path = None, ho_stopped = False, ho_address = []\<rparr>"

datatype host_error = Config_failure client_error | Other_failure exn

subsection \<open>Registration\<close>

fun set_rules_version :: "string \<Rightarrow> ('st, 'pr) component \<Rightarrow> ('st, 'pr) component" where
  "set_rules_version v (Aggregate_component d) = Aggregate_component (with_rules_version v d)"
| "set_rules_version v (Process_manager_component d) =
     Process_manager_component (with_rules_version v d)"
| "set_rules_version v (Policy_component d) = Policy_component (policy_with_rules_version v d)"
| "set_rules_version v (Projector_component d) =
     Projector_component (projector_with_rules_version v d)"

definition versioned :: "string \<Rightarrow> ('st, 'pr) component \<Rightarrow> ('st, 'pr) component" where
  "versioned host_version c =
     (if host_version \<noteq> [] \<and> component_rules_version c = []
      then set_rules_version host_version c else c)"

definition claim :: "('st, 'pr) component \<Rightarrow> ('st, 'pr) host \<Rightarrow> bool \<times> ('st, 'pr) host" where
  "claim c h =
     (case ho_component_name h of
        None \<Rightarrow> (True, h\<lparr>ho_component_name := Some (component_name c)\<rparr>)
      | Some _ \<Rightarrow> (False, h\<lparr>ho_refused := ho_refused h @ [component_name c]\<rparr>))"

definition reported_version :: "('st, 'pr) host \<Rightarrow> ('st, 'pr) component \<Rightarrow> string" where
  "reported_version h c =
     (if component_rules_version c \<noteq> [] then component_rules_version c else ho_rules_version h)"

text \<open>A projector's table and its descriptor must each name a domain.\<close>

fun names_no_domain :: "('st, 'pr) component \<Rightarrow> descriptor \<Rightarrow> bool" where
  "names_no_domain (Projector_component d) desc \<longleftrightarrow> \<not> (pd_domains d \<noteq> [] \<and> ds_inputs desc \<noteq> [])"
| "names_no_domain _ desc \<longleftrightarrow> False"

definition host_add ::
  "runtime \<Rightarrow> ('st, 'pr) component \<Rightarrow> descriptor \<Rightarrow> string \<Rightarrow> ('st, 'pr) host \<Rightarrow>
     host_error option \<times> ('st, 'pr) host" where
  "host_add rt c desc service h =
     (let reported = reported_version h c in
      if ds_rules_version desc \<noteq> reported
      then (Some (Config_failure (config_error HOST_REASON_DESCRIPTOR_RULES_VERSION_MISMATCH
              [(''component'', PStr (component_name c)),
               (''described'', PStr (ds_rules_version desc)), (''reported'', PStr reported)])), h)
      else if names_no_domain c desc
      then (Some (Config_failure (config_error HOST_REASON_PROJECTOR_NO_INPUT_DOMAIN
              [(''component'', PStr (component_name c))])), h)
      else (case claim c h of
        (False, h1) \<Rightarrow> (None, h1)
      | (True, h1) \<Rightarrow>
          (case router_register rt (versioned (ho_rules_version h1) c) (ho_router h1) of
             Inl exc \<Rightarrow> (Some (Other_failure exc), h1)
           | Inr r \<Rightarrow>
               (None, h1\<lparr>ho_router := r, ho_kind := Some service, ho_descriptor := Some desc\<rparr>))))"

definition add_aggregate ::
  "runtime \<Rightarrow> 'st aggregate_dispatch \<Rightarrow> descriptor \<Rightarrow> ('st, 'pr) host \<Rightarrow>
     host_error option \<times> ('st, 'pr) host" where
  "add_aggregate rt d desc h = host_add rt (Aggregate_component d) desc COMMAND_HANDLER_SERVICE h"

definition add_policy ::
  "runtime \<Rightarrow> policy_dispatch \<Rightarrow> descriptor \<Rightarrow> ('st, 'pr) host \<Rightarrow>
     host_error option \<times> ('st, 'pr) host" where
  "add_policy rt d desc h = host_add rt (Policy_component d) desc POLICY_SERVICE h"

definition add_process_manager ::
  "runtime \<Rightarrow> 'st aggregate_dispatch \<Rightarrow> descriptor \<Rightarrow> ('st, 'pr) host \<Rightarrow>
     host_error option \<times> ('st, 'pr) host" where
  "add_process_manager rt d desc h =
     host_add rt (Process_manager_component d) desc COMMAND_HANDLER_SERVICE h"

definition add_projector ::
  "runtime \<Rightarrow> 'pr projector_dispatch \<Rightarrow> descriptor \<Rightarrow> ('st, 'pr) host \<Rightarrow>
     host_error option \<times> ('st, 'pr) host" where
  "add_projector rt d desc h = host_add rt (Projector_component d) desc PROJECTOR_SERVICE h"

definition add_upcaster :: "('st, 'pr) host \<Rightarrow> ('st, 'pr) host" where
  "add_upcaster h = h\<lparr>ho_upcaster := True\<rparr>"

definition add_service :: "string \<Rightarrow> ('st, 'pr) host \<Rightarrow> host_error option \<times> ('st, 'pr) host" where
  "add_service name h =
     (if name = [] then (Some (Config_failure (config_error HOST_SERVICE_UNNAMED [])), h)
      else (None, h\<lparr>ho_app_services := ho_app_services h @ [name]\<rparr>))"

definition services :: "('st, 'pr) host \<Rightarrow> string list" where
  "services h =
     (let served = (case ho_kind h of None \<Rightarrow> [] | Some k \<Rightarrow> [COMPONENT_SERVICE, k]) @
            (if ho_upcaster h then [UPCASTER_SERVICE] else []) in
      filter (\<lambda>name. name \<in> set served) FRAMEWORK_SERVICES @ ho_app_services h)"

subsection \<open>Lifecycle\<close>

text \<open>
  What serving on an address comes to: an application service that does not register, an
  address that does not bind, a server that does not start, or a bound port.
\<close>

datatype serve_outcome =
  Services_fail exn | Bind_fails exn | Start_fails exn | Bound_port nat

text \<open>\<open>", ".join(names)\<close>\<close>

fun join_comma :: "string list \<Rightarrow> string" where
  "join_comma [] = []"
| "join_comma [s] = s"
| "join_comma (s # t # ss) = s @ '', '' @ join_comma (t # ss)"

definition start_guard :: "('st, 'pr) host \<Rightarrow> client_error option" where
  "start_guard h =
     (if ho_kind h \<noteq> None \<and> ho_upcaster h
      then Some (config_error HOST_REASON_UPCASTER_WITH_COMPONENT
             [(''component'', PStr (case ho_component_name h of None \<Rightarrow> ''None'' | Some n \<Rightarrow> n))])
      else if ho_kind h = None \<and> \<not> ho_upcaster h
      then Some (config_error HOST_REASON_NO_COMPONENTS_REGISTERED [])
      else if ho_refused h \<noteq> []
      then Some (config_error DUPLICATE_COMPONENT
             [(''registered'', PStr (case ho_component_name h of None \<Rightarrow> ''None'' | Some n \<Rightarrow> n)),
              (''refused'', PStr (join_comma (ho_refused h)))])
      else if ho_running h then Some (config_error HOST_ALREADY_STARTED [])
      else None)"

definition bound_address :: "string \<Rightarrow> nat \<Rightarrow> string" where
  "bound_address address port =
     (if startswith ''unix:'' address then address
      else fst (rpartition CHR '':'' address) @ '':'' @ nat_str port)"

text \<open>\<open>_start\<close>, on the host's loop.\<close>

definition serve ::
  "string \<Rightarrow> serve_outcome \<Rightarrow> ('st, 'pr) host \<Rightarrow> (exn + string) \<times> ('st, 'pr) host" where
  "serve address outcome h =
     (case outcome of
        Services_fail exc \<Rightarrow> (Inl exc, h)
      | _ \<Rightarrow>
          (let names = [] # services h;
               h1 = h\<lparr>ho_health := Some (publish names NOT_SERVING [])\<rparr> in
           case outcome of
             Bind_fails exc \<Rightarrow> (Inl exc, h1)
           | _ \<Rightarrow>
               (let h2 = (if startswith ''unix:'' address
                          then h1\<lparr>ho_socket_path := address_socket_path address\<rparr> else h1) in
                case outcome of
                  Bound_port port \<Rightarrow>
                    (Inr (bound_address address port), h2\<lparr>ho_supervised := Some names\<rparr>)
                | Start_fails exc \<Rightarrow> (Inl exc, h2)
                | _ \<Rightarrow> (Inr [], h2))))"

definition shutdown_loop :: "('st, 'pr) host \<Rightarrow> ('st, 'pr) host" where
  "shutdown_loop h = h\<lparr>ho_running := False\<rparr>"

definition host_start ::
  "environ \<Rightarrow> string option \<Rightarrow> serve_outcome \<Rightarrow> ('st, 'pr) host \<times> file_system \<Rightarrow>
     (host_error + string) \<times> ('st, 'pr) host \<times> file_system" where
  "host_start env address outcome hf =
     (case hf of (h, fs) \<Rightarrow>
        (case start_guard h of
           Some e \<Rightarrow> (Inl (Config_failure e), h, fs)
         | None \<Rightarrow>
             (let (addr, fs') = (case address of
                    Some a \<Rightarrow> (a, fs)
                  | None \<Rightarrow> (case get_transport_config env fs of ((_, a), fs') \<Rightarrow> (a, fs'))) in
              case serve addr outcome (h\<lparr>ho_running := True\<rparr>) of
                (Inr bound, h') \<Rightarrow> (Inr bound, h'\<lparr>ho_address := bound\<rparr>, fs')
              | (Inl exc, h') \<Rightarrow> (Inl (Other_failure exc), shutdown_loop h', fs'))))"

definition close_owned_router :: "('st, 'pr) host \<Rightarrow> ('st, 'pr) host" where
  "close_owned_router h =
     (if ho_owns_router h then h\<lparr>ho_router := router_close (ho_router h)\<rparr> else h)"

text \<open>
  \<open>_stop\<close>, on the host's loop: the supervisor is cancelled, every name turns NOT_SERVING, the
  server stops and its socket's file goes.
\<close>

definition stop_server :: "('st, 'pr) host \<times> file_system \<Rightarrow> ('st, 'pr) host \<times> file_system" where
  "stop_server hf =
     (case hf of (h, fs) \<Rightarrow>
        (h\<lparr>ho_supervised := None,
            ho_health := map_option (publish ([] # services h) NOT_SERVING) (ho_health h)\<rparr>,
         case ho_socket_path h of
           None \<Rightarrow> fs
         | Some p \<Rightarrow> if p \<noteq> [] \<and> p \<in> set (fs_files fs) then remove_file p fs else fs))"

definition host_stop :: "('st, 'pr) host \<times> file_system \<Rightarrow> ('st, 'pr) host \<times> file_system" where
  "host_stop hf =
     (case hf of (h, fs) \<Rightarrow>
        if ho_stopped h then (h, fs)
        else if \<not> ho_running h then ((close_owned_router h)\<lparr>ho_stopped := True\<rparr>, fs)
        else
          (case stop_server (h, fs) of
             (h1, fs1) \<Rightarrow> ((close_owned_router (shutdown_loop h1))\<lparr>ho_stopped := True\<rparr>, fs1)))"

text \<open>\<open>with host: ...\<close>: what is entered is the host itself, and leaving stops it.\<close>

definition host_enter :: "('st, 'pr) host \<times> file_system \<Rightarrow> ('st, 'pr) host \<times> file_system" where
  "host_enter hf = hf"

definition host_exit :: "('st, 'pr) host \<times> file_system \<Rightarrow> ('st, 'pr) host \<times> file_system" where
  "host_exit hf = host_stop hf"

text \<open>One readiness tick of the supervisor a start left running.\<close>

definition host_tick :: "probe_outcome list \<Rightarrow> ('st, 'pr) host \<Rightarrow> ('st, 'pr) host" where
  "host_tick probes h =
     (case ho_supervised h of
        None \<Rightarrow> h
      | Some names \<Rightarrow> h\<lparr>ho_health := map_option (supervisor_tick names probes) (ho_health h)\<rparr>)"

definition host_wait :: "('st, 'pr) host \<Rightarrow> bool" where
  "host_wait h = ho_stopped h"

definition health_history_for :: "('st, 'pr) host \<Rightarrow> string \<Rightarrow> health list" where
  "health_history_for h service =
     (case ho_health h of None \<Rightarrow> [] | Some hist \<Rightarrow> history_of hist service)"

definition health_status :: "('st, 'pr) host \<Rightarrow> string \<Rightarrow> health option" where
  "health_status h service =
     (let history = health_history_for h service in
      if history \<noteq> [] then Some (last history) else None)"

text \<open>
  \<open>run\<close>: start, serve until asked to stop (the ticks of the meanwhile), stop; a start that
  fails stops the host too and raises what it raised.
\<close>

definition host_run ::
  "environ \<Rightarrow> string option \<Rightarrow> serve_outcome \<Rightarrow> probe_outcome list list \<Rightarrow>
     ('st, 'pr) host \<times> file_system \<Rightarrow> host_error option \<times> ('st, 'pr) host \<times> file_system" where
  "host_run env address outcome ticks hf =
     (case host_start env address outcome hf of
        (Inl e, h, fs) \<Rightarrow> (Some e, host_stop (h, fs))
      | (Inr _, h, fs) \<Rightarrow> (None, host_stop (fold host_tick ticks h, fs)))"

subsection \<open>Dispatch over gRPC\<close>

definition HOST_STATUS_DETAILS_KEY :: string where
  "HOST_STATUS_DETAILS_KEY = ''grpc-status-details-bin''"

text \<open>A number no \<open>grpc.StatusCode\<close> has is INTERNAL.\<close>

definition grpc_status_code :: "int \<Rightarrow> int" where
  "grpc_status_code code = (if 0 \<le> code \<and> code \<le> 16 then code else 13)"

text \<open>
  What a call answers: the response, or an abort with its status, its message and the trailing
  metadata set before it, the serialized \<open>google.rpc.Status\<close> under the host's key; a
  \<open>BaseException\<close> is not caught.
\<close>

datatype 'a rpc_outcome = Answered 'a | Aborted int string "(string \<times> bytes) list" | Uncaught exn

definition dispatcher_call ::
  "runtime \<Rightarrow> protobuf \<Rightarrow> ('req \<Rightarrow> exn + 'resp) \<Rightarrow> 'req \<Rightarrow> 'resp rpc_outcome" where
  "dispatcher_call rt pb fn request =
     (case fn request of
        Inr resp \<Rightarrow> Answered resp
      | Inl exc \<Rightarrow>
          if \<not> is_exception exc then Uncaught exc
          else (let failure = (case exc of
                      Coded e \<Rightarrow> e
                    | _ \<Rightarrow> coded_error (rt_statuses rt) UNHANDLED_HANDLER_ERROR None
                             [(''cause'', HANDLER_PANICKED)] None);
                    details = pb_status_bytes pb (status (pb_pack_info pb) failure) in
                Aborted (grpc_status_code (ce_grpc failure)) (ce_code failure)
                  [(HOST_STATUS_DETAILS_KEY, details)]))"

definition command_handler_Handle ::
  "runtime \<Rightarrow> protobuf \<Rightarrow> ('st, 'pr) router \<Rightarrow> contextual_command \<Rightarrow>
     command_handler_response rpc_outcome" where
  "command_handler_Handle rt pb r = dispatcher_call rt pb (dispatch rt r)"

definition component_Describe :: "('st, 'pr) host \<Rightarrow> descriptor option" where
  "component_Describe h = ho_descriptor h"

definition policy_Handle ::
  "runtime \<Rightarrow> protobuf \<Rightarrow> ('st, 'pr) router \<Rightarrow> event_book \<Rightarrow> reaction list rpc_outcome" where
  "policy_Handle rt pb r = dispatcher_call rt pb (dispatch_policy rt r)"

definition policy_OnRefused ::
  "runtime \<Rightarrow> protobuf \<Rightarrow> ('st, 'pr) router \<Rightarrow> refusal \<Rightarrow> command_book option rpc_outcome" where
  "policy_OnRefused rt pb r = dispatcher_call rt pb (dispatch_refusal rt r)"

definition projector_Handle ::
  "runtime \<Rightarrow> protobuf \<Rightarrow> ('st, 'pr) router \<Rightarrow> event_book \<Rightarrow> projection rpc_outcome" where
  "projector_Handle rt pb r = dispatcher_call rt pb (dispatch_projector rt r)"

definition upcaster_Upcast ::
  "runtime \<Rightarrow> protobuf \<Rightarrow> ('req \<Rightarrow> exn + 'resp) \<Rightarrow> 'req \<Rightarrow> 'resp rpc_outcome" where
  "upcaster_Upcast rt pb upcast = dispatcher_call rt pb upcast"

end
