(* ===== verification/Catalogs.thy ===== *)
theory Catalogs
  imports Generate Validation Builder Compensation Helpers Host
begin

text \<open>
  The English of an error: the catalogs \<open>angzarr_client/diagnostic.py\<close> reads, the spec's where the
  build put them and the package's own \<open>locales/en-US/angzarr-client.ftl\<close>, whose text is below; and
  that every code of the package's own (\<open>error_codes/codes.py\<close>) is rendered from it.
\<close>

subsection \<open>The files\<close>

definition SPEC_CATALOGS :: "path \<Rightarrow> path list" where
  "SPEC_CATALOGS here = map (\<lambda>package. here @ ''proto'' # package @ [''reasons.en-US.ftl''])
     [[''io'', ''angzarr'', ''v1''], [''io'', ''angzarr'', ''transport'', ''embedded'', ''v1''],
      [''io'', ''angzarr'', ''transport'', ''distributed'', ''v1'']]"

definition CLIENT_CATALOG :: "path \<Rightarrow> path" where
  "CLIENT_CATALOG here = here @ [''locales'', ''en-US'', ''angzarr-client.ftl'']"

definition CLIENT_FTL :: "string list" where
  "CLIENT_FTL = [
     ''# English for angzarr-client'' @ [CHR 0x27] @ ''s own codes (angzarr_client.error_codes.codes):'',
     ''# each id is a code, its variables the code'' @ [CHR 0x27] @ ''s details. A framework reason'',
     ''# key'' @ [CHR 0x27] @ ''s English is the spec'' @ [CHR 0x27] @ ''s catalog (reasons.en-US.ftl, shipped with the'',
     ''# generated protos; decision 14.60), never here. Rendered by'',
     ''# angzarr_client.diagnostic.render where an error is shown; nothing on the'',
     ''# wire uses it (decision 14.37).'',
     [],
     ''## Validation'',
     [],
     ''VALUE_NOT_POSITIVE = { $field } must be positive'',
     ''VALUE_NOT_NON_NEGATIVE = { $field } must be non-negative'',
     ''VALUE_EMPTY = { $field } must not be empty'',
     ''COLLECTION_EMPTY = { $field } must not be empty'',
     ''ENTITY_NOT_FOUND = entity not found'',
     ''ENTITY_ALREADY_EXISTS = entity already exists'',
     ''STATUS_MISMATCH = status does not match expected'',
     ''STATUS_FORBIDDEN = status is the forbidden value'',
     [],
     ''## Builder'',
     [],
     ''COMMAND_TYPE_URL_MISSING = command type_url not set'',
     ''COMMAND_PAYLOAD_MISSING = command payload not set'',
     [],
     ''## Conversion'',
     [],
     ''PROTO_UUID_INVALID = { $field } is not a UUID'',
     ''TIMESTAMP_PARSE_FAILED = the timestamp is not RFC 3339 ({ $ext_err_txt })'',
     [],
     ''## Identity'',
     [],
     ''DOMAIN_CONTAINS_COLON = domain '' @ [CHR 0x22] @ ''{ $domain }'' @ [CHR 0x22] @ '' must not contain '' @ [CHR 0x27] @ '':'' @ [CHR 0x27],
     [],
     ''## Transport / connection'',
     [],
     ''CONNECTION_FAILED = connection failed'',
     ''TRANSPORT_ERROR = transport error'',
     ''GRPC_ERROR = grpc error'',
     [],
     ''## Component host'',
     [],
     ''HOST_SERVICE_UNNAMED = an application service needs its full service name'',
     ''HOST_ALREADY_STARTED = the host is already started'',
     ''DESCRIPTOR_RESOLUTION_UNSPECIFIED = component '' @ [CHR 0x22] @ ''{ $component }'' @ [CHR 0x22] @ '' lists a conflict resolution of UNSPECIFIED'',
     [],
     ''## Process-manager compensation'',
     [],
     ''UNDO_TARGETS_COMMAND = the undo of step '' @ [CHR 0x22] @ ''{ $step }'' @ [CHR 0x22] @ '' becomes { $command }, a command its destination may refuse'']"

text \<open>
  \<open>catalog()\<close> on a disk: every file read, or the failure to read one. A file read is kept for the
  process (\<open>functools.cache\<close>): this is its first reading.
\<close>

fun read_all :: "path list \<Rightarrow> string list build" where
  "read_all [] = returnB []"
| "read_all (p # ps) = bindB (read_file p) (\<lambda>s. bindB (read_all ps) (\<lambda>rest. returnB (s # rest)))"

definition load_catalog :: "path \<Rightarrow> (string, string) dict build" where
  "load_catalog here =
     bindB (read_all (SPEC_CATALOGS here)) (\<lambda>specs.
     bindB (read_file (CLIENT_CATALOG here)) (\<lambda>client. returnB (catalog specs client)))"

subsection \<open>What the messages are\<close>

text \<open>A message with no selection: its literal texts and the details between them.\<close>

datatype piece = Lit string | Var string

definition CLIENT_ENGLISH :: "(string, piece list) dict" where
  "CLIENT_ENGLISH = [
     (VALUE_NOT_POSITIVE, [Var ''field'', Lit '' must be positive'']),
     (VALUE_NOT_NON_NEGATIVE, [Var ''field'', Lit '' must be non-negative'']),
     (VALUE_EMPTY, [Var ''field'', Lit '' must not be empty'']),
     (COLLECTION_EMPTY, [Var ''field'', Lit '' must not be empty'']),
     (ENTITY_NOT_FOUND, [Lit ''entity not found'']),
     (ENTITY_ALREADY_EXISTS, [Lit ''entity already exists'']),
     (STATUS_MISMATCH, [Lit ''status does not match expected'']),
     (STATUS_FORBIDDEN, [Lit ''status is the forbidden value'']),
     (COMMAND_TYPE_URL_MISSING, [Lit ''command type_url not set'']),
     (COMMAND_PAYLOAD_MISSING, [Lit ''command payload not set'']),
     (PROTO_UUID_INVALID, [Var ''field'', Lit '' is not a UUID'']),
     (TIMESTAMP_PARSE_FAILED, [Lit ''the timestamp is not RFC 3339 ('', Var ''ext_err_txt'', Lit '')'']),
     (DOMAIN_CONTAINS_COLON, [Lit (''domain '' @ [CHR 0x22]), Var ''domain'', Lit ([CHR 0x22] @ '' must not contain '' @ [CHR 0x27] @ '':'' @ [CHR 0x27])]),
     (CONNECTION_FAILED, [Lit ''connection failed'']),
     (TRANSPORT_ERROR, [Lit ''transport error'']),
     (GRPC_ERROR, [Lit ''grpc error'']),
     (HOST_SERVICE_UNNAMED, [Lit ''an application service needs its full service name'']),
     (HOST_ALREADY_STARTED, [Lit ''the host is already started'']),
     (DESCRIPTOR_RESOLUTION_UNSPECIFIED, [Lit (''component '' @ [CHR 0x22]), Var ''component'', Lit ([CHR 0x22] @ '' lists a conflict resolution of UNSPECIFIED'')]),
     (UNDO_TARGETS_COMMAND, [Lit (''the undo of step '' @ [CHR 0x22]), Var ''step'', Lit ([CHR 0x22] @ '' becomes ''), Var ''command'', Lit '', a command its destination may refuse''])]"

definition OWN_CODES :: "string list" where
  "OWN_CODES = [
     VALUE_NOT_POSITIVE, VALUE_NOT_NON_NEGATIVE, VALUE_EMPTY,
     COLLECTION_EMPTY, ENTITY_NOT_FOUND, ENTITY_ALREADY_EXISTS,
     STATUS_MISMATCH, STATUS_FORBIDDEN, COMMAND_TYPE_URL_MISSING,
     COMMAND_PAYLOAD_MISSING, PROTO_UUID_INVALID, TIMESTAMP_PARSE_FAILED,
     DOMAIN_CONTAINS_COLON, CONNECTION_FAILED, TRANSPORT_ERROR,
     GRPC_ERROR, HOST_SERVICE_UNNAMED, HOST_ALREADY_STARTED,
     DESCRIPTOR_RESOLUTION_UNSPECIFIED, UNDO_TARGETS_COMMAND]"

fun piece_source :: "piece \<Rightarrow> string" where
  "piece_source (Lit s) = s"
| "piece_source (Var n) = ''{ $'' @ n @ '' }''"

text \<open>A detail that is missing is shown as its reference.\<close>

fun piece_text :: "(string, string) dict \<Rightarrow> piece \<Rightarrow> string" where
  "piece_text args (Lit s) = s"
| "piece_text args (Var n) = (case map_of args n of Some v \<Rightarrow> v | None \<Rightarrow> ''{$'' @ n @ ''}'')"

fun plain_piece :: "piece \<Rightarrow> bool" where
  "plain_piece (Lit s) \<longleftrightarrow> CHR ''{'' \<notin> set s"
| "plain_piece (Var n) \<longleftrightarrow> n \<noteq> [] \<and> list_all (\<lambda>c. \<not> isspace c \<and> c \<notin> set ''-{}'') n"

lemmas own_code_defs =
  VALUE_NOT_POSITIVE_def VALUE_NOT_NON_NEGATIVE_def VALUE_EMPTY_def
  COLLECTION_EMPTY_def ENTITY_NOT_FOUND_def ENTITY_ALREADY_EXISTS_def
  STATUS_MISMATCH_def STATUS_FORBIDDEN_def COMMAND_TYPE_URL_MISSING_def
  COMMAND_PAYLOAD_MISSING_def PROTO_UUID_INVALID_def TIMESTAMP_PARSE_FAILED_def
  DOMAIN_CONTAINS_COLON_def CONNECTION_FAILED_def TRANSPORT_ERROR_def
  GRPC_ERROR_def HOST_SERVICE_UNNAMED_def HOST_ALREADY_STARTED_def
  DESCRIPTOR_RESOLUTION_UNSPECIFIED_def UNDO_TARGETS_COMMAND_def

text \<open>The file's text is its lines, each ended; and it is read back as them.\<close>

definition file_of_lines :: "string list \<Rightarrow> string" where
  "file_of_lines ls = concat (map (\<lambda>l. l @ [CHR 0x0A]) ls)"

lemma splitlines_line:
  "list_all (\<lambda>c. \<not> linebreak c) u \<Longrightarrow>
     splitlines_from (u @ CHR 0x0A # v) acc = (rev acc @ u) # splitlines_from v []"
proof (induction u arbitrary: acc)
  case Nil
  have "linebreak (CHR 0x0A)" by (simp add: linebreak_def)
  then show ?case by (cases v) simp_all
next
  case (Cons c u)
  then have "splitlines_from (c # u @ CHR 0x0A # v) acc = splitlines_from (u @ CHR 0x0A # v) (c # acc)"
    by (cases u) simp_all
  with Cons show ?case by simp
qed

lemma splitlines_file: "list_all (list_all (\<lambda>c. \<not> linebreak c)) ls \<Longrightarrow> splitlines (file_of_lines ls) = ls"
  unfolding splitlines_def by (induction ls) (simp_all add: file_of_lines_def splitlines_line)

fun visible :: "char \<Rightarrow> bool" where
  "visible (Char b0 b1 b2 b3 b4 b5 b6 b7) \<longleftrightarrow> (b5 \<or> b6) \<and> \<not> b7"

lemma visible_no_linebreak: "visible c \<Longrightarrow> \<not> linebreak c"
proof -
  have "32 \<le> (of_char c :: nat) \<and> (of_char c :: nat) < 128" if "visible c"
    using that by (cases c) (auto split: if_splits)
  then show "visible c \<Longrightarrow> \<not> linebreak c" by (fastforce simp: linebreak_def Let_def)
qed

lemma client_lines: "splitlines (file_of_lines CLIENT_FTL) = CLIENT_FTL"
proof (rule splitlines_file)
  have "list_all (list_all visible) CLIENT_FTL" by code_simp
  then show "list_all (list_all (\<lambda>c. \<not> linebreak c)) CLIENT_FTL"
    by (rule list.pred_mono_strong) (auto elim!: list.pred_mono_strong dest: visible_no_linebreak)
qed

lemma client_messages:
  "parse (file_of_lines CLIENT_FTL) = map (\<lambda>(code, ps). (code, concat (map piece_source ps))) CLIENT_ENGLISH"
  unfolding parse_def client_lines by code_simp

subsection \<open>A message is rendered piece by piece\<close>

lemma split_arrow_none: "CHR ''-'' \<notin> set s \<Longrightarrow> split_arrow s = None"
  by (induction s rule: split_arrow.induct) auto

lemma placeable_var:
  assumes "plain_piece (Var n)"
  shows "placeable args ('' $'' @ n @ '' '') = Return (piece_text args (Var n))"
proof -
  from assms have n: "n \<noteq> []" "CHR ''-'' \<notin> set n" "\<forall>c \<in> set n. \<not> isspace c"
    by (auto simp: list_all_iff)
  have "split_arrow ('' $'' @ n @ '' '') = None" by (rule split_arrow_none) (use n in auto)
  moreover have "strip ('' $'' @ n @ '' '') = ''$'' @ n"
  proof -
    have space: "isspace (CHR '' '')" "\<not> isspace (CHR ''$'')" by (simp_all add: isspace_def)
    obtain c m where m: "rev n = c # m" using n(1) by (metis list.exhaust rev_is_Nil_conv)
    then have "\<not> isspace c" using n(3) by (metis list.set_intros(1) set_rev)
    then show ?thesis using space m by (simp add: strip_def)
  qed
  ultimately show ?thesis
    by (simp add: placeable.simps startswith_Cons removeprefix_def split: option.split)
qed

lemma pattern_pieces:
  "list_all plain_piece ps \<Longrightarrow>
     pattern args (concat (map piece_source ps)) = Return (concat (map (piece_text args) ps))"
proof (induction ps)
  case (Cons p ps)
  show ?case
  proof (cases p)
    case (Lit s)
    with Cons show ?thesis by (simp add: pattern_append_plain)
  next
    case (Var n)
    with Cons.prems have "CHR ''{'' \<notin> set ('' $'' @ n @ '' '')" "CHR ''}'' \<notin> set ('' $'' @ n @ '' '')"
      by (auto simp: list_all_iff)
    note shown = pattern_placeable [OF this, of args "concat (map piece_source ps)"]
    have "placeable args ('' $'' @ n @ '' '') = Return (piece_text args (Var n))"
      by (rule placeable_var) (use Cons.prems Var in simp)
    with shown Cons Var show ?thesis
      by (simp del: plain_piece.simps piece_text.simps(2))
  qed
qed simp

lemma plain_english: "list_all (\<lambda>(code, ps). list_all plain_piece ps) CLIENT_ENGLISH"
  by code_simp

lemma own_codes_listed: "keys CLIENT_ENGLISH = OWN_CODES" "distinct OWN_CODES"
  by code_simp+

lemma map_of_catalog:
  "map_of (catalog specs (file_of_lines CLIENT_FTL)) code =
     (case map_of CLIENT_ENGLISH code of
        Some ps \<Rightarrow> Some (concat (map piece_source ps))
      | None \<Rightarrow> map_of (fold (\<lambda>t d. dict_merge d (parse t)) specs []) code)"
proof -
  have "distinct (keys (map (\<lambda>(code, ps). (code, concat (map piece_source ps))) CLIENT_ENGLISH))"
    using own_codes_listed by (simp add: o_def split_def)
  moreover have "map_of (map (\<lambda>(code, ps). (code, concat (map piece_source ps))) CLIENT_ENGLISH) code =
      map_option (\<lambda>ps. concat (map piece_source ps)) (map_of CLIENT_ENGLISH code)"
    by (simp add: map_of_map)
  ultimately show ?thesis
    by (simp add: catalog_def client_messages map_of_dict_merge map_add_def split: option.split)
qed

text \<open>What an error of the package's own says, whatever the spec's catalogs hold.\<close>

definition says :: "string list \<Rightarrow> client_error \<Rightarrow> string \<Rightarrow> bool" where
  "says specs e s \<longleftrightarrow> client_error_message (catalog specs (file_of_lines CLIENT_FTL)) e = Return s"

lemma own_says:
  assumes "map_of CLIENT_ENGLISH (er_code e) = Some ps"
  shows "says specs e (concat (map (piece_text (er_details e)) ps))"
proof -
  have "list_all plain_piece ps"
    using plain_english map_of_SomeD [OF assms] by (auto simp: list_all_iff)
  with assms show ?thesis
    by (simp add: says_def client_error_message_def render_def map_of_catalog pattern_pieces)
qed

lemma own_says_as:
  "map_of CLIENT_ENGLISH (er_code e) = Some ps \<Longrightarrow> s = concat (map (piece_text (er_details e)) ps) \<Longrightarrow>
     says specs e s"
  using own_says by simp

fun check_english :: "check \<Rightarrow> string" where
  "check_english (Exists _ _) = ''entity not found''"
| "check_english (Not_exists _ _) = ''entity already exists''"
| "check_english (Positive _ field) = field @ '' must be positive''"
| "check_english (Non_negative _ field) = field @ '' must be non-negative''"
| "check_english (Not_empty _ field) = field @ '' must not be empty''"
| "check_english (Not_empty_str _ field) = field @ '' must not be empty''"
| "check_english (Status _ _ _) = ''status does not match expected''"
| "check_english (Status_not _ _ _) = ''status is the forbidden value''"

lemma check_codes:
  "map_of CLIENT_ENGLISH VALUE_NOT_POSITIVE = Some [Var ''field'', Lit '' must be positive'']"
  "map_of CLIENT_ENGLISH VALUE_NOT_NON_NEGATIVE = Some [Var ''field'', Lit '' must be non-negative'']"
  "map_of CLIENT_ENGLISH VALUE_EMPTY = Some [Var ''field'', Lit '' must not be empty'']"
  "map_of CLIENT_ENGLISH COLLECTION_EMPTY = Some [Var ''field'', Lit '' must not be empty'']"
  "map_of CLIENT_ENGLISH ENTITY_NOT_FOUND = Some [Lit ''entity not found'']"
  "map_of CLIENT_ENGLISH ENTITY_ALREADY_EXISTS = Some [Lit ''entity already exists'']"
  "map_of CLIENT_ENGLISH STATUS_MISMATCH = Some [Lit ''status does not match expected'']"
  "map_of CLIENT_ENGLISH STATUS_FORBIDDEN = Some [Lit ''status is the forbidden value'']"
  by code_simp+

lemma raised_codes:
  "map_of CLIENT_ENGLISH COMMAND_TYPE_URL_MISSING = Some [Lit ''command type_url not set'']"
  "map_of CLIENT_ENGLISH COMMAND_PAYLOAD_MISSING = Some [Lit ''command payload not set'']"
  "map_of CLIENT_ENGLISH PROTO_UUID_INVALID = Some [Var ''field'', Lit '' is not a UUID'']"
  "map_of CLIENT_ENGLISH TIMESTAMP_PARSE_FAILED =
     Some [Lit ''the timestamp is not RFC 3339 ('', Var ''ext_err_txt'', Lit '')'']"
  "map_of CLIENT_ENGLISH DOMAIN_CONTAINS_COLON = Some [Lit (''domain '' @ [CHR 0x22]), Var ''domain'',
     Lit ([CHR 0x22] @ '' must not contain '' @ [CHR 0x27] @ '':'' @ [CHR 0x27])]"
  "map_of CLIENT_ENGLISH HOST_SERVICE_UNNAMED = Some [Lit ''an application service needs its full service name'']"
  "map_of CLIENT_ENGLISH HOST_ALREADY_STARTED = Some [Lit ''the host is already started'']"
  "map_of CLIENT_ENGLISH DESCRIPTOR_RESOLUTION_UNSPECIFIED = Some [Lit (''component '' @ [CHR 0x22]),
     Var ''component'', Lit ([CHR 0x22] @ '' lists a conflict resolution of UNSPECIFIED'')]"
  "map_of CLIENT_ENGLISH UNDO_TARGETS_COMMAND = Some [Lit (''the undo of step '' @ [CHR 0x22]), Var ''step'',
     Lit ([CHR 0x22] @ '' becomes ''), Var ''command'', Lit '', a command its destination may refuse'']"
  by code_simp+

lemma check_says:
  assumes "snd (run_check sts c) = Raise (Coded r)" "er_code e = ce_code r" "er_details e = ce_extras r"
  shows "says specs e (check_english c)"
proof -
  obtain code st args where rejects: "check_rejects c = (code, st, args)" by (rule prod_cases3)
  with assms(1) have "ce_code r = code" "ce_extras r = args"
    unfolding run_check_outcome by (auto simp: coded_error_def split: if_splits)
  with assms(2,3) have e: "er_code e = code" "er_details e = args" by simp_all
  show ?thesis using own_says [of e _ specs, unfolded e] rejects
    by (cases c) (fastforce simp: check_codes)+
qed

lemma uuid_says: "as_uuid v field = Raise (Client_exn e) \<Longrightarrow> says specs e (field @ '' is not a UUID'')"
  using own_says [of e _ specs]
  by (auto simp: as_uuid_def strings_def raised_codes split: uuid_arg.splits sum.splits)

lemma domain_says:
  "compute_root sha1 domain key = Raise (Client_exn e) \<Longrightarrow>
     says specs e (''domain '' @ [CHR 0x22] @ domain @ [CHR 0x22] @ '' must not contain '' @ [CHR 0x27] @ '':'' @ [CHR 0x27])"
  using own_says [of e _ specs] by (auto simp: compute_root_def strings_def raised_codes split: if_splits)

lemma timestamp_says:
  "parse_timestamp from_json t = Raise (Client_exn e) \<Longrightarrow>
     \<exists>why. from_json t = Inl why \<and> says specs e (''the timestamp is not RFC 3339 ('' @ why @ '')'')"
  using own_says [of e _ specs] by (auto simp: parse_timestamp_def strings_def raised_codes split: sum.splits)

lemma command_says:
  assumes "build_command fits b = Raise (Client_exn e)"
  shows "says specs e (if bd_type_url b \<in> {None, Some []} then ''command type_url not set'' else ''command payload not set'')"
  using assms own_says [of e _ specs]
  by (auto simp: build_command_def Let_def bindR_def raised_codes split: option.splits if_splits sum.splits)

lemma service_says:
  "fst (add_service name h) = Some (Config_failure e) \<Longrightarrow>
     says specs e ''an application service needs its full service name''"
  using own_says [of e _ specs] by (auto simp: add_service_def config_error_def raised_codes split: if_splits)

lemma resolution_says:
  "describe_state options tbl st rs = Inl e \<Longrightarrow>
     says specs e (''component '' @ [CHR 0x22] @ component_name tbl @ [CHR 0x22] @ '' lists a conflict resolution of UNSPECIFIED'')"
  using own_says [of e _ specs]
  by (auto simp: describe_state_def Let_def config_error_def strings_def raised_codes split: if_splits)

lemma code_says:
  "er_code e = HOST_ALREADY_STARTED \<Longrightarrow> says specs e ''the host is already started''"
  "er_code e = UNDO_TARGETS_COMMAND \<Longrightarrow> er_details e = warning_args w \<Longrightarrow>
     says specs e (''the undo of step '' @ [CHR 0x22] @ uw_step w @ [CHR 0x22] @ '' becomes '' @ uw_command w @
       '', a command its destination may refuse'')"
  using own_says [of e _ specs] by (auto simp: raised_codes warning_args_def)

subsection \<open>The detail keys\<close>

definition FIELD :: string where "FIELD = ''field''"
definition CONTEXT :: string where "CONTEXT = ''context''"
definition INPUT :: string where "INPUT = ''input''"
definition DOMAIN :: string where "DOMAIN = ''domain''"

text \<open>The checks, the UUID arguments and the derived roots name their details with them.\<close>

lemma details_named:
  "snd (run_check sts c) = Raise (Coded r) \<Longrightarrow> keys (ce_extras r) \<in> {[FIELD], [CONTEXT]}"
  "as_uuid v field = Raise (Client_exn e) \<Longrightarrow> keys (er_details e) = [FIELD, INPUT]"
  "compute_root sha1 domain key = Raise (Client_exn e) \<Longrightarrow> keys (er_details e) = [DOMAIN]"
  unfolding run_check_outcome
  by (cases c; auto simp: coded_error_def FIELD_def CONTEXT_def split: if_splits)
    (auto simp: as_uuid_def compute_root_def strings_def FIELD_def INPUT_def DOMAIN_def
      split: uuid_arg.splits sum.splits if_splits)

text \<open>The messages' variables are not only these.\<close>

lemma variables_listed:
  "remdups (concat (map (\<lambda>(_, ps). concat (map (\<lambda>p. case p of Var n \<Rightarrow> [n] | Lit _ \<Rightarrow> []) ps)) CLIENT_ENGLISH)) =
     [FIELD, ''ext_err_txt'', DOMAIN, ''component'', ''step'', ''command'']"
  by code_simp

subsection \<open>The catalogs a build ships\<close>

lemma SPEC_CATALOGS_built:
  "SPEC_CATALOGS (repo @ [''angzarr_client'']) =
     map (\<lambda>package. PROTO_OUT repo @ package @ [''reasons.en-US.ftl'']) (keys REASON_PACKAGES)"
  by (simp add: SPEC_CATALOGS_def PROTO_OUT_def REASON_PACKAGES_def)

lemma read_all_Return:
  "\<forall>p \<in> set ps. file_text d p = Some (text_of p) \<Longrightarrow> read_all ps d = (Return (map text_of ps), d)"
  by (induction ps) (auto simp: returnB_def bindB_def read_file_def)

lemma built_specs:
  assumes tools: "sound_tools tools"
    and built: "generate_protos tools repo (PROTO_OUT repo) d = (Return files, d')"
    and dirs: "\<forall>stale \<in> {''io'', ''sererr''}. file_text d (PROTO_OUT repo @ [stale]) = None"
  shows "\<forall>package \<in> set (keys REASON_PACKAGES). \<exists>s.
      file_text d (PROJECT_PROTO repo @ package @ [''reasons.en-US.ftl'']) = Some s
    \<and> file_text d' (PROTO_OUT repo @ package @ [''reasons.en-US.ftl'']) = Some s"
proof
  let ?out = "PROTO_OUT repo"
  fix package assume "package \<in> set (keys REASON_PACKAGES)"
  then obtain enums where p: "(package, enums) \<in> set REASON_PACKAGES" by auto
  from built obtain prepared inc compiled rooted tables after where
    made: "mkdir True ?out (clear_stale ?out d) = (Return (), prepared)"
    and ran: "protoc tools (framework_args repo ?out inc prepared) prepared = (Return (), compiled)"
    and rooted: "fixup_out ?out compiled = (Return (), rooted)"
    and tables: "declared_tables tools repo (?out @ CORE_REASONS @ [''reasons_pb2.py'']) rooted = (Return tables, after)"
    and wrote: "write_packages repo ?out tables (keys REASON_PACKAGES) after = (Return (), d')"
    by (rule generate_protos_ReturnE)
  obtain parsed where parsed: "tables_of parsed REASON_PACKAGES = Return tables"
    using declared_tables_ReturnD [OF tables] by blast
  have apart: "\<not> startswith ?out (PROJECT_PROTO repo @ x)" for x
    by (simp add: PROTO_OUT_def PROJECT_PROTO_def startswith_iff)
  have same: "file_text after q = file_text d q" if "\<not> startswith ?out q" for q
    using that declared_outside [OF tools tables] rooted_outside [OF tools dirs made ran rooted] by simp
  from reasons_written [OF wrote parsed apart same p]
  show "\<exists>s. file_text d (PROJECT_PROTO repo @ package @ [''reasons.en-US.ftl'']) = Some s
    \<and> file_text d' (?out @ package @ [''reasons.en-US.ftl'']) = Some s" by blast
qed

text \<open>
  What a built package reads as its catalog: the project's spec catalogs, as they were when it was
  built, under the package's own.
\<close>

lemma built_catalog:
  assumes "sound_tools tools"
    and "generate_protos tools repo (PROTO_OUT repo) d = (Return files, d')"
    and "\<forall>stale \<in> {''io'', ''sererr''}. file_text d (PROTO_OUT repo @ [stale]) = None"
    and own: "file_text d' (CLIENT_CATALOG (repo @ [''angzarr_client''])) = Some client"
  shows "load_catalog (repo @ [''angzarr_client'']) d' =
    (Return (catalog (map (\<lambda>package. the (file_text d (PROJECT_PROTO repo @ package @ [''reasons.en-US.ftl''])))
       (keys REASON_PACKAGES)) client), d')"
proof -
  let ?here = "repo @ [''angzarr_client'']"
  note specs = built_specs [OF assms(1-3)]
  have "read_all (SPEC_CATALOGS ?here) d' = (Return (map (\<lambda>p. the (file_text d' p)) (SPEC_CATALOGS ?here)), d')"
    by (rule read_all_Return) (use specs in \<open>fastforce simp: SPEC_CATALOGS_built\<close>)
  also have "map (\<lambda>p. the (file_text d' p)) (SPEC_CATALOGS ?here) =
      map (\<lambda>package. the (file_text d (PROJECT_PROTO repo @ package @ [''reasons.en-US.ftl'']))) (keys REASON_PACKAGES)"
    unfolding SPEC_CATALOGS_built map_map o_def by (rule map_cong [OF refl]) (use specs in fastforce)
  finally show ?thesis using own by (simp add: load_catalog_def bindB_def returnB_def read_file_def)
qed

subsection \<open>Properties\<close>

text \<open>
  C14: every error of the package's own is shown in English, whatever the spec's catalogs hold. The
  catalog the package ships has a message for each of its codes and for no other; an error with
  such a code says its message with its details in place. And no error the package raises leaves
  a detail of its message out: a check's rejection, a value that is no UUID, a domain with a colon,
  a text that is no timestamp, a command that is not whole, a service with no name, a host started
  twice, a component with an unspecified resolution, an undo that is a command.
\<close>

theorem own_errors_speak:
  "set (keys CLIENT_ENGLISH) = set OWN_CODES
 \<and> (\<forall>e ps. map_of CLIENT_ENGLISH (er_code e) = Some ps \<longrightarrow>
      says specs e (concat (map (piece_text (er_details e)) ps)))
 \<and> (\<forall>sts c r e. snd (run_check sts c) = Raise (Coded r) \<and> er_code e = ce_code r \<and> er_details e = ce_extras r \<longrightarrow>
      says specs e (check_english c))
 \<and> (\<forall>v field e. as_uuid v field = Raise (Client_exn e) \<longrightarrow> says specs e (field @ '' is not a UUID''))
 \<and> (\<forall>sha1 domain key e. compute_root sha1 domain key = Raise (Client_exn e) \<longrightarrow>
      says specs e (''domain '' @ [CHR 0x22] @ domain @ [CHR 0x22] @ '' must not contain '' @ [CHR 0x27] @ '':'' @ [CHR 0x27]))
 \<and> (\<forall>from_json t e. parse_timestamp from_json t = Raise (Client_exn e) \<longrightarrow>
      (\<exists>why. from_json t = Inl why \<and> says specs e (''the timestamp is not RFC 3339 ('' @ why @ '')'')))
 \<and> (\<forall>fits b e. build_command fits b = Raise (Client_exn e) \<longrightarrow>
      says specs e (if bd_type_url b \<in> {None, Some []} then ''command type_url not set'' else ''command payload not set''))
 \<and> (\<forall>name h e. fst (add_service name h) = Some (Config_failure e) \<longrightarrow>
      says specs e ''an application service needs its full service name'')
 \<and> (\<forall>h e. start_guard h = Some e \<and> er_code e = HOST_ALREADY_STARTED \<longrightarrow> says specs e ''the host is already started'')
 \<and> (\<forall>options tbl st rs e. describe_state options tbl st rs = Inl e \<longrightarrow>
      says specs e (''component '' @ [CHR 0x22] @ component_name tbl @ [CHR 0x22] @ '' lists a conflict resolution of UNSPECIFIED''))
 \<and> (\<forall>w e. er_code e = UNDO_TARGETS_COMMAND \<and> er_details e = warning_args w \<longrightarrow>
      says specs e (''the undo of step '' @ [CHR 0x22] @ uw_step w @ [CHR 0x22] @ '' becomes '' @ uw_command w @
        '', a command its destination may refuse''))"
  using own_codes_listed own_says check_says uuid_says domain_says timestamp_says command_says service_says
    resolution_says code_says
  by (intro conjI allI impI; (elim conjE)?; simp)

theorem own_errors_speak_witness:
  "says [''DOMAIN_CONTAINS_COLON = another''] (client_error Invalid_argument_error DOMAIN_CONTAINS_COLON
     [(''domain'', PStr ''a:b'')])
   (''domain '' @ [CHR 0x22] @ ''a:b'' @ [CHR 0x22] @ '' must not contain '' @ [CHR 0x27] @ '':'' @ [CHR 0x27])"
proof -
  note shown = own_errors_speak [of "[''DOMAIN_CONTAINS_COLON = another'']",
    THEN conjunct2, THEN conjunct2, THEN conjunct2, THEN conjunct2, THEN conjunct1]
  show ?thesis by (rule shown [rule_format, of "\<lambda>b. b" "''a:b''" "[]"])
    (simp add: compute_root_def)
qed

end
