(* ===== verification/Child.thy ===== *)
theory Child
  imports Utf8 Host
begin

text \<open>
  \<open>angzarr_client/child.py\<close>: a component host run as a child process. The launch protocol's
  constants are read from a proto option that is not under \<open>src/\<close>: they are a parameter, with
  the values the module documents in \<open>documented_protocol\<close>. Texts are code points, since a
  socket path may be any text the operating system gives; a host's address is the same path as
  its UTF-8 bytes.
\<close>

subsection \<open>The protocol\<close>

record launch_protocol =
  lp_socket_env :: string
  lp_prefix :: ustr
  lp_version :: ustr
  lp_scheme :: ustr

definition documented_protocol :: launch_protocol where
  "documented_protocol =
     \<lparr>lp_socket_env = ''ANGZARR_SOCKET'', lp_prefix = ascii ''angzarr-handshake'',
      lp_version = ascii ''v1'', lp_scheme = ascii ''unix:''\<rparr>"

text \<open>What the code relies on: ASCII words, and the scheme the host knows.\<close>

definition word_ok :: "ustr \<Rightarrow> bool" where
  "word_ok w \<longleftrightarrow> w \<noteq> [] \<and> list_all (\<lambda>n. n < 128 \<and> n \<noteq> 32 \<and> n \<noteq> 10 \<and> n \<noteq> 13) w"

definition protocol_ok :: "launch_protocol \<Rightarrow> bool" where
  "protocol_ok p \<longleftrightarrow>
     word_ok (lp_prefix p) \<and> word_ok (lp_version p) \<and> lp_scheme p = ascii ''unix:''"

definition handshake_line :: "launch_protocol \<Rightarrow> ustr \<Rightarrow> ustr" where
  "handshake_line p address = lp_prefix p @ [32] @ lp_version p @ [32] @ address @ [10]"

definition hex_digit :: "nat \<Rightarrow> nat" where
  "hex_digit d = (if d < 10 then 48 + d else 87 + d)"

definition escaped_byte :: "nat \<Rightarrow> ustr" where
  "escaped_byte b =
     (if 0x20 \<le> b \<and> b \<le> 0x7E \<and> b \<noteq> 0x5C then [b]
      else [0x5C, 120, hex_digit (b div 16), hex_digit (b mod 16)])"

definition escaped_line :: "bytes \<Rightarrow> ustr" where
  "escaped_line raw =
     (case utf8_decode raw of
        Some t \<Rightarrow> t
      | None \<Rightarrow> concat (map (\<lambda>b. escaped_byte (unat b)) raw))"

record config_refusal =
  cr_code :: string
  cr_line :: ustr

definition malformed :: "ustr \<Rightarrow> config_refusal" where
  "malformed line = \<lparr>cr_code = HOST_REASON_HANDSHAKE_MALFORMED, cr_line = line\<rparr>"

subsection \<open>Reading a line\<close>

definition isabs :: "ustr \<Rightarrow> bool" where
  "isabs path \<longleftrightarrow> startswith [47] path"

definition parse_text :: "launch_protocol \<Rightarrow> ustr \<Rightarrow> config_refusal + ustr option" where
  "parse_text p line =
     (let body = removesuffix [13] (removesuffix [10] line);
          (first, _, rest) = partition 32 body in
      if first \<noteq> lp_prefix p then Inr None
      else
        (let (version, _, address) = partition 32 rest in
         if version \<noteq> lp_version p \<or> \<not> startswith (lp_scheme p) address
            \<or> \<not> isabs (removeprefix (lp_scheme p) address) \<or> 10 \<in> set address
         then Inl (malformed body) else Inr (Some address)))"

definition parse_bytes :: "launch_protocol \<Rightarrow> bytes \<Rightarrow> config_refusal + ustr option" where
  "parse_bytes p line =
     (let raw = removesuffix [13] (removesuffix [10] line) in
      if fst (partition 32 raw) \<noteq> utf8_bytes (lp_prefix p) then Inr None
      else (case utf8_decode raw of
              None \<Rightarrow> Inl (malformed (escaped_line raw))
            | Some t \<Rightarrow> parse_text p t))"

datatype handshake_input = Line ustr | Raw bytes

definition parse_handshake ::
  "launch_protocol \<Rightarrow> handshake_input \<Rightarrow> config_refusal + ustr option" where
  "parse_handshake p input = (case input of Line t \<Rightarrow> parse_text p t | Raw b \<Rightarrow> parse_bytes p b)"

subsection \<open>The socket path\<close>

text \<open>\<open>s.split("/")\<close>, \<open>posixpath.join\<close>, \<open>normpath\<close> and \<open>abspath\<close>.\<close>

fun split_on :: "'a \<Rightarrow> 'a list \<Rightarrow> 'a list list" where
  "split_on c [] = [[]]"
| "split_on c (x # xs) =
     (if x = c then [] # split_on c xs
      else (case split_on c xs of [] \<Rightarrow> [[x]] | p # ps \<Rightarrow> (x # p) # ps))"

fun join_with :: "'a \<Rightarrow> 'a list list \<Rightarrow> 'a list" where
  "join_with c [] = []"
| "join_with c [p] = p"
| "join_with c (p # q # ps) = p @ c # join_with c (q # ps)"

definition path_join :: "ustr \<Rightarrow> ustr \<Rightarrow> ustr" where
  "path_join a b =
     (if startswith [47] b then b
      else if a = [] \<or> last a = 47 then a @ b
      else a @ [47] @ b)"

fun norm_components :: "bool \<Rightarrow> ustr list \<Rightarrow> ustr list \<Rightarrow> ustr list" where
  "norm_components rooted done_comps [] = done_comps"
| "norm_components rooted done_comps (c # cs) =
     (if c = [] \<or> c = [46] then norm_components rooted done_comps cs
      else if c \<noteq> [46, 46] \<or> (\<not> rooted \<and> done_comps = [])
              \<or> (done_comps \<noteq> [] \<and> last done_comps = [46, 46])
      then norm_components rooted (done_comps @ [c]) cs
      else norm_components rooted (butlast done_comps) cs)"

definition initial_slashes :: "ustr \<Rightarrow> nat" where
  "initial_slashes path =
     (if startswith [47, 47] path \<and> \<not> startswith [47, 47, 47] path then 2
      else if startswith [47] path then 1 else 0)"

definition normpath :: "ustr \<Rightarrow> ustr" where
  "normpath path =
     (if path = [] then [46]
      else
        (let n = initial_slashes path;
             comps = norm_components (0 < n) [] (split_on 47 path);
             result = replicate n 47 @ join_with 47 comps in
         if result = [] then [46] else result))"

definition abspath :: "ustr \<Rightarrow> ustr \<Rightarrow> ustr" where
  "abspath cwd path = normpath (if isabs path then path else path_join cwd path)"

text \<open>
  The given path, else the environment's, else a fresh one in the temporary directory, whose
  name (of the process id and a random token) the operating system decides: \<open>fresh\<close>.
\<close>

record os_view =
  ov_env :: "string \<rightharpoonup> ustr"
  ov_cwd :: ustr
  ov_tempdir :: ustr
  ov_fresh :: ustr

definition resolve_socket_path :: "launch_protocol \<Rightarrow> os_view \<Rightarrow> ustr option \<Rightarrow> ustr" where
  "resolve_socket_path p os given =
     (let named = (case given of
            Some g \<Rightarrow> if g \<noteq> [] then Some g else ov_env os (lp_socket_env p)
          | None \<Rightarrow> ov_env os (lp_socket_env p));
          path = (case named of
              Some s \<Rightarrow> if s \<noteq> [] then s else path_join (ov_tempdir os) (ov_fresh os)
            | None \<Rightarrow> path_join (ov_tempdir os) (ov_fresh os)) in
      abspath (ov_cwd os) path)"

subsection \<open>Running the child\<close>

datatype stream = Stdout | Stderr
datatype 'h handler = Request_stop | Installed 'h

record 'h process =
  pc_fd1 :: stream
  pc_handshake_fd :: bool
  pc_stdout :: bytes
  pc_sigterm :: "'h handler"
  pc_sigint :: "'h handler"

text \<open>
  Before the host starts: the real stdout is kept for the handshake and file descriptor 1
  becomes stderr; both signals ask to stop. At the end the handshake's descriptor is closed,
  if it is open still, and the signals get their handlers back.
\<close>

definition redirect :: "'h process \<Rightarrow> 'h process" where
  "redirect pc = pc\<lparr>pc_handshake_fd := True, pc_fd1 := Stderr,
     pc_sigterm := Request_stop, pc_sigint := Request_stop\<rparr>"

definition announce :: "bytes \<Rightarrow> 'h process \<Rightarrow> 'h process" where
  "announce line pc = pc\<lparr>pc_stdout := pc_stdout pc @ line, pc_handshake_fd := False\<rparr>"

definition restore :: "'h process \<Rightarrow> 'h process \<Rightarrow> 'h process" where
  "restore before pc = pc\<lparr>pc_handshake_fd := False,
     pc_sigterm := pc_sigterm before, pc_sigint := pc_sigint before\<rparr>"

text \<open>
  One timed wait on \<open>stopping\<close>: the readiness ticks the host made meanwhile, and whether, by
  its end, stdin had closed or a signal had come.
\<close>

record poll =
  pl_ticks :: "probe_outcome list list"
  pl_stop :: bool

fun await_serving ::
  "poll list \<Rightarrow> ('st, 'pr) host \<Rightarrow> (bool \<times> ('st, 'pr) host \<times> poll list) option" where
  "await_serving [] h =
     (if health_status h [] = Some SERVING then Some (True, h, []) else None)"
| "await_serving (w # ws) h =
     (if health_status h [] = Some SERVING then Some (True, h, w # ws)
      else (let h' = fold host_tick (pl_ticks w) h in
            if pl_stop w then Some (False, h', ws) else await_serving ws h'))"

fun serve_until_stopped :: "poll list \<Rightarrow> ('st, 'pr) host \<Rightarrow> ('st, 'pr) host option" where
  "serve_until_stopped [] h = None"
| "serve_until_stopped (w # ws) h =
     (let h' = fold host_tick (pl_ticks w) h in
      if pl_stop w then Some h' else serve_until_stopped ws h')"

text \<open>A host's address and the text it is: a text of the host model is its bytes.\<close>

definition host_text :: "bytes \<Rightarrow> string" where
  "host_text raw = map (\<lambda>b. char_of (unat b)) raw"

definition text_bytes :: "string \<Rightarrow> bytes" where
  "text_bytes s = map (\<lambda>c. of_nat (of_char c)) s"

datatype child_error = Refused config_refusal | Unencodable ustr | Host_failed host_error

text \<open>
  \<open>run_child\<close>: None while it has not returned within the waits given. Encoding the line is
  putting the bound address between the line's ASCII words.
\<close>

definition run_child ::
  "launch_protocol \<Rightarrow> os_view \<Rightarrow> ustr option \<Rightarrow> serve_outcome \<Rightarrow> poll list \<Rightarrow> 'h process \<Rightarrow>
     ('st, 'pr) host \<times> file_system \<Rightarrow>
     (child_error option \<times> 'h process \<times> ('st, 'pr) host \<times> file_system) option" where
  "run_child p os socket_path outcome polls pc hf =
     (let address = lp_scheme p @ resolve_socket_path p os socket_path in
      case utf8_encode address of
        None \<Rightarrow>
          (case surrogateescape_encode (handshake_line p address) of
             None \<Rightarrow> Some (Some (Unencodable address), pc, hf)
           | Some line \<Rightarrow>
               Some (Some (Refused (malformed (escaped_line (removesuffix [10] line)))), pc, hf))
      | Some raw \<Rightarrow>
          (case host_start Map.empty (Some (host_text raw)) outcome hf of
             (Inl e, h, fs) \<Rightarrow>
               Some (Some (Host_failed e), restore pc (redirect pc), host_stop (h, fs))
           | (Inr bound, h, fs) \<Rightarrow>
               (case await_serving polls h of
                  None \<Rightarrow> None
                | Some (False, h', _) \<Rightarrow>
                    Some (None, restore pc (redirect pc), host_stop (h', fs))
                | Some (True, h', ws) \<Rightarrow>
                    (case serve_until_stopped ws h' of
                       None \<Rightarrow> None
                     | Some h'' \<Rightarrow>
                         Some (None, restore pc (announce
                             (utf8_bytes (lp_prefix p) @ [32] @ utf8_bytes (lp_version p) @ [32]
                               @ text_bytes bound @ [10]) (redirect pc)),
                           host_stop (h'', fs))))))"

end
