(* ===== verification/Counter_Example.thy ===== *)
theory Counter_Example
  imports Aggregate
begin

text \<open>
  A small component for the witnesses, after \<open>tests/router/contract.py\<close>: a counter whose one
  event adds 1 and whose one command emits as many events as its payload is long, and settles the conflict it
  is handed. Its state is a number, serialized in unary, so that its message class parses back what it wrote.
\<close>

definition counter_class :: "nat message_class" where
  "counter_class =
     \<lparr>mc_full_name = ''t.CounterState'', mc_fresh = 0,
      mc_parse = (\<lambda>bs. Inr (length bs)), mc_serialize = (\<lambda>n. replicate n 0)\<rparr>"

definition increased :: any_msg where
  "increased = \<lparr>any_type_url = ''/t.Increased'', any_value = []\<rparr>"

definition increased_page :: "nat \<Rightarrow> event_page" where
  "increased_page n = \<lparr>pg_payload = Some increased, pg_sequence = n, pg_meta = None\<rparr>"

definition increase_by :: "bytes \<Rightarrow> any_msg" where
  "increase_by bs = \<lparr>any_type_url = ''/t.IncreaseBy'', any_value = bs\<rparr>"

definition count_up :: "nat applier" where
  "count_up cur st event ctx = Return (Suc st)"

definition emit_increases :: "nat command_thunk" where
  "emit_increases cur cmd st ctx =
     Return (Some (event_book_default\<lparr>eb_pages := map (\<lambda>_. increased_page 0) (any_value cmd)\<rparr>), st,
       ctx\<lparr>cx_conflict := map_option (\<lambda>c. resolve_conflicts (cf_window c) (cf_nonce c) c)
             (cx_conflict ctx)\<rparr>)"

definition count_changed :: "nat changed_thunk" where
  "count_changed cur before after = Return (if before = after then [] else [''count''])"

definition counter :: "nat aggregate_dispatch" where
  "counter =
     with_rules_version ''1.0''
       (on_command ''t.IncreaseBy'' emit_increases
         (aggregate_new ''Counter'' ''counter''
           (apply_with_context ''t.Increased'' count_up (rebuilder_new counter_class))))"

definition plain_runtime :: runtime where
  "plain_runtime =
     \<lparr>rt_statuses = Map.empty, rt_seq_fits = (\<lambda>n. n < 2 ^ 32),
      rt_parse_refused = (\<lambda>_. Inl ''no message'')\<rparr>"

definition counter_request :: "nat list \<Rightarrow> bytes \<Rightarrow> contextual_command" where
  "counter_request prior bs =
     \<lparr>cc_command = command_book_default\<lparr>cb_page :=
        Some (command_page_default\<lparr>cp_body := Some (Command_arm (Some (increase_by bs)))\<rparr>)\<rparr>,
      cc_events = event_book_default\<lparr>eb_pages := map increased_page prior,
                                     eb_next_sequence := length prior\<rparr>,
      cc_recorded_at = None, cc_conflict_nonce = []\<rparr>"

lemma parses_back_counter: "parses_back counter_class"
  by (simp add: parses_back_def counter_class_def)

lemma type_name_increased [simp]: "type_name (any_type_url increased) = ''t.Increased''"
  by (simp add: increased_def)

lemma type_name_increase_by [simp]: "type_name (any_type_url (increase_by bs)) = ''t.IncreaseBy''"
  by (simp add: increase_by_def)

lemma any_value_increase_by [simp]: "any_value (increase_by bs) = bs"
  by (simp add: increase_by_def)

lemmas counter_defs =
  counter_def with_rules_version_def on_command_def aggregate_new_def apply_with_context_def
  rebuilder_new_def

lemmas request_defs =
  counter_request_def command_book_default_def command_page_default_def event_book_default_def
  book_page_def book_handling_def handling_default_def

lemma counter_sel:
  "rb_factory (ad_rebuilder counter) = counter_class"
  "rb_appliers (ad_rebuilder counter) = [''t.Increased'' \<mapsto> count_up]"
  "ad_rules_version counter = ''1.0''"
  "ad_commands counter = [''t.IncreaseBy'' \<mapsto> emit_increases]"
  "ad_facts counter = Map.empty" "ad_refusals counter = Map.empty" "ad_changed counter = None"
  by (simp_all add: counter_defs)

lemma counter_request_sel:
  "eb_cover (cc_events (counter_request prior bs)) = None"
  "eb_pages (cc_events (counter_request prior bs)) = map increased_page prior"
  "eb_next_sequence (cc_events (counter_request prior bs)) = length prior"
  "eb_snapshot (cc_events (counter_request prior bs)) = None"
  "cp_body (book_page (cc_command (counter_request prior bs))) =
     Some (Command_arm (Some (increase_by bs)))"
  "hd_conflict_resolution (book_handling (cc_command (counter_request prior bs))) = RES_UNSPECIFIED"
  by (simp_all add: request_defs)

lemmas handle_defs =
  aggregate_handle_def route_def decide_command_def command_payload_def command_ctx_def
  book_context_def seen_pages_def rebuild_def start_state_def call_def handling_def
  book_or_empty_def with_state_def snapshot_of_def snapshot_default_def conflict_answer_def Let_def

lemma counter_answer:
  "aggregate_handle plain_runtime counter (counter_request [0] [1, 1]) =
     Return \<lparr>hr_events = \<lparr>eb_cover = None, eb_pages = [increased_page 0, increased_page 0],
               eb_next_sequence = 0,
               eb_snapshot = Some \<lparr>sn_sequence = 0, sn_state = Some (any_pack counter_class 3)\<rparr>\<rparr>,
             hr_rules_version = ''1.0'', hr_conflict = None\<rparr>"
  by (simp add: handle_defs request_defs counter_defs emit_increases_def plain_runtime_def
      count_up_def increased_page_def counter_class_def conflict_report_default_def
      numeral_3_eq_3)

text \<open>A command whose expected sequence, 1, is behind the two pages delivered with it.\<close>

definition stale_request :: "conflict_resolution \<Rightarrow> bytes \<Rightarrow> contextual_command" where
  "stale_request mode bs =
     (let r = counter_request [0, 1] bs in
      r\<lparr>cc_command := (cc_command r)\<lparr>cb_handling := Some
          \<lparr>hd_expected_sequence = Some 1, hd_conflict_resolution = mode\<rparr>\<rparr>,
        cc_conflict_nonce := [7]\<rparr>)"

lemma stale_request_sel:
  "eb_cover (cc_events (stale_request mode bs)) = None"
  "eb_pages (cc_events (stale_request mode bs)) = [increased_page 0, increased_page 1]"
  "eb_next_sequence (cc_events (stale_request mode bs)) = 2"
  "eb_snapshot (cc_events (stale_request mode bs)) = None"
  "cc_conflict_nonce (stale_request mode bs) = [7]"
  "hd_conflict_resolution (book_handling (cc_command (stale_request mode bs))) = mode"
  "hd_expected_sequence (book_handling (cc_command (stale_request mode bs))) = Some 1"
  "cp_body (book_page (cc_command (stale_request mode bs))) =
     Some (Command_arm (Some (increase_by bs)))"
  "cb_cover (cc_command (stale_request mode bs)) = None"
  by (simp_all add: stale_request_def counter_request_def command_book_default_def
      command_page_default_def event_book_default_def book_page_def book_handling_def Let_def)

lemma stale_request_expected:
  "cx_expected_sequence (command_ctx (stale_request mode bs)) = 1"
  by (simp add: command_ctx_def book_context_def Let_def stale_request_sel)

lemma stale_answer:
  "aggregate_handle plain_runtime counter (stale_request RES_AGGREGATE_HANDLES [1]) =
     Return \<lparr>hr_events = \<lparr>eb_cover = None, eb_pages = [increased_page 0],
               eb_next_sequence = 0,
               eb_snapshot = Some \<lparr>sn_sequence = 0, sn_state = Some (any_pack counter_class 3)\<rparr>\<rparr>,
             hr_rules_version = ''1.0'',
             hr_conflict = Some (conflict_report_default\<lparr>rp_resolved_nonce := [7]\<rparr>)\<rparr>"
  by (simp add: handle_defs request_defs counter_defs emit_increases_def plain_runtime_def
      count_up_def increased_page_def counter_class_def conflict_report_default_def
      stale_request_def new_conflict_def resolve_conflicts_def numeral_3_eq_3)

definition stale_commutative_response :: command_handler_response where
  "stale_commutative_response =
     \<lparr>hr_events = \<lparr>eb_cover = None, eb_pages = [], eb_next_sequence = 0,
        eb_snapshot = Some \<lparr>sn_sequence = 0, sn_state = Some (any_pack counter_class 2)\<rparr>\<rparr>,
      hr_rules_version = ''1.0'',
      hr_conflict = Some (conflict_report_default\<lparr>rp_window_units := [''count'']\<rparr>)\<rparr>"

lemma stale_commutative_answer:
  "aggregate_handle plain_runtime (with_commutative count_changed counter)
     (stale_request RES_COMMUTATIVE []) = Return stale_commutative_response"
  by (simp add: handle_defs request_defs counter_defs emit_increases_def plain_runtime_def
      count_up_def increased_page_def counter_class_def conflict_report_default_def
      stale_request_def with_commutative_def changed_units_def count_changed_def
      stale_commutative_response_def numeral_2_eq_2)

text \<open>The counter with an applier that raises on the page of sequence 1.\<close>

definition break_at_1 :: "nat applier" where
  "break_at_1 cur st event ctx =
     (if pc_sequence ctx = 1 then Raise (Other_exc ''KeyError'') else Return (Suc st))"

definition broken_counter :: "nat aggregate_dispatch" where
  "broken_counter =
     counter\<lparr>ad_rebuilder := apply_with_context ''t.Increased'' break_at_1 (ad_rebuilder counter)\<rparr>"

lemma broken_counter_sel:
  "rb_factory (ad_rebuilder broken_counter) = counter_class"
  "rb_appliers (ad_rebuilder broken_counter) = [''t.Increased'' \<mapsto> break_at_1]"
  "ad_commands broken_counter = [''t.IncreaseBy'' \<mapsto> emit_increases]"
  by (simp_all add: broken_counter_def counter_defs)

definition broken_answer :: coded_error where
  "broken_answer =
     coded_error Map.empty FOLD_FAILED None
       [(''sequence'', nat_str 1), (''type_url'', ''/t.Increased''),
        (''state_type_url'', ''/t.CounterState''), (''cause'', HANDLER_PANICKED)] None"

lemma broken_counter_answer:
  "aggregate_handle plain_runtime broken_counter (counter_request [0, 1] [1]) =
     Raise (Coded broken_answer)"
  by (simp add: handle_defs request_defs broken_counter_def counter_defs plain_runtime_def
      break_at_1_def increased_page_def fold_error_def coded_def as_cause_def broken_answer_def
      state_type_url_def counter_class_def increased_def dict_set_def)

end
