(* ===== verification/Replay.thy ===== *)
theory Replay
  imports Counter_Example
begin

text \<open>
  What an aggregate's \<open>handle\<close> promises: the state it answers is the one a replay of the
  events it answered reaches, a stale command is shown exactly the pages it did not see, a
  conflict report is computed from the right states, a delivery nothing handles is refused
  before anything folds, a failing fold names its page, and what escapes is a coded error.
\<close>

subsection \<open>The pages as they are persisted\<close>

text \<open>The coordinator's stamping, as \<open>types.proto\<close> has it: the sequences in order, one meta.\<close>

fun stamped :: "nat \<Rightarrow> event_meta \<Rightarrow> event_page list \<Rightarrow> event_page list" where
  "stamped n meta [] = []"
| "stamped n meta (p # ps) = p\<lparr>pg_sequence := n, pg_meta := Some meta\<rparr> # stamped (Suc n) meta ps"

lemma stamp_eq_Return:
  "stamp rt n meta ps = Return qs \<longleftrightarrow>
     (\<forall>i < length ps. rt_seq_fits rt (n + i)) \<and> qs = stamped n meta ps"
proof (induction ps arbitrary: n qs)
  case (Cons p ps)
  have "(\<forall>i < length (p # ps). rt_seq_fits rt (n + i)) \<longleftrightarrow>
      rt_seq_fits rt n \<and> (\<forall>i < length ps. rt_seq_fits rt (Suc n + i))"
    by (auto simp: All_less_Suc2)
  with Cons.IH [of "Suc n"] show ?case
    by (auto simp: bindR_eq_Inr_iff)
qed auto

lemma stamp_Raise:
  "stamp rt n meta ps = Raise e \<Longrightarrow> e = Other_exc ''ValueError'' \<and> (\<exists>m\<ge>n. \<not> rt_seq_fits rt m)"
proof (induction ps arbitrary: n)
  case (Cons p ps)
  show ?case
  proof (cases "rt_seq_fits rt n")
    case True
    with Cons.prems have "stamp rt (Suc n) meta ps = Raise e"
      by (simp add: bindR_eq_Inl_iff)
    from Cons.IH [OF this] show ?thesis by (meson Suc_leD)
  qed (use Cons.prems in auto)
qed simp

lemma length_stamped [simp]: "length (stamped n meta ps) = length ps"
  by (induction ps arbitrary: n) auto

lemma stamped_nth:
  "i < length ps \<Longrightarrow>
     stamped n meta ps ! i = (ps ! i)\<lparr>pg_sequence := n + i, pg_meta := Some meta\<rparr>"
  by (induction ps arbitrary: n i) (auto simp: nth_Cons split: nat.split)

lemma stamped_payloads: "map pg_payload (stamped n meta ps) = map pg_payload ps"
  by (induction ps arbitrary: n) auto

lemma stamped_sequences: "map pg_sequence (stamped n meta ps) = [n ..< n + length ps]"
  by (rule nth_equalityI) (simp_all add: stamped_nth)

subsection \<open>Business code that only reads\<close>

text \<open>
  What the coordinator relies on of a handler: the state and the identity it was handed are as
  they were when it has answered. (It may settle its conflict, which is not of the identity.)
\<close>

definition same_identity :: "command_context \<Rightarrow> command_context \<Rightarrow> bool" where
  "same_identity a b \<longleftrightarrow> (\<forall>v. event_meta_of v a = event_meta_of v b)"

definition leaves :: "exn + 'a \<times> 'st \<times> command_context \<Rightarrow> 'st \<Rightarrow> command_context \<Rightarrow> bool" where
  "leaves r st ctx \<longleftrightarrow>
     (\<forall>out st' ctx'. r = Return (out, st', ctx') \<longrightarrow> st' = st \<and> same_identity ctx' ctx)"

definition reads_only :: "'st aggregate_dispatch \<Rightarrow> bool" where
  "reads_only d \<longleftrightarrow>
     (\<forall>t \<in> ran (ad_commands d). \<forall>cur p st ctx. leaves (t cur p st ctx) st ctx)
   \<and> (\<forall>t \<in> ran (ad_facts d). \<forall>cur p st ctx. leaves (t cur p st ctx) st ctx)
   \<and> (\<forall>t \<in> ran (ad_refusals d). \<forall>cur p st ctx. leaves (t cur p st ctx) st ctx)"

lemma leaves_bindR:
  "leaves r st ctx \<Longrightarrow> leaves (bindR r (\<lambda>(out, st', ctx'). Return (f out, st', ctx'))) st ctx"
  by (auto simp: leaves_def bindR_eq_Inr_iff)

lemma leaves_record_fact: "leaves r st ctx \<Longrightarrow> leaves (record_fact r) st ctx"
  by (auto simp: leaves_def record_fact_def bindR_eq_Inr_iff)

lemma decide_command_leaves:
  assumes "reads_only d" and "decide_command rt d p = Return decide"
  shows "leaves (decide cur st ctx) st ctx"
proof -
  from assms(2) obtain t where t: "ad_commands d (type_name (any_type_url p)) = Some t"
    and decide: "decide = (\<lambda>cur st ctx. bindR (t cur p st ctx)
      (\<lambda>(events, st', ctx'). Return (book_or_empty events, st', ctx')))"
    by (auto simp: decide_command_def split: option.splits)
  from t assms(1) have "leaves (t cur p st ctx) st ctx"
    unfolding reads_only_def by (meson ranI)
  then show ?thesis unfolding decide by (rule leaves_bindR)
qed

lemma ingest_leaves:
  assumes r: "reads_only d" and i: "ingest rt d p = Return decide"
  shows "leaves (decide cur st ctx) st ctx"
proof (cases "ad_facts d (type_name (any_type_url p))")
  case (Some t)
  with r have "leaves (t cur p st ctx) st ctx"
    unfolding reads_only_def by (meson ranI)
  with Some i show ?thesis by (auto simp: ingest_def Let_def intro: leaves_record_fact)
next
  case None
  with i obtain refused ty t where "ad_refusals d ty = Some t"
    and decide: "decide = (\<lambda>cur st ctx. record_fact (t cur refused st ctx))"
    by (auto simp: ingest_def Let_def bindR_eq_Inr_iff split: if_splits option.splits)
  with r have "leaves (t cur refused st ctx) st ctx"
    unfolding reads_only_def by (meson ranI)
  then show ?thesis unfolding decide by (rule leaves_record_fact)
qed

lemma route_leaves:
  assumes "reads_only d" and "route rt d page mode = Return decide"
  shows "leaves (decide cur st ctx) st ctx"
  using assms
  by (auto simp: route_def bindR_eq_Inr_iff split: option.splits body.splits if_splits
      intro: decide_command_leaves ingest_leaves)

lemma same_identity_conflict [simp]: "same_identity (ctx\<lparr>cx_conflict := c\<rparr>) ctx"
  by (simp add: same_identity_def event_meta_of_def)

lemma same_identity_refl [simp]: "same_identity ctx ctx"
  by (simp add: same_identity_def)

lemma same_identity_trans: "same_identity a b \<Longrightarrow> same_identity b c \<Longrightarrow> same_identity a c"
  by (simp add: same_identity_def)

lemma reads_only_counter: "reads_only counter"
  by (auto simp: reads_only_def counter_defs ran_def leaves_def emit_increases_def split: if_splits)

subsection \<open>Decide time is replay\<close>

text \<open>The answered pages as the coordinator persists them.\<close>

definition persisted ::
  "'st aggregate_dispatch \<Rightarrow> contextual_command \<Rightarrow> command_handler_response \<Rightarrow> event_page list" where
  "persisted d request resp =
     stamped (eb_next_sequence (cc_events request))
       (event_meta_of (ad_rules_version d) (command_ctx request)) (eb_pages (hr_events resp))"

lemma with_state_sel [simp]:
  "eb_pages (with_state a b) = eb_pages b"
  "sn_state (snapshot_of (eb_snapshot (with_state a b))) = Some a"
  by (simp_all add: with_state_def snapshot_of_def)

lemma handle_replays:
  assumes "reads_only d" and "aggregate_handle rt d request = Return resp"
  obtains st0 after where
    "start_state rt (rb_factory (ad_rebuilder d)) (cc_events request) = Return st0"
    and "replay rt d (eb_cover (cc_events request)) FOLD_FAILED st0
           (eb_pages (cc_events request) @ persisted d request resp) = Return after"
    and "sn_state (snapshot_of (eb_snapshot (hr_events resp))) =
           Some (any_pack (rb_factory (ad_rebuilder d)) after)"
proof -
  let ?cover = "eb_cover (cc_events request)" and ?pages = "eb_pages (cc_events request)"
  from assms(2) show thesis
  proof (rule aggregate_handleE)
    fix decide before state ctx1 out head ctx emitted after window mine
    assume r: "route rt d (book_page (cc_command request))
        (hd_conflict_resolution (book_handling (cc_command request))) = Return decide"
      and b: "rebuild rt d (cc_events request) (seen_pages request) = Return (before, state)"
      and c: "ctx1 = (if hd_conflict_resolution (book_handling (cc_command request)) =
             RES_AGGREGATE_HANDLES
           then (command_ctx request)\<lparr>cx_conflict := Some (new_conflict
             (drop (seen_pages request) ?pages) (cc_conflict_nonce request))\<rparr>
           else command_ctx request)"
      and h: "decide (Some (cover_context (cx_cover ctx1))) state ctx1 = Return (out, head, ctx)"
      and s: "stamp rt (eb_next_sequence (cc_events request))
             (event_meta_of (ad_rules_version d) ctx) (eb_pages out) = Return emitted"
      and f: "replay rt d ?cover FOLD_FAILED_EMITTED head emitted = Return after"
      and resp: "resp = \<lparr>hr_events = with_state (any_pack (rb_factory (ad_rebuilder d)) after) out,
           hr_rules_version = ad_rules_version d,
           hr_conflict = conflict_answer (hd_conflict_resolution (book_handling (cc_command request)))
             ctx window mine\<rparr>"
    have "head = state" and ctx: "same_identity ctx ctx1"
      using route_leaves [OF assms(1) r] h by (auto simp: leaves_def)
    moreover have "same_identity ctx1 (command_ctx request)" by (simp add: c)
    then have "same_identity ctx (command_ctx request)" by (rule same_identity_trans [OF ctx])
    then have "emitted = persisted d request resp"
      using s by (simp add: stamp_eq_Return persisted_def resp same_identity_def)
    moreover from b obtain st0
      where "start_state rt (rb_factory (ad_rebuilder d)) (cc_events request) = Return st0"
        and "replay rt d ?cover FOLD_FAILED st0 ?pages = Return state"
      by (rule rebuild_replay)
    ultimately show thesis
      using f by (intro that) (auto simp: page_fold.run_append resp intro: fold_pages_code)
  qed
qed

text \<open>
  C1: the state an aggregate answers with its events is the replay of the delivered history
  followed by those very events, stamped as they will be persisted (their sequences from the
  delivered next sequence on, the input's identity and the build version as their meta), from
  the delivered starting state: what an applier reads at decide time is what replay hands it.
  It holds of every input and conflict resolution, and of business code that leaves the state
  and the identity it is handed.
\<close>

theorem decide_time_is_replay:
  assumes "reads_only d" and "aggregate_handle rt d request = Return resp"
  shows "bindR (start_state rt (rb_factory (ad_rebuilder d)) (cc_events request)) (\<lambda>st0.
      bindR (replay rt d (eb_cover (cc_events request)) FOLD_FAILED st0
        (eb_pages (cc_events request) @ persisted d request resp)) (\<lambda>after.
      Return (Some (any_pack (rb_factory (ad_rebuilder d)) after))))
    = Return (sn_state (snapshot_of (eb_snapshot (hr_events resp))))"
  using handle_replays [OF assms] by (metis bindR_Inr)

theorem decide_time_is_replay_witness:
  "bindR (start_state plain_runtime counter_class (cc_events (counter_request [0] [1, 1]))) (\<lambda>st0.
     bindR (replay plain_runtime counter None FOLD_FAILED st0
       [increased_page 0,
        (increased_page 1)\<lparr>pg_meta := Some (event_meta_of ''1.0'' (command_ctx (counter_request [0] [1, 1])))\<rparr>,
        (increased_page 2)\<lparr>pg_meta := Some (event_meta_of ''1.0'' (command_ctx (counter_request [0] [1, 1])))\<rparr>])
       (\<lambda>after. Return (Some (any_pack counter_class after))))
   = Return (Some (any_pack counter_class 3))"
  using decide_time_is_replay [OF reads_only_counter counter_answer]
  by (simp add: persisted_def counter_sel counter_request_sel snapshot_of_def increased_page_def
      numeral_2_eq_2)

text \<open>
  C2: a snapshot is worth its history. When a state parses back from its serialization, a
  delivery that carries the answered book's snapshot and none of its pages starts in the state
  a full replay of the history and the answered events reaches, so a component folds the same
  states whether or not its coordinator compacts.
\<close>

theorem snapshot_stands_for_history:
  assumes "reads_only d" and "aggregate_handle rt d request = Return resp"
    and "parses_back (rb_factory (ad_rebuilder d))"
    and "eb_snapshot later = eb_snapshot (hr_events resp)"
  shows "start_state rt (rb_factory (ad_rebuilder d)) later =
    bindR (start_state rt (rb_factory (ad_rebuilder d)) (cc_events request)) (\<lambda>st0.
      replay rt d (eb_cover (cc_events request)) FOLD_FAILED st0
        (eb_pages (cc_events request) @ persisted d request resp))"
proof -
  from assms(1,2) obtain st0 after where
    "start_state rt (rb_factory (ad_rebuilder d)) (cc_events request) = Return st0"
    "replay rt d (eb_cover (cc_events request)) FOLD_FAILED st0
       (eb_pages (cc_events request) @ persisted d request resp) = Return after"
    "sn_state (snapshot_of (eb_snapshot (hr_events resp))) =
       Some (any_pack (rb_factory (ad_rebuilder d)) after)"
    by (rule handle_replays)
  with assms(3,4) show ?thesis by (simp add: start_state_def parses_back_def)
qed

theorem snapshot_stands_for_history_witness:
  "start_state plain_runtime counter_class
     (event_book_default\<lparr>eb_snapshot :=
        Some \<lparr>sn_sequence = 0, sn_state = Some (any_pack counter_class 3)\<rparr>\<rparr>) = Return 3"
  using snapshot_stands_for_history [OF reads_only_counter counter_answer, of
      "event_book_default\<lparr>eb_snapshot :=
        Some \<lparr>sn_sequence = 0, sn_state = Some (any_pack counter_class 3)\<rparr>\<rparr>"]
  by (simp add: parses_back_counter counter_sel counter_request_sel persisted_def start_state_def
      snapshot_of_def snapshot_default_def event_book_default_def increased_page_def count_up_def
      handling_def counter_class_def [THEN arg_cong, of mc_fresh] numeral_3_eq_3)

end
