(* ===== verification/Host_Contract.thy ===== *)
theory Host_Contract
  imports Host Replay
begin

text \<open>
  The host as a state machine: its operations as the steps of an inductive relation, the
  invariants of every state they reach, and what a client is told of a failure.
\<close>

subsection \<open>Steps\<close>

text \<open>A host's state and the file system, as its operations, the supervisor and files change them.\<close>

inductive host_step ::
  "runtime \<Rightarrow> ('st, 'pr) host \<times> file_system \<Rightarrow> ('st, 'pr) host \<times> file_system \<Rightarrow> bool"
  for rt :: runtime where
  Add_aggregate: "host_step rt (h, fs) (snd (add_aggregate rt d desc h), fs)"
| Add_policy: "host_step rt (h, fs) (snd (add_policy rt p desc h), fs)"
| Add_process_manager: "host_step rt (h, fs) (snd (add_process_manager rt d desc h), fs)"
| Add_projector: "host_step rt (h, fs) (snd (add_projector rt pr desc h), fs)"
| Add_upcaster: "host_step rt (h, fs) (add_upcaster h, fs)"
| Add_service: "host_step rt (h, fs) (snd (add_service name h), fs)"
| Start: "host_step rt hf (snd (host_start env address outcome hf))"
| Tick: "host_step rt (h, fs) (host_tick probes h, fs)"
| Stop: "host_step rt hf (host_stop hf)"
| Files: "host_step rt (h, fs) (h, fs')"

inductive_cases host_stepE: "host_step rt hf hf'"

text \<open>A host of its own router, any number of steps after it was made.\<close>

definition reachable :: "runtime \<Rightarrow> string \<Rightarrow> ('st, 'pr) host \<Rightarrow> bool" where
  "reachable rt version h \<longleftrightarrow>
     (\<exists>fs fs'. (host_step rt)\<^sup>*\<^sup>* (host_new None version, fs) (h, fs'))"

definition fresh_host :: "string \<Rightarrow> ('st, 'pr) host \<times> file_system \<Rightarrow> bool" where
  "fresh_host version hf \<longleftrightarrow> fst hf = host_new None version"

subsection \<open>Registration\<close>

text \<open>The service a component's kind is served by.\<close>

fun kind_service :: "('st, 'pr) component \<Rightarrow> string" where
  "kind_service (Aggregate_component _) = COMMAND_HANDLER_SERVICE"
| "kind_service (Process_manager_component _) = COMMAND_HANDLER_SERVICE"
| "kind_service (Policy_component _) = POLICY_SERVICE"
| "kind_service (Projector_component _) = PROJECTOR_SERVICE"

text \<open>
  What is registered agrees: the router hosts a component (unless the host has stopped and
  closed it) of the kind the host serves and of the version its descriptor says.
\<close>

definition hosts_component :: "('st, 'pr) host \<Rightarrow> ('st, 'pr) component \<Rightarrow> bool" where
  "hosts_component h c \<longleftrightarrow>
     ho_kind h = Some (kind_service c) \<and> ho_component_name h = Some (component_name c)
   \<and> (\<exists>desc. ho_descriptor h = Some desc \<and> ds_rules_version desc = component_rules_version c)"

definition registered_inv :: "string \<Rightarrow> ('st, 'pr) host \<times> file_system \<Rightarrow> bool" where
  "registered_inv version hf \<longleftrightarrow>
     (let h = fst hf in
      ho_owns_router h \<and> ho_rules_version h = version
    \<and> (ho_kind h = None \<longleftrightarrow> ho_component_name h = None)
    \<and> (ho_kind h = None \<longrightarrow> ho_descriptor h = None \<and> ho_router h = None \<and> ho_refused h = [])
    \<and> (case ho_router h of
         None \<Rightarrow> ho_kind h = None \<or> ho_stopped h
       | Some c \<Rightarrow> hosts_component h c))"

lemma versioned_sel [simp]:
  "component_name (versioned v c) = component_name c"
  "kind_service (versioned v c) = kind_service c"
  "component_rules_version (versioned v c) =
     (if component_rules_version c \<noteq> [] then component_rules_version c else v)"
  by (cases c; auto simp: versioned_def with_rules_version_def policy_with_rules_version_def
      projector_with_rules_version_def)+

lemma registered_inv_cong:
  assumes "registered_inv v (h, fs)"
    and "ho_owns_router h' = ho_owns_router h" "ho_rules_version h' = ho_rules_version h"
    and "ho_kind h' = ho_kind h" "ho_component_name h' = ho_component_name h"
    and "ho_descriptor h' = ho_descriptor h" "ho_refused h' = ho_refused h"
    and "ho_router h' = ho_router h \<or> ho_router h' = None \<and> ho_stopped h'"
    and "ho_stopped h \<longrightarrow> ho_stopped h'"
  shows "registered_inv v (h', fs')"
proof -
  have "hosts_component h' c = hosts_component h c" for c
    by (simp add: hosts_component_def assms(4-6))
  with assms(1,8,9) show ?thesis
    unfolding registered_inv_def Let_def fst_conv assms(2-7)
    by (cases "ho_router h") auto
qed

lemma host_add_inv:
  assumes inv: "registered_inv v (h, fs)"
  shows "registered_inv v (snd (host_add rt c desc (kind_service c) h), fs)"
proof -
  consider (refused) "snd (host_add rt c desc (kind_service c) h) = h"
    | (second) "ho_component_name h \<noteq> None"
        "snd (host_add rt c desc (kind_service c) h) = h\<lparr>ho_refused := ho_refused h @ [component_name c]\<rparr>"
    | (first) "ho_component_name h = None" "ds_rules_version desc = reported_version h c"
        "\<not> names_no_domain c desc"
    by (cases "ds_rules_version desc = reported_version h c"; cases "names_no_domain c desc";
        cases "ho_component_name h") (simp_all add: host_add_def claim_def)
  then show ?thesis
  proof cases
    case refused
    with inv show ?thesis by simp
  next
    case second
    with inv show ?thesis
      by (auto simp: registered_inv_def Let_def hosts_component_def split: option.splits)
  next
    case first
    with inv have "ho_router h = None" "ho_rules_version h = v" "ho_kind h = None"
      by (auto simp: registered_inv_def Let_def)
    with first inv show ?thesis
      by (auto simp: host_add_def claim_def registered_inv_def Let_def router_register_def
          reported_version_def hosts_component_def)
  qed
qed

subsection \<open>Health\<close>

text \<open>
  SERVING is published only while the host runs, and only for names it serves; whatever is
  published is the overall server's or a service's.
\<close>

definition health_inv :: "('st, 'pr) host \<Rightarrow> bool" where
  "health_inv h \<longleftrightarrow>
     (\<not> ho_running h \<longrightarrow> ho_supervised h = None \<and> (\<forall>name. health_status h name \<noteq> Some SERVING))
   \<and> (\<forall>names. ho_supervised h = Some names \<longrightarrow> set names \<subseteq> set ([] # services h))
   \<and> (\<forall>name. health_history_for h name \<noteq> [] \<longrightarrow> name \<in> set ([] # services h))"

definition host_inv :: "string \<Rightarrow> ('st, 'pr) host \<times> file_system \<Rightarrow> bool" where
  "host_inv version hf \<longleftrightarrow> registered_inv version hf \<and> health_inv (fst hf)"

lemma set_services:
  "set (services h) = {s. s \<in> set FRAMEWORK_SERVICES
       \<and> (ho_kind h \<noteq> None \<and> s = COMPONENT_SERVICE \<or> ho_kind h = Some s
          \<or> ho_upcaster h \<and> s = UPCASTER_SERVICE)} \<union> set (ho_app_services h)"
  by (auto simp: services_def split: option.splits)

lemma health_inv_grow:
  assumes "health_inv h" and "set (services h) \<subseteq> set (services h')"
    and "ho_running h' = ho_running h" "ho_supervised h' = ho_supervised h"
    and "ho_health h' = ho_health h"
  shows "health_inv h'"
proof -
  have "health_history_for h' = health_history_for h"
    by (simp add: health_history_for_def assms(5) fun_eq_iff)
  then have "health_status h' = health_status h" "health_history_for h' = health_history_for h"
    by (simp_all add: health_status_def fun_eq_iff)
  with assms(1,2) show ?thesis
    unfolding health_inv_def assms(3,4) by (auto dest: subsetD)
qed

lemma host_add_fields:
  "ho_running (snd (host_add rt c desc s h)) = ho_running h"
  "ho_supervised (snd (host_add rt c desc s h)) = ho_supervised h"
  "ho_health (snd (host_add rt c desc s h)) = ho_health h"
  "ho_upcaster (snd (host_add rt c desc s h)) = ho_upcaster h"
  "ho_app_services (snd (host_add rt c desc s h)) = ho_app_services h"
  "ho_stopped (snd (host_add rt c desc s h)) = ho_stopped h"
  "ho_kind (snd (host_add rt c desc s h)) = ho_kind h
     \<or> ho_component_name h = None \<and> ho_kind (snd (host_add rt c desc s h)) = Some s"
  by (auto simp: host_add_def claim_def Let_def split: option.split sum.split)

lemma host_add_host_inv:
  assumes "host_inv v (h, fs)"
  shows "host_inv v (snd (host_add rt c desc (kind_service c) h), fs)"
proof -
  let ?h = "snd (host_add rt c desc (kind_service c) h)"
  from assms have r: "registered_inv v (h, fs)" and m: "health_inv h"
    by (simp_all add: host_inv_def)
  have "ho_kind h = None" if "ho_component_name h = None"
    using r that by (simp add: registered_inv_def Let_def)
  then have "set (services h) \<subseteq> set (services ?h)"
    using host_add_fields(7) [of rt c desc "kind_service c" h]
    by (auto simp: set_services host_add_fields(1-6))
  then have "health_inv ?h"
    by (rule health_inv_grow [OF m]) (simp_all add: host_add_fields(1-6))
  with host_add_inv [OF r] show ?thesis by (simp add: host_inv_def)
qed

lemma count_list_pos: "0 < count_list xs x \<longleftrightarrow> x \<in> set xs"
  by (metis count_list_0_iff gr0I less_irrefl)

lemma history_for_publish:
  "ho_health h = Some hist \<Longrightarrow>
     health_history_for (h'\<lparr>ho_health := Some (publish names st hist)\<rparr>) name =
       health_history_for h name @ replicate (count_list names name) st"
  by (simp add: health_history_for_def history_of_publish_any)

lemma health_status_publish:
  "health_status (h\<lparr>ho_health := Some (publish names st hist)\<rparr>) name =
     (if name \<in> set names then Some st
      else health_status (h\<lparr>ho_health := Some hist\<rparr>) name)"
  by (auto simp: health_status_def health_history_for_def history_of_publish_any count_list_0_iff)

lemma serve_cases:
  obtains (services) exc where "serve address outcome h = (Inl exc, h)"
  | (failed) exc sp where "serve address outcome h =
      (Inl exc, h\<lparr>ho_health := Some (publish ([] # services h) NOT_SERVING []), ho_socket_path := sp\<rparr>)"
  | (bound) port sp where "serve address outcome h =
      (Inr (bound_address address port),
       h\<lparr>ho_health := Some (publish ([] # services h) NOT_SERVING []), ho_socket_path := sp,
         ho_supervised := Some ([] # services h)\<rparr>)"
proof (cases outcome)
  case (Services_fail exc)
  then show thesis by (intro services) (simp add: serve_def)
next
  case (Bind_fails exc)
  then show thesis by (intro failed [of exc "ho_socket_path h"]) (simp add: serve_def Let_def)
next
  case (Start_fails exc)
  then show thesis
    by (intro failed [of exc "if startswith ''unix:'' address then address_socket_path address
        else ho_socket_path h"]) (simp add: serve_def Let_def)
next
  case (Bound_port port)
  then show thesis
    by (intro bound [of port "if startswith ''unix:'' address then address_socket_path address
        else ho_socket_path h"]) (simp add: serve_def Let_def)
qed

lemma registered_inv_fields:
  "registered_inv v (h, fs) \<Longrightarrow> registered_inv v (h\<lparr>ho_health := x, ho_socket_path := y\<rparr>, fs')"
  "registered_inv v (h, fs) \<Longrightarrow>
     registered_inv v (h\<lparr>ho_health := x, ho_socket_path := y, ho_supervised := z\<rparr>, fs')"
  "registered_inv v (h, fs) \<Longrightarrow> registered_inv v (h\<lparr>ho_running := b\<rparr>, fs')"
  "registered_inv v (h, fs) \<Longrightarrow> registered_inv v (h\<lparr>ho_address := a\<rparr>, fs')"
  "registered_inv v (h, fs) \<Longrightarrow> registered_inv v (h\<lparr>ho_health := x\<rparr>, fs')"
  "registered_inv v (h, fs) \<Longrightarrow> registered_inv v (h\<lparr>ho_upcaster := u\<rparr>, fs')"
  "registered_inv v (h, fs) \<Longrightarrow> registered_inv v (h\<lparr>ho_app_services := l\<rparr>, fs')"
  by (erule registered_inv_cong; simp)+

lemma services_fields [simp]:
  "services (h\<lparr>ho_health := x\<rparr>) = services h"
  "services (h\<lparr>ho_socket_path := y\<rparr>) = services h"
  "services (h\<lparr>ho_supervised := z\<rparr>) = services h"
  "services (h\<lparr>ho_running := b\<rparr>) = services h"
  "services (h\<lparr>ho_address := a\<rparr>) = services h"
  "services (h\<lparr>ho_stopped := s\<rparr>) = services h"
  "services (h\<lparr>ho_router := r\<rparr>) = services h"
  by (simp_all add: services_def)

lemma health_fields [simp]:
  "health_history_for (h\<lparr>ho_socket_path := y\<rparr>) = health_history_for h"
  "health_history_for (h\<lparr>ho_supervised := z\<rparr>) = health_history_for h"
  "health_history_for (h\<lparr>ho_running := b\<rparr>) = health_history_for h"
  "health_history_for (h\<lparr>ho_address := a\<rparr>) = health_history_for h"
  "health_history_for (h\<lparr>ho_stopped := s\<rparr>) = health_history_for h"
  "health_history_for (h\<lparr>ho_router := r\<rparr>) = health_history_for h"
  by (simp_all add: health_history_for_def fun_eq_iff)

lemma health_status_fields [simp]:
  "health_status (h\<lparr>ho_socket_path := y\<rparr>) = health_status h"
  "health_status (h\<lparr>ho_supervised := z\<rparr>) = health_status h"
  "health_status (h\<lparr>ho_running := b\<rparr>) = health_status h"
  "health_status (h\<lparr>ho_address := a\<rparr>) = health_status h"
  "health_status (h\<lparr>ho_stopped := s\<rparr>) = health_status h"
  "health_status (h\<lparr>ho_router := r\<rparr>) = health_status h"
  by (simp_all add: health_status_def fun_eq_iff)

lemma published_afresh:
  "health_history_for (h\<lparr>ho_health := Some (publish names st [])\<rparr>) name =
     replicate (count_list names name) st"
  by (simp add: health_history_for_def history_of_publish_any) (simp add: history_of_def)

text \<open>A start that is not refused outright, and what it leaves.\<close>

lemma host_start_eq:
  assumes "start_guard h = None"
  obtains addr fs' where "host_start env address outcome (h, fs) =
    (case serve addr outcome (h\<lparr>ho_running := True\<rparr>) of
       (Inr bound, h') \<Rightarrow> (Inr bound, h'\<lparr>ho_address := bound\<rparr>, fs')
     | (Inl exc, h') \<Rightarrow> (Inl (Other_failure exc), shutdown_loop h', fs'))"
proof -
  obtain addr fs' where a: "(case address of Some a \<Rightarrow> (a, fs)
      | None \<Rightarrow> (case get_transport_config env fs of ((_, a), fs') \<Rightarrow> (a, fs'))) = (addr, fs')"
    by (cases "(case address of Some a \<Rightarrow> (a, fs)
      | None \<Rightarrow> (case get_transport_config env fs of ((_, a), fs') \<Rightarrow> (a, fs')))") auto
  with assms show thesis
    by (intro that [where addr = addr and fs' = fs']) (simp add: host_start_def Let_def)
qed

lemma host_start_inv:
  assumes inv: "host_inv v (h, fs)"
  shows "host_inv v (snd (host_start env address outcome (h, fs)))"
proof (cases "start_guard h")
  case (Some e)
  with inv show ?thesis by (simp add: host_start_def)
next
  case None
  then have off: "\<not> ho_running h" by (auto simp: start_guard_def split: if_splits)
  from inv have r: "registered_inv v (h, fs)" and m: "health_inv h" by (simp_all add: host_inv_def)
  let ?h = "h\<lparr>ho_running := True\<rparr>"
  from None obtain addr fs' where eq: "host_start env address outcome (h, fs) =
      (case serve addr outcome ?h of
         (Inr bound, h') \<Rightarrow> (Inr bound, h'\<lparr>ho_address := bound\<rparr>, fs')
       | (Inl exc, h') \<Rightarrow> (Inl (Other_failure exc), shutdown_loop h', fs'))"
    by (rule host_start_eq)
  from m off have old: "ho_supervised h = None" "health_status h name \<noteq> Some SERVING"
    "health_history_for h name \<noteq> [] \<longrightarrow> name \<in> set ([] # services h)" for name
    by (auto simp: health_inv_def)
  show ?thesis
  proof (cases rule: serve_cases [of addr outcome ?h])
    case (services exc)
    with eq r m off show ?thesis
      by (auto simp: host_inv_def shutdown_loop_def intro!: registered_inv_fields
          health_inv_grow [OF m])
  next
    case (failed exc sp)
    have "health_inv (h\<lparr>ho_health := Some (publish ([] # services h) NOT_SERVING []),
        ho_socket_path := sp, ho_running := False\<rparr>)"
      using old(1) by (auto simp: health_inv_def published_afresh health_status_def count_list_0_iff count_list_pos)
    with eq r failed show ?thesis
      by (auto simp: host_inv_def shutdown_loop_def intro!: registered_inv_fields)
  next
    case (bound port sp)
    have "health_inv (h\<lparr>ho_running := True, ho_health := Some (publish ([] # services h) NOT_SERVING []),
        ho_socket_path := sp, ho_supervised := Some ([] # services h)\<rparr>)"
      by (auto simp: health_inv_def published_afresh count_list_0_iff count_list_pos)
    then have "health_inv (h\<lparr>ho_running := True, ho_health := Some (publish ([] # services h) NOT_SERVING []),
        ho_socket_path := sp, ho_supervised := Some ([] # services h), ho_address := bound_address addr port\<rparr>)"
      by (rule health_inv_grow) simp_all
    with eq r bound show ?thesis
      by (auto simp: host_inv_def intro!: registered_inv_fields)
  qed
qed

lemma host_tick_inv:
  assumes inv: "host_inv v (h, fs)"
  shows "host_inv v (host_tick probes h, fs)"
proof (cases "ho_supervised h")
  case None
  with inv show ?thesis by (simp add: host_tick_def)
next
  case (Some names)
  let ?st = "if \<forall>p \<in> set probes. probe_ok (pr_result p) then SERVING else NOT_SERVING"
  from inv have r: "registered_inv v (h, fs)" and m: "health_inv h" by (simp_all add: host_inv_def)
  from m Some have on: "ho_running h" and n: "set names \<subseteq> set ([] # services h)"
    and old: "health_history_for h name \<noteq> [] \<Longrightarrow> name \<in> set ([] # services h)" for name
    by (auto simp: health_inv_def)
  have "name \<in> set ([] # services h)"
    if "health_history_for (h\<lparr>ho_health := map_option (publish names ?st) (ho_health h)\<rparr>) name \<noteq> []" for name
    using that old [of name] n
    by (cases "ho_health h")
      (auto simp: health_history_for_def history_of_publish_any count_list_pos simp del: list.set)
  then have "health_inv (h\<lparr>ho_health := map_option (publish names ?st) (ho_health h)\<rparr>)"
    using on n Some by (simp add: health_inv_def)
  moreover have "supervisor_tick names probes = publish names ?st"
    by (simp add: tick_status fun_eq_iff)
  ultimately show ?thesis
    using Some registered_inv_fields(5) [OF r] by (simp add: host_tick_def host_inv_def)
qed

lemma close_owned_fields [simp]:
  "services (close_owned_router h) = services h"
  "ho_running (close_owned_router h) = ho_running h"
  "ho_supervised (close_owned_router h) = ho_supervised h"
  "ho_health (close_owned_router h) = ho_health h"
  "health_history_for (close_owned_router h) = health_history_for h"
  "health_status (close_owned_router h) = health_status h"
  by (simp_all add: close_owned_router_def router_close_def)

lemma registered_inv_closed:
  assumes "registered_inv v (h, fs)"
  shows "registered_inv v ((close_owned_router h)\<lparr>ho_stopped := True\<rparr>, fs')"
  using assms
  by (auto simp: registered_inv_def Let_def close_owned_router_def router_close_def)

lemma stopped_health:
  assumes "health_inv h" and "ho_health h = Some hist"
  shows "health_status (h\<lparr>ho_health := Some (publish ([] # services h) NOT_SERVING hist)\<rparr>) name
    = (if name \<in> set ([] # services h) then Some NOT_SERVING else None)"
proof -
  have "health_history_for h name = []" if "name \<notin> set ([] # services h)"
    using assms(1) that by (auto simp: health_inv_def)
  moreover have "health_history_for (h\<lparr>ho_health := Some hist\<rparr>) = health_history_for h"
    using assms(2) by (simp add: health_history_for_def fun_eq_iff)
  ultimately show ?thesis
    unfolding health_status_publish by (simp add: health_status_def del: list.set)
qed

lemma host_stop_inv:
  assumes inv: "host_inv v (h, fs)"
  shows "host_inv v (host_stop (h, fs))"
proof -
  from inv have r: "registered_inv v (h, fs)" and m: "health_inv h" by (simp_all add: host_inv_def)
  consider (halted) "ho_stopped h" | (off) "\<not> ho_stopped h" "\<not> ho_running h"
    | (on) "\<not> ho_stopped h" "ho_running h" by blast
  then show ?thesis
  proof cases
    case halted
    with inv show ?thesis by (simp add: host_stop_def stop_server_def)
  next
    case off
    then have "health_inv ((close_owned_router h)\<lparr>ho_stopped := True\<rparr>)"
      using m by (simp add: health_inv_def)
    with off show ?thesis by (simp add: host_stop_def stop_server_def host_inv_def registered_inv_closed [OF r])
  next
    case on
    let ?h = "h\<lparr>ho_supervised := None,
        ho_health := map_option (publish ([] # services h) NOT_SERVING) (ho_health h)\<rparr>"
    let ?h' = "(close_owned_router (?h\<lparr>ho_running := False\<rparr>))\<lparr>ho_stopped := True\<rparr>"
    have "registered_inv v (?h\<lparr>ho_running := False\<rparr>, fs)"
      by (rule registered_inv_cong [OF r]) simp_all
    then have "registered_inv v (?h', fs')" for fs' by (rule registered_inv_closed)
    moreover have "health_status ?h' name \<noteq> Some SERVING" for name
      using stopped_health [OF m, of _ name]
      by (cases "ho_health h") (auto simp: health_status_def health_history_for_def split: if_splits)
    moreover have "health_history_for ?h' name \<noteq> [] \<longrightarrow> name \<in> set ([] # services h)" for name
      using m by (cases "ho_health h")
        (auto simp: health_inv_def health_history_for_def history_of_publish_any count_list_pos)
    ultimately show ?thesis
      using on by (auto simp: host_stop_def stop_server_def host_inv_def health_inv_def shutdown_loop_def Let_def)
  qed
qed

lemma host_new_inv: "host_inv v (host_new None v, fs)"
  by (simp add: host_inv_def registered_inv_def health_inv_def host_new_def router_new_def
      health_status_def health_history_for_def)

lemma host_step_inv:
  assumes "host_inv v hf" and "host_step rt hf hf'"
  shows "host_inv v hf'"
  using assms(2,1)
proof (cases rule: host_step.cases)
  case (Add_aggregate h fs d desc)
  with assms(1) show ?thesis
    using host_add_host_inv [where c = "Aggregate_component d"] by (simp add: add_aggregate_def)
next
  case (Add_policy h fs p desc)
  with assms(1) show ?thesis
    using host_add_host_inv [where c = "Policy_component p"] by (simp add: add_policy_def)
next
  case (Add_process_manager h fs d desc)
  with assms(1) show ?thesis
    using host_add_host_inv [where c = "Process_manager_component d"]
    by (simp add: add_process_manager_def)
next
  case (Add_projector h fs pr desc)
  with assms(1) show ?thesis
    using host_add_host_inv [where c = "Projector_component pr"] by (simp add: add_projector_def)
next
  case (Add_upcaster h fs)
  with assms(1) have m: "health_inv h" by (simp add: host_inv_def)
  have "set (services h) \<subseteq> set (services (h\<lparr>ho_upcaster := True\<rparr>))"
    unfolding set_services by auto
  then have "health_inv (h\<lparr>ho_upcaster := True\<rparr>)"
    by (rule health_inv_grow [OF m]) simp_all
  with Add_upcaster assms(1) show ?thesis
    by (auto simp: host_inv_def add_upcaster_def intro: registered_inv_fields)
next
  case (Add_service h fs name)
  with assms(1) have m: "health_inv h" by (simp add: host_inv_def)
  have "set (services h) \<subseteq> set (services (h\<lparr>ho_app_services := ho_app_services h @ [name]\<rparr>))"
    unfolding set_services by auto
  then have "health_inv (h\<lparr>ho_app_services := ho_app_services h @ [name]\<rparr>)"
    by (rule health_inv_grow [OF m]) simp_all
  with Add_service assms(1) show ?thesis
    by (auto simp: host_inv_def add_service_def intro: registered_inv_fields)
next
  case (Start env address outcome)
  with assms(1) show ?thesis by (cases hf) (simp add: host_start_inv)
next
  case (Tick h fs probes)
  with assms(1) show ?thesis by (simp add: host_tick_inv)
next
  case Stop
  with assms(1) show ?thesis by (cases hf) (simp add: host_stop_inv)
next
  case (Files h fs fs')
  with assms(1) show ?thesis by (simp add: host_inv_def registered_inv_def)
qed

interpretation host_machine: step_invariant "host_step rt" "fresh_host version" "host_inv version"
proof
  fix hf :: "('st, 'pr) host \<times> file_system"
  assume "fresh_host version hf"
  then show "host_inv version hf"
    by (cases hf) (simp add: fresh_host_def host_new_inv)
next
  fix hf hf' :: "('st, 'pr) host \<times> file_system"
  assume "host_inv version hf" and "host_step rt hf hf'"
  then show "host_inv version hf'" by (rule host_step_inv)
qed

lemma reachable_inv:
  assumes "reachable rt version h"
  obtains fs where "host_inv version (h, fs)"
proof -
  from assms obtain fs fs' where "(host_step rt)\<^sup>*\<^sup>* (host_new None version, fs) (h, fs')"
    by (auto simp: reachable_def)
  moreover have "fresh_host version (host_new None version, fs)"
    by (simp add: fresh_host_def)
  ultimately show thesis by (intro that) (rule host_machine.reached)
qed

end
