(* ===== verification/Host_Properties.thy ===== *)
theory Host_Properties
  imports Host_Contract
begin

text \<open>
  What the component host promises: one component, of the version it describes; health that
  tells readiness; a stop that is complete; and failures that reach the client whole.
\<close>

subsection \<open>One component\<close>

lemma host_step_refused:
  assumes "host_step rt hf hf'" and "ho_refused (fst hf) \<noteq> []"
    and "ho_component_name (fst hf) = Some n" and "ho_kind (fst hf) = Some k"
  shows "ho_refused (fst hf') \<noteq> [] \<and> ho_component_name (fst hf') = Some n
    \<and> ho_kind (fst hf') = Some k"
proof -
  have add: "ho_refused (snd (host_add rt c desc s h)) \<noteq> []
      \<and> ho_component_name (snd (host_add rt c desc s h)) = Some n
      \<and> ho_kind (snd (host_add rt c desc s h)) = Some k"
    if "ho_refused h \<noteq> []" "ho_component_name h = Some n" "ho_kind h = Some k" for c desc s and h
    using that by (auto simp: host_add_def claim_def Let_def)
  have serve: "ho_refused (snd (serve a out h)) = ho_refused h
      \<and> ho_component_name (snd (serve a out h)) = ho_component_name h
      \<and> ho_kind (snd (serve a out h)) = ho_kind h" for a out and h :: "('a, 'b) host"
    by (cases rule: serve_cases [of a out h]) simp_all
  from assms show ?thesis
  proof (cases rule: host_step.cases)
    case (Start env address outcome)
    obtain h fs where hf: "hf = (h, fs)" by (cases hf)
    show ?thesis
    proof (cases "start_guard h")
      case None
      then obtain addr fs' where eq: "host_start env address outcome (h, fs) =
          (case serve addr outcome (h\<lparr>ho_running := True\<rparr>) of
             (Inr bound, h') \<Rightarrow> (Inr bound, h'\<lparr>ho_address := bound\<rparr>, fs')
           | (Inl exc, h') \<Rightarrow> (Inl (Other_failure exc), shutdown_loop h', fs'))"
        by (rule host_start_eq)
      with Start assms(2-4) hf serve [of addr outcome "h\<lparr>ho_running := True\<rparr>"] show ?thesis
        by (auto simp: shutdown_loop_def split: prod.splits sum.splits)
    qed (use Start assms(2-4) hf in \<open>simp add: host_start_def\<close>)
  next
    case Stop
    with assms(2-4) show ?thesis
      by (cases hf) (auto simp: host_stop_def stop_server_def close_owned_router_def shutdown_loop_def Let_def)
  qed (use add assms(2-4) in \<open>auto simp: add_aggregate_def add_policy_def add_process_manager_def
      add_projector_def add_upcaster_def add_service_def host_tick_def split: option.split\<close>)
qed

lemma refused_stays:
  assumes "(host_step rt)\<^sup>*\<^sup>* hf hf'" and "ho_refused (fst hf) \<noteq> []"
    and "ho_component_name (fst hf) = Some n" and "ho_kind (fst hf) = Some k"
  shows "ho_refused (fst hf') \<noteq> [] \<and> ho_component_name (fst hf') = Some n \<and> ho_kind (fst hf') = Some k"
  using assms by (induction rule: rtranclp_induct) (auto dest: host_step_refused)

text \<open>
  C15: a host serves exactly one component. A second registration that passes its checks raises
  nothing and changes nothing of what is hosted, but from then on, whatever else happens to the
  host, no start succeeds: each is refused, naming the component held and the ones refused (or,
  where an upcaster was added too, as an upcaster with a component).
\<close>

theorem second_component_never_served:
  assumes "reachable rt version h" and "ho_component_name h = Some first"
    and "host_add rt c desc (kind_service c) h = (None, h')"
    and "(host_step rt)\<^sup>*\<^sup>* (h', fs) (later, fs')"
  shows "ho_router h' = ho_router h \<and> ho_descriptor h' = ho_descriptor h \<and> ho_kind h' = ho_kind h
    \<and> (\<exists>e. host_start env address outcome (later, fs') = (Inl (Config_failure e), later, fs')
        \<and> (if ho_upcaster later then er_code e = HOST_REASON_UPCASTER_WITH_COMPONENT
           else er_code e = DUPLICATE_COMPONENT
             \<and> er_details e = [(''registered'', first), (''refused'', join_comma (ho_refused later))]))"
proof -
  from assms(3) have h': "h' = h\<lparr>ho_refused := ho_refused h @ [component_name c]\<rparr>"
    using assms(2) by (auto simp: host_add_def claim_def Let_def split: if_splits)
  from assms(1) obtain fs0 where "host_inv version (h, fs0)" by (rule reachable_inv)
  with assms(2) obtain k where k: "ho_kind h = Some k"
    by (auto simp: host_inv_def registered_inv_def Let_def)
  have "ho_refused later \<noteq> [] \<and> ho_component_name later = Some first \<and> ho_kind later = Some k"
    using refused_stays [OF assms(4), of first k] assms(2) k by (simp add: h')
  then show ?thesis
    by (auto simp: h' host_start_def start_guard_def config_error_def strings_def)
qed

definition upcast_host :: "(nat, nat) host" where
  "upcast_host = add_upcaster (host_new None ''1.0'')"

definition counter_host :: "(nat, nat) host" where
  "counter_host = snd (add_policy plain_runtime (policy_new ''P'' ''a'' ''b'')
     \<lparr>ds_name = ''P'', ds_kind = POLICY, ds_rules_version = ''1.0'', ds_inputs = [''a''],
      ds_state = None, ds_starting_types = [], ds_output_domain = ''b''\<rparr> (host_new None ''1.0''))"

abbreviation no_files :: file_system where
  "no_files \<equiv> \<lparr>fs_files = [], fs_dirs = []\<rparr>"

lemma reachable_counter_host: "reachable plain_runtime ''1.0'' counter_host"
  unfolding reachable_def counter_host_def
  by (intro exI r_into_rtranclp) (rule host_step.Add_policy)

lemma counter_host_sel:
  "ho_component_name counter_host = Some ''P''" "ho_rules_version counter_host = ''1.0''"
  "ho_kind counter_host = Some POLICY_SERVICE" "ho_refused counter_host = []"
  "ho_upcaster counter_host = False" "ho_running counter_host = False"
  "ho_stopped counter_host = False" "ho_app_services counter_host = []"
  "ho_health counter_host = None" "ho_owns_router counter_host"
  by (simp_all add: counter_host_def add_policy_def host_add_def host_new_def claim_def
      policy_new_def reported_version_def router_new_def router_register_def versioned_def
      Let_def)

theorem second_component_never_served_witness:
  "\<exists>e. host_start Map.empty (Some ''[::]:0'') (Bound_port 5)
     (snd (add_aggregate plain_runtime (with_rules_version ''2.0'' counter)
        \<lparr>ds_name = ''C'', ds_kind = AGGREGATE, ds_rules_version = ''2.0'', ds_inputs = [],
         ds_state = None, ds_starting_types = [], ds_output_domain = []\<rparr> counter_host), no_files)
     = (Inl (Config_failure e),
        counter_host\<lparr>ho_refused := [''Counter'']\<rparr>, no_files)
   \<and> er_code e = DUPLICATE_COMPONENT
   \<and> er_details e = [(''registered'', ''P''), (''refused'', ''Counter'')]"
proof -
  let ?c = "Aggregate_component (with_rules_version ''2.0'' counter) :: (nat, nat) component"
  let ?d = "\<lparr>ds_name = ''C'', ds_kind = AGGREGATE, ds_rules_version = ''2.0'', ds_inputs = [],
         ds_state = None, ds_starting_types = [], ds_output_domain = []\<rparr>"
  have a: "host_add plain_runtime ?c ?d (kind_service ?c) counter_host =
      (None, counter_host\<lparr>ho_refused := [''Counter'']\<rparr>)"
    by (simp add: host_add_def claim_def counter_host_sel reported_version_def counter_defs)
  from second_component_never_served [OF reachable_counter_host counter_host_sel(1) a
      rtranclp.rtrancl_refl, of Map.empty "Some ''[::]:0''" "Bound_port 5" no_files] a
  show ?thesis by (simp add: add_aggregate_def counter_host_sel)
qed

text \<open>
  C16: what a host describes is what it answers: in every state a host of its own router
  reaches, each answer of the hosted aggregate or process manager reports the rules version of
  the descriptor Describe answers, and every component is served under its kind's service.
\<close>

theorem answers_report_the_described_version:
  assumes "reachable rt version h" and "dispatch rt (ho_router h) request = Return resp"
  shows "\<exists>desc. component_Describe h = Some desc
    \<and> hr_rules_version resp = ds_rules_version desc
    \<and> ho_kind h = Some COMMAND_HANDLER_SERVICE
    \<and> {COMPONENT_SERVICE, COMMAND_HANDLER_SERVICE} \<subseteq> set (services h)"
proof -
  from assms(1) obtain fs where inv: "host_inv version (h, fs)" by (rule reachable_inv)
  from assms(2) obtain c where c: "ho_router h = Some c" and "component_handle rt request c = Return resp"
    by (auto simp: dispatch_def hosted_def bindR_eq_Inr_iff split: option.splits if_splits)
  then obtain d where d: "c = Aggregate_component d \<or> c = Process_manager_component d"
    and a: "aggregate_handle rt d request = Return resp"
    by (cases c) auto
  from inv c d obtain desc where desc: "ho_kind h = Some COMMAND_HANDLER_SERVICE"
    "ho_descriptor h = Some desc" "ds_rules_version desc = ad_rules_version d"
    by (auto simp: host_inv_def registered_inv_def hosts_component_def Let_def)
  from a have "hr_rules_version resp = ad_rules_version d"
    by (rule aggregate_handleE) simp
  moreover have "{COMPONENT_SERVICE, COMMAND_HANDLER_SERVICE} \<subseteq> set (services h)"
    using desc(1) by (auto simp: set_services FRAMEWORK_SERVICES_def)
  ultimately show ?thesis using desc by (simp add: component_Describe_def)
qed

definition aggregate_host :: "(nat, nat) host" where
  "aggregate_host = snd (add_aggregate plain_runtime counter
     \<lparr>ds_name = ''C'', ds_kind = AGGREGATE, ds_rules_version = ''1.0'', ds_inputs = [],
      ds_state = None, ds_starting_types = [], ds_output_domain = []\<rparr> (host_new None []))"

lemma aggregate_host_router: "ho_router aggregate_host = Some (Aggregate_component counter)"
  by (simp add: aggregate_host_def add_aggregate_def host_add_def host_new_def claim_def
      reported_version_def router_new_def router_register_def versioned_def counter_sel Let_def)

theorem answers_report_the_described_version_witness:
  "\<exists>desc. component_Describe aggregate_host = Some desc \<and> ds_rules_version desc = ''1.0''"
proof -
  have "reachable plain_runtime [] aggregate_host"
    unfolding reachable_def aggregate_host_def
    by (intro exI r_into_rtranclp) (rule host_step.Add_aggregate)
  moreover have "dispatch plain_runtime (ho_router aggregate_host) (counter_request [0] [1, 1]) =
      aggregate_handle plain_runtime counter (counter_request [0] [1, 1])"
    by (simp add: aggregate_host_router dispatch_def hosted_def)
  ultimately show ?thesis
    using answers_report_the_described_version [of plain_runtime "[]" aggregate_host
        "counter_request [0] [1, 1]"]
    unfolding counter_answer by auto
qed

subsection \<open>Health\<close>

text \<open>
  C18: health tells readiness. In every reachable state a name is SERVING only while the host
  runs, and only the overall server and the services it serves have a status; a start that
  returns leaves every one of them NOT_SERVING, the first tick after it makes them SERVING when
  every probe passed, and the status stays what each later tick finds.
\<close>

theorem serving_only_while_ready:
  assumes "reachable rt version h"
  shows "(health_status h name = Some SERVING \<longrightarrow> ho_running h)
    \<and> (health_status h name \<noteq> None \<longrightarrow> name = [] \<or> name \<in> set (services h))
    \<and> (host_start env address outcome (h, fs) = (Inr bound, started, fs') \<longrightarrow>
        name = [] \<or> name \<in> set (services h) \<longrightarrow>
          health_history_for started name \<noteq> [] \<and> set (health_history_for started name) = {NOT_SERVING}
        \<and> health_status (host_tick probes started) name =
            Some (if \<forall>p \<in> set probes. pr_result p = Checked True then SERVING else NOT_SERVING))"
proof (intro conjI impI)
  from assms obtain fs0 where "host_inv version (h, fs0)" by (rule reachable_inv)
  then have m: "health_inv h" by (simp add: host_inv_def)
  show "ho_running h" if "health_status h name = Some SERVING"
    using m that by (auto simp: health_inv_def)
  show "name = [] \<or> name \<in> set (services h)" if "health_status h name \<noteq> None"
    using m that by (auto simp: health_inv_def health_status_def Let_def split: if_splits)
  assume started: "host_start env address outcome (h, fs) = (Inr bound, started, fs')"
    and name: "name = [] \<or> name \<in> set (services h)"
  then have "start_guard h = None" by (auto simp: host_start_def split: option.splits)
  then obtain addr fs1 where "host_start env address outcome (h, fs) =
      (case serve addr outcome (h\<lparr>ho_running := True\<rparr>) of
         (Inr bound, h') \<Rightarrow> (Inr bound, h'\<lparr>ho_address := bound\<rparr>, fs1)
       | (Inl exc, h') \<Rightarrow> (Inl (Other_failure exc), shutdown_loop h', fs1))"
    by (rule host_start_eq)
  with started obtain sp where s: "started = h\<lparr>ho_running := True,
      ho_health := Some (publish ([] # services h) NOT_SERVING []), ho_socket_path := sp,
      ho_supervised := Some ([] # services h), ho_address := bound\<rparr>"
    by (cases rule: serve_cases [of addr outcome "h\<lparr>ho_running := True\<rparr>"]) auto
  have c: "count_list ([] # services h) name \<noteq> 0"
    using name by (auto simp: count_list_0_iff count_list_pos)
  have hist: "health_history_for started name = replicate (count_list ([] # services h) name) NOT_SERVING"
    unfolding s by (simp add: published_afresh del: count_list.simps)
  with c show "health_history_for started name \<noteq> []"
    and "set (health_history_for started name) = {NOT_SERVING}"
    by (simp_all del: count_list.simps)
  let ?st = "if \<forall>p \<in> set probes. pr_result p = Checked True then SERVING else NOT_SERVING"
  have ok: "probe_ok r \<longleftrightarrow> r = Checked True" for r by (cases r) auto
  have "host_tick probes started =
      started\<lparr>ho_health := Some (publish ([] # services h) ?st (publish ([] # services h) NOT_SERVING []))\<rparr>"
    unfolding s by (simp add: host_tick_def tick_status ok)
  with name show "health_status (host_tick probes started) name = Some ?st"
    by (simp add: health_status_publish)
qed

theorem serving_only_while_ready_witness:
  "\<exists>started fs'. host_start Map.empty (Some ''[::]:0'') (Bound_port 5) (counter_host, no_files) =
      (Inr ''[::]:5'', started, fs')
    \<and> health_status started [] = Some NOT_SERVING
    \<and> health_status (host_tick [transport_check True] started) POLICY_SERVICE = Some SERVING"
proof -
  have "nat_str 5 = ''5''" by (simp add: nat_str.simps digits)
  then obtain started fs' where s: "host_start Map.empty (Some ''[::]:0'') (Bound_port 5)
      (counter_host, no_files) = (Inr ''[::]:5'', started, fs')"
    by (simp add: host_start_def start_guard_def counter_host_sel serve_def bound_address_def
        rpartition_def startswith_Cons Let_def)
  have n: "POLICY_SERVICE \<in> set (services counter_host)"
    by (simp add: set_services counter_host_sel FRAMEWORK_SERVICES_def)
  have "health_history_for started [] \<noteq> [] \<and> set (health_history_for started []) = {NOT_SERVING}"
    using serving_only_while_ready [OF reachable_counter_host, of "[]" Map.empty "Some ''[::]:0''"
        "Bound_port 5" no_files "''[::]:5''" started fs'] s by blast
  then have "health_history_for started [] \<noteq> []" "last (health_history_for started []) = NOT_SERVING"
    by (blast, metis last_in_set singletonD)
  moreover have "health_status (host_tick [transport_check True] started) POLICY_SERVICE = Some SERVING"
    using serving_only_while_ready [OF reachable_counter_host, of POLICY_SERVICE Map.empty
        "Some ''[::]:0''" "Bound_port 5" no_files "''[::]:5''" started fs' "[transport_check True]"] s n
    by (simp add: transport_check_def)
  ultimately show ?thesis using s by (auto simp: health_status_def Let_def)
qed

subsection \<open>Stopping\<close>

lemma ticks_keep:
  "ho_stopped (fold host_tick ts h) = ho_stopped h" "ho_running (fold host_tick ts h) = ho_running h"
  by (induction ts arbitrary: h) (auto simp: host_tick_def split: option.split)

lemma stopped_by_stop:
  "ho_stopped (fst (host_stop (h, fs)))"
  "\<not> ho_stopped h \<Longrightarrow> \<not> ho_running (fst (host_stop (h, fs)))"
  by (auto simp: host_stop_def stop_server_def Let_def close_owned_router_def shutdown_loop_def)

lemma start_does_not_stop:
  assumes "\<not> ho_stopped h"
  shows "\<not> ho_stopped (fst (snd (host_start env address outcome (h, fs))))"
proof (cases "start_guard h")
  case (Some e)
  with assms show ?thesis by (simp add: host_start_def)
next
  case None
  then obtain addr fs1 where "host_start env address outcome (h, fs) =
      (case serve addr outcome (h\<lparr>ho_running := True\<rparr>) of
         (Inr bound, h') \<Rightarrow> (Inr bound, h'\<lparr>ho_address := bound\<rparr>, fs1)
       | (Inl exc, h') \<Rightarrow> (Inl (Other_failure exc), shutdown_loop h', fs1))"
    by (rule host_start_eq)
  with assms show ?thesis
    by (cases rule: serve_cases [of addr outcome "h\<lparr>ho_running := True\<rparr>"]) (auto simp: shutdown_loop_def)
qed

text \<open>A run ends in a host that is stopped.\<close>

lemma run_ends_stopped:
  assumes "\<not> ho_stopped h" and "host_run env address outcome ts (h, fs) = (e, h', fs')"
  shows "host_wait h' \<and> \<not> ho_running h'"
proof -
  obtain r k ks where start: "host_start env address outcome (h, fs) = (r, k, ks)" by (rule prod_cases3)
  with start_does_not_stop [OF assms(1), of env address outcome fs] have k: "\<not> ho_stopped k" by simp
  have "ho_stopped (fst (host_stop (k', ks))) \<and> \<not> ho_running (fst (host_stop (k', ks)))"
    if "k' = k \<or> k' = fold host_tick ts k" for k'
    using that k ticks_keep(1) [of ts k] stopped_by_stop [of k' ks] by auto
  moreover have "(h', fs') = host_stop (k, ks) \<or> (h', fs') = host_stop (fold host_tick ts k, ks)"
    using assms(2) start by (auto simp: host_run_def split: sum.splits)
  ultimately show ?thesis by (metis fst_conv host_wait_def)
qed

lemma stop_withdraws:
  assumes m: "health_inv h" and "\<not> ho_stopped h" "ho_running h" "host_stop (h, fs) = (stopped, fs')"
    and n: "health_status h name \<noteq> None"
  shows "health_status stopped name = Some NOT_SERVING"
proof -
  from n obtain hist where hist: "ho_health h = Some hist"
    by (cases "ho_health h") (auto simp: health_status_def health_history_for_def)
  from n m have "name \<in> set ([] # services h)"
    by (auto simp: health_inv_def health_status_def Let_def split: if_splits)
  moreover have "ho_health stopped = Some (publish ([] # services h) NOT_SERVING hist)"
    using assms(2-4) hist
    by (auto simp: host_stop_def stop_server_def Let_def close_owned_router_def shutdown_loop_def split: if_splits)
  ultimately show ?thesis
    using stopped_health [OF m hist, of name] by (simp add: health_status_def health_history_for_def)
qed

text \<open>
  C19: a stop is complete and idempotent. From every reachable state it leaves the host not
  running unless it had stopped before, every status it had published NOT_SERVING, its router
  empty, and its socket file removed and no other; a second stop changes nothing, and \<open>run\<close>
  always ends there, whether its start failed or its serving was asked to stop.
\<close>

theorem stop_is_complete:
  assumes "reachable rt version h" and "\<not> ho_stopped h"
    and "host_stop (h, fs) = (stopped, fs')"
  shows "\<not> ho_running stopped \<and> host_wait stopped \<and> ho_router stopped = None
    \<and> (\<forall>name. health_status stopped name \<noteq> Some SERVING)
    \<and> (ho_running h \<longrightarrow> (\<forall>name. health_status h name \<noteq> None \<longrightarrow>
          health_status stopped name = Some NOT_SERVING))
    \<and> (\<forall>f. f \<in> set (fs_files fs') \<longleftrightarrow>
          f \<in> set (fs_files fs) \<and> \<not> (ho_running h \<and> ho_socket_path h = Some f \<and> f \<noteq> []))
    \<and> host_stop (stopped, fs') = (stopped, fs')
    \<and> (\<forall>env address outcome ticks e h' fs''. host_run env address outcome ticks (h, fs) = (e, h', fs'')
        \<longrightarrow> host_wait h' \<and> \<not> ho_running h')"
proof -
  from assms(1) obtain fs0 where inv: "host_inv version (h, fs0)" by (rule reachable_inv)
  then have m: "health_inv h" and own: "ho_owns_router h"
    by (simp_all add: host_inv_def registered_inv_def Let_def)
  have "host_inv version (stopped, fs')"
    using host_stop_inv [of version h fs] inv assms(3) by (simp add: host_inv_def registered_inv_def)
  then have m': "health_inv stopped" by (simp add: host_inv_def)
  have st: "\<not> ho_running stopped" "ho_stopped stopped" "ho_router stopped = None"
    using assms(2,3) own
    by (auto simp: host_stop_def stop_server_def Let_def close_owned_router_def router_close_def shutdown_loop_def
        split: if_splits)
  have files: "f \<in> set (fs_files fs') \<longleftrightarrow>
      f \<in> set (fs_files fs) \<and> \<not> (ho_running h \<and> ho_socket_path h = Some f \<and> f \<noteq> [])" for f
    using assms(2,3)
    by (auto simp: host_stop_def stop_server_def Let_def remove_file_def split: if_splits option.splits)
  show ?thesis
    using st files stop_withdraws [OF m assms(2) _ assms(3)] m' run_ends_stopped [OF assms(2)]
    by (auto simp: health_inv_def host_wait_def host_stop_def stop_server_def)
qed

text \<open>The policy host, started on a Unix socket, and stopped.\<close>

definition socket_start ::
  "(nat, nat) host \<times> file_system \<Rightarrow> (host_error + string) \<times> (nat, nat) host \<times> file_system" where
  "socket_start = host_start Map.empty (Some ''unix:/run/p.sock'') (Bound_port 1)"

definition socket_host :: "(nat, nat) host" where
  "socket_host = fst (snd (socket_start (counter_host, no_files)))"

lemma socket_host_eq:
  "socket_start (counter_host, no_files) = (Inr ''unix:/run/p.sock'', socket_host, no_files)"
  "ho_running socket_host" "ho_stopped socket_host = False"
  "ho_socket_path socket_host = Some ''/run/p.sock''"
  by (simp_all add: socket_host_def socket_start_def host_start_def start_guard_def
      counter_host_sel serve_def bound_address_def address_socket_path_def removeprefix_def
      startswith_Cons Let_def)

lemma reachable_socket_host: "reachable plain_runtime ''1.0'' socket_host"
proof -
  obtain fs fs' where "(host_step plain_runtime)\<^sup>*\<^sup>* (host_new None ''1.0'', fs) (counter_host, fs')"
    using reachable_counter_host by (auto simp: reachable_def)
  also have "host_step plain_runtime (counter_host, fs') (counter_host, no_files)"
    by (rule host_step.Files)
  also have "host_step plain_runtime (counter_host, no_files) (socket_host, no_files)"
    using host_step.Start [of plain_runtime "(counter_host, no_files)" Map.empty
        "Some ''unix:/run/p.sock''" "Bound_port 1"] socket_host_eq(1)
    by (simp add: socket_start_def)
  finally show ?thesis by (auto simp: reachable_def)
qed

theorem stop_is_complete_witness:
  "fs_files (snd (host_stop (socket_host, \<lparr>fs_files = [''/run/p.sock'', ''/run/q''], fs_dirs = []\<rparr>)))
     = [''/run/q'']
   \<and> host_wait (fst (host_stop (socket_host, no_files)))"
proof -
  obtain stopped fs' where s: "host_stop (socket_host, no_files) = (stopped, fs')"
    by (cases "host_stop (socket_host, no_files)")
  with stop_is_complete [OF reachable_socket_host _ s] have "host_wait stopped"
    by (simp add: socket_host_eq)
  with s show ?thesis
    by (simp add: host_stop_def stop_server_def socket_host_eq remove_file_def Let_def)
qed

text \<open>
  A host that has stopped does not refuse to start again, and then cannot be stopped: the
  second start serves, publishes SERVING on its ticks, and leaves the host reported as stopped,
  so \<open>wait\<close> returns at once and \<open>stop\<close> changes nothing: the server keeps running on a host
  whose own router was closed.
\<close>

theorem restarted_host_cannot_be_stopped:
  assumes "ho_stopped h" and "host_start env address outcome (h, fs) = (Inr bound, again, fs')"
  shows "ho_running again \<and> host_wait again \<and> host_stop (again, fs'') = (again, fs'')
    \<and> health_status (host_tick [transport_check True] again) [] = Some SERVING
    \<and> host_stop (host_tick [transport_check True] again, fs'')
        = (host_tick [transport_check True] again, fs'')"
proof -
  from assms(2) have "start_guard h = None" by (auto simp: host_start_def split: option.splits)
  then obtain addr fs1 where "host_start env address outcome (h, fs) =
      (case serve addr outcome (h\<lparr>ho_running := True\<rparr>) of
         (Inr bound, h') \<Rightarrow> (Inr bound, h'\<lparr>ho_address := bound\<rparr>, fs1)
       | (Inl exc, h') \<Rightarrow> (Inl (Other_failure exc), shutdown_loop h', fs1))"
    by (rule host_start_eq)
  with assms(2) obtain sp where s: "again = h\<lparr>ho_running := True,
      ho_health := Some (publish ([] # services h) NOT_SERVING []), ho_socket_path := sp,
      ho_supervised := Some ([] # services h), ho_address := bound\<rparr>"
    by (cases rule: serve_cases [of addr outcome "h\<lparr>ho_running := True\<rparr>"]) auto
  have "host_tick [transport_check True] again =
      again\<lparr>ho_health := Some (publish ([] # services h) SERVING (publish ([] # services h) NOT_SERVING []))\<rparr>"
    unfolding s by (simp add: host_tick_def tick_status transport_check_def)
  with assms(1) show ?thesis
    by (simp add: health_status_publish host_wait_def host_stop_def stop_server_def) (simp add: s)
qed

theorem restarted_host_cannot_be_stopped_witness:
  "\<exists>again fs'. socket_start (host_stop (socket_host, no_files)) = (Inr ''unix:/run/p.sock'', again, fs')
     \<and> ho_running again \<and> host_stop (again, fs') = (again, fs')"
proof -
  obtain stopped fs1 where s: "host_stop (socket_host, no_files) = (stopped, fs1)"
    by (cases "host_stop (socket_host, no_files)")
  have k: "ho_kind socket_host = Some POLICY_SERVICE" "ho_upcaster socket_host = False"
    "ho_refused socket_host = []" "ho_owns_router socket_host"
    by (simp_all add: socket_host_def socket_start_def host_start_def start_guard_def
        counter_host_sel serve_def Let_def startswith_Cons)
  from s have st: "ho_stopped stopped" "start_guard stopped = None"
    by (auto simp: host_stop_def stop_server_def socket_host_eq Let_def close_owned_router_def shutdown_loop_def
        start_guard_def k)
  then obtain again fs' where a: "socket_start (stopped, fs1) = (Inr ''unix:/run/p.sock'', again, fs')"
    by (simp add: socket_start_def host_start_def serve_def bound_address_def startswith_Cons Let_def)
  from restarted_host_cannot_be_stopped [OF st(1) a [unfolded socket_start_def], of fs'] a s
  show ?thesis by auto
qed

subsection \<open>Failures reach the client\<close>

text \<open>
  An aborted call as its caller sees it: gRPC raises an error with the abort's status and message
  and the trailing metadata the host set, among whatever other metadata the transport adds.
\<close>

definition raised_at_client ::
  "int \<Rightarrow> string \<Rightarrow> (string \<times> bytes) list \<Rightarrow> (string \<times> bytes) list \<Rightarrow> (string \<times> bytes) list \<Rightarrow>
     rpc_error" where
  "raised_at_client code message trailing before after =
     \<lparr>re_code = code, re_details = Some message, re_trailing = Some (before @ trailing @ after)\<rparr>"

text \<open>What protobuf documents, of one status and its \<open>ErrorInfo\<close>.\<close>

definition carries :: "protobuf \<Rightarrow> coded_error \<Rightarrow> bool" where
  "carries pb e \<longleftrightarrow>
     pb_status_parse pb (pb_status_bytes pb (status (pb_pack_info pb) e)) =
       Some (status (pb_pack_info pb) e)
   \<and> (\<exists>m. pb_unpack_info pb (pb_pack_info pb
            \<lparr>ei_reason = ce_code e, ei_domain = ERROR_INFO_DOMAIN, ei_metadata = ce_extras e\<rparr>)
          = Return (Some \<lparr>ei_reason = ce_code e, ei_domain = ERROR_INFO_DOMAIN, ei_metadata = m\<rparr>)
        \<and> map_of m = map_of (ce_extras e))"

text \<open>The coded error a failed dispatch travels as.\<close>

fun travels_as :: "runtime \<Rightarrow> exn \<Rightarrow> coded_error" where
  "travels_as rt (Coded e) = e"
| "travels_as rt exc =
     coded_error (rt_statuses rt) UNHANDLED_HANDLER_ERROR None [(''cause'', HANDLER_PANICKED)] None"

text \<open>The trailing metadata a failed dispatch aborts with, and what the client finds in it.\<close>

abbreviation failure_trailing :: "protobuf \<Rightarrow> coded_error \<Rightarrow> (string \<times> bytes) list" where
  "failure_trailing pb e \<equiv>
     [(HOST_STATUS_DETAILS_KEY, pb_status_bytes pb (status (pb_pack_info pb) e))]"

lemma dispatcher_aborts:
  "fn request = Raise exc \<Longrightarrow> is_exception exc \<Longrightarrow> dispatcher_call rt pb fn request =
     Aborted (grpc_status_code (ce_grpc (travels_as rt exc))) (ce_code (travels_as rt exc))
       (failure_trailing pb (travels_as rt exc))"
  by (cases exc) (simp_all add: dispatcher_call_def Let_def)

lemma trailing_status_found:
  "STATUS_DETAILS_KEY \<notin> fst ` set before \<Longrightarrow>
     trailing_status pb (before @ failure_trailing pb e @ after) =
       pb_status_parse pb (pb_status_bytes pb (status (pb_pack_info pb) e))"
  by (induction before) (auto simp: HOST_STATUS_DETAILS_KEY_def STATUS_DETAILS_KEY_def)

lemma client_reads_back:
  assumes "carries pb e" and "STATUS_DETAILS_KEY \<notin> fst ` set before"
    and "err = raised_at_client code message (failure_trailing pb e) before after"
  obtains x where "rpc_status_of pb err = status (pb_pack_info pb) e"
    and "grpc_error_of pb err = Return x" and "er_class x = Grpc_error code" and "er_code x = ce_code e"
    and "map_of (er_details x) = map_of (ce_extras e)"
proof -
  from assms have st: "rpc_status_of pb err = status (pb_pack_info pb) e"
    using trailing_status_found [OF assms(2), of pb e after]
    by (simp add: rpc_status_of_def raised_at_client_def carries_def)
  from assms(1) obtain m where m: "map_of m = map_of (ce_extras e)"
    and "pb_unpack_info pb (pb_pack_info pb
            \<lparr>ei_reason = ce_code e, ei_domain = ERROR_INFO_DOMAIN, ei_metadata = ce_extras e\<rparr>)
          = Return (Some \<lparr>ei_reason = ce_code e, ei_domain = ERROR_INFO_DOMAIN, ei_metadata = m\<rparr>)"
    by (auto simp: carries_def)
  then have "first_info pb (rs_details (status (pb_pack_info pb) e)) =
      Return (Some \<lparr>ei_reason = ce_code e, ei_domain = ERROR_INFO_DOMAIN, ei_metadata = m\<rparr>)"
    by (simp add: status_def Let_def split: option.split)
  moreover have "re_code err = code" by (simp add: assms(3) raised_at_client_def)
  ultimately show thesis
    using st m by (intro that [of "client_error (Grpc_error code) (ce_code e) (map (\<lambda>(k, v). (k, PStr v)) m)"])
      (simp_all add: grpc_error_def)
qed

text \<open>
  C21: an error raised in a handler reaches the caller of the service whole. Whatever a dispatch
  fails with, the call is aborted under the coded error's status and key, and from the trailing
  metadata the host sets, whatever else the transport puts around it, the client reads back an
  error of the same key, the same arguments and that status, with the refusal object of a typed
  refusal among the status's details; what is no coded error arrives as UNHANDLED_HANDLER_ERROR
  caused by a panic, its own text never leaving the host. (A status number gRPC does not have
  arrives as INTERNAL.)
\<close>

theorem failure_reaches_the_client:
  assumes "fn request = Raise exc" and "is_exception exc"
    and "carries pb (travels_as rt exc)" and "STATUS_DETAILS_KEY \<notin> fst ` set before"
  shows "\<exists>code trailing x. dispatcher_call rt pb fn request =
        Aborted code (ce_code (travels_as rt exc)) trailing
    \<and> code = (if ce_grpc (travels_as rt exc) \<in> {0..16} then ce_grpc (travels_as rt exc) else 13)
    \<and> grpc_error_of pb (raised_at_client code (ce_code (travels_as rt exc)) trailing before after)
        = Return x
    \<and> er_class x = Grpc_error code \<and> er_code x = ce_code (travels_as rt exc)
    \<and> map_of (er_details x) = map_of (ce_extras (travels_as rt exc))
    \<and> (\<forall>r. ce_refusal (travels_as rt exc) = Some r \<longrightarrow>
        r \<in> set (rs_details (rpc_status_of pb
          (raised_at_client code (ce_code (travels_as rt exc)) trailing before after))))"
proof -
  let ?e = "travels_as rt exc"
  let ?code = "grpc_status_code (ce_grpc ?e)"
  obtain x where "rpc_status_of pb (raised_at_client ?code (ce_code ?e) (failure_trailing pb ?e) before after) =
      status (pb_pack_info pb) ?e"
    "grpc_error_of pb (raised_at_client ?code (ce_code ?e) (failure_trailing pb ?e) before after) = Return x"
    "er_class x = Grpc_error ?code" "er_code x = ce_code ?e" "map_of (er_details x) = map_of (ce_extras ?e)"
    by (rule client_reads_back [OF assms(3,4) refl])
  moreover have "dispatcher_call rt pb fn request = Aborted ?code (ce_code ?e) (failure_trailing pb ?e)"
    using assms(1,2) by (rule dispatcher_aborts)
  ultimately show ?thesis
    by (intro exI [of _ ?code] exI [of _ "failure_trailing pb ?e"] exI [of _ x])
      (simp add: grpc_status_code_def, simp add: status_def)
qed

text \<open>For the witness: protobuf functions that know the one status the call fails with.\<close>

definition one_status :: "runtime \<Rightarrow> exn \<Rightarrow> protobuf" where
  "one_status rt exc =
     (let pack = (\<lambda>i. \<lparr>any_type_url = ''/google.rpc.ErrorInfo'', any_value = []\<rparr>) in
      \<lparr>pb_status_bytes = (\<lambda>s. [1]), pb_status_parse = (\<lambda>bs. Some (status pack (travels_as rt exc))),
       pb_pack_info = pack,
       pb_unpack_info = (\<lambda>a. Return (Some \<lparr>ei_reason = ce_code (travels_as rt exc),
         ei_domain = ERROR_INFO_DOMAIN, ei_metadata = ce_extras (travels_as rt exc)\<rparr>))\<rparr>)"

theorem failure_reaches_the_client_witness:
  "\<exists>code trailing x. command_handler_Handle plain_runtime (one_status plain_runtime (Coded broken_answer))
      (Some (Aggregate_component broken_counter) :: (nat, nat) router) (counter_request [0, 1] [1])
      = Aborted code FOLD_FAILED trailing
    \<and> grpc_error_of (one_status plain_runtime (Coded broken_answer))
        (raised_at_client code FOLD_FAILED trailing [(''date'', [])] []) = Return x
    \<and> er_code x = FOLD_FAILED"
proof -
  have f: "dispatch plain_runtime (Some (Aggregate_component broken_counter) :: (nat, nat) router)
      (counter_request [0, 1] [1]) = Raise (Coded broken_answer)"
    using broken_counter_answer by (simp add: dispatch_def hosted_def)
  have "carries (one_status plain_runtime (Coded broken_answer))
      (travels_as plain_runtime (Coded broken_answer))"
    by (simp add: carries_def one_status_def Let_def)
  note c = this
  have k: "STATUS_DETAILS_KEY \<notin> fst ` set [(''date'', [] :: bytes)]"
    by (simp add: STATUS_DETAILS_KEY_def)
  have "ce_code broken_answer = FOLD_FAILED" by (simp add: broken_answer_def)
  with failure_reaches_the_client [where fn = "dispatch plain_runtime
        (Some (Aggregate_component broken_counter) :: (nat, nat) router)" and after = "[]", OF f _ c k]
  show ?thesis
    unfolding command_handler_Handle_def travels_as.simps by auto
qed

end
