(* ===== verification/Child_Properties.thy ===== *)
theory Child_Properties
  imports Child Host_Properties
begin

text \<open>
  The child launch contract (\<open>angzarr_client/child.py\<close>): how a parent classifies the lines it
  reads, which addresses a handshake carries faithfully, what a refused line keeps of its
  bytes, and what running a child does to its stdout, its signals and its host.
\<close>

subsection \<open>Line endings\<close>

definition stripped :: "nat list \<Rightarrow> nat list" where
  "stripped line = removesuffix [13] (removesuffix [10] line)"

lemma removesuffix_snoc [simp]: "removesuffix [x] (s @ [y]) = (if x = y then s else s @ [y])"
  by (auto simp: removesuffix_def startswith_def)

lemma removesuffix_one: "removesuffix [x] s = (if s \<noteq> [] \<and> last s = x then butlast s else s)"
  by (cases s rule: rev_cases) (auto simp: removesuffix_def startswith_Cons)

lemma stripped_lf: "stripped (s @ [10]) = (if s \<noteq> [] \<and> last s = 13 then butlast s else s)"
  by (simp add: stripped_def removesuffix_one)

subsection \<open>The text of a line\<close>

lemma protocol_scheme: "protocol_ok p \<Longrightarrow> lp_scheme p = [117, 110, 105, 120, 58]"
  by (simp add: protocol_ok_def ascii_def)

lemma word_ok_facts:
  assumes "word_ok w"
  shows "w \<noteq> []" "32 \<notin> set w" "10 \<notin> set w" "13 \<notin> set w" "list_all (\<lambda>n. n < 128) w"
  using assms by (auto simp: word_ok_def list_all_iff)

lemma protocol_words:
  assumes "protocol_ok p"
  shows "word_ok (lp_prefix p)" "word_ok (lp_version p)"
    "32 \<notin> set (lp_prefix p)" "32 \<notin> set (lp_version p)" "lp_version p \<noteq> []" "lp_prefix p \<noteq> []"
  using assms word_ok_facts [of "lp_prefix p"] word_ok_facts [of "lp_version p"]
  by (simp_all add: protocol_ok_def)

definition announces :: "launch_protocol \<Rightarrow> ustr \<Rightarrow> ustr \<Rightarrow> bool" where
  "announces p body a \<longleftrightarrow>
     body = lp_prefix p @ [32] @ lp_version p @ [32] @ a \<and> startswith (lp_scheme p) a
       \<and> isabs (removeprefix (lp_scheme p) a) \<and> 10 \<notin> set a"

lemma announces_parts:
  assumes "protocol_ok p" and p1: "partition 32 line = (first, m, rest)" and p2: "partition 32 rest = (version, m', address)"
  shows "announces p line a \<longleftrightarrow>
    first = lp_prefix p \<and> version = lp_version p \<and> a = address \<and> startswith (lp_scheme p) address
      \<and> isabs (removeprefix (lp_scheme p) address) \<and> 10 \<notin> set address"
proof
  note w = protocol_words [OF assms(1)]
  assume a: "announces p line a"
  then have "line = lp_prefix p @ 32 # lp_version p @ 32 # a" by (simp add: announces_def)
  with p1 w have "first = lp_prefix p" "rest = lp_version p @ 32 # a"
    by (simp_all add: partition_append)
  with p2 w a show "first = lp_prefix p \<and> version = lp_version p \<and> a = address
      \<and> startswith (lp_scheme p) address \<and> isabs (removeprefix (lp_scheme p) address) \<and> 10 \<notin> set address"
    by (simp add: partition_append announces_def)
next
  assume r: "first = lp_prefix p \<and> version = lp_version p \<and> a = address
      \<and> startswith (lp_scheme p) address \<and> isabs (removeprefix (lp_scheme p) address) \<and> 10 \<notin> set address"
  with protocol_words [OF assms(1)] protocol_scheme [OF assms(1)] have "address \<noteq> []" "version \<noteq> []"
    by (auto simp: startswith_Cons)
  with p2 have "rest = version @ 32 # address"
    by (auto elim: partition_cases)
  moreover with p1 have "line = first @ 32 # rest"
    by (auto elim: partition_cases)
  ultimately show "announces p line a"
    using r by (simp add: announces_def)
qed

lemma parse_text_cases:
  assumes "protocol_ok p"
  shows "parse_text p line =
    (if fst (partition 32 (stripped line)) \<noteq> lp_prefix p then Inr None
     else if \<exists>a. announces p (stripped line) a
     then Inr (Some (drop (length (lp_prefix p) + length (lp_version p) + 2) (stripped line)))
     else Inl (malformed (stripped line)))"
proof -
  obtain first m rest where p1: "partition 32 (stripped line) = (first, m, rest)"
    by (cases "partition 32 (stripped line)")
  obtain version m' address where p2: "partition 32 rest = (version, m', address)"
    by (cases "partition 32 rest")
  have eq: "parse_text p line =
      (if first \<noteq> lp_prefix p then Inr None
       else if version \<noteq> lp_version p \<or> \<not> startswith (lp_scheme p) address
          \<or> \<not> isabs (removeprefix (lp_scheme p) address) \<or> 10 \<in> set address
       then Inl (malformed (stripped line)) else Inr (Some address))"
    by (simp add: parse_text_def stripped_def [symmetric] p1 p2)
  note iff = announces_parts [OF assms p1 p2]
  have "drop (length (lp_prefix p) + length (lp_version p) + 2) (stripped line) = address"
    if "announces p (stripped line) address"
    using that by (simp add: announces_def)
  moreover have "announces p (stripped line) address \<longleftrightarrow> first = lp_prefix p
      \<and> \<not> (version \<noteq> lp_version p \<or> \<not> startswith (lp_scheme p) address
        \<or> \<not> isabs (removeprefix (lp_scheme p) address) \<or> 10 \<in> set address)"
    unfolding iff by blast
  moreover have "(\<exists>a. announces p (stripped line) a) \<longleftrightarrow> announces p (stripped line) address"
    unfolding iff by blast
  ultimately show ?thesis
    unfolding eq p1 fst_conv by presburger
qed

lemma parse_text_accepts:
  assumes "protocol_ok p"
  shows "parse_text p line = Inr (Some a) \<longleftrightarrow> announces p (stripped line) a"
proof -
  note w = protocol_words [OF assms]
  have "fst (partition 32 (stripped line)) = lp_prefix p" if "announces p (stripped line) a" for a
    using that w(3) by (simp add: announces_def partition_append)
  moreover have "drop (length (lp_prefix p) + length (lp_version p) + 2) (stripped line) = b"
    if "announces p (stripped line) b" for b
    using that by (simp add: announces_def)
  ultimately show ?thesis
    unfolding parse_text_cases [OF assms] by (auto split: if_splits)
qed

subsection \<open>The bytes of a line\<close>

definition strip_bytes :: "bytes \<Rightarrow> bytes" where
  "strip_bytes line = removesuffix [13] (removesuffix [10] line)"

lemma fst_partition: "fst (partition c s) = takeWhile (\<lambda>x. x \<noteq> c) s"
  by (auto simp: partition_def)

lemma removesuffix_utf8:
  assumes "list_all scalar t" and "c < 128"
  shows "removesuffix [of_nat c] (utf8_bytes t) = utf8_bytes (removesuffix [c] t)"
proof (cases t rule: rev_cases)
  case (snoc s n)
  have "last (utf8_bytes t) = of_nat c \<longleftrightarrow> n = c"
    using utf8_bytes_last [OF assms] snoc by simp
  with snoc assms(2) show ?thesis
    by (auto simp: removesuffix_one utf8_bytes_ascii_char)
qed (simp add: removesuffix_one)

lemma scalars_removesuffix: "list_all scalar t \<Longrightarrow> list_all scalar (removesuffix [c] t)"
  by (cases t rule: rev_cases) (auto simp: removesuffix_one)

lemma strip_utf8:
  assumes "list_all scalar t"
  shows "strip_bytes (utf8_bytes t) = utf8_bytes (stripped t)"
    and "list_all scalar (stripped t)"
proof -
  have "removesuffix [10] (utf8_bytes t) = utf8_bytes (removesuffix [10] t)"
    using removesuffix_utf8 [OF assms, of 10] by simp
  moreover have "removesuffix [13] (utf8_bytes (removesuffix [10] t)) =
      utf8_bytes (removesuffix [13] (removesuffix [10] t))"
    using removesuffix_utf8 [OF scalars_removesuffix [OF assms, of 10], of 13] by simp
  ultimately show "strip_bytes (utf8_bytes t) = utf8_bytes (stripped t)"
    unfolding strip_bytes_def stripped_def by metis
  show "list_all scalar (stripped t)"
    unfolding stripped_def by (intro scalars_removesuffix assms)
qed

lemma word_scalar: "word_ok w \<Longrightarrow> list_all scalar w"
proof -
  assume "word_ok w"
  then have "list_all (\<lambda>n. n < 128) w" by (rule word_ok_facts)
  moreover have "n < 128 \<Longrightarrow> scalar n" for n by (simp add: scalar_def surrogate_def)
  ultimately show ?thesis by (simp add: list_all_iff)
qed

lemma scalars_takeWhile: "list_all scalar t \<Longrightarrow> list_all scalar (takeWhile P t)"
  by (auto simp: list_all_iff dest: set_takeWhileD)

text \<open>
  A UTF-8 line read as bytes is the text read without its ending, whose end the reading as text
  strips once more.
\<close>

lemma parse_bytes_text:
  assumes p: "protocol_ok p" and t: "list_all scalar t"
  shows "parse_bytes p (utf8_bytes t) =
      (if fst (partition 32 (stripped t)) \<noteq> lp_prefix p then Inr None else parse_text p (stripped t))"
proof -
  note st = strip_utf8 [OF t]
  have "fst (partition 32 (utf8_bytes (stripped t))) = utf8_bytes (takeWhile (\<lambda>n. n \<noteq> 32) (stripped t))"
    using takeWhile_utf8 [OF st(2), of 32] by (simp add: fst_partition)
  then have first: "fst (partition 32 (utf8_bytes (stripped t))) = utf8_bytes (lp_prefix p) \<longleftrightarrow>
      fst (partition 32 (stripped t)) = lp_prefix p"
    using utf8_bytes_inject [OF scalars_takeWhile [OF st(2)] word_scalar [OF protocol_words(1) [OF p]]]
    by (simp add: fst_partition)
  have dec: "utf8_decode (utf8_bytes (stripped t)) = Some (stripped t)"
    using st(2) by (intro decode_encode) (simp add: utf8_encode_def)
  show ?thesis
    unfolding parse_bytes_def Let_def strip_bytes_def [symmetric] st(1) first dec by simp
qed

text \<open>
  So the two readings differ on a path that ends in a carriage return under a CR LF ending: as
  text it is read whole, as bytes it loses its last character.
\<close>

lemma bytes_lose_a_second_ending:
  "parse_handshake documented_protocol (Line (ascii ''angzarr-handshake v1 unix:/a'' @ [13, 13, 10]))
     = Inr (Some (ascii ''unix:/a'' @ [13]))"
  "parse_handshake documented_protocol
     (Raw (utf8_bytes (ascii ''angzarr-handshake v1 unix:/a'' @ [13, 13, 10])))
     = Inr (Some (ascii ''unix:/a''))"
  by code_simp+

subsection \<open>What a refused line keeps\<close>

definition unhex :: "nat \<Rightarrow> nat" where
  "unhex c = (if c < 58 then c - 48 else c - 87)"

fun unescape :: "ustr \<Rightarrow> nat list" where
  "unescape [] = []"
| "unescape (c # r) =
     (if c = 92
      then (case r of _ # a # b # r' \<Rightarrow> (16 * unhex a + unhex b) # unescape r' | _ \<Rightarrow> [c])
      else c # unescape r)"

lemma unhex_digit [simp]: "d < 16 \<Longrightarrow> unhex (hex_digit d) = d"
  by (auto simp: unhex_def hex_digit_def)

lemma unescape_byte: "b < 256 \<Longrightarrow> unescape (escaped_byte b @ r) = b # unescape r"
  by (cases "b = 92") (auto simp: escaped_byte_def less_mult_imp_div_less)

lemma unescape_bytes:
  "unescape (concat (map (\<lambda>b. escaped_byte (unat b)) (raw :: bytes))) = map unat raw"
proof (induction raw)
  case (Cons b raw)
  have "unat b < 256" using unsigned_less [where 'a = nat and 'b = 8, of b] by simp
  with Cons show ?case by (simp add: unescape_byte)
qed simp

lemma escaped_inject:
  assumes "escaped_line a = escaped_line b" and "utf8_decode a = None \<longleftrightarrow> utf8_decode b = None"
  shows "a = b"
proof (cases "utf8_decode a")
  case None
  with assms have "map unat a = map unat b"
    using unescape_bytes by (metis (no_types, lifting) escaped_line_def option.simps(4))
  then show ?thesis by (metis of_nat_map_unat list.map_comp)
next
  case (Some t)
  with assms obtain u where "utf8_decode b = Some u" by auto
  with assms(1) Some show ?thesis by (auto simp: escaped_line_def intro: utf8_decode_inject)
qed

subsection \<open>The launch\<close>

text \<open>The host was SERVING at one of the looks taken before the first wait that ended in a stop.\<close>

definition serving_within :: "poll list \<Rightarrow> ('st, 'pr) host \<Rightarrow> bool" where
  "serving_within polls h \<longleftrightarrow>
     (\<exists>n \<le> length polls. (\<forall>w \<in> set (take n polls). \<not> pl_stop w)
        \<and> health_status (fold host_tick (concat (map pl_ticks (take n polls))) h) [] = Some SERVING)"

lemma serving_within_Nil: "serving_within [] h \<longleftrightarrow> health_status h [] = Some SERVING"
  by (simp add: serving_within_def)

lemma serving_within_Cons:
  "serving_within (w # ws) h \<longleftrightarrow> health_status h [] = Some SERVING
     \<or> \<not> pl_stop w \<and> serving_within ws (fold host_tick (pl_ticks w) h)" (is "?l \<longleftrightarrow> ?r")
proof
  assume ?l
  then obtain n where n: "n \<le> length (w # ws)" "\<forall>x \<in> set (take n (w # ws)). \<not> pl_stop x"
    "health_status (fold host_tick (concat (map pl_ticks (take n (w # ws)))) h) [] = Some SERVING"
    by (auto simp: serving_within_def)
  then show ?r
    by (cases n) (auto simp: serving_within_def intro: exI [of _ "n - 1"])
next
  assume ?r
  then consider "health_status h [] = Some SERVING"
    | m where "\<not> pl_stop w" "m \<le> length ws" "\<forall>x \<in> set (take m ws). \<not> pl_stop x"
        "health_status (fold host_tick (concat (map pl_ticks (take m ws)))
           (fold host_tick (pl_ticks w) h)) [] = Some SERVING"
    by (auto simp: serving_within_def)
  then show ?l
  proof cases
    case 1
    then show ?thesis by (auto simp: serving_within_def intro!: exI [of _ 0])
  next
    case 2
    then show ?thesis by (auto simp: serving_within_def intro!: exI [of _ "Suc m"])
  qed
qed

lemma await_serving_sound:
  "await_serving polls h = Some (served, h', ws) \<Longrightarrow>
     (served \<longleftrightarrow> serving_within polls h) \<and> (\<exists>ts. h' = fold host_tick ts h)"
proof (induction polls arbitrary: h)
  case Nil
  then show ?case by (auto simp: serving_within_Nil split: if_splits intro: exI [of _ "[]"])
next
  case (Cons w polls)
  show ?case
  proof (cases "health_status h [] = Some SERVING \<or> pl_stop w")
    case True
    with Cons.prems show ?thesis
      by (auto simp: serving_within_Cons Let_def split: if_splits intro: exI [of _ "[]"])
  next
    case False
    with Cons.prems have "await_serving polls (fold host_tick (pl_ticks w) h) = Some (served, h', ws)"
      by (simp add: Let_def)
    from Cons.IH [OF this] obtain ts where
      "served \<longleftrightarrow> serving_within polls (fold host_tick (pl_ticks w) h)"
      "h' = fold host_tick ts (fold host_tick (pl_ticks w) h)" by auto
    with False show ?thesis
      by (auto simp: serving_within_Cons intro: exI [of _ "pl_ticks w @ ts"])
  qed
qed

lemma serve_until_stopped_sound:
  "serve_until_stopped polls h = Some h' \<Longrightarrow> \<exists>ts. h' = fold host_tick ts h"
proof (induction polls arbitrary: h)
  case (Cons w polls)
  then show ?case
    by (auto simp: Let_def split: if_splits intro: exI [of _ "pl_ticks w"])
      (metis fold_append comp_apply)
qed simp

lemma serve_until_stopped_None: "serve_until_stopped polls h = None \<longleftrightarrow> (\<forall>w \<in> set polls. \<not> pl_stop w)"
  by (induction polls arbitrary: h) (auto simp: Let_def)

lemma await_serving_rest:
  "await_serving polls h = Some (served, h', ws) \<Longrightarrow>
     (served \<longrightarrow> ((\<exists>w \<in> set ws. pl_stop w) \<longleftrightarrow> (\<exists>w \<in> set polls. pl_stop w)))
     \<and> (\<not> served \<longrightarrow> (\<exists>w \<in> set polls. pl_stop w))"
  by (induction polls arbitrary: h) (auto simp: Let_def split: if_splits)

lemma await_serving_None: "await_serving polls h = None \<Longrightarrow> \<forall>w \<in> set polls. \<not> pl_stop w"
  by (induction polls arbitrary: h) (auto simp: Let_def split: if_splits)

lemma host_ticks_inv: "host_inv v (h, fs) \<Longrightarrow> host_inv v (fold host_tick ts h, fs)"
  by (induction ts arbitrary: h) (auto intro: host_tick_inv)

lemma host_ticks_flags [simp]:
  "ho_stopped (fold host_tick ts h) = ho_stopped h"
  "ho_running (fold host_tick ts h) = ho_running h"
  by (induction ts arbitrary: h) (auto simp: host_tick_def split: option.split)

text \<open>However the launch ends, the host was started, may have ticked, and was stopped.\<close>

lemma stopped_after_start:
  assumes "host_inv v (h, fs)" and "\<not> ho_stopped h"
    and "host_start env address outcome (h, fs) = (r, h1, fs1)"
    and "host_stop (fold host_tick ts h1, fs1) = (h2, fs2)"
  shows "ho_stopped h2 \<and> \<not> ho_running h2 \<and> (\<forall>name. health_status h2 name \<noteq> Some SERVING)"
proof -
  have "host_inv v (h1, fs1)"
    using host_start_inv [OF assms(1), of env address outcome] assms(3) by simp
  then have "host_inv v (h2, fs2)"
    using host_stop_inv [OF host_ticks_inv, of v h1 fs1 ts] assms(4) by simp
  then have inv: "health_inv h2" by (simp add: host_inv_def)
  have "ho_stopped h1 = ho_stopped h"
  proof (cases "start_guard h")
    case (Some e)
    with assms(3) show ?thesis by (simp add: host_start_def)
  next
    case None
    then obtain addr fs' where "host_start env address outcome (h, fs) =
        (case serve addr outcome (h\<lparr>ho_running := True\<rparr>) of
           (Inr bound, h') \<Rightarrow> (Inr bound, h'\<lparr>ho_address := bound\<rparr>, fs')
         | (Inl exc, h') \<Rightarrow> (Inl (Other_failure exc), shutdown_loop h', fs'))"
      by (rule host_start_eq)
    with assms(3) show ?thesis
      by (cases rule: serve_cases [of addr outcome "h\<lparr>ho_running := True\<rparr>"])
        (auto simp: shutdown_loop_def)
  qed
  with assms(2,4) have "ho_stopped h2 \<and> \<not> ho_running h2"
    by (auto simp: host_stop_def stop_server_def Let_def close_owned_router_def shutdown_loop_def split: if_splits)
  with inv show ?thesis by (auto simp: health_inv_def)
qed

lemma text_bytes_host_text [simp]: "text_bytes (host_text raw) = raw"
proof -
  have "(of_nat (of_char (char_of (unat b) :: char)) :: 8 word) = b" for b :: "8 word"
  proof -
    have "unat b < 256" using unsigned_less [where 'a = nat and 'b = 8, of b] by simp
    then show ?thesis by simp
  qed
  then show ?thesis by (simp add: text_bytes_def host_text_def map_idI)
qed

lemma host_text_scheme:
  "startswith ''unix:'' (host_text (utf8_bytes ([117, 110, 105, 120, 58] @ t)))"
proof -
  have "host_text (utf8_bytes [117, 110, 105, 120, 58]) = ''unix:''" by code_simp
  then show ?thesis by (simp add: host_text_def utf8_bytes_append del: append.simps)
qed

text \<open>A start on a Unix address that succeeds answers the address it was given.\<close>

lemma host_start_unix:
  assumes "host_start env (Some a) outcome (h, fs) = (Inr bound, h1, fs1)"
    and "startswith ''unix:'' a"
  shows "bound = a"
proof -
  from assms(1) have "start_guard h = None" by (auto simp: host_start_def split: option.splits)
  with assms have "fst (serve a outcome (h\<lparr>ho_running := True\<rparr>)) = Inr bound"
    by (auto simp: host_start_def split: prod.splits sum.splits)
  with assms(2) show ?thesis
    by (cases rule: serve_cases [of a outcome "h\<lparr>ho_running := True\<rparr>"])
      (auto simp: serve_def bound_address_def Let_def split: serve_outcome.splits)
qed

lemma documented_ok: "protocol_ok documented_protocol"
  by (simp add: protocol_ok_def word_ok_def documented_protocol_def ascii_def)

subsection \<open>Properties\<close>

text \<open>
  A line is classified as the protocol says. Text whose first word, its LF or CR LF ending
  aside, is not the prefix is no handshake; else it is accepted exactly when it is the prefix,
  the version and an absolute path under the scheme, with no newline in it, the address being
  the rest of the line; every other line is refused under its key with the line. Bytes that are
  not UTF-8 are refused too, and the line kept in the refusal tells which bytes they were.
\<close>

theorem lines_are_classified:
  assumes "protocol_ok p"
  shows "parse_handshake p (Line line) =
      (if takeWhile (\<lambda>c. c \<noteq> 32) (stripped line) \<noteq> lp_prefix p then Inr None
       else if \<exists>a. announces p (stripped line) a
       then Inr (Some (drop (length (lp_prefix p) + length (lp_version p) + 2) (stripped line)))
       else Inl (malformed (stripped line)))
    \<and> (utf8_decode (strip_bytes raw) = None \<longrightarrow> parse_handshake p (Raw raw) =
        (if takeWhile (\<lambda>b. b \<noteq> 32) (strip_bytes raw) \<noteq> utf8_bytes (lp_prefix p) then Inr None
         else Inl (malformed (escaped_line (strip_bytes raw))))
      \<and> unescape (escaped_line (strip_bytes raw)) = map unat (strip_bytes raw))"
proof -
  have "parse_handshake p (Line line) =
      (if takeWhile (\<lambda>c. c \<noteq> 32) (stripped line) \<noteq> lp_prefix p then Inr None
       else if \<exists>a. announces p (stripped line) a
       then Inr (Some (drop (length (lp_prefix p) + length (lp_version p) + 2) (stripped line)))
       else Inl (malformed (stripped line)))"
    using parse_text_cases [OF assms, of line]
    by (simp only: parse_handshake_def handshake_input.case fst_partition)
  moreover have "parse_handshake p (Raw raw) =
      (if takeWhile (\<lambda>b. b \<noteq> 32) (strip_bytes raw) \<noteq> utf8_bytes (lp_prefix p) then Inr None
       else Inl (malformed (escaped_line (strip_bytes raw))))"
    and "unescape (escaped_line (strip_bytes raw)) = map unat (strip_bytes raw)"
    if "utf8_decode (strip_bytes raw) = None"
    using that unescape_bytes [of "strip_bytes raw"]
    by (simp_all only: parse_handshake_def handshake_input.case parse_bytes_def Let_def
        strip_bytes_def [symmetric] fst_partition option.case escaped_line_def)
  ultimately show ?thesis by blast
qed

theorem lines_are_classified_witness:
  "parse_handshake documented_protocol (Line (ascii ''angzarr-handshake v2 unix:/a''))
     = Inl (malformed (ascii ''angzarr-handshake v2 unix:/a''))"
proof -
  let ?l = "ascii ''angzarr-handshake v2 unix:/a''"
  have s: "stripped ?l = ?l" by code_simp
  have t: "takeWhile (\<lambda>c. c \<noteq> 32) ?l = lp_prefix documented_protocol" by code_simp
  have "\<not> announces documented_protocol ?l a" for a
    by (simp add: announces_def documented_protocol_def ascii_def)
  then show ?thesis
    using lines_are_classified [OF documented_ok, of ?l "[]"] by (simp add: s t)
qed

text \<open>
  C26: the address a child announces is the address its parent reads, from the line as text and
  from its bytes alike, exactly when the path holds no newline and does not end in a carriage
  return; then nothing else of it matters, spaces and any other character included.
\<close>

theorem handshake_read_back:
  assumes "protocol_ok p" and "startswith (lp_scheme p) a"
    and "isabs (removeprefix (lp_scheme p) a)" and "list_all scalar a"
  shows "(parse_handshake p (Line (handshake_line p a)) = Inr (Some a) \<longleftrightarrow> 10 \<notin> set a \<and> last a \<noteq> 13)
    \<and> (parse_handshake p (Raw (utf8_bytes (handshake_line p a))) = Inr (Some a)
         \<longleftrightarrow> 10 \<notin> set a \<and> last a \<noteq> 13)"
proof -
  note w = protocol_words [OF assms(1)]
  let ?pre = "lp_prefix p @ [32] @ lp_version p @ [32]"
  have line: "handshake_line p a = (?pre @ a) @ [10]" by (simp add: handshake_line_def)
  have ne: "a \<noteq> []" using assms(2) protocol_scheme [OF assms(1)] by (auto simp: startswith_Cons)
  have sc: "list_all scalar (handshake_line p a)"
    using w(1,2) assms(4) word_scalar by (simp add: handshake_line_def scalar_def surrogate_def)
  have st: "stripped (handshake_line p a) = (if last a = 13 then ?pre @ butlast a else ?pre @ a)"
    using ne unfolding line stripped_lf by (simp add: butlast_append)
  have as_text: "parse_text p (handshake_line p a) = Inr (Some a) \<longleftrightarrow> 10 \<notin> set a \<and> last a \<noteq> 13"
    unfolding parse_text_accepts [OF assms(1)] st using assms(2,3) ne
    by (auto simp: announces_def) (metis append_butlast_last_id not_Cons_self2 self_append_conv)
  have first: "fst (partition 32 (stripped (handshake_line p a))) = lp_prefix p"
    unfolding st using w(3) by (simp add: partition_append)
  have "parse_bytes p (utf8_bytes (handshake_line p a)) = Inr (Some a) \<longleftrightarrow>
      announces p (stripped (stripped (handshake_line p a))) a"
    using parse_bytes_text [OF assms(1) sc] parse_text_accepts [OF assms(1)] first by simp
  also have "\<dots> \<longleftrightarrow> 10 \<notin> set a \<and> last a \<noteq> 13"
  proof (cases "10 \<in> set a \<or> last a = 13")
    case False
    have "last a \<noteq> 10" using False ne by (metis last_in_set)
    then have "stripped (?pre @ a) = ?pre @ a"
      using False ne by (simp add: stripped_def removesuffix_one)
    with False st assms(2,3) show ?thesis by (simp add: announces_def)
  next
    case True
    have "length (stripped s) \<le> length s" for s
      by (simp add: stripped_def removesuffix_one)
    then have "length (stripped (stripped (handshake_line p a))) \<le> length (?pre @ butlast a)"
      if "last a = 13" using that st by metis
    moreover have "length (?pre @ butlast a) < length (?pre @ a)" using ne by simp
    ultimately have "stripped (stripped (handshake_line p a)) \<noteq> ?pre @ a" if "last a = 13"
      using that by (metis linorder_not_less)
    with True show ?thesis by (auto simp: announces_def)
  qed
  finally show ?thesis using as_text by (simp add: parse_handshake_def)
qed

theorem handshake_read_back_witness:
  "parse_handshake documented_protocol
     (Raw (utf8_bytes (handshake_line documented_protocol (ascii ''unix:/tmp/my app.sock''))))
   = Inr (Some (ascii ''unix:/tmp/my app.sock''))"
proof -
  let ?a = "ascii ''unix:/tmp/my app.sock''"
  have "startswith (lp_scheme documented_protocol) ?a" by code_simp
  moreover have "isabs (removeprefix (lp_scheme documented_protocol) ?a)" by code_simp
  moreover have "list_all scalar ?a" by (simp add: ascii_def scalar_def surrogate_def)
  moreover have "10 \<notin> set ?a \<and> last ?a \<noteq> 13" by code_simp
  ultimately show ?thesis using handshake_read_back [OF documented_ok] by blast
qed

text \<open>
  The policy host of the examples, run as a child whose first wait sees its transport bound and
  whose third ends with stdin closed; its path is given relative, and made absolute.
\<close>

definition shell :: os_view where
  "shell = \<lparr>ov_env = [''ANGZARR_SOCKET'' \<mapsto> ascii ''run/../p.sock''], ov_cwd = ascii ''/srv'',
     ov_tempdir = ascii ''/tmp'', ov_fresh = ascii ''angzarr-1-0a.sock''\<rparr>"

definition plain_process :: "nat process" where
  "plain_process = \<lparr>pc_fd1 = Stdout, pc_handshake_fd = False, pc_stdout = [],
     pc_sigterm = Installed 1, pc_sigint = Installed 2\<rparr>"

definition three_waits :: "poll list" where
  "three_waits = [\<lparr>pl_ticks = [[transport_check True]], pl_stop = False\<rparr>,
     \<lparr>pl_ticks = [], pl_stop = False\<rparr>, \<lparr>pl_ticks = [], pl_stop = True\<rparr>]"

lemma shell_path:
  "lp_scheme documented_protocol @ resolve_socket_path documented_protocol shell None
     = ascii ''unix:/srv/p.sock''"
  by code_simp

lemma shell_address: "host_text (utf8_bytes (ascii ''unix:/srv/p.sock'')) = ''unix:/srv/p.sock''"
  by code_simp

definition started_child :: "(nat, nat) host" where
  "started_child = fst (snd (host_start Map.empty (Some ''unix:/srv/p.sock'') (Bound_port 2)
     (counter_host, no_files)))"

lemma started_child_eq:
  "host_start Map.empty (Some ''unix:/srv/p.sock'') (Bound_port 2) (counter_host, no_files)
     = (Inr ''unix:/srv/p.sock'', started_child, no_files)"
  "health_status started_child [] = Some NOT_SERVING"
  "health_status (host_tick [transport_check True] started_child) [] = Some SERVING"
  by (simp_all add: started_child_def host_start_def start_guard_def counter_host_sel serve_def
      bound_address_def address_socket_path_def removeprefix_def startswith_Cons Let_def
      health_status_publish host_tick_def tick_status transport_check_def)

lemma counter_child_serving: "serving_within three_waits started_child"
  by (simp add: three_waits_def serving_within_Cons started_child_eq)

lemma counter_child_run:
  "run_child documented_protocol shell None (Bound_port 2) three_waits plain_process
     (counter_host, no_files) \<noteq> None"
  unfolding run_child_def Let_def shell_path
  by (simp add: utf8_encode_def ascii_def scalar_def surrogate_def three_waits_def started_child_eq
      shell_address [unfolded ascii_def, simplified])

lemma announced_line:
  "utf8_bytes (lp_prefix p) @ [32] @ utf8_bytes (lp_version p) @ [32] @ text_bytes (host_text (utf8_bytes a)) @ [10] =
     utf8_bytes (handshake_line p a)"
proof -
  have "utf8_bytes [32] = [32]" "utf8_bytes [10] = [10]" by code_simp+
  then show ?thesis by (simp only: handshake_line_def utf8_bytes_append text_bytes_host_text)
qed

text \<open>
  C23: the launch contract. A child returns its process as it found it but for file descriptor 1,
  which stays on stderr. A socket path that is not UTF-8 is refused before anything is bound,
  nothing being written. Otherwise the child writes nothing to stdout but the one handshake line
  of its address, and that exactly when its host started and was SERVING before the first wait
  that ended in a stop; and however it ends the host is stopped, with nothing left SERVING.
\<close>

theorem child_contract:
  assumes "protocol_ok p" and "reachable rt version h" and "\<not> ho_stopped h"
    and "run_child p os path outcome polls pc (h, fs) = Some (err, pc', h', fs')"
    and "a = lp_scheme p @ resolve_socket_path p os path"
  shows "pc_sigterm pc' = pc_sigterm pc \<and> pc_sigint pc' = pc_sigint pc
    \<and> (if list_all scalar a
       then pc_fd1 pc' = Stderr \<and> \<not> pc_handshake_fd pc'
         \<and> host_wait h' \<and> \<not> ho_running h' \<and> (\<forall>name. health_status h' name \<noteq> Some SERVING)
         \<and> (case host_start Map.empty (Some (host_text (utf8_bytes a))) outcome (h, fs) of
              (Inl e, _) \<Rightarrow> err = Some (Host_failed e) \<and> pc_stdout pc' = pc_stdout pc
            | (Inr _, started, _) \<Rightarrow> err = None
                \<and> pc_stdout pc' = pc_stdout pc @
                    (if serving_within polls started then utf8_bytes (handshake_line p a) else []))
       else pc' = pc \<and> h' = h \<and> fs' = fs \<and>
         (err = Some (Unencodable a) \<or>
          (\<exists>line. err = Some (Refused (malformed (escaped_line (removesuffix [10] line))))
             \<and> surrogateescape_encode (handshake_line p a) = Some line)))"
proof (cases "list_all scalar a")
  case False
  with assms(4,5) show ?thesis
    by (auto simp: run_child_def utf8_encode_def Let_def split: option.splits)
next
  case True
  obtain fs0 where "host_inv version (h, fs0)" using assms(2) by (rule reachable_inv)
  then have inv: "host_inv version (h, fs)"
    by (simp add: host_inv_def registered_inv_def)
  obtain r h1 fs1 where st: "host_start Map.empty (Some (host_text (utf8_bytes a))) outcome (h, fs) = (r, h1, fs1)"
    by (cases "host_start Map.empty (Some (host_text (utf8_bytes a))) outcome (h, fs)")
  have enc: "utf8_encode a = Some (utf8_bytes a)" using True by (simp add: utf8_encode_def)
  note run = assms(4) [unfolded run_child_def Let_def assms(5) [symmetric] enc option.case st prod.case]
  have stopped: "ho_stopped h' \<and> \<not> ho_running h' \<and> (\<forall>name. health_status h' name \<noteq> Some SERVING)"
    if "host_stop (fold host_tick ts h1, fs1) = (h', fs')" for ts
    using stopped_after_start [OF inv assms(3) st that] .
  show ?thesis
  proof (cases r)
    case (Inl e)
    with run stopped [of "[]"] show ?thesis
      by (auto simp: True st restore_def redirect_def host_wait_def)
  next
    case (Inr bound)
    from run Inr obtain served h2 ws where aw: "await_serving polls h1 = Some (served, h2, ws)"
      by (auto split: option.splits)
    obtain ts where served: "served \<longleftrightarrow> serving_within polls h1" and h2: "h2 = fold host_tick ts h1"
      using await_serving_sound [OF aw] by auto
    show ?thesis
    proof (cases served)
      case False
      with run Inr aw stopped [of ts] show ?thesis
        by (auto simp: True st restore_def redirect_def host_wait_def h2 served)
    next
      case True
      with run Inr aw obtain h3 where sv: "serve_until_stopped ws h2 = Some h3"
        by (auto split: option.splits)
      obtain us where "h3 = fold host_tick us h2" using serve_until_stopped_sound [OF sv] by auto
      then have h3: "h3 = fold host_tick (ts @ us) h1" by (simp add: h2)
      have "bound = host_text (utf8_bytes a)"
        using st Inr host_text_scheme [of "resolve_socket_path p os path"]
        by (intro host_start_unix) (simp_all add: assms(5) protocol_scheme [OF assms(1)])
      note line = announced_line [of p a, folded this]
      from line run Inr aw sv True stopped [of "ts @ us"] \<open>list_all scalar a\<close> show ?thesis
        by (auto simp: st restore_def redirect_def announce_def host_wait_def h3 served)
    qed
  qed
qed

theorem child_contract_witness:
  "\<exists>pc' h' fs'. run_child documented_protocol shell None (Bound_port 2) three_waits plain_process
       (counter_host, no_files) = Some (None, pc', h', fs')
     \<and> pc_stdout pc' = map (\<lambda>c. of_nat (of_char c)) ''angzarr-handshake v1 unix:/srv/p.sock'' @ [10]
     \<and> pc_fd1 pc' = Stderr \<and> host_wait h'"
proof -
  obtain err pc' h' fs' where run: "run_child documented_protocol shell None (Bound_port 2)
      three_waits plain_process (counter_host, no_files) = Some (err, pc', h', fs')"
    using counter_child_run by auto
  have sc: "list_all scalar (ascii ''unix:/srv/p.sock'')"
    by (simp add: ascii_def scalar_def surrogate_def)
  have line: "utf8_bytes (handshake_line documented_protocol (ascii ''unix:/srv/p.sock''))
      = map (\<lambda>c. of_nat (of_char c)) ''angzarr-handshake v1 unix:/srv/p.sock'' @ [10]"
    by code_simp
  have "\<not> ho_stopped counter_host" by (simp add: counter_host_sel)
  from child_contract [OF documented_ok reachable_counter_host this run shell_path [symmetric]]
  have "err = None" "pc_stdout pc' = map (\<lambda>c. of_nat (of_char c)) ''angzarr-handshake v1 unix:/srv/p.sock'' @ [10]"
    "pc_fd1 pc' = Stderr" "host_wait h'"
    by (simp_all only: sc shell_address started_child_eq line if_True prod.case sum.case
        counter_child_serving)
      (simp add: plain_process_def)
  with run show ?thesis by auto
qed

lemma run_child_returns:
  "run_child p os path outcome polls pc (h, fs) = None \<longleftrightarrow>
     list_all scalar (lp_scheme p @ resolve_socket_path p os path)
   \<and> (\<exists>bound started fs1. host_start Map.empty
        (Some (host_text (utf8_bytes (lp_scheme p @ resolve_socket_path p os path)))) outcome (h, fs)
          = (Inr bound, started, fs1))
   \<and> (\<forall>w \<in> set polls. \<not> pl_stop w)"
proof (cases "list_all scalar (lp_scheme p @ resolve_socket_path p os path)")
  case False
  then show ?thesis by (auto simp: run_child_def utf8_encode_def Let_def split: option.splits)
next
  case True
  let ?a = "lp_scheme p @ resolve_socket_path p os path"
  have enc: "utf8_encode ?a = Some (utf8_bytes ?a)" using True by (simp add: utf8_encode_def)
  obtain r h1 fs1 where st: "host_start Map.empty (Some (host_text (utf8_bytes ?a))) outcome (h, fs) = (r, h1, fs1)"
    by (cases "host_start Map.empty (Some (host_text (utf8_bytes ?a))) outcome (h, fs)")
  show ?thesis
  proof (cases r)
    case (Inl e)
    with st show ?thesis unfolding run_child_def Let_def enc by simp
  next
    case (Inr bound)
    have "run_child p os path outcome polls pc (h, fs) = None \<longleftrightarrow>
        (case await_serving polls h1 of None \<Rightarrow> True
         | Some (served, h2, ws) \<Rightarrow> served \<and> serve_until_stopped ws h2 = None)"
      unfolding run_child_def Let_def enc option.case st Inr
      by (auto split: option.splits bool.splits)
    also have "\<dots> \<longleftrightarrow> (\<forall>w \<in> set polls. \<not> pl_stop w)"
    proof (cases "await_serving polls h1")
      case None
      then show ?thesis using await_serving_None by auto
    next
      case (Some x)
      then obtain served h2 ws where aw: "await_serving polls h1 = Some (served, h2, ws)"
        by (cases x) auto
      then show ?thesis
        using await_serving_rest [OF aw] by (auto simp: serve_until_stopped_None)
    qed
    finally show ?thesis using True st Inr by simp
  qed
qed

text \<open>
  C24: a child ends when it is asked to. It has not returned after the waits it made only while
  its host started, its path being UTF-8, and none of them ended with stdin closed or a signal
  come; so any wait that does end so, before the host is SERVING or after, ends the child.
\<close>

theorem child_returns_when_asked:
  "run_child p os path outcome polls pc (h, fs) = None \<longleftrightarrow>
     list_all scalar (lp_scheme p @ resolve_socket_path p os path)
   \<and> (\<exists>bound started fs1. host_start Map.empty
        (Some (host_text (utf8_bytes (lp_scheme p @ resolve_socket_path p os path)))) outcome (h, fs)
          = (Inr bound, started, fs1))
   \<and> (\<forall>w \<in> set polls. \<not> pl_stop w)"
  by (rule run_child_returns)

theorem child_returns_when_asked_witness:
  "run_child documented_protocol shell None (Bound_port 2) (take 2 three_waits) plain_process
     (counter_host, no_files) = None
   \<and> run_child documented_protocol shell None (Bound_port 2) three_waits plain_process
     (counter_host, no_files) \<noteq> None"
proof -
  have "list_all scalar (ascii ''unix:/srv/p.sock'')"
    by (simp add: ascii_def scalar_def surrogate_def)
  moreover have "\<forall>w \<in> set (take 2 three_waits). \<not> pl_stop w" "\<not> (\<forall>w \<in> set three_waits. \<not> pl_stop w)"
    by (simp_all add: three_waits_def)
  ultimately show ?thesis
    unfolding child_returns_when_asked shell_path shell_address started_child_eq by auto
qed

end
