(* ===== verification/Child_Watch.thy ===== *)
theory Child_Watch
  imports Child_Properties
begin

text \<open>
  The thread that watches a child's stdin (\<open>angzarr_client/child.py\<close>, \<open>_watch_stdin\<close>): a loop that
  need not end, and what it makes of the child's waits. The reads are a sequence, one outcome for
  each call of \<open>os.read\<close>; the loop returns, with the number of the read it returned at, or does not.
\<close>

datatype read_result = Chunk bytes | Read_fails

partial_function (option) watch_stdin :: "(nat \<Rightarrow> read_result) \<Rightarrow> nat \<Rightarrow> nat option" where
  "watch_stdin reads k =
     (case reads k of
        Chunk data \<Rightarrow> if data \<noteq> [] then watch_stdin reads (Suc k) else Some k
      | Read_fails \<Rightarrow> Some k)"

text \<open>A read that ends the loop: the end of the file, or a failure.\<close>

definition ends_watch :: "read_result \<Rightarrow> bool" where
  "ends_watch r \<longleftrightarrow> r = Chunk [] \<or> r = Read_fails"

lemma watch_stdin_step:
  "watch_stdin reads k = (if ends_watch (reads k) then Some k else watch_stdin reads (Suc k))"
  by (subst watch_stdin.simps) (auto simp: ends_watch_def split: read_result.split)

lemma watch_stdin_sound:
  assumes "watch_stdin reads k = Some n"
  shows "k \<le> n \<and> ends_watch (reads n) \<and> (\<forall>j. k \<le> j \<and> j < n \<longrightarrow> \<not> ends_watch (reads j))"
proof (rule watch_stdin.raw_induct [where P = "\<lambda>reads k n. k \<le> n \<and> ends_watch (reads n)
    \<and> (\<forall>j. k \<le> j \<and> j < n \<longrightarrow> \<not> ends_watch (reads j))", OF _ assms])
  fix watch :: "(nat \<Rightarrow> read_result) \<Rightarrow> nat \<Rightarrow> nat option" and reads k n
  assume IH: "\<And>reads k n. watch reads k = Some n \<Longrightarrow>
      k \<le> n \<and> ends_watch (reads n) \<and> (\<forall>j. k \<le> j \<and> j < n \<longrightarrow> \<not> ends_watch (reads j))"
    and eq: "(case reads k of Chunk data \<Rightarrow> if data \<noteq> [] then watch reads (Suc k) else Some k
      | Read_fails \<Rightarrow> Some k) = Some n"
  show "k \<le> n \<and> ends_watch (reads n) \<and> (\<forall>j. k \<le> j \<and> j < n \<longrightarrow> \<not> ends_watch (reads j))"
  proof (cases "ends_watch (reads k)")
    case True
    with eq have "n = k" by (auto simp: ends_watch_def)
    with True show ?thesis by (simp add: not_less [symmetric])
  next
    case False
    with eq have "watch reads (Suc k) = Some n"
      by (auto simp: ends_watch_def split: read_result.splits if_splits)
    from IH [OF this] have n: "Suc k \<le> n" "ends_watch (reads n)"
      "\<And>j. Suc k \<le> j \<Longrightarrow> j < n \<Longrightarrow> \<not> ends_watch (reads j)" by auto
    have "\<not> ends_watch (reads j)" if "k \<le> j" "j < n" for j
      using n(3) [of j] that False by (cases "j = k") auto
    with n show ?thesis by simp
  qed
qed

lemma watch_stdin_returns:
  "ends_watch (reads (k + d)) \<Longrightarrow> watch_stdin reads k \<noteq> None"
proof (induction d arbitrary: k)
  case 0
  then show ?case by (subst watch_stdin_step) simp
next
  case (Suc d)
  then have "watch_stdin reads (Suc k) \<noteq> None" by simp
  then show ?case by (subst watch_stdin_step) simp
qed

lemma watch_stdin_iff:
  "watch_stdin reads 0 = Some n \<longleftrightarrow> ends_watch (reads n) \<and> (\<forall>j < n. \<not> ends_watch (reads j))"
proof
  assume "watch_stdin reads 0 = Some n"
  from watch_stdin_sound [OF this] show "ends_watch (reads n) \<and> (\<forall>j < n. \<not> ends_watch (reads j))" by simp
next
  assume n: "ends_watch (reads n) \<and> (\<forall>j < n. \<not> ends_watch (reads j))"
  then obtain m where m: "watch_stdin reads 0 = Some m" using watch_stdin_returns [of reads 0 n] by auto
  with watch_stdin_sound [OF m] n have "m = n" by (metis le0 linorder_neqE_nat)
  with m show "watch_stdin reads 0 = Some n" by simp
qed

text \<open>
  A wait of the child's, by whose end the watching thread had made so many reads, and a signal
  had come or not: \<open>stopping\<close> is set once the thread's loop has returned, or by the signal.
\<close>

record child_wait =
  cw_ticks :: "probe_outcome list list"
  cw_reads :: nat
  cw_signal :: bool

definition wait_of :: "(nat \<Rightarrow> read_result) \<Rightarrow> child_wait \<Rightarrow> poll" where
  "wait_of reads w =
     \<lparr>pl_ticks = cw_ticks w,
      pl_stop = cw_signal w \<or> (case watch_stdin reads 0 of None \<Rightarrow> False | Some n \<Rightarrow> n < cw_reads w)\<rparr>"

lemma wait_of_stops:
  "pl_stop (wait_of reads w) \<longleftrightarrow> cw_signal w \<or> (\<exists>k < cw_reads w. ends_watch (reads k))"
proof (cases "watch_stdin reads 0")
  case None
  then have "\<not> ends_watch (reads k)" for k using watch_stdin_returns [of reads 0 k] by auto
  with None show ?thesis by (simp add: wait_of_def)
next
  case (Some n)
  then have "ends_watch (reads n)" "\<forall>j < n. \<not> ends_watch (reads j)" by (simp_all add: watch_stdin_iff)
  with Some show ?thesis
    by (simp add: wait_of_def) (metis linorder_neqE_nat order_less_trans)
qed

text \<open>
  C25: a child ends with its parent. The watching loop returns exactly at the first read that is
  the end of the file or fails, and never when there is none; so a child whose host started has
  returned as soon as one of its waits ends after such a read, whatever was read before, or after
  a signal; and while its stdin is open and only read from, no amount of data ends it.
\<close>

theorem child_ends_with_its_parent:
  assumes "host_start Map.empty
      (Some (host_text (utf8_bytes (lp_scheme p @ resolve_socket_path p os path)))) outcome (h, fs)
        = (Inr bound, started, fs1)"
    and "list_all scalar (lp_scheme p @ resolve_socket_path p os path)"
  shows "(watch_stdin reads 0 = Some n \<longleftrightarrow> ends_watch (reads n) \<and> (\<forall>j < n. \<not> ends_watch (reads j)))
    \<and> (watch_stdin reads 0 = None \<longleftrightarrow> (\<forall>k. \<exists>b bs. reads k = Chunk (b # bs)))
    \<and> (run_child p os path outcome (map (wait_of reads) waits) pc (h, fs) \<noteq> None \<longleftrightarrow>
        (\<exists>w \<in> set waits. cw_signal w \<or> (\<exists>k < cw_reads w. ends_watch (reads k))))"
proof (intro conjI)
  show "watch_stdin reads 0 = Some n \<longleftrightarrow> ends_watch (reads n) \<and> (\<forall>j < n. \<not> ends_watch (reads j))"
    by (rule watch_stdin_iff)
  have data: "(\<exists>b bs. r = Chunk (b # bs)) \<longleftrightarrow> \<not> ends_watch r" for r
    by (cases r) (auto simp: ends_watch_def neq_Nil_conv)
  have "watch_stdin reads 0 = None \<longleftrightarrow> (\<forall>k. \<not> ends_watch (reads k))"
    using watch_stdin_returns [of reads 0] watch_stdin_sound [of reads 0]
    by (metis add_0 not_Some_eq)
  then show "watch_stdin reads 0 = None \<longleftrightarrow> (\<forall>k. \<exists>b bs. reads k = Chunk (b # bs))"
    by (simp only: data)
  show "run_child p os path outcome (map (wait_of reads) waits) pc (h, fs) \<noteq> None \<longleftrightarrow>
      (\<exists>w \<in> set waits. cw_signal w \<or> (\<exists>k < cw_reads w. ends_watch (reads k)))"
    unfolding run_child_returns using assms by (auto simp only: wait_of_stops set_map ball_simps)
qed

text \<open>A parent that writes once and closes its end, the child's third wait ending after it.\<close>

definition one_write :: "nat \<Rightarrow> read_result" where
  "one_write k = (if k = 0 then Chunk [104, 105] else Chunk [])"

definition watched_waits :: "child_wait list" where
  "watched_waits = [\<lparr>cw_ticks = [[transport_check True]], cw_reads = 0, cw_signal = False\<rparr>,
     \<lparr>cw_ticks = [], cw_reads = 1, cw_signal = False\<rparr>, \<lparr>cw_ticks = [], cw_reads = 2, cw_signal = False\<rparr>]"

theorem child_ends_with_its_parent_witness:
  "watch_stdin one_write 0 = Some 1
   \<and> run_child documented_protocol shell None (Bound_port 2) (map (wait_of one_write) watched_waits)
       plain_process (counter_host, no_files) \<noteq> None
   \<and> run_child documented_protocol shell None (Bound_port 2)
       (map (wait_of one_write) (take 2 watched_waits)) plain_process (counter_host, no_files) = None"
proof -
  have scalars: "list_all scalar (ascii ''unix:/srv/p.sock'')"
    by (simp add: ascii_def scalar_def surrogate_def)
  note child = child_ends_with_its_parent [where p = documented_protocol and os = shell and path = None
      and outcome = "Bound_port 2", unfolded shell_path shell_address, OF started_child_eq(1) scalars]
  have reads: "ends_watch (one_write k) \<longleftrightarrow> k \<noteq> 0" for k
    by (simp add: one_write_def ends_watch_def)
  have ended: "\<exists>w \<in> set watched_waits. cw_signal w \<or> (\<exists>k < cw_reads w. ends_watch (one_write k))"
    by (auto simp: watched_waits_def reads intro!: exI [of _ "Suc 0"])
  have open_still: "\<not> (\<exists>w \<in> set (take 2 watched_waits). cw_signal w \<or> (\<exists>k < cw_reads w. ends_watch (one_write k)))"
    by (simp add: watched_waits_def reads)
  show ?thesis
    using child [of one_write 1 watched_waits plain_process] child [of one_write 1 "take 2 watched_waits" plain_process]
      ended open_still reads by auto
qed

end
