(* ===== verification/Retry.thy ===== *)
theory Retry
  imports Complex_Main Router_Errors
begin

text \<open>
  \<open>angzarr_client/retry.py\<close>: exponential backoff. An operation is the outcomes its calls have, in
  order; what the policy does is the calls it makes, of the operation and of the callback, and the
  sleeps between them.
  Delays are the rationals their floats denote, rounding aside; \<open>math.pow(2, attempt)\<close> raises
  from exponent 1024 on, where no float holds it. \<open>random.random()\<close> is a parameter, one number
  per attempt.
\<close>

record backoff =
  bo_min_delay :: rat
  bo_max_delay :: rat
  bo_max_attempts :: int
  bo_jitter :: bool

definition default_retry_policy :: backoff where
  "default_retry_policy =
     \<lparr>bo_min_delay = 1 / 10, bo_max_delay = 5, bo_max_attempts = 10, bo_jitter = True\<rparr>"

definition math_pow2 :: "nat \<Rightarrow> exn + rat" where
  "math_pow2 n = (if n < 1024 then Return (2 ^ n) else Raise (Other_exc ''OverflowError''))"

definition compute_delay :: "backoff \<Rightarrow> (nat \<Rightarrow> rat) \<Rightarrow> nat \<Rightarrow> exn + rat" where
  "compute_delay b rand attempt =
     bindR (math_pow2 attempt) (\<lambda>p.
       let delay = min (bo_min_delay b * p) (bo_max_delay b) in
       Return (if bo_jitter b then delay * (1 / 2 + rand attempt * (1 / 2)) else delay))"

text \<open>
  \<open>time.sleep\<close>: the delay in whole nanoseconds, rounded away from zero, must fit 64 bits and be no
  negative one.
\<close>

definition time_sleep :: "rat \<Rightarrow> exn option" where
  "time_sleep delay =
     (let ns = (if 0 \<le> delay then \<lceil>delay * 10 ^ 9\<rceil> else \<lfloor>delay * 10 ^ 9\<rfloor>) in
      if ns < - (2 ^ 63) \<or> 2 ^ 63 \<le> ns then Some (Other_exc ''OverflowError'')
      else if ns < 0 then Some (Other_exc ''ValueError'') else None)"

text \<open>
  What a run does: the calls of the operation, the calls of the callback and the sleeps it takes to
  their end.
\<close>

record retry_run =
  rr_calls :: nat
  rr_retries :: "(nat \<times> exn) list"
  rr_sleeps :: "rat list"

text \<open>
  The attempts from one on. An exception is retried; what is no \<open>Exception\<close> is not caught, and
  an exception of the callback, of the delay or of the sleep ends the run. When no attempt is left
  the last exception is raised, \<open>raise None\<close> being a TypeError.
\<close>

function attempts ::
  "backoff \<Rightarrow> (nat \<Rightarrow> rat) \<Rightarrow> (nat \<Rightarrow> exn \<Rightarrow> exn option) option \<Rightarrow> (nat \<Rightarrow> exn + 'a) \<Rightarrow>
     nat \<Rightarrow> exn option \<Rightarrow> retry_run \<Rightarrow> (exn + 'a) \<times> retry_run" where
  "attempts b rand on_retry operation attempt last_err run =
     (if bo_max_attempts b \<le> int attempt
      then (Raise (case last_err of None \<Rightarrow> Other_exc ''TypeError'' | Some e \<Rightarrow> e), run)
      else
        (let run = run\<lparr>rr_calls := rr_calls run + 1\<rparr> in
         case operation attempt of
           Inr v \<Rightarrow> (Return v, run)
         | Inl e \<Rightarrow>
             if \<not> is_exception e then (Raise e, run)
             else if int attempt < bo_max_attempts b - 1
             then
               (let run = (if on_retry = None then run
                           else run\<lparr>rr_retries := rr_retries run @ [(attempt, e)]\<rparr>) in
                case (case on_retry of None \<Rightarrow> None | Some callback \<Rightarrow> callback attempt e) of
                  Some exc \<Rightarrow> (Raise exc, run)
                | None \<Rightarrow>
                    (case compute_delay b rand attempt of
                       Inl exc \<Rightarrow> (Raise exc, run)
                     | Inr delay \<Rightarrow>
                         (case time_sleep delay of
                            Some exc \<Rightarrow> (Raise exc, run)
                          | None \<Rightarrow>
                              attempts b rand on_retry operation (Suc attempt) (Some e)
                                (run\<lparr>rr_sleeps := rr_sleeps run @ [delay]\<rparr>))))
             else attempts b rand on_retry operation (Suc attempt) (Some e) run))"
  by pat_completeness auto
termination
  by (relation "measure (\<lambda>(b, _, _, _, attempt, _, _). nat (bo_max_attempts b - int attempt))")
    auto

declare attempts.simps [simp del]

definition execute ::
  "backoff \<Rightarrow> (nat \<Rightarrow> rat) \<Rightarrow> (nat \<Rightarrow> exn \<Rightarrow> exn option) option \<Rightarrow> (nat \<Rightarrow> exn + 'a) \<Rightarrow>
     (exn + 'a) \<times> retry_run" where
  "execute b rand on_retry operation =
     attempts b rand on_retry operation 0 None \<lparr>rr_calls = 0, rr_retries = [], rr_sleeps = []\<rparr>"

subsection \<open>Delays\<close>

definition sound_backoff :: "backoff \<Rightarrow> (nat \<Rightarrow> rat) \<Rightarrow> bool" where
  "sound_backoff b rand \<longleftrightarrow>
     0 \<le> bo_min_delay b \<and> 0 \<le> bo_max_delay b \<and> (\<forall>k. 0 \<le> rand k \<and> rand k < 1)"

text \<open>The backoff before jitter.\<close>

definition backoff_cap :: "backoff \<Rightarrow> nat \<Rightarrow> rat" where
  "backoff_cap b k = min (bo_min_delay b * 2 ^ k) (bo_max_delay b)"

lemma compute_delay_bounds:
  assumes "sound_backoff b rand" and "compute_delay b rand k = Inr d"
  shows "0 \<le> d" and "d \<le> backoff_cap b k" and "backoff_cap b k / 2 \<le> d"
    and "d \<le> bo_max_delay b"
proof -
  have cap: "0 \<le> backoff_cap b k" "backoff_cap b k \<le> bo_max_delay b"
    using assms(1) by (simp_all add: sound_backoff_def backoff_cap_def)
  have r: "0 \<le> rand k" "rand k < 1" using assms(1) by (simp_all add: sound_backoff_def)
  have d: "d = (if bo_jitter b then backoff_cap b k * (1 / 2 + rand k * (1 / 2)) else backoff_cap b k)"
    using assms(2)
    by (auto simp: compute_delay_def math_pow2_def backoff_cap_def Let_def split: if_splits)
  have "backoff_cap b k * (1 / 2) \<le> backoff_cap b k * (1 / 2 + rand k * (1 / 2))"
    using cap r by (intro mult_left_mono) auto
  moreover have "backoff_cap b k * (1 / 2 + rand k * (1 / 2)) \<le> backoff_cap b k * 1"
    using cap r by (intro mult_left_mono) auto
  ultimately show "d \<le> backoff_cap b k" and "backoff_cap b k / 2 \<le> d"
    using cap by (auto simp: d)
  with cap show "0 \<le> d" and "d \<le> bo_max_delay b" by auto
qed

lemma compute_delay_returns: "k < 1024 \<Longrightarrow> \<exists>d. compute_delay b rand k = Inr d"
  by (simp add: compute_delay_def math_pow2_def Let_def)

subsection \<open>Runs\<close>

definition delay_of :: "backoff \<Rightarrow> (nat \<Rightarrow> rat) \<Rightarrow> nat \<Rightarrow> rat" where
  "delay_of b rand k = (case compute_delay b rand k of Inr d \<Rightarrow> d | Inl _ \<Rightarrow> 0)"

text \<open>An attempt that is retried, and the callback, if any, that hears of it without raising.\<close>

definition retried :: "(nat \<Rightarrow> exn + 'a) \<Rightarrow> nat \<Rightarrow> bool" where
  "retried operation k \<longleftrightarrow> (case operation k of Inl e \<Rightarrow> is_exception e | Inr _ \<Rightarrow> False)"

definition failure_of :: "(nat \<Rightarrow> exn + 'a) \<Rightarrow> nat \<Rightarrow> exn" where
  "failure_of operation k = (case operation k of Inl e \<Rightarrow> e | Inr _ \<Rightarrow> Other_exc [])"

text \<open>
  What ends the run after attempt \<open>k\<close> although another is left: the callback's exception, else an
  exponent no float holds, else a delay that cannot be slept.
\<close>

definition retry_raises ::
  "backoff \<Rightarrow> (nat \<Rightarrow> rat) \<Rightarrow> (nat \<Rightarrow> exn \<Rightarrow> exn option) option \<Rightarrow> nat \<Rightarrow> exn \<Rightarrow> exn option" where
  "retry_raises b rand on_retry k e =
     (if on_retry \<noteq> None \<and> the on_retry k e \<noteq> None then the on_retry k e
      else if 1024 \<le> k then Some (Other_exc ''OverflowError'')
      else time_sleep (delay_of b rand k))"

text \<open>Attempt \<open>k\<close> fails with an exception that is retried, and nothing raises on the way.\<close>

definition goes_on ::
  "backoff \<Rightarrow> (nat \<Rightarrow> rat) \<Rightarrow> (nat \<Rightarrow> exn \<Rightarrow> exn option) option \<Rightarrow> (nat \<Rightarrow> exn + 'a) \<Rightarrow> nat \<Rightarrow> bool" where
  "goes_on b rand on_retry operation k \<longleftrightarrow>
     retried operation k \<and> retry_raises b rand on_retry k (failure_of operation k) = None"

definition reports :: "(nat \<Rightarrow> exn \<Rightarrow> exn option) option \<Rightarrow> (nat \<Rightarrow> exn + 'a) \<Rightarrow> nat list \<Rightarrow> (nat \<times> exn) list" where
  "reports on_retry operation ks =
     (if on_retry = None then [] else map (\<lambda>k. (k, failure_of operation k)) ks)"

lemma retried_raises:
  assumes "retried operation k"
  obtains e where "operation k = Inl e" "is_exception e" "failure_of operation k = e"
  using assms by (auto simp: retried_def failure_of_def split: sum.splits)

lemma compute_delay_cases:
  "compute_delay b rand k =
     (if 1024 \<le> k then Raise (Other_exc ''OverflowError'') else Return (delay_of b rand k))"
  by (simp add: compute_delay_def math_pow2_def delay_of_def Let_def)

lemma attempt_retried:
  assumes "goes_on b rand on_retry operation k" and "int k < bo_max_attempts b - 1"
  shows "attempts b rand on_retry operation k last_err run =
    attempts b rand on_retry operation (Suc k) (Some (failure_of operation k))
      (run\<lparr>rr_calls := rr_calls run + 1,
           rr_retries := rr_retries run @ reports on_retry operation [k],
           rr_sleeps := rr_sleeps run @ [delay_of b rand k]\<rparr>)"
proof -
  from assms(1) obtain e where "operation k = Inl e" "is_exception e" "failure_of operation k = e"
    by (auto simp: goes_on_def elim: retried_raises)
  with assms show ?thesis
    by (subst attempts.simps)
      (auto simp: Let_def goes_on_def retry_raises_def reports_def compute_delay_cases
        split: option.splits if_splits)
qed

text \<open>The attempts \<open>i\<close> to \<open>n - 1\<close> go on; then what is left is decided at attempt \<open>n\<close>.\<close>

lemma attempts_retried:
  assumes "i \<le> n" and "int n < bo_max_attempts b"
    and "\<And>k. i \<le> k \<Longrightarrow> k < n \<Longrightarrow> goes_on b rand on_retry operation k"
  shows "\<exists>last. attempts b rand on_retry operation i last_err run =
    attempts b rand on_retry operation n last
      (run\<lparr>rr_calls := rr_calls run + (n - i),
           rr_retries := rr_retries run @ reports on_retry operation [i ..< n],
           rr_sleeps := rr_sleeps run @ map (delay_of b rand) [i ..< n]\<rparr>)"
  using assms
proof (induction "n - i" arbitrary: i last_err run)
  case 0
  then show ?case by (intro exI [of _ last_err]) (simp add: reports_def)
next
  case (Suc m)
  then have i: "i < n" "int i < bo_max_attempts b - 1" by auto
  let ?run = "run\<lparr>rr_calls := rr_calls run + 1,
           rr_retries := rr_retries run @ reports on_retry operation [i],
           rr_sleeps := rr_sleeps run @ [delay_of b rand i]\<rparr>"
  have "attempts b rand on_retry operation i last_err run =
      attempts b rand on_retry operation (Suc i) (Some (failure_of operation i)) ?run"
    using Suc.prems i by (intro attempt_retried) auto
  moreover have "\<exists>last. attempts b rand on_retry operation (Suc i) (Some (failure_of operation i)) ?run =
      attempts b rand on_retry operation n last
        (?run\<lparr>rr_calls := rr_calls ?run + (n - Suc i),
              rr_retries := rr_retries ?run @ reports on_retry operation [Suc i ..< n],
              rr_sleeps := rr_sleeps ?run @ map (delay_of b rand) [Suc i ..< n]\<rparr>)"
    using Suc.hyps(2) Suc.prems i by (intro Suc.hyps(1)) auto
  moreover have "[i ..< n] = i # [Suc i ..< n]" using i(1) by (rule upt_conv_Cons)
  ultimately show ?case
    using i(1) by (auto simp: Suc_diff_Suc reports_def)
qed

text \<open>The attempt a run ends at, and how.\<close>

lemma attempts_end:
  assumes "int n < bo_max_attempts b"
    and "int n = bo_max_attempts b - 1 \<or> \<not> goes_on b rand on_retry operation n"
  shows "attempts b rand on_retry operation n last_err run =
    (if retried operation n \<and> int n < bo_max_attempts b - 1
     then (Raise (the (retry_raises b rand on_retry n (failure_of operation n))),
           run\<lparr>rr_calls := rr_calls run + 1,
               rr_retries := rr_retries run @ reports on_retry operation [n]\<rparr>)
     else (operation n, run\<lparr>rr_calls := rr_calls run + 1\<rparr>))"
proof (cases "retried operation n")
  case False
  with assms(1) show ?thesis
    by (subst attempts.simps) (auto simp: retried_def Let_def split: sum.splits)
next
  case True
  then obtain e where e: "operation n = Inl e" "is_exception e" "failure_of operation n = e"
    by (rule retried_raises)
  show ?thesis
  proof (cases "int n < bo_max_attempts b - 1")
    case before: True
    with assms True have "retry_raises b rand on_retry n e \<noteq> None" by (auto simp: goes_on_def e(3))
    with e True before assms(1) show ?thesis
      by (subst attempts.simps)
        (auto simp: Let_def retry_raises_def reports_def compute_delay_cases split: option.splits if_splits)
  next
    case False
    with assms(1) e have "attempts b rand on_retry operation n last_err run =
        attempts b rand on_retry operation (Suc n) (Some e) (run\<lparr>rr_calls := rr_calls run + 1\<rparr>)"
      by (subst attempts.simps) simp
    also have "\<dots> = (operation n, run\<lparr>rr_calls := rr_calls run + 1\<rparr>)"
      using False e by (subst attempts.simps) auto
    finally show ?thesis using False by simp
  qed
qed

text \<open>Some attempt ends the run: the first that does not go on, or the last.\<close>

lemma ending_attempt:
  assumes "0 < bo_max_attempts b"
  obtains n where "int n < bo_max_attempts b" "\<forall>k < n. goes_on b rand on_retry operation k"
    "int n = bo_max_attempts b - 1 \<or> \<not> goes_on b rand on_retry operation n"
proof -
  let ?ends = "\<lambda>k. int k = bo_max_attempts b - 1 \<or> \<not> goes_on b rand on_retry operation k"
  define n where "n = (LEAST k. ?ends k)"
  have last: "?ends (nat (bo_max_attempts b - 1))" using assms by simp
  have "?ends n" unfolding n_def by (rule LeastI [of ?ends, OF last])
  moreover have "n \<le> nat (bo_max_attempts b - 1)" unfolding n_def by (rule Least_le [of ?ends, OF last])
  moreover have "\<forall>k < n. goes_on b rand on_retry operation k"
    unfolding n_def using not_less_Least [of _ ?ends] by blast
  moreover have "int n < bo_max_attempts b" using calculation(2) assms by linarith
  ultimately show ?thesis using that [of n] by blast
qed

text \<open>What a run may have done once it has reached an attempt, whatever failed meanwhile.\<close>

definition run_bounded :: "backoff \<Rightarrow> (nat \<Rightarrow> rat) \<Rightarrow> nat \<Rightarrow> retry_run \<Rightarrow> bool" where
  "run_bounded b rand n run \<longleftrightarrow>
     rr_calls run \<le> n \<and> length (rr_sleeps run) \<le> n - 1 \<and> length (rr_sleeps run) \<le> rr_calls run
   \<and> rr_sleeps run = map (delay_of b rand) [0 ..< length (rr_sleeps run)]
   \<and> (\<forall>k < length (rr_sleeps run). compute_delay b rand k = Inr (rr_sleeps run ! k))"

lemma run_bounded_sleep:
  assumes "run_bounded b rand m run" "rr_calls run = attempt" "length (rr_sleeps run) = attempt"
    and "Suc attempt < m" and d: "compute_delay b rand attempt = Inr d"
  shows "run_bounded b rand m
    (run\<lparr>rr_calls := rr_calls run + 1, rr_retries := rs, rr_sleeps := rr_sleeps run @ [d]\<rparr>)"
proof -
  have "rr_sleeps run @ [d] = map (delay_of b rand) [0 ..< Suc attempt]"
    using assms(1) d assms(3) by (simp add: run_bounded_def delay_of_def)
  moreover have "compute_delay b rand k = Inr ((rr_sleeps run @ [d]) ! k)" if "k < Suc attempt" for k
    using assms(1) d assms(3) that by (auto simp: run_bounded_def nth_append less_Suc_eq)
  ultimately show ?thesis using assms(2-4) by (simp add: run_bounded_def)
qed

lemma attempts_bounded:
  assumes "run_bounded b rand (nat (bo_max_attempts b)) run"
    and "attempt < nat (bo_max_attempts b) \<longrightarrow> rr_calls run = attempt \<and> length (rr_sleeps run) = attempt"
  shows "run_bounded b rand (nat (bo_max_attempts b)) (snd (attempts b rand on_retry operation attempt last_err run))"
  using assms
proof (induction "nat (bo_max_attempts b) - attempt" arbitrary: attempt last_err run)
  case 0
  from 0(1) have "bo_max_attempts b \<le> int attempt" by simp
  with 0(2) show ?case by (subst attempts.simps) simp
next
  case (Suc m)
  let ?m = "nat (bo_max_attempts b)"
  have a: "attempt < ?m" using Suc.hyps(2) by simp
  then have run: "rr_calls run = attempt" "length (rr_sleeps run) = attempt" using Suc.prems(2) by auto
  let ?run = "run\<lparr>rr_calls := rr_calls run + 1\<rparr>"
  have called: "run_bounded b rand ?m (?run\<lparr>rr_retries := rs\<rparr>)" for rs
    using Suc.prems(1) run a by (simp add: run_bounded_def)
  then have called': "run_bounded b rand ?m ?run" using called [of "rr_retries run"] by simp
  have last: "run_bounded b rand ?m (snd (attempts b rand on_retry operation (Suc attempt) e ?run))"
    if "\<not> int attempt < bo_max_attempts b - 1" for e
    using that called' by (subst attempts.simps) auto
  have slept: "run_bounded b rand ?m (snd (attempts b rand on_retry operation (Suc attempt) e
      (?run\<lparr>rr_retries := rs, rr_sleeps := rr_sleeps run @ [d]\<rparr>)))"
    if d: "compute_delay b rand attempt = Inr d" and "int attempt < bo_max_attempts b - 1" for e rs d
  proof (rule Suc.hyps(1))
    show "run_bounded b rand ?m (?run\<lparr>rr_retries := rs, rr_sleeps := rr_sleeps run @ [d]\<rparr>)"
      by (rule run_bounded_sleep [OF Suc.prems(1) run _ d]) (use that(2) in linarith)
  qed (use Suc.hyps(2) run in auto)
  have same: "?run\<lparr>rr_retries := rr_retries run, rr_sleeps := rr_sleeps run @ [d]\<rparr> =
      ?run\<lparr>rr_sleeps := rr_sleeps run @ [d]\<rparr>" for d by simp
  have slept': "run_bounded b rand ?m (snd (attempts b rand on_retry operation (Suc attempt) e
      (?run\<lparr>rr_sleeps := rr_sleeps run @ [d]\<rparr>)))"
    if "compute_delay b rand attempt = Inr d" "int attempt < bo_max_attempts b - 1" for e d
    using slept [OF that, of e "rr_retries run"] unfolding same .
  show ?case
    using a called called' last slept slept'
    by (subst attempts.simps)
      (auto simp: Let_def split: sum.split option.split)
qed

subsection \<open>Properties\<close>

text \<open>
  C32: the policy retries exactly the failures it is for, whatever the operation, the callback and
  the configuration. A run ends at the first attempt that does not fail with an exception, at the
  last one, or at the first after which the callback raises, the exponent is 1024 or more, or the
  delay cannot be slept, being negative or too long. Its outcome is that attempt's own, or in the
  third case what was raised there, in place of the operation's error. Every attempt before is
  called once, reported to the callback in order and followed by one sleep of its delay, and nothing
  is called after. With no attempts nothing is called and the raise of None is a TypeError.
\<close>

theorem retry_outcome:
  "(bo_max_attempts b \<le> 0 \<longrightarrow> execute b rand on_retry operation =
      (Raise (Other_exc ''TypeError''), \<lparr>rr_calls = 0, rr_retries = [], rr_sleeps = []\<rparr>))
   \<and> (0 < bo_max_attempts b \<longrightarrow>
       (\<exists>n. int n < bo_max_attempts b \<and> (\<forall>k < n. goes_on b rand on_retry operation k)
          \<and> (int n = bo_max_attempts b - 1 \<or> \<not> goes_on b rand on_retry operation n)
          \<and> execute b rand on_retry operation =
              (if retried operation n \<and> int n < bo_max_attempts b - 1
               then (Raise (the (retry_raises b rand on_retry n (failure_of operation n))),
                     \<lparr>rr_calls = n + 1, rr_retries = reports on_retry operation [0 ..< n + 1],
                      rr_sleeps = map (delay_of b rand) [0 ..< n]\<rparr>)
               else (operation n,
                     \<lparr>rr_calls = n + 1, rr_retries = reports on_retry operation [0 ..< n],
                      rr_sleeps = map (delay_of b rand) [0 ..< n]\<rparr>))))"
proof (intro conjI impI)
  assume "bo_max_attempts b \<le> 0"
  then show "execute b rand on_retry operation =
      (Raise (Other_exc ''TypeError''), \<lparr>rr_calls = 0, rr_retries = [], rr_sleeps = []\<rparr>)"
    by (simp add: execute_def attempts.simps)
next
  assume "0 < bo_max_attempts b"
  then obtain n where n: "int n < bo_max_attempts b" "\<forall>k < n. goes_on b rand on_retry operation k"
    "int n = bo_max_attempts b - 1 \<or> \<not> goes_on b rand on_retry operation n"
    by (rule ending_attempt)
  obtain last where "execute b rand on_retry operation = attempts b rand on_retry operation n last
      \<lparr>rr_calls = n, rr_retries = reports on_retry operation [0 ..< n],
       rr_sleeps = map (delay_of b rand) [0 ..< n]\<rparr>"
    using attempts_retried [of 0 n b rand on_retry operation None
        "\<lparr>rr_calls = 0, rr_retries = [], rr_sleeps = []\<rparr>"] n
    by (auto simp: execute_def)
  with n show "\<exists>n. int n < bo_max_attempts b \<and> (\<forall>k < n. goes_on b rand on_retry operation k)
      \<and> (int n = bo_max_attempts b - 1 \<or> \<not> goes_on b rand on_retry operation n)
      \<and> execute b rand on_retry operation =
          (if retried operation n \<and> int n < bo_max_attempts b - 1
           then (Raise (the (retry_raises b rand on_retry n (failure_of operation n))),
                 \<lparr>rr_calls = n + 1, rr_retries = reports on_retry operation [0 ..< n + 1],
                  rr_sleeps = map (delay_of b rand) [0 ..< n]\<rparr>)
           else (operation n,
                 \<lparr>rr_calls = n + 1, rr_retries = reports on_retry operation [0 ..< n],
                  rr_sleeps = map (delay_of b rand) [0 ..< n]\<rparr>))"
    by (intro exI [of _ n] conjI) (simp_all add: attempts_end reports_def)
qed

text \<open>
  The default policy on an operation that fails twice and then answers; and a negative delay, which
  is no configuration the constructor refuses: the first failure is lost to a ValueError.
\<close>

definition flaky :: "nat \<Rightarrow> exn + nat" where
  "flaky k = (if k < 2 then Raise (Other_exc ''ConnectionError'') else Return k)"

definition impatient :: backoff where
  "impatient = default_retry_policy\<lparr>bo_min_delay := - 1, bo_jitter := False\<rparr>"

theorem retry_outcome_witness:
  "execute default_retry_policy (\<lambda>_. 0) None flaky =
     (Return 2, \<lparr>rr_calls = 3, rr_retries = [], rr_sleeps = [1 / 20, 1 / 10]\<rparr>)
   \<and> execute impatient (\<lambda>_. 0) None flaky =
     (Raise (Other_exc ''ValueError''), \<lparr>rr_calls = 1, rr_retries = [], rr_sleeps = []\<rparr>)"
proof
  let ?go = "goes_on default_retry_policy (\<lambda>_. 0) None flaky"
  have d: "delay_of default_retry_policy (\<lambda>_. 0) 0 = 1 / 20"
    "delay_of default_retry_policy (\<lambda>_. 0) (Suc 0) = 1 / 10"
    by (simp_all add: delay_of_def compute_delay_def math_pow2_def default_retry_policy_def)
  have r: "retried flaky 0" "retried flaky (Suc 0)" "\<not> retried flaky 2"
    by (simp_all add: retried_def flaky_def)
  have go: "?go 0" "?go (Suc 0)" "\<not> ?go 2"
    by (simp_all only: goes_on_def retry_raises_def d r) (simp_all add: time_sleep_def)
  obtain n where n: "int n < 10" "\<forall>k < n. ?go k" "int n = 9 \<or> \<not> ?go n"
    and ex: "execute default_retry_policy (\<lambda>_. 0) None flaky =
      (if retried flaky n \<and> int n < 9
       then (Raise (the (retry_raises default_retry_policy (\<lambda>_. 0) None n (failure_of flaky n))),
             \<lparr>rr_calls = n + 1, rr_retries = reports None flaky [0 ..< n + 1],
              rr_sleeps = map (delay_of default_retry_policy (\<lambda>_. 0)) [0 ..< n]\<rparr>)
       else (flaky n, \<lparr>rr_calls = n + 1, rr_retries = reports None flaky [0 ..< n],
              rr_sleeps = map (delay_of default_retry_policy (\<lambda>_. 0)) [0 ..< n]\<rparr>))"
    using retry_outcome [of default_retry_policy "\<lambda>_. 0" None flaky]
    by (auto simp: default_retry_policy_def)
  have "\<not> 2 < n" using n(2) go(3) by blast
  moreover have "?go n \<longrightarrow> n = 9" using n(3) by linarith
  then have "n \<noteq> 0" "n \<noteq> Suc 0" using go(1,2) by (metis zero_neq_numeral, metis numeral_One numeral_eq_iff One_nat_def num.distinct(3))
  ultimately have "n = 2" by linarith
  with ex r d show "execute default_retry_policy (\<lambda>_. 0) None flaky =
      (Return 2, \<lparr>rr_calls = 3, rr_retries = [], rr_sleeps = [1 / 20, 1 / 10]\<rparr>)"
    by (simp add: flaky_def reports_def upt_rec numeral_2_eq_2)
next
  have "delay_of impatient (\<lambda>_. 0) 0 = - 1"
    by (simp add: delay_of_def compute_delay_def math_pow2_def impatient_def default_retry_policy_def)
  then have raises: "retry_raises impatient (\<lambda>_. 0) None 0 e = Some (Other_exc ''ValueError'')" for e
    by (simp add: retry_raises_def time_sleep_def)
  have r: "retried flaky 0" by (simp add: retried_def flaky_def)
  obtain n where n: "\<forall>k < n. goes_on impatient (\<lambda>_. 0) None flaky k"
    and ex: "execute impatient (\<lambda>_. 0) None flaky =
      (if retried flaky n \<and> int n < 9
       then (Raise (the (retry_raises impatient (\<lambda>_. 0) None n (failure_of flaky n))),
             \<lparr>rr_calls = n + 1, rr_retries = reports None flaky [0 ..< n + 1],
              rr_sleeps = map (delay_of impatient (\<lambda>_. 0)) [0 ..< n]\<rparr>)
       else (flaky n, \<lparr>rr_calls = n + 1, rr_retries = reports None flaky [0 ..< n],
              rr_sleeps = map (delay_of impatient (\<lambda>_. 0)) [0 ..< n]\<rparr>))"
    using retry_outcome [of impatient "\<lambda>_. 0" None flaky]
    by (auto simp: impatient_def default_retry_policy_def)
  have "\<not> goes_on impatient (\<lambda>_. 0) None flaky 0" using raises by (simp add: goes_on_def)
  with n have "n = 0" by (cases n) auto
  with ex r raises show "execute impatient (\<lambda>_. 0) None flaky =
      (Raise (Other_exc ''ValueError''), \<lparr>rr_calls = 1, rr_retries = [], rr_sleeps = []\<rparr>)"
    by (simp add: reports_def)
qed

text \<open>
  C33: the policy is bounded, whatever the operation and the callback do. It always ends, after at
  most the configured number of calls and one sleep fewer, every sleep between half of its
  exponential backoff and the whole of it, capped at the maximum, so the waiting of a run is at
  most the sum of the capped backoffs.
\<close>

theorem retry_bounded:
  assumes "sound_backoff b rand"
    and "execute b rand on_retry operation = (result, run)"
  shows "int (rr_calls run) \<le> max 0 (bo_max_attempts b)
    \<and> int (length (rr_sleeps run)) \<le> max 0 (bo_max_attempts b - 1)
    \<and> (\<forall>k < length (rr_sleeps run). backoff_cap b k / 2 \<le> rr_sleeps run ! k
         \<and> rr_sleeps run ! k \<le> backoff_cap b k \<and> backoff_cap b k \<le> bo_max_delay b)
    \<and> sum_list (rr_sleeps run) \<le> (\<Sum>k < length (rr_sleeps run). backoff_cap b k)
    \<and> sum_list (rr_sleeps run) \<le> of_nat (nat (bo_max_attempts b - 1)) * bo_max_delay b"
proof -
  let ?m = "nat (bo_max_attempts b)" and ?l = "length (rr_sleeps run)"
  have "run_bounded b rand ?m run"
    using attempts_bounded [of b rand "\<lparr>rr_calls = 0, rr_retries = [], rr_sleeps = []\<rparr>" 0 on_retry
        operation None] assms(2)
    by (simp add: execute_def run_bounded_def)
  then have calls: "rr_calls run \<le> ?m" and len: "?l \<le> ?m - 1"
    and sl: "\<And>k. k < ?l \<Longrightarrow> compute_delay b rand k = Inr (rr_sleeps run ! k)"
    by (auto simp: run_bounded_def)
  have each: "backoff_cap b k / 2 \<le> rr_sleeps run ! k" "rr_sleeps run ! k \<le> backoff_cap b k"
    "backoff_cap b k \<le> bo_max_delay b" if "k < ?l" for k
    using compute_delay_bounds [OF assms(1) sl [OF that]] by (simp_all add: backoff_cap_def)
  have "sum_list (rr_sleeps run) = (\<Sum>k < ?l. rr_sleeps run ! k)"
    by (simp add: sum_list_sum_nth atLeast0LessThan)
  also have "\<dots> \<le> (\<Sum>k < ?l. backoff_cap b k)"
    using each by (intro sum_mono) auto
  finally have total: "sum_list (rr_sleeps run) \<le> (\<Sum>k < ?l. backoff_cap b k)" .
  also have "\<dots> \<le> (\<Sum>k < ?l. bo_max_delay b)" by (intro sum_mono) (simp add: backoff_cap_def)
  also have "\<dots> = of_nat ?l * bo_max_delay b" by simp
  also have "\<dots> \<le> of_nat (nat (bo_max_attempts b - 1)) * bo_max_delay b"
    using len assms(1) by (intro mult_right_mono) (auto simp: sound_backoff_def)
  finally have "sum_list (rr_sleeps run) \<le> of_nat (nat (bo_max_attempts b - 1)) * bo_max_delay b" .
  with calls len each total show ?thesis by auto
qed

theorem retry_bounded_witness:
  "sum_list (rr_sleeps (snd (execute default_retry_policy (\<lambda>_. 0) None flaky))) \<le> 45"
proof -
  have "sound_backoff default_retry_policy (\<lambda>_. 0)"
    by (simp add: sound_backoff_def default_retry_policy_def)
  from retry_bounded [OF this, of None flaky "fst (execute default_retry_policy (\<lambda>_. 0) None flaky)"
      "snd (execute default_retry_policy (\<lambda>_. 0) None flaky)"]
  show ?thesis by (simp add: default_retry_policy_def)
qed

text \<open>The default policy waits at most 21.3 seconds in all.\<close>

lemma default_policy_waits: "(\<Sum>k < 9. backoff_cap default_retry_policy k) = 213 / 10"
  by (simp add: backoff_cap_def default_retry_policy_def eval_nat_numeral lessThan_Suc min_def)

text \<open>
  A configuration the policy's contract does not survive: with more than 1025 attempts, an operation
  that always fails ends in the delay's own exception, which hides the operation's last error and
  the attempts that are left.
\<close>

lemma no_attempts:
  "bo_max_attempts b \<le> 0 \<Longrightarrow> fst (execute b rand on_retry operation) = Raise (Other_exc ''TypeError'')"
  by (simp add: execute_def attempts.simps)

lemma delay_overflows:
  assumes "1025 < bo_max_attempts b" and "retried operation 1024"
    and "\<forall>k < 1024. goes_on b rand None operation k"
  shows "fst (execute b rand None operation) = Raise (Other_exc ''OverflowError'')"
proof -
  obtain last run where "execute b rand None operation = attempts b rand None operation 1024 last run"
    using attempts_retried [of 0 1024 b rand None operation None
        "\<lparr>rr_calls = 0, rr_retries = [], rr_sleeps = []\<rparr>"] assms
    by (auto simp: execute_def)
  moreover have "retry_raises b rand None 1024 e = Some (Other_exc ''OverflowError'')" for e
    by (simp add: retry_raises_def)
  ultimately show ?thesis using assms by (simp add: attempts_end goes_on_def)
qed

end
