(* ===== verification/Client.thy ===== *)
theory Client
  imports Builder Retry Server
begin

text \<open>
  \<open>angzarr_client/client.py\<close> and the sending halves of \<open>builder.py\<close>: where a client connects, how
  it calls a stub and what a failure becomes, and which client closes the channel. gRPC is not
  under \<open>src/\<close>: a stub's method is a function of the request, the timeout, the metadata and the
  world, which answers its outcome and the world it leaves, so that each call of it shows; a
  streamed response is the items it yields and how it ends. A channel is its number and its target,
  and opening one is a parameter of a connection.
\<close>

subsection \<open>Endpoints\<close>

datatype transport_mode = STANDALONE | DISTRIBUTED

definition transport_mode_of :: "string \<Rightarrow> exn + transport_mode" where
  "transport_mode_of s =
     (if s = ''standalone'' then Return STANDALONE
      else if s = ''distributed'' then Return DISTRIBUTED
      else Raise (Other_exc ''ValueError''))"

definition resolve_ch_endpoint ::
  "environ \<Rightarrow> string \<Rightarrow> transport_mode option \<Rightarrow> string \<Rightarrow> string \<Rightarrow> int \<Rightarrow> exn + string" where
  "resolve_ch_endpoint env domain mode uds_base namespace port =
     bindR (case mode of
              None \<Rightarrow> transport_mode_of (env_get env ''ANGZARR_MODE'' ''distributed'')
            | Some m \<Rightarrow> Return m) (\<lambda>mode.
     if mode = STANDALONE
     then Return (env_get env ''ANGZARR_UDS_BASE'' uds_base @ ''/ch-'' @ domain @ ''.sock'')
     else
       (let ns = env_get env ''ANGZARR_NAMESPACE'' namespace in
        case py_int 10 (env_get env ''ANGZARR_CH_PORT'' (int_str port)) of
          None \<Rightarrow> Raise (Other_exc ''ValueError'')
        | Some p \<Rightarrow> Return (''ch-'' @ domain @ ''.'' @ ns @ ''.svc:'' @ int_str p)))"

datatype target = Insecure string | Secure string

definition rstrip_slashes :: "string \<Rightarrow> string" where
  "rstrip_slashes s = rev (dropWhile (\<lambda>c. c = CHR ''/'') (rev s))"

definition create_channel :: "string \<Rightarrow> target" where
  "create_channel endpoint =
     (if startswith ''./'' endpoint then Insecure (''unix:'' @ endpoint)
      else if startswith ''/'' endpoint then Insecure (''unix://'' @ endpoint)
      else if startswith ''unix:'' endpoint then Insecure endpoint
      else if startswith ''https://'' endpoint
      then Secure (rstrip_slashes (drop (length ''https://'') endpoint))
      else if startswith ''http://'' endpoint
      then Insecure (rstrip_slashes (drop (length ''http://'') endpoint))
      else Insecure endpoint)"

subsection \<open>Calls\<close>

datatype 'a stub_outcome =
  Responded 'a | Rpc_failed rpc_error | Value_failed string | Stub_raised exn

type_synonym metadata = "(string \<times> string) list"
type_synonym ('t, 'w, 'req, 'a) rpc = "'req \<Rightarrow> 't \<Rightarrow> metadata \<Rightarrow> 'w \<Rightarrow> 'a stub_outcome \<times> 'w"
type_synonym ('w, 'a) sending = "'w \<Rightarrow> (cl_exn + 'a) \<times> 'w"

text \<open>A streamed response: its items, and how iterating over it ends.\<close>

record 'x stream =
  sm_items :: "'x list"
  sm_end :: "unit stub_outcome"

text \<open>The body of the \<open>try\<close>: the response as it is, or the list of a streamed one.\<close>

fun drained :: "'x stream stub_outcome \<Rightarrow> 'x list stub_outcome" where
  "drained (Responded response) =
     (case sm_end response of
        Responded _ \<Rightarrow> Responded (sm_items response)
      | Rpc_failed e \<Rightarrow> Rpc_failed e
      | Value_failed text \<Rightarrow> Value_failed text
      | Stub_raised exc \<Rightarrow> Stub_raised exc)"
| "drained (Rpc_failed e) = Rpc_failed e"
| "drained (Value_failed text) = Value_failed text"
| "drained (Stub_raised exc) = Stub_raised exc"

definition CLOSED_CHANNEL_MESSAGE :: string where
  "CLOSED_CHANNEL_MESSAGE = ''Cannot invoke RPC on closed channel!''"

text \<open>The \<open>except\<close> clauses; making a \<open>GRPCError\<close> may raise itself.\<close>

definition mapped_outcome :: "protobuf \<Rightarrow> 'a stub_outcome \<Rightarrow> cl_exn + 'a" where
  "mapped_outcome pb outcome =
     (case outcome of
        Responded response \<Rightarrow> Return response
      | Rpc_failed e \<Rightarrow>
          (case grpc_error_of pb e of Inl exc \<Rightarrow> Raise (Raised exc) | Inr x \<Rightarrow> Raise (Client_exn x))
      | Value_failed text \<Rightarrow>
          if text = CLOSED_CHANNEL_MESSAGE
          then refuse Transport_error TRANSPORT_ERROR [(''reason'', PStr ''channel closed'')]
          else Raise (Raised (Other_exc ''ValueError''))
      | Stub_raised exc \<Rightarrow> Raise (Raised exc))"

definition invoke ::
  "protobuf \<Rightarrow> ('t, 'w, 'req, 'a) rpc \<Rightarrow> 'req \<Rightarrow> 't \<Rightarrow> metadata \<Rightarrow> ('w, 'a) sending" where
  "invoke pb rpc request timeout md w =
     (case rpc request timeout md w of (outcome, w') \<Rightarrow> (mapped_outcome pb outcome, w'))"

text \<open>With \<open>stream=True\<close>.\<close>

definition invoke_stream ::
  "protobuf \<Rightarrow> ('t, 'w, 'req, 'x stream) rpc \<Rightarrow> 'req \<Rightarrow> 't \<Rightarrow> metadata \<Rightarrow> ('w, 'x list) sending" where
  "invoke_stream pb rpc request timeout md w =
     (case rpc request timeout md w of (outcome, w') \<Rightarrow> (mapped_outcome pb (drained outcome), w'))"

text \<open>What is sent once its request is made; a request that is not made is raised, the world as it was.\<close>

definition when_made :: "cl_exn + 'req \<Rightarrow> ('req \<Rightarrow> ('w, 'a) sending) \<Rightarrow> ('w, 'a) sending" where
  "when_made made send w = (case made of Inl e \<Rightarrow> (Raise e, w) | Inr request \<Rightarrow> send request w)"

subsection \<open>Clients\<close>

record channel =
  ch_id :: nat
  ch_target :: target

record 'stub client =
  cl_stub :: 'stub
  cl_channel :: "channel option"
  cl_owns_channel :: bool

record ('t, 'w) query_stub =
  st_get_event_book :: "('t, 'w, query_msg, event_book) rpc"
  st_get_events :: "('t, 'w, query_msg, event_book stream) rpc"
  st_get_correlated :: "('t, 'w, uuid_msg, event_book stream) rpc"

record ('t, 'w) handler_stub =
  st_handle :: "('t, 'w, command_book, command_response) rpc"
  st_handle_async :: "('t, 'w, command_book, unit) rpc"
  st_handle_sync :: "('t, 'w, command_book, command_response) rpc"

text \<open>An argument \<open>owns_channel\<close> left out is None, and is then True.\<close>

definition client_new :: "(channel \<Rightarrow> 'stub) \<Rightarrow> channel \<Rightarrow> bool option \<Rightarrow> 'stub client" where
  "client_new mk_stub ch owns_channel =
     \<lparr>cl_stub = mk_stub ch, cl_channel = Some ch,
      cl_owns_channel = (case owns_channel of None \<Rightarrow> True | Some owns \<Rightarrow> owns)\<rparr>"

definition client_from_channel :: "(channel \<Rightarrow> 'stub) \<Rightarrow> channel \<Rightarrow> 'stub client" where
  "client_from_channel mk_stub ch = client_new mk_stub ch (Some False)"

definition client_from_stub :: "'stub \<Rightarrow> 'stub client" where
  "client_from_stub stub = \<lparr>cl_stub = stub, cl_channel = None, cl_owns_channel = False\<rparr>"

text \<open>
  A retry policy runs an operation to a result; given none, the default one runs, over the random
  numbers \<open>rand\<close>. The operation opens the channel of the endpoint, attempt by attempt.
\<close>

type_synonym policy = "(nat \<Rightarrow> exn + channel) \<Rightarrow> exn + channel"

definition run_policy :: "policy option \<Rightarrow> (nat \<Rightarrow> rat) \<Rightarrow> (nat \<Rightarrow> exn + channel) \<Rightarrow> exn + channel" where
  "run_policy retry rand operation =
     (case retry of Some policy \<Rightarrow> policy operation
      | None \<Rightarrow> fst (execute default_retry_policy rand None operation))"

definition open_channel ::
  "(nat \<Rightarrow> target \<Rightarrow> exn + nat) \<Rightarrow> string \<Rightarrow> nat \<Rightarrow> exn + channel" where
  "open_channel opening endpoint attempt =
     bindR (opening attempt (create_channel endpoint)) (\<lambda>n.
     Return \<lparr>ch_id = n, ch_target = create_channel endpoint\<rparr>)"

definition client_connect ::
  "(channel \<Rightarrow> 'stub) \<Rightarrow> (nat \<Rightarrow> target \<Rightarrow> exn + nat) \<Rightarrow> (nat \<Rightarrow> rat) \<Rightarrow> string \<Rightarrow> policy option \<Rightarrow>
     exn + 'stub client" where
  "client_connect mk_stub opening rand endpoint retry =
     bindR (run_policy retry rand (open_channel opening endpoint)) (\<lambda>ch.
     Return (client_new mk_stub ch (Some True)))"

definition client_from_env ::
  "(channel \<Rightarrow> 'stub) \<Rightarrow> (nat \<Rightarrow> target \<Rightarrow> exn + nat) \<Rightarrow> (nat \<Rightarrow> rat) \<Rightarrow> environ \<Rightarrow> string \<Rightarrow> string \<Rightarrow>
     exn + 'stub client" where
  "client_from_env mk_stub opening rand env env_var fallback =
     client_connect mk_stub opening rand (or_else (env env_var) fallback) None"

text \<open>Closing, over the channels closed so far.\<close>

definition client_close :: "'stub client \<Rightarrow> nat list \<Rightarrow> nat list" where
  "client_close c shut =
     (if cl_owns_channel c
      then (case cl_channel c of Some ch \<Rightarrow> shut @ [ch_id ch] | None \<Rightarrow> shut) else shut)"

subsection \<open>The query client\<close>

text \<open>The correlation of a message whose field, unset, reads as the empty UUID message.\<close>

definition correlation_of :: "uuid_msg option \<Rightarrow> metadata" where
  "correlation_of c =
     correlated_metadata (Correlation_uuid (case c of None \<Rightarrow> [] | Some b \<Rightarrow> b))"

definition get_event_book ::
  "protobuf \<Rightarrow> ('t, 'w) query_stub client \<Rightarrow> query_msg \<Rightarrow> 't \<Rightarrow> ('w, event_book) sending" where
  "get_event_book pb c query timeout =
     invoke pb (st_get_event_book (cl_stub c)) query timeout (correlation_of (qy_correlation_id query))"

definition get_events ::
  "protobuf \<Rightarrow> ('t, 'w) query_stub client \<Rightarrow> query_msg \<Rightarrow> 't \<Rightarrow> ('w, event_book list) sending" where
  "get_events pb c query timeout =
     invoke_stream pb (st_get_events (cl_stub c)) query timeout (correlation_of (qy_correlation_id query))"

definition get_correlated_events ::
  "protobuf \<Rightarrow> ('t, 'w) query_stub client \<Rightarrow> uuid_arg \<Rightarrow> 't \<Rightarrow> ('w, event_book list) sending" where
  "get_correlated_events pb c v timeout =
     when_made (as_uuid v ''correlation_id'') (\<lambda>u.
     let request = uuid_to_proto u in
     invoke_stream pb (st_get_correlated (cl_stub c)) request timeout (correlation_of (Some request)))"

definition client_query :: "string \<Rightarrow> uuid \<Rightarrow> query_builder" where
  "client_query domain aggregate = query_builder domain (Some aggregate)"

definition client_query_domain :: "string \<Rightarrow> query_builder" where
  "client_query_domain domain = query_builder domain None"

subsection \<open>The command handler client\<close>

definition handle ::
  "protobuf \<Rightarrow> ('t, 'w) handler_stub client \<Rightarrow> command_book \<Rightarrow> 't \<Rightarrow> ('w, command_response) sending" where
  "handle pb c command timeout =
     invoke pb (st_handle (cl_stub c)) command timeout
       (correlation_of (cp_correlation_id (book_page command)))"

definition handle_async ::
  "protobuf \<Rightarrow> ('t, 'w) handler_stub client \<Rightarrow> command_book \<Rightarrow> 't \<Rightarrow> ('w, unit) sending" where
  "handle_async pb c command timeout =
     invoke pb (st_handle_async (cl_stub c)) command timeout
       (correlation_of (cp_correlation_id (book_page command)))"

definition handle_sync ::
  "protobuf \<Rightarrow> ('t, 'w) handler_stub client \<Rightarrow> command_book \<Rightarrow> 't \<Rightarrow> ('w, command_response) sending" where
  "handle_sync pb c command timeout =
     invoke pb (st_handle_sync (cl_stub c)) command timeout
       (correlation_of (cp_correlation_id (book_page command)))"

definition client_command :: "string \<Rightarrow> uuid \<Rightarrow> command_builder" where
  "client_command domain aggregate = command_builder domain aggregate"

text \<open>\<open>uuid4\<close> is the fresh root.\<close>

definition command_new :: "uuid \<Rightarrow> string \<Rightarrow> command_builder" where
  "command_new uuid4 domain = command_builder domain uuid4"

subsection \<open>The builders' sending halves\<close>

text \<open>A builder's calls pass no timeout: \<open>none\<close> is that one.\<close>

definition execute_async ::
  "protobuf \<Rightarrow> (int \<Rightarrow> bool) \<Rightarrow> 't \<Rightarrow> ('t, 'w) handler_stub client \<Rightarrow> command_builder \<Rightarrow> ('w, unit) sending" where
  "execute_async pb fits none c b = when_made (build_command fits b) (\<lambda>book. handle_async pb c book none)"

definition execute_command ::
  "protobuf \<Rightarrow> (int \<Rightarrow> bool) \<Rightarrow> 't \<Rightarrow> ('t, 'w) handler_stub client \<Rightarrow> command_builder \<Rightarrow>
     ('w, command_response) sending" where
  "execute_command pb fits none c b = when_made (build_command fits b) (\<lambda>book. handle pb c book none)"

definition execute_sync ::
  "protobuf \<Rightarrow> (int \<Rightarrow> bool) \<Rightarrow> 't \<Rightarrow> ('t, 'w) handler_stub client \<Rightarrow> command_builder \<Rightarrow>
     ('w, command_response) sending" where
  "execute_sync pb fits none c b = when_made (build_command fits b) (\<lambda>book. handle_sync pb c book none)"

definition query_event_book ::
  "protobuf \<Rightarrow> 't \<Rightarrow> ('t, 'w) query_stub client \<Rightarrow> query_builder \<Rightarrow> ('w, event_book) sending" where
  "query_event_book pb none c b = get_event_book pb c (build_query b) none"

definition query_events ::
  "protobuf \<Rightarrow> 't \<Rightarrow> ('t, 'w) query_stub client \<Rightarrow> query_builder \<Rightarrow> ('w, event_book list) sending" where
  "query_events pb none c b = get_events pb c (build_query b) none"

definition query_pages ::
  "protobuf \<Rightarrow> 't \<Rightarrow> ('t, 'w) query_stub client \<Rightarrow> query_builder \<Rightarrow> ('w, event_page list) sending" where
  "query_pages pb none c b w =
     (case query_event_book pb none c b w of
        (result, w') \<Rightarrow> (bindR result (\<lambda>book. Return (eb_pages book)), w'))"

subsection \<open>The domain client\<close>

record ('t, 'w) domain_client =
  dc_command_handler :: "('t, 'w) handler_stub client"
  dc_query :: "('t, 'w) query_stub client"
  dc_channel :: "channel option"
  dc_owns_channel :: bool

text \<open>The stubs over a channel.\<close>

record ('t, 'w) stubs =
  mk_handler_stub :: "channel \<Rightarrow> ('t, 'w) handler_stub"
  mk_query_stub :: "channel \<Rightarrow> ('t, 'w) query_stub"

definition domain_client_new :: "('t, 'w) stubs \<Rightarrow> channel \<Rightarrow> bool option \<Rightarrow> ('t, 'w) domain_client" where
  "domain_client_new mk ch owns_channel =
     \<lparr>dc_command_handler = client_from_channel (mk_handler_stub mk) ch,
      dc_query = client_from_channel (mk_query_stub mk) ch,
      dc_channel = Some ch,
      dc_owns_channel = (case owns_channel of None \<Rightarrow> True | Some owns \<Rightarrow> owns)\<rparr>"

definition domain_client_connect ::
  "('t, 'w) stubs \<Rightarrow> (nat \<Rightarrow> target \<Rightarrow> exn + nat) \<Rightarrow> (nat \<Rightarrow> rat) \<Rightarrow> string \<Rightarrow> policy option \<Rightarrow>
     exn + ('t, 'w) domain_client" where
  "domain_client_connect mk opening rand endpoint retry =
     bindR (run_policy retry rand (open_channel opening endpoint)) (\<lambda>ch.
     Return (domain_client_new mk ch (Some True)))"

definition domain_client_from_channel :: "('t, 'w) stubs \<Rightarrow> channel \<Rightarrow> ('t, 'w) domain_client" where
  "domain_client_from_channel mk ch = domain_client_new mk ch (Some False)"

definition from_clients :: "('t, 'w) handler_stub client \<Rightarrow> ('t, 'w) query_stub client \<Rightarrow> ('t, 'w) domain_client" where
  "from_clients command_handler query =
     \<lparr>dc_command_handler = command_handler, dc_query = query, dc_channel = None,
      dc_owns_channel = False\<rparr>"

definition for_domain ::
  "('t, 'w) stubs \<Rightarrow> (nat \<Rightarrow> target \<Rightarrow> exn + nat) \<Rightarrow> (nat \<Rightarrow> rat) \<Rightarrow> environ \<Rightarrow> string \<Rightarrow>
     transport_mode option \<Rightarrow> exn + ('t, 'w) domain_client" where
  "for_domain mk opening rand env domain mode =
     bindR (resolve_ch_endpoint env domain mode ''/tmp/angzarr'' ''angzarr'' 1310) (\<lambda>endpoint.
     domain_client_connect mk opening rand endpoint None)"

definition domain_client_from_env ::
  "('t, 'w) stubs \<Rightarrow> (nat \<Rightarrow> target \<Rightarrow> exn + nat) \<Rightarrow> (nat \<Rightarrow> rat) \<Rightarrow> environ \<Rightarrow> string \<Rightarrow> string \<Rightarrow>
     exn + ('t, 'w) domain_client" where
  "domain_client_from_env mk opening rand env env_var fallback =
     domain_client_connect mk opening rand (or_else (env env_var) fallback) None"

definition domain_execute ::
  "protobuf \<Rightarrow> ('t, 'w) domain_client \<Rightarrow> command_book \<Rightarrow> 't \<Rightarrow> ('w, command_response) sending" where
  "domain_execute pb d command timeout = handle pb (dc_command_handler d) command timeout"

definition domain_execute_async ::
  "protobuf \<Rightarrow> ('t, 'w) domain_client \<Rightarrow> command_book \<Rightarrow> 't \<Rightarrow> ('w, unit) sending" where
  "domain_execute_async pb d command timeout = handle_async pb (dc_command_handler d) command timeout"

definition domain_execute_sync ::
  "protobuf \<Rightarrow> ('t, 'w) domain_client \<Rightarrow> command_book \<Rightarrow> 't \<Rightarrow> ('w, command_response) sending" where
  "domain_execute_sync pb d command timeout = handle_sync pb (dc_command_handler d) command timeout"

definition domain_get_event_book ::
  "protobuf \<Rightarrow> ('t, 'w) domain_client \<Rightarrow> query_msg \<Rightarrow> 't \<Rightarrow> ('w, event_book) sending" where
  "domain_get_event_book pb d query timeout = get_event_book pb (dc_query d) query timeout"

definition domain_get_events ::
  "protobuf \<Rightarrow> ('t, 'w) domain_client \<Rightarrow> query_msg \<Rightarrow> 't \<Rightarrow> ('w, event_book list) sending" where
  "domain_get_events pb d query timeout = get_events pb (dc_query d) query timeout"

definition domain_get_correlated_events ::
  "protobuf \<Rightarrow> ('t, 'w) domain_client \<Rightarrow> uuid_arg \<Rightarrow> 't \<Rightarrow> ('w, event_book list) sending" where
  "domain_get_correlated_events pb d v timeout = get_correlated_events pb (dc_query d) v timeout"

definition domain_close :: "('t, 'w) domain_client \<Rightarrow> nat list \<Rightarrow> nat list" where
  "domain_close d shut =
     (if dc_owns_channel d
      then (case dc_channel d of Some ch \<Rightarrow> shut @ [ch_id ch] | None \<Rightarrow> shut) else shut)"

end
