(* ===== verification/Client_Properties.thy ===== *)
theory Client_Properties
  imports Client
begin

text \<open>
  The clients' contracts (\<open>client.py\<close>, the sending halves of \<open>builder.py\<close>): where a domain's client
  connects, what a call carries, what its failure becomes, and whose channel is closed.
\<close>

subsection \<open>Numbers read back\<close>

lemma digit_value_digit: "d < 10 \<Longrightarrow> digit_value (digit d) = Some d \<and> digit d \<noteq> CHR ''_''"
proof -
  assume d: "d < 10"
  then have "(of_char (digit d) :: nat) = 48 + d" by (rule of_char_digit)
  moreover from this d have "digit d \<noteq> CHR ''_''" by auto
  ultimately show ?thesis using d by (simp add: digit_value_def Let_def)
qed

lemma int_digits_snoc:
  "int_digits 10 b acc s = Some n \<Longrightarrow> d < 10 \<Longrightarrow>
     int_digits 10 b acc (s @ [digit d]) = Some (10 * n + d)"
proof (induction s arbitrary: b acc)
  case Nil
  then show ?case using digit_value_digit [of d] by (auto split: if_splits)
next
  case (Cons c s)
  then show ?case by (auto split: if_splits option.splits)
qed

lemma int_digits_nat_str: "int_digits 10 False 0 (nat_str n) = Some n"
proof (induction n rule: nat_str.induct)
  case (1 n)
  show ?case
  proof (cases "n < 10")
    case True
    then show ?thesis using digit_value_digit [of n] by (subst nat_str.simps) simp
  next
    case False
    have "int_digits 10 False 0 (nat_str (n div 10) @ [digit (n mod 10)]) =
        Some (10 * (n div 10) + n mod 10)"
      using 1 False by (intro int_digits_snoc) auto
    with False show ?thesis by (subst nat_str.simps) simp
  qed
qed

lemma nat_str_chars: "c \<in> set (nat_str n) \<Longrightarrow> \<not> space_char c \<and> c \<noteq> CHR ''-'' \<and> c \<noteq> CHR ''+'' \<and> c \<noteq> CHR '':''"
proof -
  assume "c \<in> set (nat_str n)"
  then obtain d where d: "d < 10" "c = digit d" using nat_str_digits by blast
  then have n: "(of_char c :: nat) = 48 + d" by (simp add: of_char_digit)
  then have "c \<noteq> CHR ''-''" "c \<noteq> CHR ''+''" "c \<noteq> CHR '':''" using d(1) by auto
  with n d(1) show ?thesis by (auto simp: space_char_def)
qed

lemma py_int_int_str: "py_int 10 (int_str i) = Some i"
proof -
  have strip: "strip_chars space_char (nat_str n) = nat_str n" for n
    using nat_str_chars by (intro strip_chars_none) blast
  have strip': "strip_chars space_char (CHR ''-'' # nat_str n) = CHR ''-'' # nat_str n" for n
    using nat_str_chars by (intro strip_chars_none) (auto simp: space_char_def)
  have sign: "\<not> startswith ''-'' (nat_str n)" "\<not> startswith ''+'' (nat_str n)" for n
    using nat_str_chars [of _ n] nat_str_nonempty [of n]
    by (cases "nat_str n"; force simp: startswith_Cons)+
  show ?thesis
    by (simp add: py_int_def int_str_def strip strip' sign unsigned_int_def int_digits_nat_str
        startswith_Cons Let_def)
qed

lemma int_str_no_colon: "CHR '':'' \<notin> set (int_str i)"
  using nat_str_chars by (auto simp: int_str_def)

subsection \<open>Calls\<close>

lemma correlation_header:
  "length u = 16 \<Longrightarrow> correlation_of (Some u) = [(CORRELATION_ID_HEADER, uuid_text u)]"
  by (simp add: correlation_of_def correlated_metadata_def proto_uuid_to_text_def
      bytes_to_uuid_text_def uuid_text_def Let_def)

lemma no_correlation_header [simp]: "correlation_of None = []"
  by (simp add: correlation_of_def correlated_metadata_def proto_uuid_to_text_def
      bytes_to_uuid_text_def)

definition correlation_headers :: "uuid option \<Rightarrow> metadata" where
  "correlation_headers c = (case c of None \<Rightarrow> [] | Some u \<Rightarrow> [(CORRELATION_ID_HEADER, uuid_text u)])"

lemma correlation_of_option:
  "(\<And>u. c = Some u \<Longrightarrow> length u = 16) \<Longrightarrow> correlation_of c = correlation_headers c"
  by (cases c) (auto simp: correlation_headers_def correlation_header)

lemma built_correlation:
  "build_command fits b = Return book \<Longrightarrow> cp_correlation_id (book_page book) = bd_correlation_id b"
  by (auto simp: build_command_def Let_def set_handling_def book_page_def uuid_to_proto_def
      command_page_default_def command_book_default_def split: option.splits if_splits)

text \<open>What the outcome of a stub's method is to the client's caller.\<close>

fun outcome_error :: "protobuf \<Rightarrow> 'a stub_outcome \<Rightarrow> cl_exn option" where
  "outcome_error pb (Responded _) = None"
| "outcome_error pb (Rpc_failed e) =
     Some (case grpc_error_of pb e of Inl exc \<Rightarrow> Raised exc | Inr x \<Rightarrow> Client_exn x)"
| "outcome_error pb (Value_failed t) =
     Some (if t = CLOSED_CHANNEL_MESSAGE
           then Client_exn (client_error Transport_error TRANSPORT_ERROR [(''reason'', PStr ''channel closed'')])
           else Raised (Other_exc ''ValueError''))"
| "outcome_error pb (Stub_raised exc) = Some (Raised exc)"

text \<open>
  What one call of a stub's method, made in the world it is made in, is to the caller, who is left
  in the world it leaves: the response, or the error of its outcome. A streamed response is its
  items when it ends well, and otherwise the error of its end.
\<close>

definition one_call :: "protobuf \<Rightarrow> 'a stub_outcome \<times> 'w \<Rightarrow> (cl_exn + 'a) \<times> 'w" where
  "one_call pb called =
     ((case fst called of Responded response \<Rightarrow> Return response
       | _ \<Rightarrow> Raise (the (outcome_error pb (fst called)))), snd called)"

definition one_stream :: "protobuf \<Rightarrow> 'x stream stub_outcome \<times> 'w \<Rightarrow> (cl_exn + 'x list) \<times> 'w" where
  "one_stream pb called =
     ((case fst called of
         Responded response \<Rightarrow>
           (case outcome_error pb (sm_end response) of
              None \<Rightarrow> Return (sm_items response) | Some e \<Rightarrow> Raise e)
       | _ \<Rightarrow> Raise (the (outcome_error pb (fst called)))), snd called)"

lemma mapped_outcome:
  "mapped_outcome pb outcome =
     (case outcome of Responded response \<Rightarrow> Return response | _ \<Rightarrow> Raise (the (outcome_error pb outcome)))"
  by (cases outcome) (simp_all add: mapped_outcome_def split: sum.split)

lemma invoke_once: "invoke pb rpc request timeout md w = one_call pb (rpc request timeout md w)"
  by (cases "rpc request timeout md w") (simp add: invoke_def one_call_def mapped_outcome split: stub_outcome.split)

lemma invoke_stream_once:
  "invoke_stream pb rpc request timeout md w = one_stream pb (rpc request timeout md w)"
  by (cases "rpc request timeout md w")
    (auto simp: invoke_stream_def one_stream_def mapped_outcome split: stub_outcome.split)

subsection \<open>Connections\<close>

lemma attempts_answer:
  "fst (attempts b rand on_retry operation i last_err run) = Return v \<Longrightarrow>
     \<exists>k \<ge> i. int k < bo_max_attempts b \<and> operation k = Return v"
proof (induction "nat (bo_max_attempts b) - i" arbitrary: i last_err run)
  case 0
  from 0(1) have "bo_max_attempts b \<le> int i" by simp
  with 0(2) show ?case by (subst (asm) attempts.simps) simp
next
  case (Suc m)
  have i: "int i < bo_max_attempts b" using Suc.hyps(2) by simp
  show ?case
  proof (cases "operation i")
    case (Inr w)
    with Suc.prems i have "w = v" by (subst (asm) attempts.simps) simp
    with Inr i show ?thesis by auto
  next
    case (Inl e)
    with Suc.prems i obtain le r where
      "fst (attempts b rand on_retry operation (Suc i) le r) = Return v"
      by (subst (asm) attempts.simps) (auto simp: Let_def split: if_splits option.splits sum.splits)
    moreover have "m = nat (bo_max_attempts b) - Suc i" using Suc.hyps(2) by simp
    ultimately obtain k where "Suc i \<le> k" "int k < bo_max_attempts b" "operation k = Return v"
      using Suc.hyps(1) by blast
    then show ?thesis by (intro exI [of _ k]) simp
  qed
qed

lemma default_policy_answer:
  "run_policy None rand (open_channel opening endpoint) = Return ch \<Longrightarrow>
     \<exists>k < 10. \<exists>n. opening k (create_channel endpoint) = Return n
       \<and> ch = \<lparr>ch_id = n, ch_target = create_channel endpoint\<rparr>"
proof -
  assume "run_policy None rand (open_channel opening endpoint) = Return ch"
  then have "fst (attempts default_retry_policy rand None (open_channel opening endpoint) 0 None
      \<lparr>rr_calls = 0, rr_retries = [], rr_sleeps = []\<rparr>) = Return ch"
    by (simp add: run_policy_def execute_def)
  from attempts_answer [OF this] obtain k where "k < 10" "open_channel opening endpoint k = Return ch"
    by (auto simp: default_retry_policy_def)
  then show ?thesis
    by (intro exI [of _ k]) (auto simp: open_channel_def bindR_eq_Inr_iff)
qed

subsection \<open>Properties\<close>

text \<open>
  A domain is connected to where it serves. In standalone mode the endpoint is the socket
  \<open>ch-<domain>.sock\<close> under the environment's base path, or the argument's, which, absolute, is dialled
  as a Unix target whose path is read back whole, and is the very path a server of service name
  \<open>ch\<close> for the domain binds under that base; in distributed mode it is the service's host and a
  port, over an insecure channel, the port being the environment's number or the argument. An
  unknown mode, or a port that is no number, is refused before anything is dialled.
\<close>

theorem domain_endpoints:
  assumes "base = env_get env ''ANGZARR_UDS_BASE'' uds_base"
    and "ns = env_get env ''ANGZARR_NAMESPACE'' namespace"
  shows "resolve_ch_endpoint env d (Some STANDALONE) uds_base namespace port = Return (base @ ''/ch-'' @ d @ ''.sock'')
    \<and> (base = [] \<or> startswith ''/'' base \<longrightarrow>
        create_channel (base @ ''/ch-'' @ d @ ''.sock'') = Insecure (''unix://'' @ base @ ''/ch-'' @ d @ ''.sock'')
        \<and> address_socket_path (''unix://'' @ base @ ''/ch-'' @ d @ ''.sock'') = Some (base @ ''/ch-'' @ d @ ''.sock''))
    \<and> (d \<noteq> [] \<longrightarrow> uds_socket_path [''UDS_BASE_PATH'' \<mapsto> base, ''SERVICE_NAME'' \<mapsto> ''ch'', ''DOMAIN'' \<mapsto> d]
        = base @ ''/ch-'' @ d @ ''.sock'')
    \<and> (\<forall>p. (env ''ANGZARR_CH_PORT'' = None \<and> p = port \<or>
            (\<exists>t. env ''ANGZARR_CH_PORT'' = Some t \<and> py_int 10 t = Some p)) \<longrightarrow>
        (let host = ''ch-'' @ d @ ''.'' @ ns @ ''.svc''; endpoint = host @ '':'' @ int_str p in
         resolve_ch_endpoint env d (Some DISTRIBUTED) uds_base namespace port = Return endpoint
         \<and> create_channel endpoint = Insecure endpoint
         \<and> rpartition CHR '':'' endpoint = (host, '':'', int_str p)))
    \<and> (\<forall>t. env ''ANGZARR_CH_PORT'' = Some t \<and> py_int 10 t = None \<longrightarrow>
        resolve_ch_endpoint env d (Some DISTRIBUTED) uds_base namespace port = Raise (Other_exc ''ValueError''))
    \<and> resolve_ch_endpoint env d None uds_base namespace port =
        (let mode = env_get env ''ANGZARR_MODE'' ''distributed'' in
         if mode = ''standalone'' then resolve_ch_endpoint env d (Some STANDALONE) uds_base namespace port
         else if mode = ''distributed'' then resolve_ch_endpoint env d (Some DISTRIBUTED) uds_base namespace port
         else Raise (Other_exc ''ValueError''))"
proof -
  let ?sock = "base @ ''/ch-'' @ d @ ''.sock''"
  have standalone: "resolve_ch_endpoint env d (Some STANDALONE) uds_base namespace port = Return ?sock"
    by (simp add: resolve_ch_endpoint_def assms(1))
  have dial: "create_channel ?sock = Insecure (''unix://'' @ ?sock)
      \<and> address_socket_path (''unix://'' @ ?sock) = Some ?sock" if "base = [] \<or> startswith ''/'' base"
  proof -
    obtain r where r: "?sock = CHR ''/'' # r"
    proof (cases "base = []")
      case True
      then show ?thesis by (intro that [of "''ch-'' @ d @ ''.sock''"]) simp
    next
      case False
      with \<open>base = [] \<or> startswith ''/'' base\<close> obtain t where "base = ''/'' @ t"
        by (auto simp: startswith_iff)
      then show ?thesis by (intro that [of "t @ ''/ch-'' @ d @ ''.sock''"]) simp
    qed
    show ?thesis
      unfolding r
      by (simp add: create_channel_def address_socket_path_def startswith_Cons removeprefix_def)
  qed
  have server: "uds_socket_path [''UDS_BASE_PATH'' \<mapsto> base, ''SERVICE_NAME'' \<mapsto> ''ch'', ''DOMAIN'' \<mapsto> d] = ?sock"
    if "d \<noteq> []"
    using that by (simp add: uds_socket_path_def env_get_def or_else_def Let_def)
  have dist: "resolve_ch_endpoint env d (Some DISTRIBUTED) uds_base namespace port =
      (case py_int 10 (env_get env ''ANGZARR_CH_PORT'' (int_str port)) of
         None \<Rightarrow> Raise (Other_exc ''ValueError'')
       | Some p \<Rightarrow> Return ((''ch-'' @ d @ ''.'' @ ns @ ''.svc'') @ '':'' @ int_str p))"
    by (simp add: resolve_ch_endpoint_def assms(2) Let_def split: option.split)
  have port: "py_int 10 (env_get env ''ANGZARR_CH_PORT'' (int_str port)) = Some p"
    if "env ''ANGZARR_CH_PORT'' = None \<and> p = port \<or> (\<exists>t. env ''ANGZARR_CH_PORT'' = Some t \<and> py_int 10 t = Some p)" for p
    using that py_int_int_str by (auto simp: env_get_def)
  have target: "create_channel ((''ch-'' @ d @ ''.'' @ ns @ ''.svc'') @ '':'' @ int_str p)
      = Insecure ((''ch-'' @ d @ ''.'' @ ns @ ''.svc'') @ '':'' @ int_str p)" for p
    by (simp add: create_channel_def startswith_Cons)
  have split: "rpartition CHR '':'' (h @ '':'' @ int_str p) = (h, '':'', int_str p)" for h p
    using rpartition_append [OF int_str_no_colon [of p], of h] by simp
  have mode: "resolve_ch_endpoint env d None uds_base namespace port =
        (let mode = env_get env ''ANGZARR_MODE'' ''distributed'' in
         if mode = ''standalone'' then resolve_ch_endpoint env d (Some STANDALONE) uds_base namespace port
         else if mode = ''distributed'' then resolve_ch_endpoint env d (Some DISTRIBUTED) uds_base namespace port
         else Raise (Other_exc ''ValueError''))"
    by (simp add: resolve_ch_endpoint_def transport_mode_of_def Let_def)
  show ?thesis
    unfolding Let_def [of "''ch-'' @ d @ ''.'' @ ns @ ''.svc''"]
    using standalone dial server dist port target split mode
    by (auto simp: Let_def env_get_def simp del: append.simps append_assoc)
qed

theorem domain_endpoints_witness:
  "create_channel (''/run'' @ ''/ch-'' @ ''orders'' @ ''.sock'') = Insecure ''unix:///run/ch-orders.sock''
   \<and> resolve_ch_endpoint [''ANGZARR_CH_PORT'' \<mapsto> '' 99 ''] ''orders'' (Some DISTRIBUTED) ''/run'' ''shop'' 1310
       = Return ''ch-orders.shop.svc:99''"
proof -
  let ?env = "[''ANGZARR_CH_PORT'' \<mapsto> '' 99 ''] :: environ"
  have e: "''/run'' = env_get ?env ''ANGZARR_UDS_BASE'' ''/run''"
    "''shop'' = env_get ?env ''ANGZARR_NAMESPACE'' ''shop''" by (simp_all add: env_get_def)
  have p: "py_int 10 '' 99 '' = Some 99" by code_simp
  have n: "int_str 99 = ''99''" by (simp add: int_str_def nat_str.simps digits)
  from domain_endpoints [OF e, of "''orders''" 1310] p n show ?thesis
    by (simp add: startswith_Cons Let_def)
qed

text \<open>
  C27: a built command is sent once, with its correlation. A command that does not build is raised
  and nothing is sent: the world is as it was. Otherwise each way of sending makes exactly one call,
  in the world it finds and leaving the world that call leaves, of its own method of the stub, with
  the command built, no timeout, and the correlation header exactly when a correlation was set, its
  text being the UUID's, which is read back as the same correlation; and it answers that call's
  response or raises the error of its outcome, with no second try. A query built is sent the same
  way, and the correlated events of a UUID are asked for under that UUID, while a text that is none
  is refused with nothing sent.
\<close>

theorem calls_carry_their_correlation:
  assumes "\<And>u. bd_correlation_id b = Some u \<Longrightarrow> length u = 16"
    and "\<And>u. qb_correlation_id q = Some u \<Longrightarrow> length u = 16"
  shows "(case build_command fits b of
        Inl e \<Rightarrow> execute_command pb fits none c b w = (Raise e, w)
          \<and> execute_async pb fits none c b w = (Raise e, w) \<and> execute_sync pb fits none c b w = (Raise e, w)
      | Inr book \<Rightarrow>
          execute_command pb fits none c b w =
            one_call pb (st_handle (cl_stub c) book none (correlation_headers (bd_correlation_id b)) w)
          \<and> execute_async pb fits none c b w =
            one_call pb (st_handle_async (cl_stub c) book none (correlation_headers (bd_correlation_id b)) w)
          \<and> execute_sync pb fits none c b w =
            one_call pb (st_handle_sync (cl_stub c) book none (correlation_headers (bd_correlation_id b)) w))
    \<and> query_event_book pb none cq q w =
        one_call pb (st_get_event_book (cl_stub cq) (build_query q) none
          (correlation_headers (qb_correlation_id q)) w)
    \<and> query_events pb none cq q w =
        one_stream pb (st_get_events (cl_stub cq) (build_query q) none
          (correlation_headers (qb_correlation_id q)) w)
    \<and> (\<forall>u. length u = 16 \<longrightarrow>
        as_uuid (Text_arg (snd (hd (correlation_headers (Some u))))) ''correlation_id'' = Return u
        \<and> get_correlated_events pb cq (Text_arg (uuid_text u)) t w =
            one_stream pb (st_get_correlated (cl_stub cq) u t (correlation_headers (Some u)) w))
    \<and> (\<forall>v e. as_uuid v ''correlation_id'' = Raise e \<longrightarrow> get_correlated_events pb cq v t w = (Raise e, w))"
proof -
  have q: "correlation_of (qy_correlation_id (build_query q)) = correlation_headers (qb_correlation_id q)"
    using assms(2) by (simp add: build_query_eq correlation_of_option)
  have b: "correlation_of (cp_correlation_id (book_page book)) = correlation_headers (bd_correlation_id b)"
    if "build_command fits b = Return book" for book
    using that assms(1) by (simp add: built_correlation correlation_of_option)
  have reads: "as_uuid (Text_arg (uuid_text u)) ''correlation_id'' = Return u" if "length u = 16" for u
    using uuid_forms(1) [OF that] by (simp add: as_uuid_def)
  show ?thesis
    by (auto simp: execute_command_def execute_async_def execute_sync_def handle_def handle_async_def
        handle_sync_def query_event_book_def query_events_def get_event_book_def get_events_def q b
        get_correlated_events_def reads uuid_to_proto_def correlation_header correlation_headers_def
        when_made_def invoke_once invoke_stream_once split: sum.split option.split)
qed

text \<open>
  The stubs of a closed channel, and ones that answer and keep count of their calls; and protobuf
  functions that read nothing.
\<close>

definition closed_stub :: "(unit, nat) handler_stub" where
  "closed_stub =
     \<lparr>st_handle = (\<lambda>_ _ _ n. (Value_failed CLOSED_CHANNEL_MESSAGE, Suc n)),
      st_handle_async = (\<lambda>_ _ _ n. (Value_failed CLOSED_CHANNEL_MESSAGE, Suc n)),
      st_handle_sync = (\<lambda>_ _ _ n. (Value_failed CLOSED_CHANNEL_MESSAGE, Suc n))\<rparr>"

definition echo_stub :: "(unit, nat) query_stub" where
  "echo_stub =
     \<lparr>st_get_event_book =
        (\<lambda>_ _ md n. (Responded (event_book_default\<lparr>eb_next_sequence := length md\<rparr>), Suc n)),
      st_get_events = (\<lambda>_ _ _ n. (Responded \<lparr>sm_items = [], sm_end = Responded ()\<rparr>, Suc n)),
      st_get_correlated = (\<lambda>_ _ _ n. (Responded \<lparr>sm_items = [], sm_end = Responded ()\<rparr>, Suc n))\<rparr>"

definition no_protobuf :: protobuf where
  "no_protobuf =
     \<lparr>pb_status_bytes = (\<lambda>_. []), pb_status_parse = (\<lambda>_. None), pb_pack_info = (\<lambda>_. any_default),
      pb_unpack_info = (\<lambda>_. Return None)\<rparr>"

theorem calls_carry_their_correlation_witness:
  "query_event_book no_protobuf () (client_from_stub echo_stub)
     (query_builder ''orders'' None\<lparr>qb_correlation_id := Some counting_uuid\<rparr>) 0
   = (Return (event_book_default\<lparr>eb_next_sequence := 1\<rparr>), 1)
   \<and> snd (execute_command no_protobuf (\<lambda>_. True) () (client_from_stub closed_stub)
        (command_builder ''orders'' counting_uuid\<lparr>bd_type_url := Some ''/t.T'', bd_payload := Some []\<rparr>) 0) = 1
   \<and> snd (execute_command no_protobuf (\<lambda>_. True) () (client_from_stub closed_stub)
        (command_builder ''orders'' counting_uuid) 0) = 0"
proof -
  let ?q = "query_builder ''orders'' None\<lparr>qb_correlation_id := Some counting_uuid\<rparr>"
  let ?b = "command_builder ''orders'' counting_uuid"
  let ?b1 = "?b\<lparr>bd_type_url := Some ''/t.T'', bd_payload := Some []\<rparr>"
  have b: "\<And>u. bd_correlation_id ?b = Some u \<Longrightarrow> length u = 16"
    "\<And>u. bd_correlation_id ?b1 = Some u \<Longrightarrow> length u = 16"
    by (simp_all add: command_builder_def)
  have q: "\<And>u. qb_correlation_id ?q = Some u \<Longrightarrow> length u = 16"
    by (simp add: counting_uuid_def)
  note sent = calls_carry_their_correlation [where q = ?q and pb = no_protobuf and none = "()" and w = 0
      and c = "client_from_stub closed_stub" and cq = "client_from_stub echo_stub" and fits = "\<lambda>_. True"]
  note sent_good = sent [where b = ?b1, OF b(2) q] and sent_bad = sent [where b = ?b, OF b(1) q]
  obtain e where bad: "build_command (\<lambda>_. True) ?b = Raise e"
    by (simp add: build_command_def command_builder_def Let_def)
  obtain book where good: "build_command (\<lambda>_. True) ?b1 = Return book"
    by (cases "build_command (\<lambda>_. True) ?b1")
      (auto simp: build_command_def command_builder_def set_handling_def Let_def split: if_splits)
  have "query_event_book no_protobuf () (client_from_stub echo_stub) ?q 0 =
      one_call no_protobuf (st_get_event_book (cl_stub (client_from_stub echo_stub)) (build_query ?q) ()
        (correlation_headers (qb_correlation_id ?q)) 0)"
    by (rule sent_bad [THEN conjunct2, THEN conjunct1])
  moreover have "execute_command no_protobuf (\<lambda>_. True) () (client_from_stub closed_stub) ?b1 0 =
      one_call no_protobuf (st_handle (cl_stub (client_from_stub closed_stub)) book ()
        (correlation_headers (bd_correlation_id ?b1)) 0)"
    by (rule sent_good [unfolded good sum.case, THEN conjunct1, THEN conjunct1])
  moreover have "execute_command no_protobuf (\<lambda>_. True) () (client_from_stub closed_stub) ?b 0 = (Raise e, 0)"
    by (rule sent_bad [unfolded bad sum.case, THEN conjunct1, THEN conjunct1])
  ultimately show ?thesis
    by (simp add: one_call_def client_from_stub_def echo_stub_def closed_stub_def correlation_headers_def)
qed

text \<open>
  A failed call is an error its caller can tell apart. A call answers exactly what the stub
  responds. An RPC that fails raises the error of its status, a connection error exactly when
  UNAVAILABLE, and of the other kinds by its status too, unless reading its details raises; a call
  on a closed channel raises a connection error as well, and is of no other kind; any other
  ValueError, and whatever else the stub raises, is raised as it is.
\<close>

theorem failed_calls_are_told_apart:
  assumes "rpc request timeout md w = (outcome, w')"
  shows "(\<forall>r. invoke pb rpc request timeout md w = (Return r, w') \<longleftrightarrow> outcome = Responded r)
   \<and> (\<forall>err. outcome = Rpc_failed err \<longrightarrow>
        (case first_info pb (rs_details (rpc_status_of pb err)) of
           Inl exc \<Rightarrow> invoke pb rpc request timeout md w = (Raise (Raised exc), w')
         | Inr _ \<Rightarrow>
             (\<exists>x. invoke pb rpc request timeout md w = (Raise (Client_exn x), w')
                \<and> (is_connection_error x \<longleftrightarrow> re_code err = 14) \<and> (is_not_found x \<longleftrightarrow> re_code err = 5)
                \<and> (is_precondition_failed x \<longleftrightarrow> re_code err = 9)
                \<and> (is_invalid_argument x \<longleftrightarrow> re_code err = 3) \<and> (is_aborted x \<longleftrightarrow> re_code err = 10))))
   \<and> (outcome = Value_failed CLOSED_CHANNEL_MESSAGE \<longrightarrow>
        (\<exists>x. invoke pb rpc request timeout md w = (Raise (Client_exn x), w') \<and> is_connection_error x
           \<and> \<not> is_not_found x \<and> \<not> is_precondition_failed x \<and> \<not> is_invalid_argument x \<and> \<not> is_aborted x))
   \<and> (\<forall>exc. (outcome = Stub_raised exc \<or>
            exc = Other_exc ''ValueError'' \<and> (\<exists>t. outcome = Value_failed t \<and> t \<noteq> CLOSED_CHANNEL_MESSAGE)) \<longrightarrow>
        invoke pb rpc request timeout md w = (Raise (Raised exc), w'))"
proof (cases outcome)
  case (Rpc_failed err)
  show ?thesis
  proof (cases "first_info pb (rs_details (rpc_status_of pb err))")
    case (Inl exc)
    then have "grpc_error_of pb err = Raise exc" by (simp add: grpc_error_def)
    with Inl Rpc_failed assms show ?thesis by (simp add: invoke_once one_call_def)
  next
    case (Inr info)
    then obtain x where x: "grpc_error_of pb err = Return x" "er_class x = Grpc_error (re_code err)"
      by (simp add: grpc_error_def)
    then have "is_connection_error x \<longleftrightarrow> re_code err = 14" "is_not_found x \<longleftrightarrow> re_code err = 5"
      "is_precondition_failed x \<longleftrightarrow> re_code err = 9" "is_invalid_argument x \<longleftrightarrow> re_code err = 3"
      "is_aborted x \<longleftrightarrow> re_code err = 10"
      by (simp_all add: predicates status_codes)
    with x(1) Inr Rpc_failed assms show ?thesis by (simp add: invoke_once one_call_def)
  qed
qed (use assms in \<open>auto simp: invoke_once one_call_def predicates\<close>)

text \<open>A call on a closed channel.\<close>

theorem failed_calls_are_told_apart_witness:
  "\<exists>x. handle no_protobuf (client_from_stub closed_stub) command_book_default () 0 = (Raise (Client_exn x), 1)
     \<and> is_connection_error x"
proof -
  let ?rpc = "st_handle closed_stub"
  have "?rpc command_book_default () [] 0 = (Value_failed CLOSED_CHANNEL_MESSAGE, 1)"
    by (simp add: closed_stub_def)
  from failed_calls_are_told_apart [where rpc = ?rpc and pb = no_protobuf, OF this]
  obtain x where "invoke no_protobuf ?rpc command_book_default () [] 0 = (Raise (Client_exn x), 1)"
    "is_connection_error x" by (elim conjE) blast
  then show ?thesis
    by (simp add: handle_def client_from_stub_def book_page_def command_book_default_def
        command_page_default_def)
qed

text \<open>
  C34: a client closes a channel exactly when it owns it. It owns the channel it was made with
  unless it was made with no ownership of it, which the constructor, not told, does not assume: the
  caller of \<open>QueryClient(channel)\<close> hands the channel over. A connected client owns the channel its
  retry policy answered, which the default policy opened, to the endpoint, in one of at most ten
  attempts. A client made from a channel or a stub of its caller's, the two parts of a domain client
  included, closes nothing, and neither does a domain client made from clients.
\<close>

theorem channels_closed_by_their_owner:
  "(\<forall>ch owns_channel shut.
       client_close (client_new mk_stub ch owns_channel) shut =
         (if owns_channel = Some False then shut else shut @ [ch_id ch])
     \<and> domain_close (domain_client_new mk ch owns_channel) shut =
         (if owns_channel = Some False then shut else shut @ [ch_id ch])
     \<and> client_close (dc_command_handler (domain_client_new mk ch owns_channel)) shut = shut
     \<and> client_close (dc_query (domain_client_new mk ch owns_channel)) shut = shut)
   \<and> (\<forall>c. client_connect mk_stub opening rand endpoint retry = Return c \<longrightarrow>
       (\<exists>ch. cl_channel c = Some ch \<and> (\<forall>shut. client_close c shut = shut @ [ch_id ch])
          \<and> (case retry of
               Some policy \<Rightarrow> policy (open_channel opening endpoint) = Return ch
             | None \<Rightarrow> (\<exists>k < 10. opening k (create_channel endpoint) = Return (ch_id ch)
                 \<and> ch_target ch = create_channel endpoint))))
   \<and> (\<forall>d. domain_client_connect mk opening rand endpoint retry = Return d \<longrightarrow>
       (\<exists>ch. dc_channel d = Some ch
          \<and> (\<forall>shut. domain_close d shut = shut @ [ch_id ch]
               \<and> client_close (dc_command_handler d) shut = shut \<and> client_close (dc_query d) shut = shut)
          \<and> (case retry of
               Some policy \<Rightarrow> policy (open_channel opening endpoint) = Return ch
             | None \<Rightarrow> (\<exists>k < 10. opening k (create_channel endpoint) = Return (ch_id ch)
                 \<and> ch_target ch = create_channel endpoint))))
   \<and> (\<forall>ch stub shut. client_close (client_from_channel mk_stub ch) shut = shut
        \<and> client_close (client_from_stub stub) shut = shut
        \<and> domain_close (domain_client_from_channel mk ch) shut = shut)
   \<and> (\<forall>h q shut. domain_close (from_clients h q) shut = shut)"
proof -
  note [simp] = client_new_def client_close_def domain_client_new_def domain_close_def
    client_from_channel_def client_from_stub_def domain_client_from_channel_def from_clients_def
  have opened: "case retry of Some policy \<Rightarrow> policy (open_channel opening endpoint) = Return ch
      | None \<Rightarrow> (\<exists>k < 10. opening k (create_channel endpoint) = Return (ch_id ch)
          \<and> ch_target ch = create_channel endpoint)"
    if "run_policy retry rand (open_channel opening endpoint) = Return ch" for ch
  proof (cases retry)
    case None
    with that have "run_policy None rand (open_channel opening endpoint) = Return ch" by simp
    from default_policy_answer [OF this] None show ?thesis by auto
  qed (use that in \<open>simp add: run_policy_def\<close>)
  have "\<exists>ch. cl_channel c = Some ch \<and> (\<forall>shut. client_close c shut = shut @ [ch_id ch])
      \<and> (case retry of Some policy \<Rightarrow> policy (open_channel opening endpoint) = Return ch
         | None \<Rightarrow> (\<exists>k < 10. opening k (create_channel endpoint) = Return (ch_id ch)
             \<and> ch_target ch = create_channel endpoint))"
    if "client_connect mk_stub opening rand endpoint retry = Return c" for c
  proof -
    from that obtain ch where ch: "run_policy retry rand (open_channel opening endpoint) = Return ch"
      and c: "c = client_new mk_stub ch (Some True)"
      by (auto simp: client_connect_def bindR_eq_Inr_iff)
    from opened [OF ch] show ?thesis by (intro exI [of _ ch]) (simp add: c)
  qed
  moreover have "\<exists>ch. dc_channel d = Some ch
      \<and> (\<forall>shut. domain_close d shut = shut @ [ch_id ch]
           \<and> client_close (dc_command_handler d) shut = shut \<and> client_close (dc_query d) shut = shut)
      \<and> (case retry of Some policy \<Rightarrow> policy (open_channel opening endpoint) = Return ch
         | None \<Rightarrow> (\<exists>k < 10. opening k (create_channel endpoint) = Return (ch_id ch)
             \<and> ch_target ch = create_channel endpoint))"
    if "domain_client_connect mk opening rand endpoint retry = Return d" for d
  proof -
    from that obtain ch where ch: "run_policy retry rand (open_channel opening endpoint) = Return ch"
      and d: "d = domain_client_new mk ch (Some True)"
      by (auto simp: domain_client_connect_def bindR_eq_Inr_iff)
    from opened [OF ch] show ?thesis by (intro exI [of _ ch]) (simp add: d)
  qed
  ultimately show ?thesis by (simp split: option.split)
qed

theorem channels_closed_by_their_owner_witness:
  "\<exists>c. client_connect (\<lambda>ch. ch) (\<lambda>k t. if k = 0 then Raise (Other_exc ''OSError'') else Return 7)
       (\<lambda>_. 0) ''orders:1310'' None = Return c \<and> client_close c [] = [7]"
proof -
  let ?opening = "\<lambda>(k :: nat) (t :: target). if k = 0 then Raise (Other_exc ''OSError'') else Return (7 :: nat)"
  have d: "delay_of default_retry_policy (\<lambda>_. 0) 0 = 1 / 20"
    by (simp add: delay_of_def compute_delay_def math_pow2_def default_retry_policy_def)
  let ?op = "open_channel ?opening ''orders:1310''"
  have go: "goes_on default_retry_policy (\<lambda>_. 0) None ?op 0"
    by (simp add: goes_on_def retried_def retry_raises_def d time_sleep_def open_channel_def)
  have last: "\<not> retried ?op (Suc 0)" by (simp add: retried_def open_channel_def)
  then have "\<not> goes_on default_retry_policy (\<lambda>_. 0) None ?op (Suc 0)" by (simp add: goes_on_def)
  with last have "fst (execute default_retry_policy (\<lambda>_. 0) None ?op) = ?op (Suc 0)"
    unfolding execute_def
    by (subst attempt_retried [OF go])
      (simp_all add: default_retry_policy_def [THEN arg_cong, of bo_max_attempts] attempts_end)
  then obtain c where c: "client_connect (\<lambda>ch. ch) ?opening (\<lambda>_. 0) ''orders:1310'' None = Return c"
    by (simp add: client_connect_def run_policy_def open_channel_def)
  obtain ch :: channel and k where shut: "\<forall>shut. client_close c shut = shut @ [ch_id ch]"
    and opened: "?opening k (create_channel ''orders:1310'') = Return (ch_id ch)"
    using channels_closed_by_their_owner [THEN conjunct2, THEN conjunct1, rule_format, OF c]
    unfolding option.case by blast
  from opened have "ch_id ch = 7" by (simp split: if_splits)
  with c shut show ?thesis by auto
qed

end
