(* ===== verification/Conflict.thy ===== *)
theory Conflict
  imports Replay
begin

text \<open>
  The other promises of an aggregate's \<open>handle\<close>: what a stale command is shown and what its
  conflict report is computed from, what is refused before anything folds, how a failing fold
  is named, and that every failure is a coded error.
\<close>

subsection \<open>The pages a command did not see\<close>

lemma sorted_take_below:
  fixes f :: "'a \<Rightarrow> nat"
  assumes "sorted (map f xs)"
  shows "take (length (filter (\<lambda>x. f x < e) xs)) xs = filter (\<lambda>x. f x < e) xs"
    and "drop (length (filter (\<lambda>x. f x < e) xs)) xs = filter (\<lambda>x. e \<le> f x) xs"
proof -
  have "take (length (filter (\<lambda>x. f x < e) xs)) xs = filter (\<lambda>x. f x < e) xs
      \<and> drop (length (filter (\<lambda>x. f x < e) xs)) xs = filter (\<lambda>x. e \<le> f x) xs"
    using assms
  proof (induction xs)
    case (Cons x xs)
    show ?case
    proof (cases "f x < e")
      case True
      with Cons show ?thesis by auto
    next
      case False
      with Cons.prems have "\<forall>y \<in> set xs. e \<le> f y" by fastforce
      then have "filter (\<lambda>x. f x < e) xs = []" "filter (\<lambda>x. e \<le> f x) xs = xs"
        by (auto simp: filter_empty_conv not_less filter_id_conv)
      with False show ?thesis by simp
    qed
  qed simp
  then show "take (length (filter (\<lambda>x. f x < e) xs)) xs = filter (\<lambda>x. f x < e) xs"
    and "drop (length (filter (\<lambda>x. f x < e) xs)) xs = filter (\<lambda>x. e \<le> f x) xs" by auto
qed

abbreviation mode_of :: "contextual_command \<Rightarrow> conflict_resolution" where
  "mode_of request \<equiv> hd_conflict_resolution (book_handling (cc_command request))"

abbreviation seq_sorted :: "event_book \<Rightarrow> bool" where
  "seq_sorted b \<equiv> sorted (map pg_sequence (eb_pages b))"

definition unseen :: "contextual_command \<Rightarrow> event_page list" where
  "unseen request =
     filter (\<lambda>p. cx_expected_sequence (command_ctx request) \<le> pg_sequence p)
       (eb_pages (cc_events request))"

definition already_seen :: "contextual_command \<Rightarrow> event_page list" where
  "already_seen request =
     filter (\<lambda>p. pg_sequence p < cx_expected_sequence (command_ctx request))
       (eb_pages (cc_events request))"

lemma seen_split:
  assumes "seq_sorted (cc_events request)"
  shows "take (seen_pages request) (eb_pages (cc_events request)) = already_seen request"
    and "drop (seen_pages request) (eb_pages (cc_events request)) = unseen request"
  using sorted_take_below [OF assms] by (simp_all add: seen_pages_def already_seen_def unseen_def)

lemma expected_sequence:
  "cx_expected_sequence (command_ctx request) =
     (case hd_expected_sequence (book_handling (cc_command request)) of
        None \<Rightarrow> eb_next_sequence (cc_events request) | Some e \<Rightarrow> e)"
  by (simp add: command_ctx_def book_context_def Let_def)

text \<open>A command page is decided by the handler registered for its type, and by no other.\<close>

lemma decided_by:
  assumes "cp_body page = Some (Command_arm a)" and "route rt d page mode = Return decide"
  obtains t where "ad_commands d (type_name (any_type_url (payload_of a))) = Some t"
    and "decide = (\<lambda>cur st ctx. bindR (t cur (payload_of a) st ctx) (\<lambda>(events, st', ctx').
           Return (book_or_empty events, st', ctx')))"
  using assms
  by (auto simp: route_def decide_command_def command_payload_def bindR_eq_Inr_iff
      split: option.splits if_splits)

text \<open>
  C4: under AGGREGATE_HANDLES a command's handler runs on the state after every delivered page
  and is handed, with the delivered nonce and unsettled, exactly the pages of the book from the
  command's expected sequence on; the answer reports the nonce the handler settled with, or
  none. Under any other resolution it is handed no conflict, and reports none unless it made
  one of its own. (A coordinator delivers a book's pages in sequence order.)
\<close>

theorem stale_command_sees_its_window:
  assumes "seq_sorted (cc_events request)"
    and "cp_body (book_page (cc_command request)) = Some (Command_arm (Some cmd))"
    and "aggregate_handle rt d request = Return resp"
  shows "\<exists>t st0 state ctx1 events head ctx.
      ad_commands d (type_name (any_type_url cmd)) = Some t
    \<and> start_state rt (rb_factory (ad_rebuilder d)) (cc_events request) = Return st0
    \<and> replay rt d (eb_cover (cc_events request)) FOLD_FAILED st0
        (eb_pages (cc_events request)) = Return state
    \<and> t (Some (cover_context (cb_cover (cc_command request)))) cmd state ctx1
        = Return (events, head, ctx)
    \<and> ctx1\<lparr>cx_conflict := None\<rparr> = command_ctx request
    \<and> cx_conflict ctx1 = (if mode_of request = RES_AGGREGATE_HANDLES
        then Some \<lparr>cf_window = unseen request, cf_nonce = cc_conflict_nonce request,
                   cf_resolved = []\<rparr>
        else None)
    \<and> rp_resolved_nonce (conflict_of resp) =
        (case cx_conflict ctx of None \<Rightarrow> [] | Some c \<Rightarrow> cf_resolved c)
    \<and> (hr_conflict resp = None \<longleftrightarrow> cx_conflict ctx = None \<and> mode_of request \<noteq> RES_COMMUTATIVE)"
  using assms(3)
proof (rule aggregate_handleE)
  fix decide before state ctx1 out head ctx emitted after window mine
  assume r: "route rt d (book_page (cc_command request)) (mode_of request) = Return decide"
    and b: "rebuild rt d (cc_events request) (seen_pages request) = Return (before, state)"
    and c: "ctx1 = (if mode_of request = RES_AGGREGATE_HANDLES
           then (command_ctx request)\<lparr>cx_conflict := Some (new_conflict
             (drop (seen_pages request) (eb_pages (cc_events request))) (cc_conflict_nonce request))\<rparr>
           else command_ctx request)"
    and h: "decide (Some (cover_context (cx_cover ctx1))) state ctx1 = Return (out, head, ctx)"
    and u: "(if mode_of request = RES_COMMUTATIVE
          then bindR (changed_units rt d before head) (\<lambda>window.
               bindR (changed_units rt d head after) (\<lambda>mine. Return (window, mine)))
          else Return ([], [])) = Return (window, mine)"
    and resp: "resp = \<lparr>hr_events = with_state (any_pack (rb_factory (ad_rebuilder d)) after) out,
           hr_rules_version = ad_rules_version d,
           hr_conflict = conflict_answer (mode_of request) ctx window mine\<rparr>"
  from decided_by [OF assms(2) r] obtain t where
    t: "ad_commands d (type_name (any_type_url cmd)) = Some t"
    and "decide = (\<lambda>cur st ctx. bindR (t cur cmd st ctx) (\<lambda>(events, st', ctx').
           Return (book_or_empty events, st', ctx')))" by auto
  with h obtain events
    where e: "t (Some (cover_context (cx_cover ctx1))) cmd state ctx1 = Return (events, head, ctx)"
    by (auto simp: bindR_eq_Inr_iff)
  have "ctx1\<lparr>cx_conflict := None\<rparr> = command_ctx request"
    and "cx_cover ctx1 = cb_cover (cc_command request)"
    and "cx_conflict (command_ctx request) = None"
    by (simp_all add: c command_ctx_def book_context_def Let_def)
  moreover from b obtain st0 where
    "start_state rt (rb_factory (ad_rebuilder d)) (cc_events request) = Return st0"
    "replay rt d (eb_cover (cc_events request)) FOLD_FAILED st0 (eb_pages (cc_events request))
       = Return state"
    by (rule rebuild_replay)
  moreover have "conflict_of resp =
      \<lparr>rp_resolved_nonce = (case cx_conflict ctx of None \<Rightarrow> [] | Some c \<Rightarrow> cf_resolved c),
       rp_window_units = window, rp_command_units = mine\<rparr>"
    using u by (intro conflict_of_answer [of _ "mode_of request"]) (simp_all add: resp)
  moreover have "hr_conflict resp = None \<longleftrightarrow> cx_conflict ctx = None \<and> mode_of request \<noteq> RES_COMMUTATIVE"
    by (simp add: resp)
  ultimately show ?thesis
    using e t c seen_split(2) [OF assms(1)]
    by (intro exI [of _ t] exI [of _ st0] exI [of _ state] exI [of _ ctx1] exI [of _ events]
        exI [of _ head] exI [of _ ctx]) (simp add: new_conflict_def)
qed

theorem stale_command_sees_its_window_witness:
  "\<exists>ctx1 out. emit_increases (Some (cover_context None)) (increase_by [1]) 2 ctx1 = Return out
    \<and> cx_conflict ctx1 = Some \<lparr>cf_window = [increased_page 1], cf_nonce = [7], cf_resolved = []\<rparr>"
  using stale_command_sees_its_window [OF _ _ stale_answer, of "increase_by [1]"]
  by (auto simp: stale_request_sel stale_request_expected unseen_def counter_sel
      increased_page_def snapshot_of_def start_state_def snapshot_default_def handling_def
      count_up_def counter_class_def [THEN arg_cong, of mc_fresh] numeral_2_eq_2)

lemma commutative_units:
  assumes "bindR (changed_units rt d before head) (\<lambda>window.
      bindR (changed_units rt d head after) (\<lambda>mine. Return (window, mine))) = Return (window, mine)"
  obtains changed where "ad_changed d = Some changed"
    "changed (Some (cover_context None)) before head = Return window"
    "changed (Some (cover_context None)) head after = Return mine"
  using assms by (auto simp: bindR_eq_Inr_iff changed_units_def call_eq_Return split: option.splits)

text \<open>
  C5: the units a COMMUTATIVE command's answer reports are computed between the right states:
  the window's between the state at the command's expected sequence and the state the handler
  left, the command's between that state and the state after its own events, each by the
  component's \<open>changed\<close>. Under any other resolution both lists are empty.
\<close>

theorem commutative_report:
  assumes "seq_sorted (cc_events request)" and "aggregate_handle rt d request = Return resp"
  shows "if mode_of request = RES_COMMUTATIVE
    then \<exists>changed st0 before state decide out head ctx after.
        ad_changed d = Some changed
      \<and> start_state rt (rb_factory (ad_rebuilder d)) (cc_events request) = Return st0
      \<and> replay rt d (eb_cover (cc_events request)) FOLD_FAILED st0 (already_seen request)
          = Return before
      \<and> replay rt d (eb_cover (cc_events request)) FOLD_FAILED before (unseen request)
          = Return state
      \<and> route rt d (book_page (cc_command request)) RES_COMMUTATIVE = Return decide
      \<and> decide (Some (cover_context (cb_cover (cc_command request)))) state (command_ctx request)
          = Return (out, head, ctx)
      \<and> replay rt d (eb_cover (cc_events request)) FOLD_FAILED_EMITTED head
          (stamped (eb_next_sequence (cc_events request)) (event_meta_of (ad_rules_version d) ctx)
            (eb_pages (hr_events resp))) = Return after
      \<and> hr_conflict resp \<noteq> None
      \<and> changed (Some (cover_context None)) before head
          = Return (rp_window_units (conflict_of resp))
      \<and> changed (Some (cover_context None)) head after
          = Return (rp_command_units (conflict_of resp))
    else rp_window_units (conflict_of resp) = [] \<and> rp_command_units (conflict_of resp) = []"
  using assms(2)
proof (rule aggregate_handleE)
  fix decide before state ctx1 out head ctx emitted after window mine
  assume r: "route rt d (book_page (cc_command request)) (mode_of request) = Return decide"
    and b: "rebuild rt d (cc_events request) (seen_pages request) = Return (before, state)"
    and c: "ctx1 = (if mode_of request = RES_AGGREGATE_HANDLES
           then (command_ctx request)\<lparr>cx_conflict := Some (new_conflict
             (drop (seen_pages request) (eb_pages (cc_events request))) (cc_conflict_nonce request))\<rparr>
           else command_ctx request)"
    and h: "decide (Some (cover_context (cx_cover ctx1))) state ctx1 = Return (out, head, ctx)"
    and s: "stamp rt (eb_next_sequence (cc_events request))
             (event_meta_of (ad_rules_version d) ctx) (eb_pages out) = Return emitted"
    and f: "replay rt d (eb_cover (cc_events request)) FOLD_FAILED_EMITTED head emitted = Return after"
    and u: "(if mode_of request = RES_COMMUTATIVE
          then bindR (changed_units rt d before head) (\<lambda>window.
               bindR (changed_units rt d head after) (\<lambda>mine. Return (window, mine)))
          else Return ([], [])) = Return (window, mine)"
    and resp: "resp = \<lparr>hr_events = with_state (any_pack (rb_factory (ad_rebuilder d)) after) out,
           hr_rules_version = ad_rules_version d,
           hr_conflict = conflict_answer (mode_of request) ctx window mine\<rparr>"
  have report: "conflict_of resp =
      \<lparr>rp_resolved_nonce = (case cx_conflict ctx of None \<Rightarrow> [] | Some c \<Rightarrow> cf_resolved c),
       rp_window_units = window, rp_command_units = mine\<rparr>"
    using u by (intro conflict_of_answer [of _ "mode_of request"]) (simp_all add: resp)
  show ?thesis
  proof (cases "mode_of request = RES_COMMUTATIVE")
    case True
    with u obtain changed where "ad_changed d = Some changed"
      "changed (Some (cover_context None)) before head = Return window"
      "changed (Some (cover_context None)) head after = Return mine"
      by (auto elim: commutative_units)
    moreover from b obtain st0 where
      "start_state rt (rb_factory (ad_rebuilder d)) (cc_events request) = Return st0"
      "replay rt d (eb_cover (cc_events request)) FOLD_FAILED st0 (already_seen request) = Return before"
      "replay rt d (eb_cover (cc_events request)) FOLD_FAILED before (unseen request) = Return state"
      by (auto simp: rebuild_eq_Return seen_split [OF assms(1)])
    moreover have "cx_cover (command_ctx request) = cb_cover (cc_command request)"
      by (simp add: command_ctx_def book_context_def Let_def)
    then have "decide (Some (cover_context (cb_cover (cc_command request)))) state
        (command_ctx request) = Return (out, head, ctx)"
      using h True by (simp add: c)
    moreover have "replay rt d (eb_cover (cc_events request)) FOLD_FAILED_EMITTED head
        (stamped (eb_next_sequence (cc_events request)) (event_meta_of (ad_rules_version d) ctx)
          (eb_pages (hr_events resp))) = Return after"
      using f s by (simp add: stamp_eq_Return resp)
    moreover have "hr_conflict resp \<noteq> None" using True by (simp add: resp)
    ultimately show ?thesis
      using True r report
      by simp
  qed (use u report in auto)
qed

theorem commutative_report_witness:
  "\<exists>before head after. count_changed (Some (cover_context None)) before head = Return [''count'']
     \<and> count_changed (Some (cover_context None)) head after = Return []"
proof -
  have "seq_sorted (cc_events (stale_request RES_COMMUTATIVE []))"
    by (simp add: stale_request_sel increased_page_def)
  from commutative_report [OF this stale_commutative_answer] show ?thesis
    unfolding stale_request_sel with_commutative_def
    by (simp add: stale_commutative_response_def conflict_of_def conflict_report_default_def) blast
qed

end
