(* ===== verification/Host_Rpc.thy ===== *)
theory Host_Rpc
  imports Host_Properties
begin

text \<open>
  The RPC surface of a component host (\<open>angzarr_client/host.py\<close>, \<open>_start\<close>): the servicers a
  start registers with the gRPC server, what a method of one answers, and what the surface
  promises while the host serves. A servicer keeps the router it was made with, an object the
  host goes on changing: a call reads the router's content of its own time.
\<close>

subsection \<open>What a start registers\<close>

datatype servicer =
    Component_servicer "descriptor option" | Command_handler_servicer | Policy_servicer
  | Projector_servicer | Upcaster_servicer | App_servicer string

definition register_servicers :: "('st, 'pr) host \<Rightarrow> (string \<times> servicer) list" where
  "register_servicers h =
     (if ho_kind h \<noteq> None then [(COMPONENT_SERVICE, Component_servicer (ho_descriptor h))] else [])
   @ (if ho_kind h = Some COMMAND_HANDLER_SERVICE
      then [(COMMAND_HANDLER_SERVICE, Command_handler_servicer)] else [])
   @ (if ho_kind h = Some POLICY_SERVICE then [(POLICY_SERVICE, Policy_servicer)] else [])
   @ (if ho_kind h = Some PROJECTOR_SERVICE then [(PROJECTOR_SERVICE, Projector_servicer)] else [])
   @ (if ho_upcaster h then [(UPCASTER_SERVICE, Upcaster_servicer)] else [])
   @ map (\<lambda>name. (name, App_servicer name)) (ho_app_services h)"

subsection \<open>What a method answers\<close>

text \<open>
  The framework services' methods, each of its service. A service not registered, or registered
  by an application, answers nothing of the framework's.
\<close>

datatype 'u rpc_request =
    Describe_rpc
  | Command_rpc contextual_command
  | Source_rpc event_book
  | Refused_rpc refusal
  | Project_rpc event_book
  | Upcast_rpc 'u

fun rpc_service :: "'u rpc_request \<Rightarrow> string" where
  "rpc_service Describe_rpc = COMPONENT_SERVICE"
| "rpc_service (Command_rpc _) = COMMAND_HANDLER_SERVICE"
| "rpc_service (Source_rpc _) = POLICY_SERVICE"
| "rpc_service (Refused_rpc _) = POLICY_SERVICE"
| "rpc_service (Project_rpc _) = PROJECTOR_SERVICE"
| "rpc_service (Upcast_rpc _) = UPCASTER_SERVICE"

datatype 'v rpc_answer =
    Described "descriptor option"
  | Commanded "command_handler_response rpc_outcome"
  | Reacted "reaction list rpc_outcome"
  | Translated "command_book option rpc_outcome"
  | Projected "projection rpc_outcome"
  | Upcasted "'v rpc_outcome"
  | Unimplemented

fun servicer_answer ::
  "runtime \<Rightarrow> protobuf \<Rightarrow> ('u \<Rightarrow> exn + 'v) \<Rightarrow> ('st, 'pr) router \<Rightarrow> servicer \<Rightarrow> 'u rpc_request \<Rightarrow>
     'v rpc_answer" where
  "servicer_answer rt pb upcast r (Component_servicer desc) Describe_rpc = Described desc"
| "servicer_answer rt pb upcast r Command_handler_servicer (Command_rpc request) =
     Commanded (command_handler_Handle rt pb r request)"
| "servicer_answer rt pb upcast r Policy_servicer (Source_rpc source) =
     Reacted (policy_Handle rt pb r source)"
| "servicer_answer rt pb upcast r Policy_servicer (Refused_rpc refusal) =
     Translated (policy_OnRefused rt pb r refusal)"
| "servicer_answer rt pb upcast r Projector_servicer (Project_rpc book) =
     Projected (projector_Handle rt pb r book)"
| "servicer_answer rt pb upcast r Upcaster_servicer (Upcast_rpc request) =
     Upcasted (upcaster_Upcast rt pb upcast request)"
| "servicer_answer rt pb upcast r _ _ = Unimplemented"

definition answer_rpc ::
  "runtime \<Rightarrow> protobuf \<Rightarrow> ('u \<Rightarrow> exn + 'v) \<Rightarrow> (string \<times> servicer) list \<Rightarrow> ('st, 'pr) host \<Rightarrow>
     'u rpc_request \<Rightarrow> 'v rpc_answer" where
  "answer_rpc rt pb upcast table h request =
     (case map_of table (rpc_service request) of
        None \<Rightarrow> Unimplemented
      | Some s \<Rightarrow> servicer_answer rt pb upcast (ho_router h) s request)"

text \<open>What a component answers itself, asked for no other than its own methods.\<close>

fun component_answer ::
  "runtime \<Rightarrow> protobuf \<Rightarrow> ('st, 'pr) component \<Rightarrow> 'u rpc_request \<Rightarrow> 'v rpc_answer" where
  "component_answer rt pb (Aggregate_component d) (Command_rpc request) =
     Commanded (dispatcher_call rt pb (aggregate_handle rt d) request)"
| "component_answer rt pb (Process_manager_component d) (Command_rpc request) =
     Commanded (dispatcher_call rt pb (aggregate_handle rt d) request)"
| "component_answer rt pb (Policy_component d) (Source_rpc source) =
     Reacted (dispatcher_call rt pb (policy_handle rt d) source)"
| "component_answer rt pb (Policy_component d) (Refused_rpc refusal) =
     Translated (dispatcher_call rt pb (policy_refused rt d) refusal)"
| "component_answer rt pb (Projector_component d) (Project_rpc book) =
     Projected (dispatcher_call rt pb (projector_handle rt d) book)"
| "component_answer rt pb _ _ = Unimplemented"

subsection \<open>The surface is what the host says\<close>

lemma service_names_distinct [simp]: "distinct FRAMEWORK_SERVICES"
  by code_simp

lemma framework_names:
  "COMPONENT_SERVICE \<noteq> COMMAND_HANDLER_SERVICE" "COMPONENT_SERVICE \<noteq> POLICY_SERVICE"
  "COMPONENT_SERVICE \<noteq> PROJECTOR_SERVICE" "COMPONENT_SERVICE \<noteq> UPCASTER_SERVICE"
  "COMMAND_HANDLER_SERVICE \<noteq> POLICY_SERVICE" "COMMAND_HANDLER_SERVICE \<noteq> PROJECTOR_SERVICE"
  "COMMAND_HANDLER_SERVICE \<noteq> UPCASTER_SERVICE" "POLICY_SERVICE \<noteq> PROJECTOR_SERVICE"
  "POLICY_SERVICE \<noteq> UPCASTER_SERVICE" "PROJECTOR_SERVICE \<noteq> UPCASTER_SERVICE"
  using service_names_distinct unfolding FRAMEWORK_SERVICES_def distinct.simps by auto

lemma kind_service_cases:
  "kind_service c \<in> {COMMAND_HANDLER_SERVICE, POLICY_SERVICE, PROJECTOR_SERVICE}"
  by (cases c) simp_all

lemma registered_names:
  assumes "ho_kind h \<in> {None, Some COMMAND_HANDLER_SERVICE, Some POLICY_SERVICE, Some PROJECTOR_SERVICE}"
  shows "map fst (register_servicers h) = services h"
  using assms framework_names framework_names [symmetric]
  by (auto simp: register_servicers_def services_def FRAMEWORK_SERVICES_def o_def)

lemma map_of_app: "map_of (map (\<lambda>name. (name, App_servicer name)) names) s =
    (if s \<in> set names then Some (App_servicer s) else None)"
  by (induction names) auto

lemma registered_lookup:
  assumes "ho_kind h = Some (kind_service c)" and "set FRAMEWORK_SERVICES \<inter> set (ho_app_services h) = {}"
  shows "map_of (register_servicers h) COMPONENT_SERVICE = Some (Component_servicer (ho_descriptor h))"
    and "map_of (register_servicers h) COMMAND_HANDLER_SERVICE =
      (if kind_service c = COMMAND_HANDLER_SERVICE then Some Command_handler_servicer else None)"
    and "map_of (register_servicers h) POLICY_SERVICE =
      (if kind_service c = POLICY_SERVICE then Some Policy_servicer else None)"
    and "map_of (register_servicers h) PROJECTOR_SERVICE =
      (if kind_service c = PROJECTOR_SERVICE then Some Projector_servicer else None)"
  using assms kind_service_cases [of c] framework_names framework_names [symmetric]
  by (auto simp: register_servicers_def map_add_def map_of_app FRAMEWORK_SERVICES_def
      split: option.split)

subsection \<open>The registration while a host serves\<close>

text \<open>What is registered, and that the host has not stopped.\<close>

definition keeps_component :: "('st, 'pr) component \<Rightarrow> ('st, 'pr) host \<Rightarrow> bool" where
  "keeps_component c h \<longleftrightarrow> ho_stopped h \<or> ho_router h = Some c \<and> ho_kind h = Some (kind_service c)
     \<and> ho_component_name h = Some (component_name c)"

lemma keeps_component_step:
  assumes "host_step rt hf hf'" and "keeps_component c (fst hf)"
  shows "keeps_component c (fst hf')"
proof -
  have add: "keeps_component c (snd (host_add rt c' desc s h))" if "keeps_component c h" for c' desc s h
    using that by (auto simp: keeps_component_def host_add_def claim_def Let_def split: sum.splits option.splits)
  have serve: "keeps_component c (snd (serve a out h)) = keeps_component c h" for a out h
    by (cases rule: serve_cases [of a out h]) (simp_all add: keeps_component_def)
  from assms show ?thesis
  proof (cases rule: host_step.cases)
    case (Start env address outcome)
    obtain h fs where hf: "hf = (h, fs)" by (cases hf)
    show ?thesis
    proof (cases "start_guard h")
      case None
      then obtain addr fs' where eq: "host_start env address outcome (h, fs) =
          (case serve addr outcome (h\<lparr>ho_running := True\<rparr>) of
             (Inr bound, h') \<Rightarrow> (Inr bound, h'\<lparr>ho_address := bound\<rparr>, fs')
           | (Inl exc, h') \<Rightarrow> (Inl (Other_failure exc), shutdown_loop h', fs'))"
        by (rule host_start_eq)
      have "keeps_component c (h\<lparr>ho_running := True\<rparr>)"
        using assms(2) hf by (simp add: keeps_component_def)
      with serve have "keeps_component c (snd (serve addr outcome (h\<lparr>ho_running := True\<rparr>)))" by blast
      then show ?thesis
        unfolding Start(1) hf eq
        by (auto simp: keeps_component_def shutdown_loop_def split: prod.splits sum.splits)
    qed (use Start assms(2) hf in \<open>simp add: host_start_def\<close>)
  next
    case Stop
    then show ?thesis
      by (cases hf) (auto simp: keeps_component_def host_stop_def stop_server_def Let_def)
  qed (use add assms(2) in \<open>auto simp: add_aggregate_def add_policy_def add_process_manager_def
      add_projector_def add_upcaster_def add_service_def host_tick_def keeps_component_def
      split: option.split\<close>)
qed

lemma keeps_component_steps:
  "(host_step rt)\<^sup>*\<^sup>* hf hf' \<Longrightarrow> keeps_component c (fst hf) \<Longrightarrow> keeps_component c (fst hf')"
  by (induction rule: rtranclp_induct) (auto intro: keeps_component_step)

subsection \<open>Properties\<close>

lemma dispatched:
  "component_kind c \<in> set kinds \<Longrightarrow> hosted rt kinds (Some c) = Return c"
  by (simp add: hosted_def)

text \<open>
  C17: a served RPC reaches the component served. The services a host of its own router names as it
  starts are those its server serves, and it goes on naming exactly those unless an upcaster or an
  application service is added to it after the start, which is named but never served. Until it
  stops, whatever else is done to it, Describe answers the descriptor of the component; every other
  framework method is answered by that component, of the version described, and never refused as
  one the router does not host; and the methods of the other kinds are not served at all.
\<close>

theorem served_rpcs_reach_their_component:
  assumes "reachable rt version h" and "ho_kind h \<noteq> None" and "\<not> ho_stopped h"
    and "set FRAMEWORK_SERVICES \<inter> set (ho_app_services h) = {}"
    and "host_start env address outcome (h, fs) = (Inr bound, started, fs1)"
    and "(host_step rt)\<^sup>*\<^sup>* (started, fs1) (now, fs2)" and "\<not> ho_stopped now"
  shows "map fst (register_servicers h) = services h
    \<and> (ho_upcaster now = ho_upcaster h \<and> ho_app_services now = ho_app_services h \<longrightarrow>
         services now = map fst (register_servicers h))
    \<and> (\<exists>c desc. ho_router now = Some c \<and> ds_rules_version desc = component_rules_version c
        \<and> answer_rpc rt pb upcast (register_servicers h) now Describe_rpc = Described (Some desc)
        \<and> (\<forall>request. request \<noteq> Describe_rpc \<longrightarrow>
             answer_rpc rt pb upcast (register_servicers h) now request = component_answer rt pb c request))"
proof -
  from assms(1) obtain fs0 where "host_inv version (h, fs0)" by (rule reachable_inv)
  with assms(2,3) obtain c where c: "ho_router h = Some c" "hosts_component h c"
    by (auto simp: host_inv_def registered_inv_def Let_def split: option.splits)
  then obtain desc where kind: "ho_kind h = Some (kind_service c)"
    and desc: "ho_descriptor h = Some desc" "ds_rules_version desc = component_rules_version c"
    by (auto simp: hosts_component_def)
  have "keeps_component c h"
    using c by (simp add: keeps_component_def hosts_component_def)
  then have "keeps_component c started"
    using keeps_component_step [OF host_step.Start [of rt "(h, fs)" env address outcome]]
    by (simp add: assms(5))
  then have router: "ho_router now = Some c" and "ho_kind now = Some (kind_service c)"
    using keeps_component_steps [OF assms(6)] assms(7) by (simp_all add: keeps_component_def)
  then have later: "ho_upcaster now = ho_upcaster h \<and> ho_app_services now = ho_app_services h \<longrightarrow>
      services now = services h" by (simp add: services_def kind)
  have "\<not> ho_upcaster h"
  proof
    assume "ho_upcaster h"
    with assms(2) have "start_guard h \<noteq> None" by (simp add: start_guard_def)
    with assms(5) show False by (auto simp: host_start_def)
  qed
  then have none: "map_of (register_servicers h) UPCASTER_SERVICE = None"
    using assms(4) kind framework_names kind_service_cases [of c]
    by (auto simp: register_servicers_def map_add_def map_of_app FRAMEWORK_SERVICES_def
        split: option.split)
  note lookup = registered_lookup [OF kind assms(4)] none
  have "map fst (register_servicers h) = services h"
    using kind kind_service_cases [of c] by (intro registered_names) auto
  moreover have "answer_rpc rt pb upcast (register_servicers h) now Describe_rpc = Described (Some desc)"
    by (simp add: answer_rpc_def lookup desc)
  moreover have "answer_rpc rt pb upcast (register_servicers h) now request = component_answer rt pb c request"
    if "request \<noteq> Describe_rpc" for request
    using that framework_names framework_names [symmetric]
    by (cases request; cases c)
      (simp_all add: answer_rpc_def lookup router command_handler_Handle_def policy_Handle_def
        policy_OnRefused_def projector_Handle_def dispatcher_call_def dispatch_def dispatch_policy_def
        dispatch_refusal_def dispatch_projector_def dispatched)
  ultimately show ?thesis using router desc(2) later by auto
qed

text \<open>The policy host, a tick after its start.\<close>

definition blank_protobuf :: protobuf where
  "blank_protobuf = \<lparr>pb_status_bytes = (\<lambda>_. []), pb_status_parse = (\<lambda>_. None),
     pb_pack_info = (\<lambda>_. any_default), pb_unpack_info = (\<lambda>_. Return None)\<rparr>"

definition ticked_host :: "(nat, nat) host" where
  "ticked_host = host_tick [transport_check True] socket_host"

theorem served_rpcs_reach_their_component_witness:
  "answer_rpc plain_runtime blank_protobuf (Return :: nat \<Rightarrow> exn + nat) (register_servicers counter_host)
      ticked_host (Source_rpc event_book_default) = Reacted (Answered [])
   \<and> answer_rpc plain_runtime blank_protobuf (Return :: nat \<Rightarrow> exn + nat) (register_servicers counter_host)
      ticked_host (Command_rpc (counter_request [] [])) = Unimplemented"
proof -
  have start: "host_start Map.empty (Some ''unix:/run/p.sock'') (Bound_port 1) (counter_host, no_files) =
      (Inr ''unix:/run/p.sock'', socket_host, no_files)"
    using socket_host_eq(1) by (simp add: socket_start_def)
  have "host_step plain_runtime (socket_host, no_files) (ticked_host, no_files)"
    unfolding ticked_host_def by (rule host_step.Tick)
  then have steps: "(host_step plain_runtime)\<^sup>*\<^sup>* (socket_host, no_files) (ticked_host, no_files)" by (rule r_into_rtranclp)
  have kind: "ho_kind counter_host \<noteq> None" "\<not> ho_stopped counter_host"
    "set FRAMEWORK_SERVICES \<inter> set (ho_app_services counter_host) = {}" "\<not> ho_stopped ticked_host"
    by (simp_all add: counter_host_sel ticked_host_def host_tick_def socket_host_eq(3) split: option.split)
  have router: "ho_router ticked_host = Some (Policy_component (policy_with_rules_version ''1.0''
      (policy_new ''P'' ''a'' ''b'')))"
    by (simp add: ticked_host_def host_tick_def socket_host_def socket_start_def host_start_def
        start_guard_def serve_def counter_host_sel Let_def split: option.split)
      (simp add: counter_host_def add_policy_def host_add_def host_new_def claim_def policy_new_def
        reported_version_def router_new_def router_register_def versioned_def Let_def)
  have "policy_handle rt d event_book_default = Return []" for rt d
    by (simp add: policy_handle_def event_book_default_def)
  then show ?thesis
    using served_rpcs_reach_their_component [OF reachable_counter_host kind(1-3) start steps kind(4),
        where pb = blank_protobuf and upcast = "Return :: nat \<Rightarrow> exn + nat"] router
    by (auto simp: dispatcher_call_def)
qed

text \<open>
  A component added to a host that already serves (an upcaster's, here) is listed among its
  services and served by no start of its own: its methods stay unimplemented.
\<close>

lemma late_component_not_served:
  assumes "h = snd (add_aggregate rt d desc served)" and "ho_kind served = None"
    and "fst (add_aggregate rt d desc served) = None" and "ho_component_name served = None"
    and "set FRAMEWORK_SERVICES \<inter> set (ho_app_services served) = {}"
  shows "COMMAND_HANDLER_SERVICE \<in> set (services h)
    \<and> answer_rpc rt pb upcast (register_servicers served) h (Command_rpc request) = Unimplemented"
proof -
  have "ho_kind h = Some COMMAND_HANDLER_SERVICE"
    using assms(1-4) by (auto simp: add_aggregate_def host_add_def claim_def Let_def
        split: if_splits sum.splits)
  then have "COMMAND_HANDLER_SERVICE \<in> set (services h)"
    by (simp add: set_services FRAMEWORK_SERVICES_def)
  moreover have "map_of (register_servicers served) COMMAND_HANDLER_SERVICE = None"
    using assms(2,5) framework_names
    by (auto simp: register_servicers_def map_add_def map_of_app FRAMEWORK_SERVICES_def split: option.split)
  ultimately show ?thesis by (simp add: answer_rpc_def)
qed

end
