(* ===== verification/Lifecycle.thy ===== *)
theory Lifecycle
  imports Host_Rpc
begin

text \<open>
  The abstract lifecycle of a component host, and that \<open>angzarr_client/host.py\<close> implements it: what
  a client and an operator see of a host (the names its running server is watched under, which of
  them are SERVING, whether a wait on it has ended) goes through the steps of a small machine.
\<close>

subsection \<open>The abstract machine\<close>

record lifecycle =
  lc_up :: "string set option"
  lc_serving :: "string set"
  lc_over :: bool

definition lifecycle_new :: lifecycle where
  "lifecycle_new = \<lparr>lc_up = None, lc_serving = {}, lc_over = False\<rparr>"

inductive lifecycle_step :: "lifecycle \<Rightarrow> lifecycle \<Rightarrow> bool" where
  Comes_up: "lc_up l = None \<Longrightarrow> [] \<in> names \<Longrightarrow>
     lifecycle_step l (l\<lparr>lc_up := Some names, lc_serving := {}\<rparr>)"
| Ready: "lc_up l = Some names \<Longrightarrow> lifecycle_step l (l\<lparr>lc_serving := lc_serving l \<union> names\<rparr>)"
| Unready: "lc_up l = Some names \<Longrightarrow> lifecycle_step l (l\<lparr>lc_serving := lc_serving l - names\<rparr>)"
| Ends: "\<not> lc_over l \<Longrightarrow> lifecycle_step l \<lparr>lc_up = None, lc_serving = {}, lc_over = True\<rparr>"

inductive_cases lifecycle_stepE: "lifecycle_step l l'"

text \<open>What is SERVING is everything the running server is watched under, or nothing.\<close>

definition all_or_none :: "lifecycle \<Rightarrow> bool" where
  "all_or_none l \<longleftrightarrow> (case lc_up l of
       None \<Rightarrow> lc_serving l = {}
     | Some names \<Rightarrow> [] \<in> names \<and> (lc_serving l = {} \<or> lc_serving l = names))"

interpretation lifecycle_machine: step_invariant lifecycle_step "\<lambda>l. l = lifecycle_new" all_or_none
  by unfold_locales
    (auto simp: lifecycle_new_def all_or_none_def elim!: lifecycle_stepE split: option.splits)

text \<open>An end is for good; what comes up after it is not brought down any more.\<close>

interpretation ended: step_invariant lifecycle_step "\<lambda>l. lc_over l" "\<lambda>l. lc_over l"
  by unfold_locales (auto elim: lifecycle_stepE)

interpretation left_up: step_invariant lifecycle_step "\<lambda>l. lc_over l \<and> lc_up l = Some names"
  "\<lambda>l. lc_over l \<and> lc_up l = Some names"
  by unfold_locales (auto elim: lifecycle_stepE)

subsection \<open>The host's view\<close>

definition lifecycle_of :: "('st, 'pr) host \<times> file_system \<Rightarrow> lifecycle" where
  "lifecycle_of hf =
     \<lparr>lc_up = map_option set (ho_supervised (fst hf)),
      lc_serving = {name. health_status (fst hf) name = Some SERVING},
      lc_over = ho_stopped (fst hf)\<rparr>"

lemma lifecycle_of_cong:
  "ho_supervised h' = ho_supervised h \<Longrightarrow> ho_health h' = ho_health h \<Longrightarrow> ho_stopped h' = ho_stopped h \<Longrightarrow>
     lifecycle_of (h', fs') = lifecycle_of (h, fs)"
  by (simp add: lifecycle_of_def health_status_def health_history_for_def)

lemma down_view:
  "health_inv h \<Longrightarrow> \<not> ho_running h \<Longrightarrow>
     lifecycle_of (h, fs) = \<lparr>lc_up = None, lc_serving = {}, lc_over = ho_stopped h\<rparr>"
  by (simp add: lifecycle_of_def health_inv_def)

lemma host_add_view: "lifecycle_of (snd (host_add rt c desc s h), fs) = lifecycle_of (h, fs)"
  by (rule lifecycle_of_cong) (simp_all add: host_add_fields(1-6))

lemma tick_view:
  "lifecycle_step\<^sup>*\<^sup>* (lifecycle_of (h, fs)) (lifecycle_of (host_tick probes h, fs))"
proof (cases "ho_supervised h")
  case None
  then show ?thesis by (simp add: host_tick_def)
next
  case (Some names)
  then have up: "lc_up (lifecycle_of (h, fs)) = Some (set names)" by (simp add: lifecycle_of_def)
  show ?thesis
  proof (cases "ho_health h")
    case None
    with Some have "lifecycle_of (host_tick probes h, fs) = lifecycle_of (h, fs)"
      by (intro lifecycle_of_cong) (simp_all add: host_tick_def)
    then show ?thesis by simp
  next
    case hist: (Some hist)
    let ?st = "if \<forall>p \<in> set probes. probe_ok (pr_result p) then SERVING else NOT_SERVING"
    have same: "health_status (h\<lparr>ho_health := Some hist\<rparr>) = health_status h"
      by (simp add: health_status_def health_history_for_def hist fun_eq_iff)
    have "host_tick probes h = h\<lparr>ho_health := Some (publish names ?st hist)\<rparr>"
      using Some hist by (simp add: host_tick_def tick_status)
    then have "lifecycle_of (host_tick probes h, fs) = (lifecycle_of (h, fs))\<lparr>lc_serving :=
        (if ?st = SERVING then lc_serving (lifecycle_of (h, fs)) \<union> set names
         else lc_serving (lifecycle_of (h, fs)) - set names)\<rparr>"
      by (auto simp: lifecycle_of_def health_status_publish same)
    with lifecycle_step.Ready [OF up] lifecycle_step.Unready [OF up] show ?thesis
      by (auto intro!: r_into_rtranclp split: if_splits)
  qed
qed

lemma start_view:
  assumes "health_inv h"
  shows "lifecycle_step\<^sup>*\<^sup>* (lifecycle_of (h, fs)) (lifecycle_of (snd (host_start env address outcome (h, fs))))"
proof (cases "start_guard h")
  case (Some e)
  then show ?thesis by (simp add: host_start_def)
next
  case None
  then have "\<not> ho_running h" by (auto simp: start_guard_def split: if_splits)
  note down = down_view [OF assms this]
  from None obtain addr fs1 where run: "host_start env address outcome (h, fs) =
      (case serve addr outcome (h\<lparr>ho_running := True\<rparr>) of
         (Inr bound, h') \<Rightarrow> (Inr bound, h'\<lparr>ho_address := bound\<rparr>, fs1)
       | (Inl exc, h') \<Rightarrow> (Inl (Other_failure exc), shutdown_loop h', fs1))"
    by (rule host_start_eq)
  have quiet: "{name. health_status (k\<lparr>ho_health := Some (publish ns NOT_SERVING [])\<rparr>) name = Some SERVING} = {}"
    for k :: "('a, 'b) host" and ns
    by (auto simp: health_status_publish) (simp add: health_status_def health_history_for_def history_of_def)
  show ?thesis
  proof (cases rule: serve_cases [of addr outcome "h\<lparr>ho_running := True\<rparr>"])
    case (services exc)
    then have "lifecycle_of (snd (host_start env address outcome (h, fs))) = lifecycle_of (h, fs)"
      unfolding run by (auto simp: shutdown_loop_def intro!: lifecycle_of_cong)
    then show ?thesis by simp
  next
    case (failed exc sp)
    then have "lifecycle_of (snd (host_start env address outcome (h, fs))) =
        \<lparr>lc_up = map_option set (ho_supervised h), lc_serving = {}, lc_over = ho_stopped h\<rparr>"
      unfolding run using quiet by (simp add: shutdown_loop_def lifecycle_of_def)
    with down show ?thesis by (simp add: lifecycle_of_def)
  next
    case (bound port sp)
    then have "lifecycle_of (snd (host_start env address outcome (h, fs))) =
        (lifecycle_of (h, fs))\<lparr>lc_up := Some (set ([] # services h)), lc_serving := {}\<rparr>"
      unfolding run down using quiet by (simp add: lifecycle_of_def)
    moreover have "lifecycle_step (lifecycle_of (h, fs))
        ((lifecycle_of (h, fs))\<lparr>lc_up := Some (set ([] # services h)), lc_serving := {}\<rparr>)"
      by (rule lifecycle_step.Comes_up) (simp_all add: down)
    ultimately show ?thesis by auto
  qed
qed

lemma stop_view:
  assumes "health_inv (fst (host_stop (h, fs)))"
  shows "lifecycle_step\<^sup>*\<^sup>* (lifecycle_of (h, fs)) (lifecycle_of (host_stop (h, fs)))"
proof (cases "ho_stopped h")
  case True
  then show ?thesis by (simp add: host_stop_def)
next
  case False
  obtain k fs1 where k: "host_stop (h, fs) = (k, fs1)" by fastforce
  with False have "\<not> ho_running k" "ho_stopped k"
    by (auto simp: host_stop_def stop_server_def close_owned_router_def shutdown_loop_def split: if_splits)
  with assms k have "lifecycle_of (host_stop (h, fs)) = \<lparr>lc_up = None, lc_serving = {}, lc_over = True\<rparr>"
    by (simp add: down_view)
  with lifecycle_step.Ends [of "lifecycle_of (h, fs)"] False show ?thesis
    by (auto simp: lifecycle_of_def)
qed

lemma host_step_view:
  assumes "host_inv version hf" and "host_step rt hf hf'"
  shows "lifecycle_step\<^sup>*\<^sup>* (lifecycle_of hf) (lifecycle_of hf')"
proof -
  from assms have inv: "health_inv (fst hf)" "health_inv (fst hf')"
    using host_step_inv [OF assms] assms(1) by (simp_all add: host_inv_def split_beta)
  from assms(2) show ?thesis
  proof (cases rule: host_step.cases)
    case (Add_upcaster h fs)
    then have "lifecycle_of hf' = lifecycle_of hf"
      by (auto simp: add_upcaster_def intro!: lifecycle_of_cong)
    then show ?thesis by simp
  next
    case (Add_service h fs name)
    then have "lifecycle_of hf' = lifecycle_of hf"
      by (auto simp: add_service_def intro!: lifecycle_of_cong)
    then show ?thesis by simp
  next
    case (Start env address outcome)
    with inv show ?thesis by (cases hf) (simp add: start_view)
  next
    case Tick
    then show ?thesis by (simp add: tick_view)
  next
    case Stop
    with inv show ?thesis by (cases hf) (simp add: stop_view)
  next
    case Files
    then show ?thesis by (simp add: lifecycle_of_def)
  qed (simp_all add: add_aggregate_def add_policy_def add_process_manager_def add_projector_def host_add_view)
qed

interpretation host_lifecycle: simulation "host_step rt" "fresh_host version" "host_inv version"
  lifecycle_step "\<lambda>l. l = lifecycle_new" lifecycle_of
proof
  show "lifecycle_of hf = lifecycle_new" if "fresh_host version hf" for hf :: "('a, 'b) host \<times> file_system"
    using that by (simp add: fresh_host_def lifecycle_of_def lifecycle_new_def host_new_def
        health_status_def health_history_for_def)
qed (rule host_step_view)

subsection \<open>Properties\<close>

text \<open>
  C20: a host implements its lifecycle. Whatever is done to it, in any order, what is seen of it
  goes through the steps of the abstract machine: so at any time every name its server is watched
  under is SERVING, the overall server with them, or none is; a stopped host stays stopped; and one
  that was started again after its stop stays up, under the same names, whatever is done to it.
\<close>

theorem host_refines_lifecycle:
  assumes "(host_step rt)\<^sup>*\<^sup>* (host_new None version, fs0) (h, fs)"
    and "(host_step rt)\<^sup>*\<^sup>* (h, fs) (later, fs')"
  shows "lifecycle_step\<^sup>*\<^sup>* lifecycle_new (lifecycle_of (h, fs))
    \<and> lifecycle_step\<^sup>*\<^sup>* (lifecycle_of (h, fs)) (lifecycle_of (later, fs'))
    \<and> ((\<forall>name. health_status h name \<noteq> Some SERVING)
       \<or> (\<exists>names. ho_supervised h = Some names \<and> [] \<in> set names
            \<and> (\<forall>name. health_status h name = Some SERVING \<longleftrightarrow> name \<in> set names)))
    \<and> (ho_stopped h \<longrightarrow> ho_stopped later
        \<and> (\<forall>names. ho_supervised h = Some names \<longrightarrow> map_option set (ho_supervised later) = Some (set names)))"
proof -
  have fresh: "fresh_host version (host_new None version, fs0)" by (simp add: fresh_host_def)
  have to_h: "lifecycle_step\<^sup>*\<^sup>* lifecycle_new (lifecycle_of (h, fs))"
    using host_lifecycle.simulated_from_start [OF fresh assms(1)] by simp
  have inv: "host_inv version (h, fs)" by (rule host_machine.reached [OF fresh assms(1)])
  have to_later: "lifecycle_step\<^sup>*\<^sup>* (lifecycle_of (h, fs)) (lifecycle_of (later, fs'))"
    by (rule host_lifecycle.simulated [OF inv assms(2)])
  have "all_or_none (lifecycle_of (h, fs))" by (rule lifecycle_machine.reached [OF refl to_h])
  then have serving: "(\<forall>name. health_status h name \<noteq> Some SERVING)
      \<or> (\<exists>names. ho_supervised h = Some names \<and> [] \<in> set names
           \<and> (\<forall>name. health_status h name = Some SERVING \<longleftrightarrow> name \<in> set names))"
    by (auto simp: all_or_none_def lifecycle_of_def split: option.splits)
  have "ho_stopped later" if "ho_stopped h"
    using ended.reached [OF _ to_later] that by (simp add: lifecycle_of_def)
  moreover have "map_option set (ho_supervised later) = Some (set names)"
    if "ho_stopped h" "ho_supervised h = Some names" for names
    using left_up.reached [OF _ to_later, of "set names"] that by (simp add: lifecycle_of_def)
  ultimately show ?thesis using to_h to_later serving by blast
qed

text \<open>The policy host, started on a Unix socket, a tick after.\<close>

theorem host_refines_lifecycle_witness:
  "\<exists>fs. lifecycle_step\<^sup>*\<^sup>* lifecycle_new (lifecycle_of (host_tick [transport_check True] socket_host, fs))
    \<and> (\<forall>name. health_status (host_tick [transport_check True] socket_host) name = Some SERVING \<longleftrightarrow>
        name \<in> {[], COMPONENT_SERVICE, POLICY_SERVICE})"
proof -
  let ?h = "host_tick [transport_check True] socket_host"
  from reachable_socket_host obtain fs0 fs where
    "(host_step plain_runtime)\<^sup>*\<^sup>* (host_new None ''1.0'', fs0) (socket_host, fs)" by (auto simp: reachable_def)
  then have steps: "(host_step plain_runtime)\<^sup>*\<^sup>* (host_new None ''1.0'', fs0) (?h, fs)"
    by (rule rtranclp.rtrancl_into_rtrancl) (rule host_step.Tick)
  note refined = host_refines_lifecycle [OF steps rtranclp.rtrancl_refl]
  have "services counter_host = [COMPONENT_SERVICE, POLICY_SERVICE]"
    using framework_names framework_names [symmetric]
    by (simp add: services_def counter_host_sel FRAMEWORK_SERVICES_def)
  then have started: "ho_supervised socket_host = Some [[], COMPONENT_SERVICE, POLICY_SERVICE]"
    "ho_health socket_host = Some (publish [[], COMPONENT_SERVICE, POLICY_SERVICE] NOT_SERVING [])"
    by (simp_all add: socket_host_def socket_start_def host_start_def start_guard_def
        counter_host_sel serve_def startswith_Cons Let_def)
  then have names: "ho_supervised ?h = Some [[], COMPONENT_SERVICE, POLICY_SERVICE]"
    "health_status ?h [] = Some SERVING"
    by (simp_all add: host_tick_def tick_status transport_check_def health_status_publish)
  from refined names have "\<forall>name. health_status ?h name = Some SERVING \<longleftrightarrow> name \<in> {[], COMPONENT_SERVICE, POLICY_SERVICE}"
    by auto
  with refined show ?thesis by blast
qed

end
