(* ===== verification/Lifetime.thy ===== *)
theory Lifetime
  imports Replay Projector
begin

text \<open>
  An aggregate over its whole life, delivery after delivery, and a projector that follows it: what
  the coordinator has persisted of the aggregate's answers, and every book it can deliver of that,
  compacted or not. The coordinator is not under \<open>src/\<close>: the steps are its documented part,
  what it persists and delivers; the answers are those of \<open>handle\<close>.
\<close>

subsection \<open>A life\<close>

text \<open>The pages persisted, and the snapshots kept, each with the length of the log it stands for.\<close>

record life =
  lf_log :: "event_page list"
  lf_snapshots :: "(nat \<times> any_msg) list"

definition life_new :: life where
  "life_new = \<lparr>lf_log = [], lf_snapshots = []\<rparr>"

text \<open>A book delivered: the whole log, or a snapshot with the pages after it.\<close>

definition delivers :: "cover option \<Rightarrow> life \<Rightarrow> event_book \<Rightarrow> bool" where
  "delivers cover l book \<longleftrightarrow> eb_cover book = cover \<and> eb_next_sequence book = length (lf_log l)
     \<and> (case sn_state (snapshot_of (eb_snapshot book)) of
          None \<Rightarrow> eb_pages book = lf_log l
        | Some a \<Rightarrow> list_ex (\<lambda>(n, kept). kept = a \<and> eb_pages book = drop n (lf_log l)) (lf_snapshots l))"

text \<open>An answer persisted, with its state as a snapshot.\<close>

definition grown ::
  "'st aggregate_dispatch \<Rightarrow> contextual_command \<Rightarrow> command_handler_response \<Rightarrow> life \<Rightarrow> life" where
  "grown d request resp l =
     (let log = lf_log l @ persisted d request resp in
      \<lparr>lf_log = log,
       lf_snapshots = (case sn_state (snapshot_of (eb_snapshot (hr_events resp))) of
           None \<Rightarrow> lf_snapshots l
         | Some a \<Rightarrow> (length log, a) # lf_snapshots l)\<rparr>)"

inductive life_step ::
  "runtime \<Rightarrow> 'st aggregate_dispatch \<Rightarrow> cover option \<Rightarrow> life \<Rightarrow> life \<Rightarrow> bool"
  for rt :: runtime and d :: "'st aggregate_dispatch" and cover :: "cover option" where
  Answered: "delivers cover l (cc_events request) \<Longrightarrow> aggregate_handle rt d request = Return resp \<Longrightarrow>
     life_step rt d cover l (grown d request resp l)"
| Refused: "delivers cover l (cc_events request) \<Longrightarrow> aggregate_handle rt d request = Raise exc \<Longrightarrow>
     life_step rt d cover l l"
| Forgotten: "life_step rt d cover l (l\<lparr>lf_snapshots := filter keep (lf_snapshots l)\<rparr>)"

subsection \<open>What a life keeps\<close>

abbreviation replayed ::
  "runtime \<Rightarrow> 'st aggregate_dispatch \<Rightarrow> cover option \<Rightarrow> event_page list \<Rightarrow> exn + 'st" where
  "replayed rt d cover pages \<equiv> replay rt d cover FOLD_FAILED (mc_fresh (rb_factory (ad_rebuilder d))) pages"

definition life_inv :: "runtime \<Rightarrow> 'st aggregate_dispatch \<Rightarrow> cover option \<Rightarrow> life \<Rightarrow> bool" where
  "life_inv rt d cover l \<longleftrightarrow> map pg_sequence (lf_log l) = [0 ..< length (lf_log l)]
     \<and> (\<exists>st. replayed rt d cover (lf_log l) = Return st)
     \<and> (\<forall>(n, a) \<in> set (lf_snapshots l). \<exists>st. replayed rt d cover (take n (lf_log l)) = Return st
          \<and> n \<le> length (lf_log l) \<and> a = any_pack (rb_factory (ad_rebuilder d)) st)"

text \<open>Every book delivered is folded to the state of the whole log.\<close>

lemma delivered_state:
  assumes "life_inv rt d cover l" and "parses_back (rb_factory (ad_rebuilder d))"
    and "delivers cover l book"
  obtains st0 st where "replayed rt d cover (lf_log l) = Return st"
    and "start_state rt (rb_factory (ad_rebuilder d)) book = Return st0"
    and "replay rt d cover FOLD_FAILED st0 (eb_pages book) = Return st"
proof -
  from assms(1) obtain st where st: "replayed rt d cover (lf_log l) = Return st"
    by (auto simp: life_inv_def)
  show thesis
  proof (cases "sn_state (snapshot_of (eb_snapshot book))")
    case None
    with assms(3) st show thesis by (intro that [of st]) (auto simp: delivers_def start_state_def)
  next
    case (Some a)
    with assms(3) obtain n where n: "(n, a) \<in> set (lf_snapshots l)" "eb_pages book = drop n (lf_log l)"
      by (auto simp: delivers_def list_ex_iff)
    with assms(1) obtain st0 where st0: "replayed rt d cover (take n (lf_log l)) = Return st0"
      "a = any_pack (rb_factory (ad_rebuilder d)) st0" by (fastforce simp: life_inv_def)
    then have "replay rt d cover FOLD_FAILED st0 (eb_pages book) = replayed rt d cover (lf_log l)"
      using page_fold.run_split [of rt _ cover _ FOLD_FAILED _ n "lf_log l"] n(2) by (metis bindR_Inr)
    with st st0 Some assms(2) show thesis
      by (intro that [of st st0]) (auto simp: start_state_def parses_back_def)
  qed
qed

lemma rebuild_delivered:
  assumes "start_state rt (rb_factory (ad_rebuilder d)) book = Return st0"
    and "replay rt d (eb_cover book) FOLD_FAILED st0 (eb_pages book) = Return st"
  shows "\<exists>before. rebuild rt d book n = Return (before, st)"
proof -
  have "replay rt d (eb_cover book) FOLD_FAILED st0 (take n (eb_pages book) @ drop n (eb_pages book)) = Return st"
    using assms(2) by simp
  from page_fold.run_prefix [OF this] obtain before
    where "replay rt d (eb_cover book) FOLD_FAILED st0 (take n (eb_pages book)) = Return before" by blast
  moreover from this have "replay rt d (eb_cover book) FOLD_FAILED before (drop n (eb_pages book)) = Return st"
    using page_fold.run_split [of rt _ "eb_cover book" _ FOLD_FAILED st0 n "eb_pages book"] assms(2)
    by (metis bindR_Inr)
  ultimately show ?thesis using assms(1) by (auto simp: rebuild_eq_Return)
qed

text \<open>An answer to a delivered book: the log with it persisted replays to the state answered.\<close>

lemma delivered_answer:
  assumes "life_inv rt d cover l" "parses_back (rb_factory (ad_rebuilder d))" "reads_only d"
    and "delivers cover l (cc_events request)" "aggregate_handle rt d request = Return resp"
  shows "\<exists>after. replayed rt d cover (lf_log l @ persisted d request resp) = Return after
    \<and> sn_state (snapshot_of (eb_snapshot (hr_events resp))) = Some (any_pack (rb_factory (ad_rebuilder d)) after)"
proof -
  from assms(3,5) obtain st0 after where
    s0: "start_state rt (rb_factory (ad_rebuilder d)) (cc_events request) = Return st0"
    and run: "replay rt d (eb_cover (cc_events request)) FOLD_FAILED st0
       (eb_pages (cc_events request) @ persisted d request resp) = Return after"
    and sn: "sn_state (snapshot_of (eb_snapshot (hr_events resp))) =
       Some (any_pack (rb_factory (ad_rebuilder d)) after)"
    by (rule handle_replays)
  from assms(1,2,4) obtain st0' st where "replayed rt d cover (lf_log l) = Return st"
    "start_state rt (rb_factory (ad_rebuilder d)) (cc_events request) = Return st0'"
    "replay rt d cover FOLD_FAILED st0' (eb_pages (cc_events request)) = Return st"
    by (rule delivered_state)
  with s0 run assms(4) sn show ?thesis by (simp add: page_fold.run_append delivers_def)
qed

lemma grown_inv:
  assumes "life_inv rt d cover l" "parses_back (rb_factory (ad_rebuilder d))" "reads_only d"
    and "delivers cover l (cc_events request)" "aggregate_handle rt d request = Return resp"
  shows "life_inv rt d cover (grown d request resp l)"
proof -
  obtain after where after: "replayed rt d cover (lf_log l @ persisted d request resp) = Return after"
    "sn_state (snapshot_of (eb_snapshot (hr_events resp))) = Some (any_pack (rb_factory (ad_rebuilder d)) after)"
    using delivered_answer [OF assms] by blast
  have "eb_next_sequence (cc_events request) = length (lf_log l)" using assms(4) by (simp add: delivers_def)
  then have "map pg_sequence (persisted d request resp) =
      [length (lf_log l) ..< length (lf_log l) + length (persisted d request resp)]"
    by (simp add: persisted_def stamped_sequences)
  with assms(1) have "map pg_sequence (lf_log l @ persisted d request resp) =
      [0 ..< length (lf_log l @ persisted d request resp)]"
    by (simp add: life_inv_def upt_add_eq_append [symmetric])
  with assms(1) after show ?thesis
    by (fastforce simp: life_inv_def grown_def Let_def)
qed

interpretation life_machine: step_invariant "life_step rt d cover" "\<lambda>l. l = life_new"
  "\<lambda>l. reads_only d \<and> parses_back (rb_factory (ad_rebuilder d)) \<longrightarrow> life_inv rt d cover l"
proof
  show "reads_only d \<and> parses_back (rb_factory (ad_rebuilder d)) \<longrightarrow> life_inv rt d cover l"
    if "l = life_new" for l
    by (simp add: that life_new_def life_inv_def)
next
  fix l l'
  assume "reads_only d \<and> parses_back (rb_factory (ad_rebuilder d)) \<longrightarrow> life_inv rt d cover l"
    and "life_step rt d cover l l'"
  from this(2,1) show "reads_only d \<and> parses_back (rb_factory (ad_rebuilder d)) \<longrightarrow> life_inv rt d cover l'"
    by cases (use grown_inv in \<open>blast, blast, auto simp: life_inv_def\<close>)
qed

subsection \<open>A projector of the life\<close>

abbreviation projects ::
  "runtime \<Rightarrow> 'pr projector_dispatch \<Rightarrow> cover option \<Rightarrow> event_page list \<Rightarrow> exn + 'pr" where
  "projects rt p cover pages \<equiv>
     fold_pages rt (pd_factory p) cover (pd_events p) FOLD_FAILED (mc_fresh (pd_factory p)) pages"

text \<open>The position after a delivered book is the log's end, compacted or not.\<close>

lemma delivered_position:
  assumes "life_inv rt d cover l" and "delivers cover l book"
  shows "position_after book = length (lf_log l)"
proof (cases "eb_pages book = []")
  case True
  with assms(2) show ?thesis by (simp add: position_after_def delivers_def)
next
  case False
  from assms(2) obtain n where n: "eb_pages book = drop n (lf_log l)"
    by (auto simp: delivers_def list_ex_iff split: option.splits intro: that [of 0])
  with False have "last (eb_pages book) = last (lf_log l)" "lf_log l \<noteq> []"
    by (auto simp: last_drop)
  moreover have seqs: "map pg_sequence (lf_log l) = [0 ..< length (lf_log l)]"
    using assms(1) by (simp add: life_inv_def)
  from calculation(2) seqs have "pg_sequence (last (lf_log l)) = length (lf_log l) - 1"
    by (metis last_map last_upt length_greater_0_conv)
  ultimately show ?thesis using False by (simp add: position_after_def)
qed

subsection \<open>Properties\<close>

text \<open>
  C3: an aggregate lives in one state. Over any life, of any deliveries answered or refused, with
  any snapshots kept or forgotten, the log's sequences are 0, 1, 2 and so on without a gap; every
  book that can be delivered next, compacted or whole, is folded to the one state the whole log
  replays to, so no delivery is refused for what was persisted; and what is answered to it is,
  persisted, a log that replays to the answered state.
\<close>

theorem one_state_for_life:
  assumes "reads_only d" and "parses_back (rb_factory (ad_rebuilder d))"
    and "(life_step rt d cover)\<^sup>*\<^sup>* life_new l" and "delivers cover l (cc_events request)"
  shows "map pg_sequence (lf_log l) = [0 ..< length (lf_log l)]
    \<and> (\<exists>st before. replayed rt d cover (lf_log l) = Return st
        \<and> rebuild rt d (cc_events request) (seen_pages request) = Return (before, st))
    \<and> (\<forall>resp. aggregate_handle rt d request = Return resp \<longrightarrow>
        (\<exists>after. replayed rt d cover (lf_log l @ persisted d request resp) = Return after
          \<and> sn_state (snapshot_of (eb_snapshot (hr_events resp))) =
              Some (any_pack (rb_factory (ad_rebuilder d)) after)))"
proof (intro conjI allI impI)
  have inv: "life_inv rt d cover l"
    using life_machine.reached [OF refl assms(3)] assms(1,2) by blast
  then show "map pg_sequence (lf_log l) = [0 ..< length (lf_log l)]" by (simp add: life_inv_def)
  from inv assms(2,4) obtain st0 st where st: "replayed rt d cover (lf_log l) = Return st"
    "start_state rt (rb_factory (ad_rebuilder d)) (cc_events request) = Return st0"
    "replay rt d cover FOLD_FAILED st0 (eb_pages (cc_events request)) = Return st" by (rule delivered_state)
  moreover have "eb_cover (cc_events request) = cover" using assms(4) by (simp add: delivers_def)
  ultimately show "\<exists>st before. replayed rt d cover (lf_log l) = Return st
      \<and> rebuild rt d (cc_events request) (seen_pages request) = Return (before, st)"
    using rebuild_delivered [of rt d "cc_events request" st0 st] by blast
  fix resp assume "aggregate_handle rt d request = Return resp"
  with inv assms(1,2,4) show "\<exists>after. replayed rt d cover (lf_log l @ persisted d request resp) = Return after
      \<and> sn_state (snapshot_of (eb_snapshot (hr_events resp))) =
          Some (any_pack (rb_factory (ad_rebuilder d)) after)" by (intro delivered_answer)
qed

text \<open>The counter after one answer, delivered its snapshot only.\<close>

definition first_request :: contextual_command where
  "first_request = counter_request [] [1]"

definition first_answer :: command_handler_response where
  "first_answer =
     \<lparr>hr_events = \<lparr>eb_cover = None, eb_pages = [increased_page 0], eb_next_sequence = 0,
        eb_snapshot = Some \<lparr>sn_sequence = 0, sn_state = Some (any_pack counter_class 1)\<rparr>\<rparr>,
      hr_rules_version = ''1.0'', hr_conflict = None\<rparr>"

definition one_life :: life where
  "one_life = grown counter first_request first_answer life_new"

definition compact_request :: contextual_command where
  "compact_request = (counter_request [] [1, 1])\<lparr>cc_events :=
     \<lparr>eb_cover = None, eb_pages = [], eb_next_sequence = 1,
      eb_snapshot = Some \<lparr>sn_sequence = 0, sn_state = Some (any_pack counter_class 1)\<rparr>\<rparr>\<rparr>"

lemma one_life_lived: "(life_step plain_runtime counter None)\<^sup>*\<^sup>* life_new one_life"
proof -
  have "aggregate_handle plain_runtime counter first_request = Return first_answer"
    by (simp add: first_request_def first_answer_def handle_defs request_defs counter_defs emit_increases_def
        plain_runtime_def count_up_def increased_page_def counter_class_def conflict_report_default_def)
  moreover have "delivers None life_new (cc_events first_request)"
    by (simp add: delivers_def life_new_def first_request_def counter_request_sel snapshot_of_def
        snapshot_default_def)
  ultimately have "life_step plain_runtime counter None life_new one_life"
    unfolding one_life_def by (intro life_step.Answered)
  then show ?thesis by (rule r_into_rtranclp)
qed

lemma one_life_length: "length (lf_log one_life) = 1"
  by (simp add: one_life_def grown_def Let_def life_new_def persisted_def first_answer_def)

lemma counter_parses_back: "parses_back (rb_factory (ad_rebuilder counter))"
  by (simp add: parses_back_counter counter_sel)

theorem one_state_for_life_witness:
  "map pg_sequence (lf_log one_life) = [0] \<and> eb_pages (cc_events compact_request) = []
   \<and> (\<exists>st before. replayed plain_runtime counter None (lf_log one_life) = Return st
        \<and> rebuild plain_runtime counter (cc_events compact_request) (seen_pages compact_request)
            = Return (before, st))"
proof -
  have "delivers None one_life (cc_events compact_request)"
    by (simp add: delivers_def compact_request_def snapshot_of_def one_life_def grown_def Let_def
        life_new_def persisted_def first_answer_def)
  then show ?thesis
    using one_state_for_life [OF reads_only_counter counter_parses_back one_life_lived, of compact_request]
      one_life_length
    by (simp add: compact_request_def)
qed

text \<open>
  C10: a projector follows an aggregate over its life. Of any book that can be delivered of the life,
  compacted or whole, a projector of its domain answers the fold of the book's pages, and the
  position after the whole log, where the next delivery begins; a projector of other domains answers
  the same position and its fresh projection, and no handler of it runs. When the aggregate
  answers a further command, the longer log projects to what the shorter one did and, on top of that,
  the answered events as they are persisted.
\<close>

theorem projector_follows_life:
  assumes "reads_only d" and "parses_back (rb_factory (ad_rebuilder d))"
    and "(life_step rt d cover)\<^sup>*\<^sup>* life_new l" and "delivers cover l book"
    and "rt_seq_fits rt (length (lf_log l))"
  shows "projector_handle rt p book =
      bindR (if pd_domains p = [] \<or> cv_domain (cover_of cover) \<in> set (pd_domains p)
             then projects rt p cover (eb_pages book) else Return (mc_fresh (pd_factory p)))
        (\<lambda>folded. Return \<lparr>pj_cover = cover_of cover, pj_projector = pd_name p,
           pj_next_sequence = length (lf_log l), pj_projection = any_pack (pd_factory p) folded\<rparr>)
    \<and> (\<forall>request resp. delivers cover l (cc_events request) \<and> aggregate_handle rt d request = Return resp \<longrightarrow>
        map pg_sequence (persisted d request resp) =
          [length (lf_log l) ..< length (lf_log l) + length (eb_pages (hr_events resp))]
        \<and> projects rt p cover (lf_log (grown d request resp l)) =
            bindR (projects rt p cover (lf_log l)) (\<lambda>folded.
              fold_pages rt (pd_factory p) cover (pd_events p) FOLD_FAILED folded (persisted d request resp)))"
proof (intro conjI allI impI; (elim conjE)?)
  have "life_inv rt d cover l"
    using life_machine.reached [OF refl assms(3)] assms(1,2) by blast
  from delivered_position [OF this assms(4)] assms(4,5)
  show "projector_handle rt p book =
      bindR (if pd_domains p = [] \<or> cv_domain (cover_of cover) \<in> set (pd_domains p)
             then projects rt p cover (eb_pages book) else Return (mc_fresh (pd_factory p)))
        (\<lambda>folded. Return \<lparr>pj_cover = cover_of cover, pj_projector = pd_name p,
           pj_next_sequence = length (lf_log l), pj_projection = any_pack (pd_factory p) folded\<rparr>)"
    by (simp add: projector_handle_def Let_def delivers_def)
next
  fix request :: contextual_command and resp
  assume "delivers cover l (cc_events request)"
  then show "map pg_sequence (persisted d request resp) =
      [length (lf_log l) ..< length (lf_log l) + length (eb_pages (hr_events resp))]"
    by (simp add: delivers_def persisted_def stamped_sequences)
  show "projects rt p cover (lf_log (grown d request resp l)) =
      bindR (projects rt p cover (lf_log l)) (\<lambda>folded.
        fold_pages rt (pd_factory p) cover (pd_events p) FOLD_FAILED folded (persisted d request resp))"
    by (simp add: grown_def Let_def page_fold.run_append)
qed

text \<open>The counter's one answer, projected by a projector of every domain that counts.\<close>

definition increases :: "nat projector_dispatch" where
  "increases = projector_on_event ''t.Increased'' (\<lambda>cur st event ctx. Return (Suc st))
     (projector_new ''Increases'' \<lparr>mc_full_name = ''t.Increases'', mc_fresh = 0,
        mc_parse = (\<lambda>bs. Inr (length bs)), mc_serialize = (\<lambda>n. replicate n 0)\<rparr>)"

definition one_book :: event_book where
  "one_book = event_book_default\<lparr>eb_pages := lf_log one_life, eb_next_sequence := 1\<rparr>"

theorem projector_follows_life_witness:
  "projector_handle plain_runtime increases one_book =
     Return \<lparr>pj_cover = cover_default, pj_projector = ''Increases'', pj_next_sequence = 1,
       pj_projection = \<lparr>any_type_url = ''/t.Increases'', any_value = [0]\<rparr>\<rparr>"
proof -
  have "delivers None one_life one_book"
    by (simp add: delivers_def one_book_def one_life_length event_book_default_def snapshot_of_def
        snapshot_default_def)
  moreover have "rt_seq_fits plain_runtime (length (lf_log one_life))"
    by (simp add: one_life_length plain_runtime_def)
  moreover have "projects plain_runtime increases None (lf_log one_life) = Return 1"
    by (simp add: one_life_def grown_def Let_def life_new_def persisted_def first_answer_def increases_def
        projector_on_event_def projector_new_def increased_page_def call_def handling_def)
  moreover have "pd_domains increases = []" "pd_name increases = ''Increases''" "any_pack (pd_factory increases) 1 = \<lparr>any_type_url = ''/t.Increases'', any_value = [0]\<rparr>"
    by (simp_all add: increases_def projector_on_event_def projector_new_def any_pack_def)
  moreover have "eb_pages one_book = lf_log one_life" by (simp add: one_book_def)
  ultimately show ?thesis
    using projector_follows_life [OF reads_only_counter counter_parses_back one_life_lived, of one_book increases]
    by (simp add: one_life_length cover_of_def)
qed

end
