(* ===== verification/Packaging.thy ===== *)
theory Packaging
  imports Router Generate
begin

text \<open>
  How the package is built, versioned and checked: \<open>hatch_build.py\<close>,
  \<open>angzarr_client/_metadata.py\<close>, the docs' settings (\<open>docs/conf.py\<close>) and
  \<open>scripts/check_wheel.py\<close>. What \<open>importlib.metadata\<close> answers, what the project file holds and
  where an import finds the package are parameters.
\<close>

subsection \<open>The version\<close>

definition installed_version ::
  "(string, string list) dict \<Rightarrow> (string \<Rightarrow> exn + string) \<Rightarrow> string \<Rightarrow> exn + string" where
  "installed_version packages_distributions version package =
     (case (case map_of packages_distributions package of None \<Rightarrow> [package] | Some names \<Rightarrow> names) of
        [] \<Rightarrow> Raise (Other_exc ''IndexError'')
      | name # _ \<Rightarrow> version name)"

text \<open>
  The docs load \<open>_metadata.py\<close> alone, from the package's directory: \<open>loaded\<close> is what that gives.
\<close>

definition docs_installed_version ::
  "(string \<Rightarrow> exn option) \<Rightarrow> (string, string list) dict \<Rightarrow> (string \<Rightarrow> exn + string) \<Rightarrow> string \<Rightarrow> exn + string" where
  "docs_installed_version loaded packages_distributions version package =
     (case loaded (package @ ''/_metadata.py'') of
        Some exc \<Rightarrow> Raise exc
      | None \<Rightarrow> installed_version packages_distributions version package)"

definition docs_release ::
  "(string \<Rightarrow> exn option) \<Rightarrow> (string, string list) dict \<Rightarrow> (string \<Rightarrow> exn + string) \<Rightarrow> string \<Rightarrow> exn + string" where
  "docs_release loaded packages_distributions version package =
     (case docs_installed_version loaded packages_distributions version package of
        Inl exc \<Rightarrow> if is_exception exc then Return ''0.0.0'' else Raise exc
      | Inr v \<Rightarrow> Return v)"

text \<open>The docs show the version the package finds of itself, or none.\<close>

lemma docs_release_version:
  assumes "loaded (package @ ''/_metadata.py'') = None"
  shows "docs_release loaded dists version package = Return v \<longleftrightarrow>
    installed_version dists version package = Return v
    \<or> v = ''0.0.0'' \<and> (\<exists>exc. installed_version dists version package = Raise exc \<and> is_exception exc)"
  using assms by (auto simp: docs_release_def docs_installed_version_def split: sum.splits)

text \<open>An editable install, of which the metadata maps no package, is found by the package's name.\<close>

lemma editable_version:
  "map_of dists package = None \<Longrightarrow> installed_version dists version package = version package"
  by (simp add: installed_version_def)

subsection \<open>The docs\<close>

text \<open>The project file, as its schema has it: the project's name, and the packages its wheel builds.\<close>

record pyproject =
  py_name :: "string option"
  py_packages :: "string list option"

definition docs_package :: "pyproject \<Rightarrow> exn + string" where
  "docs_package py =
     (case py_packages py of
        None \<Rightarrow> Raise (Other_exc ''KeyError'')
      | Some [] \<Rightarrow> Raise (Other_exc ''IndexError'')
      | Some (package # _) \<Rightarrow> Return package)"

record docs_settings =
  dc_project :: string
  dc_author :: string
  dc_copyright :: string
  dc_release :: string
  dc_version :: string
  dc_extensions :: "string list"
  dc_autoapi_type :: string
  dc_autoapi_dirs :: "string list"
  dc_autoapi_ignore :: "string list"
  dc_autoapi_options :: "string list"
  dc_autoapi_python_class_content :: string
  dc_autoapi_keep_files :: bool
  dc_autoapi_add_toctree_entry :: bool
  dc_napoleon_google_docstring :: bool
  dc_napoleon_numpy_docstring :: bool
  dc_napoleon_include_init_with_doc :: bool
  dc_intersphinx_mapping :: "(string, string \<times> string option) dict"
  dc_source_suffix :: "(string, string) dict"
  dc_html_theme :: string
  dc_html_title :: string
  dc_exclude_patterns :: "string list"
  dc_html_theme_options :: "(string, string) dict"

definition docs_conf ::
  "(string \<Rightarrow> exn option) \<Rightarrow> (string, string list) dict \<Rightarrow> (string \<Rightarrow> exn + string) \<Rightarrow> pyproject \<Rightarrow>
     exn + docs_settings" where
  "docs_conf loaded dists version_of py =
     bindR (docs_package py) (\<lambda>package.
     bindR (case py_name py of None \<Rightarrow> Raise (Other_exc ''KeyError'') | Some name \<Rightarrow> Return name) (\<lambda>name.
     bindR (docs_release loaded dists version_of package) (\<lambda>found.
     Return \<lparr>
       dc_project = name,
       dc_author = ''Benjamin Abbitt'',
       dc_copyright = ''2026, Benjamin Abbitt'',
       dc_release = found,
       dc_version = found,
       dc_extensions = [''autoapi.extension'', ''sphinx.ext.napoleon'', ''sphinx.ext.intersphinx'', ''myst_parser''],
       dc_autoapi_type = ''python'',
       dc_autoapi_dirs = [''../'' @ package],
       dc_autoapi_ignore = [''*/proto/*''],
       dc_autoapi_options = [''members'', ''undoc-members'', ''show-inheritance'', ''show-module-summary'',
         ''imported-members''],
       dc_autoapi_python_class_content = ''both'',
       dc_autoapi_keep_files = False,
       dc_autoapi_add_toctree_entry = True,
       dc_napoleon_google_docstring = True,
       dc_napoleon_numpy_docstring = False,
       dc_napoleon_include_init_with_doc = True,
       dc_intersphinx_mapping = [(''python'', (''https://docs.python.org/3'', None))],
       dc_source_suffix = [(''.rst'', ''restructuredtext''), (''.md'', ''markdown'')],
       dc_html_theme = ''furo'',
       dc_html_title = name @ '' '' @ found,
       dc_exclude_patterns = [''_build'', ''Thumbs.db'', ''.DS_Store''],
       dc_html_theme_options = [(''source_repository'', ''https://github.com/angzarr-io/angzarr-client-python/''),
         (''source_branch'', ''main''), (''source_directory'', package @ ''/'')]\<rparr>)))"

text \<open>
  The docs follow the project file: a rename shows in the title, in the directory the reference is
  read from and in the links to its source. A project file that names neither stops their build; a
  package that is not installed does not.
\<close>

lemma docs_follow_the_project:
  assumes "loaded (package @ ''/_metadata.py'') = None" and "\<And>exc. version_of package = Raise exc \<Longrightarrow> is_exception exc"
    and "map_of dists package = None"
  shows "docs_conf loaded dists version_of \<lparr>py_name = Some name, py_packages = Some (package # packages)\<rparr> = Return conf \<Longrightarrow>
    dc_release conf = (case version_of package of Inl _ \<Rightarrow> ''0.0.0'' | Inr v \<Rightarrow> v) \<and> dc_version conf = dc_release conf
    \<and> dc_project conf = name \<and> dc_html_title conf = name @ '' '' @ dc_release conf \<and> dc_autoapi_dirs conf = [''../'' @ package]
    \<and> map_of (dc_html_theme_options conf) ''source_directory'' = Some (package @ ''/'')"
  and "\<exists>conf. docs_conf loaded dists version_of \<lparr>py_name = Some name, py_packages = Some (package # packages)\<rparr> = Return conf"
  and "py_name py = None \<or> py_packages py \<in> {None, Some []} \<Longrightarrow> \<exists>exc. docs_conf loaded dists version_of py = Raise exc"
proof -
  from assms have found: "docs_release loaded dists version_of package =
      Return (case version_of package of Inl _ \<Rightarrow> ''0.0.0'' | Inr v \<Rightarrow> v)"
    by (auto simp: docs_release_def docs_installed_version_def editable_version split: sum.split)
  show "docs_conf loaded dists version_of \<lparr>py_name = Some name, py_packages = Some (package # packages)\<rparr> = Return conf \<Longrightarrow>
      dc_release conf = (case version_of package of Inl _ \<Rightarrow> ''0.0.0'' | Inr v \<Rightarrow> v) \<and> dc_version conf = dc_release conf
      \<and> dc_project conf = name \<and> dc_html_title conf = name @ '' '' @ dc_release conf \<and> dc_autoapi_dirs conf = [''../'' @ package]
      \<and> map_of (dc_html_theme_options conf) ''source_directory'' = Some (package @ ''/'')"
    and "\<exists>conf. docs_conf loaded dists version_of \<lparr>py_name = Some name, py_packages = Some (package # packages)\<rparr> = Return conf"
    by (auto simp: docs_conf_def docs_package_def found)
  show "py_name py = None \<or> py_packages py \<in> {None, Some []} \<Longrightarrow> \<exists>exc. docs_conf loaded dists version_of py = Raise exc"
    by (cases "docs_package py") (auto simp: docs_conf_def docs_package_def)
qed

subsection \<open>The wheel's build\<close>

definition build_hook :: "'x build_tools \<Rightarrow> path \<Rightarrow> string \<Rightarrow> unit build" where
  "build_hook tools root target_name =
     (if target_name \<noteq> ''wheel'' then returnB ()
      else bindB (generate_protos tools root (PROTO_OUT root)) (\<lambda>_. returnB ()))"

subsection \<open>The wheel's check\<close>

text \<open>The search path without the source tree; \<open>resolve\<close> is the path an entry names.\<close>

definition wheel_path :: "(string \<Rightarrow> path) \<Rightarrow> path \<Rightarrow> string list \<Rightarrow> string list" where
  "wheel_path resolve here sys_path =
     filter (\<lambda>p. resolve (if p = [] then ''.'' else p) \<noteq> here) sys_path"

text \<open>
  \<open>main\<close>: the exit status, the line printed and the router it leaves. \<open>find_package\<close> gives the
  directory the package is imported from, with its version; \<open>Cover\<close> is the state's message class.
\<close>

definition wheel_main ::
  "runtime \<Rightarrow> 'st message_class \<Rightarrow> (string \<Rightarrow> path) \<Rightarrow> (string list \<Rightarrow> exn + path \<times> string) \<Rightarrow> path \<Rightarrow>
     string list \<Rightarrow> exn + nat \<times> string \<times> ('st, 'pr) router" where
  "wheel_main rt Cover resolve find_package here sys_path =
     bindR (find_package (wheel_path resolve here sys_path)) (\<lambda>(package, v).
       if startswith here package \<and> package \<noteq> here
       then Return (1, ''FAIL: angzarr_client imported from the source tree ('' @ posix package @ '')'', router_new)
       else
         bindR (router_register rt
             (Aggregate_component (aggregate_new ''WheelCheck'' ''wheel-check'' (rebuilder_new Cover)))
             router_new) (\<lambda>r.
           Return (0, ''ok: angzarr-client '' @ v @ '' from '' @ posix package, router_close r)))"

text \<open>
  The check passes exactly when the package imports from outside the source tree: the router it
  makes accepts the component, and is closed.
\<close>

lemma wheel_check_passes:
  "wheel_main rt Cover resolve find_package here sys_path = Return (exit_code, line, r) \<longleftrightarrow>
     (\<exists>package v. find_package (wheel_path resolve here sys_path) = Return (package, v) \<and> r = None
       \<and> (if startswith here package \<and> package \<noteq> here
          then exit_code = 1 \<and> line = ''FAIL: angzarr_client imported from the source tree ('' @ posix package @ '')''
          else exit_code = 0 \<and> line = ''ok: angzarr-client '' @ v @ '' from '' @ posix package))"
  by (auto simp: wheel_main_def bindR_eq_Inr_iff router_register_def router_new_def router_close_def
      split: if_splits)

lemma wheel_path_skips_source: "p \<in> set (wheel_path resolve here ps) \<Longrightarrow> p \<noteq> [] \<Longrightarrow> resolve p \<noteq> here"
  by (auto simp: wheel_path_def)

text \<open>A build for any other target leaves the disk as it is.\<close>

lemma build_hook_wheel_only: "target_name \<noteq> ''wheel'' \<Longrightarrow> build_hook tools root target_name d = (Return (), d)"
  by (simp add: build_hook_def returnB_def)

end
