(* ===== verification/Refusals.thy ===== *)
theory Refusals
  imports Conflict
begin

text \<open>
  How an aggregate's \<open>handle\<close> fails: a delivery nothing handles is refused before anything
  folds, a failing fold names the first page its applier failed at and why, and whatever
  escapes is a coded error.
\<close>

subsection \<open>Routing\<close>

lemma aggregate_handle_unrouted:
  "route rt d (book_page (cc_command request)) (mode_of request) = Raise e \<Longrightarrow>
     aggregate_handle rt d request = Raise e"
  by (simp add: aggregate_handle_def Let_def)

text \<open>The key a delivery is refused under when no handler takes it; None when one does.\<close>

fun refusal_key ::
  "runtime \<Rightarrow> 'st aggregate_dispatch \<Rightarrow> command_page \<Rightarrow> conflict_resolution \<Rightarrow> string option" where
  "refusal_key rt d page mode =
     (case cp_body page of
        Some (Fact_arm p) \<Rightarrow>
          (if ad_facts d (type_name (any_type_url (payload_of p))) \<noteq> None then None
           else if type_name (any_type_url (payload_of p)) \<noteq> REFUSED_TYPE then Some NO_FACT_HANDLER
           else (case rt_parse_refused rt (any_value (payload_of p)) of
                   Inl _ \<Rightarrow> Some ANY_DECODE_FAILED
                 | Inr refused \<Rightarrow>
                     (if ad_refusals d (type_name (any_type_url
                           (command_payload (book_page (cr_command refused))))) = None
                      then Some NO_REFUSAL_HANDLER else None)))
      | _ \<Rightarrow>
          (if ad_commands d (type_name (any_type_url (command_payload page))) = None
           then Some UNKNOWN_COMMAND_TYPE
           else if mode = RES_COMMUTATIVE \<and> ad_changed d = None
           then Some CONFLICT_RESOLUTION_UNSUPPORTED else None))"

lemma route_refusal_key:
  "refusal_key rt d page mode = Some key \<Longrightarrow>
     \<exists>e. route rt d page mode = Raise (Coded e) \<and> ce_code e = key
       \<and> ce_grpc e = declared_status (rt_statuses rt) key \<and> ce_refusal e = None"
  by (auto simp: route_def decide_command_def ingest_def unknown_type_def coded_def decode_refused_def
      any_decode_error_def Let_def split: option.splits body.splits if_splits sum.splits)

lemma route_taken:
  "refusal_key rt d page mode = None \<Longrightarrow> \<exists>decide. route rt d page mode = Return decide"
  by (auto simp: route_def decide_command_def ingest_def decode_refused_def Let_def
      split: option.splits body.splits if_splits sum.splits)

text \<open>
  C6: a delivery is routed exactly when a handler takes it, and one no handler takes is refused
  before anything folds, under the key of its case and that key's declared status, whatever its
  history holds and whatever the appliers would do: a command of no registered type, COMMUTATIVE
  without a \<open>changed\<close> resolver, a fact of no registered type, and, among the \<open>CommandRefused\<close>
  facts that no fact handler takes, one that does not decode and one whose refused command's type
  no refusal handler is registered for.
\<close>

theorem unrouted_refused_before_folding:
  "case refusal_key rt d (book_page (cc_command request)) (mode_of request) of
     None \<Rightarrow> \<exists>decide. route rt d (book_page (cc_command request)) (mode_of request) = Return decide
   | Some key \<Rightarrow>
       (\<exists>e. ce_code e = key \<and> ce_grpc e = declared_status (rt_statuses rt) key
          \<and> (\<forall>history recorded nonce appliers.
               aggregate_handle rt
                 (d\<lparr>ad_rebuilder := (ad_rebuilder d)\<lparr>rb_appliers := appliers\<rparr>\<rparr>)
                 (request\<lparr>cc_events := history, cc_recorded_at := recorded, cc_conflict_nonce := nonce\<rparr>)
               = Raise (Coded e)))"
proof (cases "refusal_key rt d (book_page (cc_command request)) (mode_of request)")
  case None
  then show ?thesis using route_taken [OF None] by (simp del: refusal_key.simps)
next
  case (Some key)
  let ?d = "\<lambda>appliers. d\<lparr>ad_rebuilder := (ad_rebuilder d)\<lparr>rb_appliers := appliers\<rparr>\<rparr>"
  have "decide_command rt (?d appliers) p = decide_command rt d p"
    and "ingest rt (?d appliers) p = ingest rt d p" for appliers p
    by (simp_all add: decide_command_def ingest_def Let_def split: option.split)
  then have r: "route rt (?d appliers) page mode = route rt d page mode" for appliers page mode
    by (simp add: route_def split: option.split body.split)
  from route_refusal_key [OF Some] obtain e where
    "route rt d (book_page (cc_command request)) (mode_of request) = Raise (Coded e)"
    and k: "ce_code e = key" "ce_grpc e = declared_status (rt_statuses rt) key" by blast
  then have "aggregate_handle rt (?d appliers)
      (request\<lparr>cc_events := history, cc_recorded_at := recorded, cc_conflict_nonce := nonce\<rparr>)
      = Raise (Coded e)" for history recorded nonce appliers
    by (intro aggregate_handle_unrouted) (simp add: r)
  with k show ?thesis unfolding Some option.case by blast
qed

text \<open>A refusal of a command the counter never sent: it has no handler for the refused type.\<close>

definition refusal_runtime :: runtime where
  "refusal_runtime = plain_runtime\<lparr>rt_parse_refused := (\<lambda>bs. Inr
     \<lparr>cr_command = command_book_default\<lparr>cb_page :=
        Some (command_page_default\<lparr>cp_body := Some (Command_arm (Some (increase_by bs)))\<rparr>)\<rparr>,
      cr_rest = []\<rparr>)\<rparr>"

definition refusal_request :: contextual_command where
  "refusal_request = (counter_request [0] [])\<lparr>cc_command := command_book_default\<lparr>cb_page :=
     Some (command_page_default\<lparr>cp_body :=
       Some (Fact_arm (Some \<lparr>any_type_url = ''/'' @ REFUSED_TYPE, any_value = [1]\<rparr>))\<rparr>)\<rparr>\<rparr>"

theorem unrouted_refused_before_folding_witness:
  "(\<exists>e. aggregate_handle plain_runtime counter (stale_request RES_COMMUTATIVE []) = Raise (Coded e)
     \<and> ce_code e = CONFLICT_RESOLUTION_UNSUPPORTED)
   \<and> (\<exists>e. aggregate_handle refusal_runtime counter refusal_request = Raise (Coded e)
     \<and> ce_code e = NO_REFUSAL_HANDLER)"
proof
  have refused: "\<exists>e. aggregate_handle rt d request = Raise (Coded e) \<and> ce_code e = key"
    if k: "refusal_key rt d (book_page (cc_command request)) (mode_of request) = Some key"
    for rt :: runtime and d :: "nat aggregate_dispatch" and request :: contextual_command and key
  proof -
    from unrouted_refused_before_folding [of rt d request] obtain e where "ce_code e = key"
      and h: "\<forall>history recorded nonce appliers. aggregate_handle rt
          (d\<lparr>ad_rebuilder := (ad_rebuilder d)\<lparr>rb_appliers := appliers\<rparr>\<rparr>)
          (request\<lparr>cc_events := history, cc_recorded_at := recorded, cc_conflict_nonce := nonce\<rparr>)
          = Raise (Coded e)" unfolding k option.case by blast
    moreover have "aggregate_handle rt d request = Raise (Coded e)"
      using h [rule_format, of "rb_appliers (ad_rebuilder d)" "cc_conflict_nonce request"
          "cc_recorded_at request" "cc_events request"] by simp
    ultimately show ?thesis by blast
  qed
  show "\<exists>e. aggregate_handle plain_runtime counter (stale_request RES_COMMUTATIVE []) = Raise (Coded e)
      \<and> ce_code e = CONFLICT_RESOLUTION_UNSUPPORTED"
    by (rule refused) (simp add: stale_request_sel counter_sel command_payload_def)
  show "\<exists>e. aggregate_handle refusal_runtime counter refusal_request = Raise (Coded e)
      \<and> ce_code e = NO_REFUSAL_HANDLER"
    by (rule refused) (simp add: refusal_request_def refusal_runtime_def counter_sel book_page_def
        command_book_default_def command_page_default_def command_payload_def REFUSED_TYPE_def)
qed

text \<open>
  A command runs the handler registered last for its type, whatever the prefix of its
  type URL, and registering handlers for other types, in any order and before or after,
  changes nothing for it.
\<close>

theorem commands_route_by_type_name:
  "decide_command rt (fold (\<lambda>(name, t). on_command name t) regs d)
      \<lparr>any_type_url = pre @ ''/'' @ type_name url, any_value = bs\<rparr>
   = (case map_of (rev regs) (type_name url) of
        None \<Rightarrow> decide_command rt d \<lparr>any_type_url = pre @ ''/'' @ type_name url, any_value = bs\<rparr>
      | Some t \<Rightarrow> Return (\<lambda>cur st ctx.
          bindR (t cur \<lparr>any_type_url = pre @ ''/'' @ type_name url, any_value = bs\<rparr> st ctx)
            (\<lambda>(events, st', ctx'). Return (book_or_empty events, st', ctx'))))"
proof -
  have "type_name (pre @ ''/'' @ type_name url) = type_name url"
    by (rule type_name_prefix) (rule type_name_no_slash)
  then show ?thesis
    by (simp add: decide_command_def commands.register_all del: append_Cons split: option.split)
qed

subsection \<open>Failing folds\<close>

lemma fold_error_sel:
  "fold_error rt cls code page exc = Coded (coded_error (rt_statuses rt) code None
     (dict_merge [(''sequence'', nat_str (pg_sequence page)), (''type_url'', any_type_url (page_any page)),
        (''state_type_url'', state_type_url cls)] (as_cause (rt_statuses rt) exc)) None)"
  by (simp add: fold_error_def coded_def Let_def)

text \<open>A cause that is a handler's own, not a coded error made up with the panic's key.\<close>

definition plain_cause :: "exn \<Rightarrow> bool" where
  "plain_cause exc \<longleftrightarrow> is_exception exc
     \<and> (\<forall>e. exc = Coded e \<longrightarrow> ce_code e \<noteq> UNHANDLED_HANDLER_ERROR \<and> distinct (keys (ce_extras e)))"

lemma as_cause_keys:
  assumes "plain_cause exc"
  shows "distinct (keys (as_cause sts exc))"
    and "\<forall>k \<in> set (keys (as_cause sts exc)). startswith ''cause'' k"
proof -
  have "distinct (keys (as_cause sts exc))
      \<and> (\<forall>k \<in> set (keys (as_cause sts exc)). startswith ''cause'' k)"
  proof (cases exc)
    case (Coded e)
    with assms show ?thesis
      by (auto simp: plain_cause_def as_cause_def Let_def distinct_flatten)
        (auto simp: flatten_eq startswith_def)
  qed (use assms in \<open>auto simp: as_cause_def plain_cause_def startswith_def\<close>)
  then show "distinct (keys (as_cause sts exc))"
    and "\<forall>k \<in> set (keys (as_cause sts exc)). startswith ''cause'' k" by auto
qed

lemma fold_error_lookup:
  assumes "plain_cause exc" and "fold_error rt cls code page exc = Coded e"
  shows "ce_code e = code"
    and "map_of (ce_extras e) ''sequence'' = Some (nat_str (pg_sequence page))"
    and "map_of (ce_extras e) ''type_url'' = Some (any_type_url (page_any page))"
    and "map_of (ce_extras e) ''state_type_url'' = Some (state_type_url cls)"
    and "map_of (ce_extras e) ''cause'' = map_of (as_cause (rt_statuses rt) exc) ''cause''"
proof -
  have n: "map_of (as_cause (rt_statuses rt) exc) k = None" if "\<not> startswith ''cause'' k" for k
    using as_cause_keys(2) [OF assms(1)] that by (auto simp: map_of_eq_None_iff)
  have "map_of (as_cause (rt_statuses rt) exc) ''sequence'' = None"
    "map_of (as_cause (rt_statuses rt) exc) ''type_url'' = None"
    "map_of (as_cause (rt_statuses rt) exc) ''state_type_url'' = None"
    by (rule n; simp add: startswith_def)+
  with assms(2) as_cause_keys(1) [OF assms(1)]
  show "ce_code e = code"
    and "map_of (ce_extras e) ''sequence'' = Some (nat_str (pg_sequence page))"
    and "map_of (ce_extras e) ''type_url'' = Some (any_type_url (page_any page))"
    and "map_of (ce_extras e) ''state_type_url'' = Some (state_type_url cls)"
    and "map_of (ce_extras e) ''cause'' = map_of (as_cause (rt_statuses rt) exc) ''cause''"
    by (auto simp: fold_error_sel map_of_dict_merge map_add_def split: option.split)
qed

lemma fold_pages_fails_at:
  assumes "fold_pages rt cls cover appliers code st pre = Return st'"
    and "appliers (page_type p) = Some applier"
    and "applier (Some \<lparr>pc_cover = cover, pc_sequence = pg_sequence p, pc_meta = pg_meta p\<rparr>) st'
           (page_any p) \<lparr>pc_cover = cover, pc_sequence = pg_sequence p, pc_meta = pg_meta p\<rparr> = Raise exc"
  shows "fold_pages rt cls cover appliers code st (pre @ p # post) =
    Raise (if is_exception exc then fold_error rt cls code p exc else exc)"
  using assms by (simp add: page_fold.run_append handling_def)

lemma rebuild_Raise:
  assumes "start_state rt (rb_factory (ad_rebuilder d)) events = Return st"
    and "replay rt d (eb_cover events) FOLD_FAILED st (eb_pages events) = Raise e"
  shows "rebuild rt d events n = Raise e"
proof -
  have "bindR (replay rt d (eb_cover events) FOLD_FAILED st (take n (eb_pages events)))
      (\<lambda>before. replay rt d (eb_cover events) FOLD_FAILED before (drop n (eb_pages events))) = Raise e"
    using assms(2) by (simp only: page_fold.run_split)
  with assms(1) show ?thesis
    by (auto simp: rebuild_def bindR_eq_Inl_iff)
qed

text \<open>
  When an applier fails on a delivered page, the command is refused as FOLD_FAILED naming
  that page's sequence and type URL, the state's type and the failure as the cause, wherever
  in the history the page is and however the history is split for a conflict; the handler does
  not run, and no later page folds.
\<close>

theorem fold_failure_names_its_page:
  assumes "route rt d (book_page (cc_command request)) (mode_of request) = Return decide"
    and "start_state rt (rb_factory (ad_rebuilder d)) (cc_events request) = Return st0"
    and "eb_pages (cc_events request) = pre @ p # post"
    and "replay rt d (eb_cover (cc_events request)) FOLD_FAILED st0 pre = Return st"
    and "rb_appliers (ad_rebuilder d) (page_type p) = Some applier"
    and "ctx = \<lparr>pc_cover = eb_cover (cc_events request), pc_sequence = pg_sequence p,
                pc_meta = pg_meta p\<rparr>"
    and "applier (Some ctx) st (page_any p) ctx = Raise exc" and "plain_cause exc"
  shows "\<exists>e. aggregate_handle rt d request = Raise (Coded e)
    \<and> ce_code e = FOLD_FAILED
    \<and> map_of (ce_extras e) ''sequence'' = Some (nat_str (pg_sequence p))
    \<and> map_of (ce_extras e) ''type_url'' = Some (any_type_url (page_any p))
    \<and> map_of (ce_extras e) ''state_type_url'' = Some (state_type_url (rb_factory (ad_rebuilder d)))
    \<and> map_of (ce_extras e) ''cause'' = map_of (as_cause (rt_statuses rt) exc) ''cause''"
proof -
  let ?cls = "rb_factory (ad_rebuilder d)"
  obtain e where e: "fold_error rt ?cls FOLD_FAILED p exc = Coded e"
    by (simp add: fold_error_sel)
  have "replay rt d (eb_cover (cc_events request)) FOLD_FAILED st0 (pre @ p # post) = Raise (Coded e)"
    using fold_pages_fails_at [OF assms(4,5)] assms(6,7,8) e by (auto simp: plain_cause_def)
  then have "rebuild rt d (cc_events request) (seen_pages request) = Raise (Coded e)"
    using assms(2,3) by (intro rebuild_Raise) auto
  with assms(1) have "aggregate_handle rt d request = Raise (Coded e)"
    by (simp add: aggregate_handle_def Let_def)
  with fold_error_lookup [OF assms(8) e] show ?thesis by blast
qed

theorem fold_failure_names_its_page_witness:
  "\<exists>e. aggregate_handle plain_runtime broken_counter (counter_request [0, 1, 2] [1]) = Raise (Coded e)
    \<and> ce_code e = FOLD_FAILED \<and> map_of (ce_extras e) ''sequence'' = Some ''1''
    \<and> map_of (ce_extras e) ''cause'' = Some HANDLER_PANICKED"
proof -
  let ?r = "counter_request [0, 1, 2] [1]"
  obtain decide where route:
    "route plain_runtime broken_counter (book_page (cc_command ?r)) (mode_of ?r) = Return decide"
    using route_taken [of plain_runtime broken_counter "book_page (cc_command ?r)" "mode_of ?r"]
    by (auto simp: broken_counter_sel counter_request_sel command_payload_def)
  have "nat_str 1 = ''1''" by code_simp
  moreover have "as_cause (rt_statuses plain_runtime) (Other_exc ''KeyError'') = [(''cause'', HANDLER_PANICKED)]"
    by (simp add: as_cause_def)
  ultimately show ?thesis
    using fold_failure_names_its_page [of plain_runtime broken_counter ?r decide 0 "[increased_page 0]"
        "increased_page 1" "[increased_page 2]" 1 break_at_1 _ "Other_exc ''KeyError''", OF route]
    by (auto simp: counter_request_sel broken_counter_sel increased_page_def start_state_def
        snapshot_of_def snapshot_default_def handling_def break_at_1_def plain_cause_def
        counter_class_def [THEN arg_cong, of mc_fresh])
qed

subsection \<open>What escapes\<close>

lemma answered_route [simp]: "answered (route rt d page mode)"
  by (auto simp: route_def decide_command_def ingest_def decode_refused_def Let_def
      intro!: answered_bindR split: option.split body.split sum.split)

lemma answered_rebuild [simp]: "answered (rebuild rt d events n)"
  by (auto simp: rebuild_def intro!: answered_bindR)

text \<open>
  A failure is coded, but for a sequence number past what a page's field holds.
\<close>

lemma aggregate_handle_failure:
  assumes "aggregate_handle rt d request = Raise exc" and "is_exception exc"
  shows "is_coded exc
    \<or> exc = Other_exc ''ValueError'' \<and> (\<exists>n \<ge> eb_next_sequence (cc_events request). \<not> rt_seq_fits rt n)"
proof (rule disjCI)
  assume "\<not> (exc = Other_exc ''ValueError''
    \<and> (\<exists>n \<ge> eb_next_sequence (cc_events request). \<not> rt_seq_fits rt n))"
  then have s: "stamp rt (eb_next_sequence (cc_events request)) meta ps \<noteq> Raise exc" for meta ps
    using stamp_Raise by blast
  show "is_coded exc"
  proof (rule ccontr)
    assume "\<not> is_coded exc"
    then have a: "r = Raise exc \<Longrightarrow> answered r \<Longrightarrow> False" for r :: "exn + 'x"
      using assms(2) by (simp add: answered_def)
    show False
      using assms(1) s
      by (auto simp: aggregate_handle_def Let_def changed_units_def bindR_eq_Inl_iff
          split: if_splits dest: a [OF _ answered_route] a [OF _ answered_rebuild]
            a [OF _ answered_call] a [OF _ answered_fold_pages])
  qed
qed

end
