(* ===== verification/Router_Contract.thy ===== *)
theory Router_Contract
  imports Router Refusals
begin

text \<open>
  The contract of \<open>Router.delivery\<close> discharged for the router's four operations, and what
  the router promises whoever delivers to it.
\<close>

subsection \<open>The operations answer\<close>

text \<open>The failures that leave an operation uncoded.\<close>

definition handle_odd :: "runtime \<Rightarrow> contextual_command \<Rightarrow> exn \<Rightarrow> bool" where
  "handle_odd rt request exc \<longleftrightarrow> exc = Other_exc ''ValueError''
     \<and> (\<exists>m \<ge> eb_next_sequence (cc_events request). \<not> rt_seq_fits rt m)"

definition project_odd :: "runtime \<Rightarrow> event_book \<Rightarrow> exn \<Rightarrow> bool" where
  "project_odd rt book exc \<longleftrightarrow>
     exc = Other_exc ''ValueError'' \<and> \<not> rt_seq_fits rt (position_after book)"

definition translates_to_no_message :: "('st, 'pr) component \<Rightarrow> refusal \<Rightarrow> bool" where
  "translates_to_no_message c refusal \<longleftrightarrow>
     (\<exists>d thunk. c = Policy_component d
       \<and> po_refusals d (type_name (any_type_url (command_payload (book_page (rf_command refusal)))))
           = Some thunk
       \<and> thunk (Some (cover_context (cb_cover (rf_command refusal)))) refusal
           (book_context (rf_command refusal) 0) = Return No_msg)"

lemma policy_refused_failure:
  assumes "policy_refused rt d refusal = Raise exc" and "is_exception exc"
  shows "is_coded exc \<or> exc = Other_exc ''AttributeError''
    \<and> translates_to_no_message (Policy_component d) refusal"
  using assms
  by (auto simp: policy_refused_def translates_to_no_message_def Let_def call_def handling_def
      bindR_eq_Inl_iff book_context_def split: option.splits sum.splits if_splits
      elim!: as_any.elims)

lemma policy_handle_failure:
  "policy_handle rt d source = Raise exc \<Longrightarrow> is_exception exc \<Longrightarrow> is_coded exc"
  using answered_react [of rt d source "[]" "eb_pages source"]
  by (simp add: policy_handle_def answered_def)

interpretation command_delivery:
  delivery rt "[AGGREGATE, PROCESS_MANAGER]" "component_handle rt"
    "\<lambda>c request exc. handle_odd rt request exc"
proof
  fix c :: "('st, 'pr) component" and request exc
  assume "component_kind c \<in> set [AGGREGATE, PROCESS_MANAGER]"
    and "component_handle rt request c = Raise exc" and "is_exception exc"
  then show "is_coded exc \<or> handle_odd rt request exc"
    by (cases c) (auto simp: handle_odd_def dest: aggregate_handle_failure)
qed

interpretation source_delivery:
  delivery rt "[POLICY]" "component_handle_source rt" "\<lambda>c source exc. False"
proof
  fix c :: "('st, 'pr) component" and source exc
  assume "component_kind c \<in> set [POLICY]"
    and "component_handle_source rt source c = Raise exc" and "is_exception exc"
  then show "is_coded exc \<or> False"
    by (cases c) (auto dest: policy_handle_failure)
qed

interpretation refusal_delivery:
  delivery rt "[POLICY]" "component_refused rt"
    "\<lambda>c refusal exc. exc = Other_exc ''AttributeError'' \<and> translates_to_no_message c refusal"
proof
  fix c :: "('st, 'pr) component" and refusal exc
  assume "component_kind c \<in> set [POLICY]"
    and "component_refused rt refusal c = Raise exc" and "is_exception exc"
  then show "is_coded exc \<or> exc = Other_exc ''AttributeError'' \<and> translates_to_no_message c refusal"
    by (cases c) (auto dest: policy_refused_failure)
qed

interpretation projector_delivery:
  delivery rt "[PROJECTOR]" "component_project rt" "\<lambda>c book exc. project_odd rt book exc"
proof
  fix c :: "('st, 'pr) component" and book exc
  assume "component_kind c \<in> set [PROJECTOR]"
    and "component_project rt book c = Raise exc" and "is_exception exc"
  then show "is_coded exc \<or> project_odd rt book exc"
    by (cases c) (auto simp: project_odd_def dest: projector_handle_failure)
qed

subsection \<open>Registration\<close>

text \<open>The operations that change a router's state, each an atomic step of some thread's.\<close>

datatype ('st, 'pr) router_step = Register_step "('st, 'pr) component" | Close_step

fun router_after :: "runtime \<Rightarrow> ('st, 'pr) router_step list \<Rightarrow> ('st, 'pr) router \<Rightarrow> ('st, 'pr) router" where
  "router_after rt [] r = r"
| "router_after rt (Register_step c # steps) r =
     router_after rt steps (case router_register rt c r of Inl _ \<Rightarrow> r | Inr r' \<Rightarrow> r')"
| "router_after rt (Close_step # steps) r = router_after rt steps (router_close r)"

lemma router_after_append:
  "router_after rt (xs @ ys) r = router_after rt ys (router_after rt xs r)"
  by (induction rt xs r rule: router_after.induct) auto

lemma router_after_held:
  "Close_step \<notin> set steps \<Longrightarrow> router_after rt steps (Some c) = Some c"
proof (induction steps)
  case (Cons step steps)
  then show ?case by (cases step) (auto simp: router_register_def)
qed simp

subsection \<open>Properties\<close>

text \<open>
  C7: whatever escapes the component's business code, a delivery to the router fails with a
  coded error the transport can carry (a \<open>BaseException\<close> passes through). The exceptions: a
  sequence number past what a message field holds raises \<open>ValueError\<close> from \<open>dispatch\<close> and
  \<open>dispatch_projector\<close>, and a translating callback that answers no message raises
  \<open>AttributeError\<close> from \<open>dispatch_refusal\<close>; a source book's delivery has none.
\<close>

theorem deliveries_fail_coded:
  assumes "is_exception exc"
  shows "(dispatch rt r request = Raise exc \<longrightarrow> is_coded exc \<or> handle_odd rt request exc)
    \<and> (dispatch_policy rt r source = Raise exc \<longrightarrow> is_coded exc)
    \<and> (dispatch_refusal rt r refusal = Raise exc \<longrightarrow> is_coded exc
      \<or> exc = Other_exc ''AttributeError'' \<and> (\<exists>c. r = Some c \<and> translates_to_no_message c refusal))
    \<and> (dispatch_projector rt r source = Raise exc \<longrightarrow> is_coded exc \<or> project_odd rt source exc)"
  unfolding dispatch_def dispatch_policy_def dispatch_refusal_def dispatch_projector_def
  by (intro conjI impI)
    (drule command_delivery.routed_answers [OF _ assms] source_delivery.routed_answers [OF _ assms]
      refusal_delivery.routed_answers [OF _ assms] projector_delivery.routed_answers [OF _ assms],
     blast)+

theorem deliveries_fail_coded_witness:
  "dispatch plain_runtime (Some (Aggregate_component broken_counter) :: (nat, nat) router)
     (counter_request [0, 1] [1]) = Raise (Coded broken_answer)
   \<and> (is_coded (Coded broken_answer) \<or> handle_odd plain_runtime (counter_request [0, 1] [1]) (Coded broken_answer))"
proof -
  have "dispatch plain_runtime (Some (Aggregate_component broken_counter) :: (nat, nat) router)
      (counter_request [0, 1] [1]) = Raise (Coded broken_answer)"
    using broken_counter_answer by (simp add: dispatch_def hosted_def)
  moreover have "is_exception (Coded broken_answer)" by simp
  ultimately show ?thesis using deliveries_fail_coded by blast
qed

text \<open>
  C8: a router hosts the first component registered since it was made or last closed, however
  the registrations of several threads interleave: once one is in, every other is refused as
  DUPLICATE_COMPONENT naming the held component and its kind, and changes nothing, so every
  delivery goes to the first.
\<close>

theorem first_registration_wins:
  assumes "Close_step \<notin> set later"
  shows "router_after rt (earlier @ Close_step # Register_step c # later) r = Some c
    \<and> router_after rt (Register_step c # later) router_new = Some c
    \<and> router_register rt other (router_after rt (Register_step c # later) router_new) =
      Raise (coded rt DUPLICATE_COMPONENT [(''component'', component_name c),
        (''component_kind'', case component_kind c of
           AGGREGATE \<Rightarrow> ''AGGREGATE'' | PROCESS_MANAGER \<Rightarrow> ''PROCESS_MANAGER''
         | POLICY \<Rightarrow> ''POLICY'' | PROJECTOR \<Rightarrow> ''PROJECTOR'')])"
proof -
  have "kind_name (component_kind c) = (case component_kind c of
      AGGREGATE \<Rightarrow> ''AGGREGATE'' | PROCESS_MANAGER \<Rightarrow> ''PROCESS_MANAGER''
    | POLICY \<Rightarrow> ''POLICY'' | PROJECTOR \<Rightarrow> ''PROJECTOR'')"
    by (cases c) (simp_all add: kind_name_def removeprefix_def startswith_def)
  then show ?thesis
    by (simp add: router_after_append router_close_def router_new_def router_register_def
        router_after_held [OF assms])
qed

theorem first_registration_wins_witness:
  "router_after plain_runtime
     ([Register_step (Policy_component (policy_new ''p'' ''a'' ''b''))] @ Close_step #
      Register_step (Aggregate_component counter :: (nat, nat) component) #
      [Register_step (Policy_component (policy_new ''q'' ''a'' ''b''))]) router_new
   = Some (Aggregate_component counter)"
  using first_registration_wins by (metis (no_types, lifting) empty_iff empty_set
      router_step.distinct(1) set_ConsD)

text \<open>
  A delivery reaches the hosted component when it is of a kind the delivery is for (a
  command or a fact: an aggregate or a process manager, dispatched alike), and is refused
  before any of its code runs when the router hosts another kind or nothing.
\<close>

theorem deliveries_reach_their_kind:
  "dispatch rt r request =
     (case r of
        None \<Rightarrow> Raise (coded rt NO_HANDLERS_REGISTERED [])
      | Some (Aggregate_component d) \<Rightarrow> aggregate_handle rt d request
      | Some (Process_manager_component d) \<Rightarrow> aggregate_handle rt d request
      | _ \<Rightarrow> Raise (coded rt NO_COMPONENT_OF_KIND []))
   \<and> dispatch_policy rt r source =
     (case r of
        None \<Rightarrow> Raise (coded rt NO_HANDLERS_REGISTERED [])
      | Some (Policy_component d) \<Rightarrow> policy_handle rt d source
      | _ \<Rightarrow> Raise (coded rt NO_COMPONENT_OF_KIND []))
   \<and> dispatch_refusal rt r refusal =
     (case r of
        None \<Rightarrow> Raise (coded rt NO_HANDLERS_REGISTERED [])
      | Some (Policy_component d) \<Rightarrow> policy_refused rt d refusal
      | _ \<Rightarrow> Raise (coded rt NO_COMPONENT_OF_KIND []))
   \<and> dispatch_projector rt r source =
     (case r of
        None \<Rightarrow> Raise (coded rt NO_HANDLERS_REGISTERED [])
      | Some (Projector_component d) \<Rightarrow> projector_handle rt d source
      | _ \<Rightarrow> Raise (coded rt NO_COMPONENT_OF_KIND []))"
  by (cases r; cases "the r")
    (simp_all add: dispatch_def dispatch_policy_def dispatch_refusal_def dispatch_projector_def
      command_delivery.routed_nothing_hosted command_delivery.routed_hosted
      command_delivery.routed_other_kind source_delivery.routed_nothing_hosted
      source_delivery.routed_hosted source_delivery.routed_other_kind
      refusal_delivery.routed_nothing_hosted refusal_delivery.routed_hosted
      refusal_delivery.routed_other_kind projector_delivery.routed_nothing_hosted
      projector_delivery.routed_hosted projector_delivery.routed_other_kind)

end
