(* ===== verification/Scaffold.thy ===== *)
theory Scaffold
  imports Host_Properties
begin

text \<open>
  \<open>scripts/check_scaffold.py\<close>: the check of a project the CLI scaffolded. The project is not
  under \<open>src/\<close>: what its modules hold and do when they are imported or called is the record
  \<open>scaffolded\<close>. What Python prints of an exception or a descriptor is the parameter \<open>shown\<close>.
\<close>

subsection \<open>The project\<close>

text \<open>
  A variable of the module \<open>logic_impl\<close>: a class, with the module that defines it and what making
  an instance gives, or anything else.
\<close>

datatype 'l module_var = Class_var string "exn + 'l" | Value_var

text \<open>What \<open>main.register\<close> does with the object it is given: calls of its attributes, or a failure.\<close>

datatype ('st, 'pr) register_call =
  Register_call string "('st, 'pr) component" descriptor | Register_fails exn

text \<open>
  The module's \<open>DESCRIPTOR\<close> is \<open>sp_descriptor\<close>. A host that describes it is given that very object or
  one equal to it, \<open>sp_own_object\<close> telling which; the host's own state is its \<open>ho_descriptor\<close>.
\<close>

record ('l, 'st, 'pr) scaffolded =
  sp_wiring :: "string list list"
  sp_import :: "string \<Rightarrow> exn option"
  sp_logic_vars :: "(string \<times> 'l module_var) list"
  sp_host :: "'l list \<Rightarrow> exn + ('st, 'pr) host"
  sp_descriptor :: descriptor
  sp_own_object :: bool
  sp_register :: "'l list \<Rightarrow> ('st, 'pr) register_call list"

record shown =
  sh_exc :: "exn \<Rightarrow> string"
  sh_descriptor :: "descriptor option \<Rightarrow> string"
  sh_src :: string

subsection \<open>The check\<close>

definition package_name :: "string \<Rightarrow> string" where
  "package_name domain = ''angzarr_'' @ map (\<lambda>c. if c = CHR ''-'' then CHR ''_'' else c) domain"

definition import_module :: "('l, 'st, 'pr) scaffolded \<Rightarrow> string \<Rightarrow> exn + unit" where
  "import_module p name = (case sp_import p name of None \<Rightarrow> Return () | Some exc \<Rightarrow> Raise exc)"

text \<open>A wiring module's name: its path's parts under \<open>src\<close>, the last without its suffix.\<close>

fun dotted_name :: "string list \<Rightarrow> string" where
  "dotted_name [] = []"
| "dotted_name [f] = removesuffix ''.py'' f"
| "dotted_name (d # e # parts) = d @ ''.'' @ dotted_name (e # parts)"

fun import_problems ::
  "shown \<Rightarrow> ('l, 'st, 'pr) scaffolded \<Rightarrow> string list list \<Rightarrow> exn + string list" where
  "import_problems sh p [] = Return []"
| "import_problems sh p (path # paths) =
     (case sp_import p (dotted_name path) of
        None \<Rightarrow> import_problems sh p paths
      | Some exc \<Rightarrow>
          if \<not> is_exception exc then Raise exc
          else bindR (import_problems sh p paths) (\<lambda>ps.
            Return ((dotted_name path @ '': import failed: '' @ sh_exc sh exc) # ps)))"

fun logics :: "string \<Rightarrow> (string \<times> 'l module_var) list \<Rightarrow> exn + 'l list" where
  "logics module [] = Return []"
| "logics module ((name, v) # vs) =
     (case v of
        Value_var \<Rightarrow> logics module vs
      | Class_var defined_in made \<Rightarrow>
          if endswith ''LogicImpl'' name \<and> defined_in = module
          then bindR made (\<lambda>l. bindR (logics module vs) (\<lambda>ls. Return (l # ls)))
          else logics module vs)"

text \<open>\<open>_Recorder\<close>: an \<open>add_\<close> method records its arguments; there is no other attribute.\<close>

fun recorded ::
  "('st, 'pr) register_call list \<Rightarrow> exn + (('st, 'pr) component \<times> descriptor) list" where
  "recorded [] = Return []"
| "recorded (Register_call name tbl desc # calls) =
     (if startswith ''add_'' name
      then bindR (recorded calls) (\<lambda>added. Return ((tbl, desc) # added))
      else Raise (Other_exc ''AttributeError''))"
| "recorded (Register_fails exc # calls) = Raise exc"

datatype check_error = Check_raises exn | Check_undescribed describe_error

definition by_hand ::
  "(string \<Rightarrow> conflict_resolution list option) \<Rightarrow> ('st, 'pr) component \<Rightarrow> descriptor \<Rightarrow>
     describe_error + descriptor" where
  "by_hand options tbl generated =
     describe options (Some tbl) (Some (ds_rules_version generated)) None None
       (map Type_text (ds_starting_types generated))"

fun descriptor_problems ::
  "shown \<Rightarrow> (string \<Rightarrow> conflict_resolution list option) \<Rightarrow> string \<Rightarrow>
     (('st, 'pr) component \<times> descriptor) list \<Rightarrow> check_error + string list" where
  "descriptor_problems sh options package [] = Return []"
| "descriptor_problems sh options package ((tbl, generated) # added) =
     (case by_hand options tbl generated of
        Inl e \<Rightarrow> Raise (Check_undescribed e)
      | Inr built \<Rightarrow>
          bindR (descriptor_problems sh options package added) (\<lambda>ps.
            Return (if built \<noteq> generated
              then (package @ '': describe() builds '' @ sh_descriptor sh (Some built) @
                    '', not the generated '' @ sh_descriptor sh (Some generated)) # ps
              else ps)))"

definition raising :: "exn + 'a \<Rightarrow> check_error + 'a" where
  "raising m = (case m of Inl exc \<Rightarrow> Raise (Check_raises exc) | Inr x \<Rightarrow> Return x)"

text \<open>The project's host, from its modules.\<close>

definition load_host ::
  "('l, 'st, 'pr) scaffolded \<Rightarrow> string \<Rightarrow> exn + 'l list \<times> ('st, 'pr) host" where
  "load_host p package =
     bindR (import_module p (package @ ''._gen.main'')) (\<lambda>_.
     bindR (import_module p (package @ ''.logic_impl'')) (\<lambda>_.
     bindR (logics (package @ ''.logic_impl'') (sp_logic_vars p)) (\<lambda>ls.
     bindR (sp_host p ls) (\<lambda>h. Return (ls, h)))))"

text \<open>\<open>host.descriptor is descriptor\<close>: the host holds one, it equals the module's, and is its object.\<close>

definition is_own_descriptor :: "('l, 'st, 'pr) scaffolded \<Rightarrow> ('st, 'pr) host \<Rightarrow> bool" where
  "is_own_descriptor p h \<longleftrightarrow> ho_descriptor h = Some (sp_descriptor p) \<and> sp_own_object p"

text \<open>What is checked of a host built, before it is stopped.\<close>

definition check_host ::
  "shown \<Rightarrow> (string \<Rightarrow> conflict_resolution list option) \<Rightarrow> ('l, 'st, 'pr) scaffolded \<Rightarrow> string \<Rightarrow>
     string list \<Rightarrow> 'l list \<Rightarrow> ('st, 'pr) host \<Rightarrow> check_error + string list" where
  "check_host sh options p package problems ls h =
     bindR (raising (import_module p (package @ ''._gen._descriptor''))) (\<lambda>_.
     let problems = problems @ (if ds_name (sp_descriptor p) = []
           then [package @ ''._descriptor: the descriptor names no component''] else []);
         problems = problems @ (if \<not> is_own_descriptor p h
           then [package @ ''.main: the host describes '' @ sh_descriptor sh (ho_descriptor h)] else []) in
     bindR (raising (recorded (sp_register p ls))) (\<lambda>added.
     bindR (descriptor_problems sh options package added) (\<lambda>ps. Return (problems @ ps))))"

definition check_scaffold ::
  "shown \<Rightarrow> (string \<Rightarrow> conflict_resolution list option) \<Rightarrow> ('l, 'st, 'pr) scaffolded \<Rightarrow> string \<Rightarrow>
     file_system \<Rightarrow> (check_error + string list) \<times> (('st, 'pr) host \<times> file_system) option" where
  "check_scaffold sh options p domain fs =
     (let package = package_name domain in
      if sp_wiring p = []
      then (Return [''no _gen/**/*_angzarr.py under '' @ sh_src sh @ ''/'' @ package], None)
      else
        (case import_problems sh p (sp_wiring p) of
           Inl exc \<Rightarrow> (Raise (Check_raises exc), None)
         | Inr problems \<Rightarrow>
             (case load_host p package of
                Inl exc \<Rightarrow>
                  if is_exception exc
                  then (Return (problems @ [package @ ''._gen.main: host() failed: '' @ sh_exc sh exc]), None)
                  else (Raise (Check_raises exc), None)
              | Inr (ls, h) \<Rightarrow>
                  (check_host sh options p package problems ls h, Some (host_stop (h, fs))))))"

text \<open>\<open>main\<close>: the exit status; each problem is printed.\<close>

definition check_main ::
  "shown \<Rightarrow> (string \<Rightarrow> conflict_resolution list option) \<Rightarrow> (string \<Rightarrow> ('l, 'st, 'pr) scaffolded) \<Rightarrow>
     string list \<Rightarrow> file_system \<Rightarrow> check_error + nat" where
  "check_main sh options project argv fs =
     (if length argv \<noteq> 3 then Return 2
      else bindR (fst (check_scaffold sh options (project (argv ! 1)) (argv ! 2) fs)) (\<lambda>problems.
        Return (if problems \<noteq> [] then 1 else 0)))"

subsection \<open>What a passing check shows\<close>

lemma described_refusal:
  assumes "by_hand options tbl generated = Inr generated"
  shows "accepted generated \<and> ds_name generated = component_name tbl
    \<and> ds_kind generated = component_kind tbl \<and> ds_inputs generated = component_inputs tbl"
proof -
  have "descriptor_refusal d = None \<and> ds_name d = component_name tbl
      \<and> ds_kind d = component_kind tbl \<and> ds_inputs d = component_inputs tbl"
    if "by_hand options tbl generated = Inr d" for d
    using that by (auto simp: by_hand_def describe_def Let_def split: sum.splits option.splits if_splits)
  from this [OF assms] show ?thesis by (simp add: refusal_None)
qed

lemma descriptor_problems_none:
  "descriptor_problems sh options package added = Return [] \<longleftrightarrow>
     (\<forall>(tbl, generated) \<in> set added. by_hand options tbl generated = Inr generated)"
  by (induction sh options package added rule: descriptor_problems.induct)
    (auto simp: bindR_eq_Inr_iff split: sum.splits if_splits)

lemma import_problems_none:
  "import_problems sh p paths = Return [] \<longleftrightarrow> (\<forall>path \<in> set paths. sp_import p (dotted_name path) = None)"
  by (induction paths) (auto simp: bindR_eq_Inr_iff split: option.split if_splits)

lemma raising_Inr [simp]: "raising m = Inr x \<longleftrightarrow> m = Inr x"
  by (simp add: raising_def split: sum.split)

lemma import_module_Inr [simp]: "import_module p name = Inr u \<longleftrightarrow> sp_import p name = None"
  by (simp add: import_module_def split: option.split)

lemma check_host_none:
  "check_host sh options p package problems ls h = Return [] \<longleftrightarrow>
     problems = [] \<and> sp_import p (package @ ''._gen._descriptor'') = None
     \<and> ds_name (sp_descriptor p) \<noteq> [] \<and> is_own_descriptor p h
     \<and> (\<exists>added. recorded (sp_register p ls) = Return added
          \<and> (\<forall>(tbl, generated) \<in> set added. by_hand options tbl generated = Inr generated))"
  by (auto simp: check_host_def bindR_eq_Inr_iff Let_def descriptor_problems_none)

lemma host_stop_stopped: "host_wait (fst (host_stop hf))"
  by (cases hf) (auto simp: host_stop_def stop_server_def host_wait_def)

text \<open>
  C40: a scaffolded project passes exactly when it is sound. Its check reports no problem, and its
  command exits with 0, exactly when it has wiring modules and each imports, its host is built of
  its logic classes, the descriptor it generated names its component and is what the host it built
  describes, the very object and no copy, and every table it registers is described by hand as generated, which the
  coordinator accepts, of the table's name, kind and inputs; and however the check of a host that
  was built ends, the host has been stopped.
\<close>

theorem scaffold_passes_iff_sound:
  assumes "package = package_name domain" and "argv = [command, path, domain]"
  shows "(fst (check_scaffold sh options p domain fs) = Return [] \<longleftrightarrow>
      sp_wiring p \<noteq> [] \<and> (\<forall>m \<in> set (sp_wiring p). sp_import p (dotted_name m) = None)
      \<and> (\<exists>ls h added. load_host p package = Return (ls, h)
          \<and> sp_import p (package @ ''._gen._descriptor'') = None
          \<and> ds_name (sp_descriptor p) \<noteq> []
          \<and> ho_descriptor h = Some (sp_descriptor p) \<and> sp_own_object p
          \<and> recorded (sp_register p ls) = Return added
          \<and> (\<forall>(tbl, generated) \<in> set added. by_hand options tbl generated = Inr generated
               \<and> accepted generated \<and> ds_name generated = component_name tbl
               \<and> ds_kind generated = component_kind tbl \<and> ds_inputs generated = component_inputs tbl)))
    \<and> (check_main sh options (\<lambda>_. p) argv fs = Return 0 \<longleftrightarrow>
        fst (check_scaffold sh options p domain fs) = Return [])
    \<and> (\<forall>ls h problems. sp_wiring p \<noteq> [] \<and> import_problems sh p (sp_wiring p) = Return problems
          \<and> load_host p package = Return (ls, h) \<longrightarrow>
        (\<exists>stopped fs'. snd (check_scaffold sh options p domain fs) = Some (stopped, fs')
           \<and> (stopped, fs') = host_stop (h, fs) \<and> host_wait stopped))"
proof (intro conjI)
  have sound: "(\<forall>(tbl, generated) \<in> set added. by_hand options tbl generated = Inr generated) \<longleftrightarrow>
      (\<forall>(tbl, generated) \<in> set added. by_hand options tbl generated = Inr generated
         \<and> accepted generated \<and> ds_name generated = component_name tbl
         \<and> ds_kind generated = component_kind tbl \<and> ds_inputs generated = component_inputs tbl)"
    for added
    using described_refusal by fast
  show "fst (check_scaffold sh options p domain fs) = Return [] \<longleftrightarrow>
      sp_wiring p \<noteq> [] \<and> (\<forall>m \<in> set (sp_wiring p). sp_import p (dotted_name m) = None)
      \<and> (\<exists>ls h added. load_host p package = Return (ls, h)
          \<and> sp_import p (package @ ''._gen._descriptor'') = None
          \<and> ds_name (sp_descriptor p) \<noteq> []
          \<and> ho_descriptor h = Some (sp_descriptor p) \<and> sp_own_object p
          \<and> recorded (sp_register p ls) = Return added
          \<and> (\<forall>(tbl, generated) \<in> set added. by_hand options tbl generated = Inr generated
               \<and> accepted generated \<and> ds_name generated = component_name tbl
               \<and> ds_kind generated = component_kind tbl \<and> ds_inputs generated = component_inputs tbl))"
    unfolding sound [symmetric]
    by (auto simp: check_scaffold_def assms(1) Let_def check_host_none is_own_descriptor_def import_problems_none [symmetric, where sh = sh]
        split: sum.splits if_splits)
  show "check_main sh options (\<lambda>_. p) argv fs = Return 0 \<longleftrightarrow>
        fst (check_scaffold sh options p domain fs) = Return []"
    by (auto simp: check_main_def assms(2) bindR_eq_Inr_iff)
  show "\<forall>ls h problems. sp_wiring p \<noteq> [] \<and> import_problems sh p (sp_wiring p) = Return problems
          \<and> load_host p package = Return (ls, h) \<longrightarrow>
        (\<exists>stopped fs'. snd (check_scaffold sh options p domain fs) = Some (stopped, fs')
           \<and> (stopped, fs') = host_stop (h, fs) \<and> host_wait stopped)"
  proof (intro allI impI, elim conjE)
    fix ls h problems
    assume "sp_wiring p \<noteq> []" "import_problems sh p (sp_wiring p) = Return problems"
      "load_host p package = Return (ls, h)"
    then have "snd (check_scaffold sh options p domain fs) = Some (host_stop (h, fs))"
      by (simp add: check_scaffold_def assms(1) Let_def)
    then show "\<exists>stopped fs'. snd (check_scaffold sh options p domain fs) = Some (stopped, fs')
        \<and> (stopped, fs') = host_stop (h, fs) \<and> host_wait stopped"
      using host_stop_stopped [of "(h, fs)"] by (metis prod.collapse)
  qed
qed

text \<open>A project of one aggregate, whose host hosts it.\<close>

definition plain_descriptor :: descriptor where
  "plain_descriptor = \<lparr>ds_name = ''A'', ds_kind = AGGREGATE, ds_rules_version = ''1.0'', ds_inputs = [],
     ds_state = Some \<lparr>sd_type_url = ''/t.S'',
       sd_resolutions = [RES_COMMUTATIVE, RES_STRICT, RES_AGGREGATE_HANDLES]\<rparr>,
     ds_starting_types = [], ds_output_domain = []\<rparr>"

definition plain_options :: "string \<Rightarrow> conflict_resolution list option" where
  "plain_options n = Some [RES_COMMUTATIVE, RES_STRICT]"

definition plain_host :: "(nat, nat) host" where
  "plain_host = snd (add_aggregate plain_runtime plain_aggregate plain_descriptor (host_new None ''1.0''))"

lemma plain_host_describes: "ho_descriptor plain_host = Some plain_descriptor"
  by (simp add: plain_host_def add_aggregate_def host_add_def host_new_def reported_version_def claim_def
      plain_descriptor_def plain_aggregate_def aggregate_new_def router_new_def router_register_def Let_def)

definition plain_project :: "(unit, nat, nat) scaffolded" where
  "plain_project =
     \<lparr>sp_wiring = [[''angzarr_orders'', ''_gen'', ''a_angzarr.py'']], sp_import = (\<lambda>_. None),
      sp_logic_vars = [(''OrdersLogicImpl'', Class_var ''angzarr_orders.logic_impl'' (Return ())),
                       (''Base'', Class_var ''angzarr_orders._gen'' (Return ()))],
      sp_host = (\<lambda>ls. if length ls = 1 then Return plain_host else Raise (Other_exc ''TypeError'')),
      sp_descriptor = plain_descriptor, sp_own_object = True,
      sp_register = (\<lambda>_. [Register_call ''add_aggregate'' (Aggregate_component plain_aggregate) plain_descriptor])\<rparr>"

definition plain_shown :: shown where
  "plain_shown = \<lparr>sh_exc = (\<lambda>_. ''error''), sh_descriptor = (\<lambda>_. ''descriptor''), sh_src = ''src''\<rparr>"

theorem scaffold_passes_iff_sound_witness:
  "check_main plain_shown plain_options (\<lambda>_. plain_project) [''check'', ''.'', ''orders''] no_files = Return 0"
proof -
  have package: "''angzarr_orders'' = package_name ''orders''" by (simp add: package_name_def)
  have "by_hand plain_options (Aggregate_component plain_aggregate :: (nat, nat) component) plain_descriptor
      = Inr plain_descriptor"
    by (simp add: by_hand_def plain_descriptor_def plain_options_def describe_def describe_state_def
        plain_aggregate_def aggregate_new_def rebuilder_new_def stateful_def declared_resolutions_def
        base_resolutions_def descriptor_refusal_def less_eq_conflict_resolution_def)
  moreover have "load_host plain_project ''angzarr_orders'' = Return ([()], plain_host)"
    by (simp add: load_host_def plain_project_def import_module_def endswith_def startswith_def)
  moreover note described_refusal plain_host_describes
  ultimately show ?thesis
    using scaffold_passes_iff_sound [OF package refl, where sh = plain_shown and options = plain_options
        and p = plain_project and command = "''check''" and path = "''.''" and fs = no_files]
    by (auto simp: plain_project_def plain_descriptor_def startswith_def plain_aggregate_def aggregate_new_def)
qed

end
