(* ===== verification/Surface.thy ===== *)
theory Surface
  imports Packaging
begin

text \<open>
  What the packages export: the imports of \<open>angzarr_client/__init__.py\<close>, of
  \<open>router/__init__.py\<close>, of \<open>testing/__init__.py\<close>, of \<open>error_codes/__init__.py\<close> and of \<open>_pb.py\<close>,
  and the names each lists in its \<open>__all__\<close>. A module's namespace maps a name to the module it is
  imported from and its name there; the submodules an import also binds, none of them a public name,
  are left out.
\<close>

type_synonym namespace = "(string, string \<times> string) dict"

text \<open>The statements \<open>from module import names\<close>, one after another; and a star import of the result.\<close>

definition import_from :: "string \<times> string list \<Rightarrow> namespace \<Rightarrow> namespace" where
  "import_from s ns = fold (\<lambda>name. dict_set name (fst s, name)) (snd s) ns"

fun star_import :: "namespace \<Rightarrow> string list \<Rightarrow> exn + namespace" where
  "star_import ns [] = Return []"
| "star_import ns (name # names) =
     (case map_of ns name of
        None \<Rightarrow> Raise (Other_exc ''AttributeError'')
      | Some v \<Rightarrow> bindR (star_import ns names) (\<lambda>rest. Return ((name, v) # rest)))"

lemma star_import_Return:
  "star_import ns names = Return bound \<longleftrightarrow>
     list_all (\<lambda>name. map_of ns name \<noteq> None) names \<and> bound = map (\<lambda>name. (name, the (map_of ns name))) names"
  by (induction names arbitrary: bound) (auto simp: bindR_eq_Inr_iff split: option.split)

text \<open>The version is found when the package is imported, before anything else is.\<close>

definition import_package ::
  "(string, string list) dict \<Rightarrow> (string \<Rightarrow> exn + string) \<Rightarrow> (string \<times> string list) list \<Rightarrow>
     string \<Rightarrow> exn + string \<times> namespace" where
  "import_package dists version imports package =
     bindR (installed_version dists version package) (\<lambda>v. Return (v, fold import_from imports []))"

definition package_imports :: "(string \<times> string list) list" where
  "package_imports = [
     (''._pb'', [
        ''ConflictResolution'']),
     (''.builder'', [
        ''CommandBuilder'', ''QueryBuilder'']),
     (''.client'', [
        ''CommandHandlerClient'', ''DomainClient'', ''QueryClient'', ''TransportMode'',
        ''resolve_ch_endpoint'']),
     (''.compensation'', [
        ''Compensation'', ''UndoTargetsCommand'']),
     (''.descriptor'', [
        ''describe'']),
     (''.errors'', [
        ''ClientError'', ''CommandRejectedError'', ''ConnectionError'', ''GRPCError'',
        ''InvalidArgumentError'', ''InvalidTimestampError'', ''TransportError'']),
     (''.helpers'', [
        ''CORRELATION_ID_HEADER'', ''DEFAULT_EDITION'', ''META_ANGZARR_DOMAIN'',
        ''PROJECTION_DOMAIN_PREFIX'', ''PROJECTION_TYPE_URL'', ''TYPE_URL_PREFIX'',
        ''UNKNOWN_DOMAIN'', ''correlated_metadata'', ''full_type_url'', ''full_type_url_for'',
        ''now'', ''parse_timestamp'', ''proto_to_uuid'', ''proto_uuid_to_hex'',
        ''type_name_from_url'', ''type_url'', ''type_url_matches'', ''type_url_matches_exact'',
        ''uuid_to_proto'']),
     (''.host'', [
        ''ComponentHost'', ''ConfigurationError'']),
     (''.identity'', [
        ''compute_root'', ''to_proto_bytes'']),
     (''.retry'', [
        ''ExponentialBackoffRetry'', ''RetryPolicy'', ''default_retry_policy'']),
     (''.router.errors'', [
        ''UnclassifiedError'']),
     (''.server'', [
        ''DEFAULT_BIND_HOST'', ''ENV_BIND_ADDRESS'', ''configure_logging'',
        ''get_transport_config'', ''resolve_bind_address'']),
     (''.validation'', [
        ''require_exists'', ''require_non_negative'', ''require_not_empty'',
        ''require_not_empty_str'', ''require_not_exists'', ''require_positive'',
        ''require_status'', ''require_status_not'']),
     (''.wrappers'', [
        ''CommandBook'', ''CommandPage'', ''CommandResponse'', ''Cover'', ''CoverBearer'',
        ''EventBook'', ''EventPage'', ''Query'', ''Wrapped''])]"

definition package_all :: "string list" where
  "package_all = [
     ''CORRELATION_ID_HEADER'', ''DEFAULT_BIND_HOST'', ''DEFAULT_EDITION'', ''ENV_BIND_ADDRESS'',
     ''META_ANGZARR_DOMAIN'', ''PROJECTION_DOMAIN_PREFIX'', ''PROJECTION_TYPE_URL'',
     ''TYPE_URL_PREFIX'', ''UNKNOWN_DOMAIN'', ''ClientError'', ''CommandBook'',
     ''CommandBuilder'', ''CommandHandlerClient'', ''CommandPage'', ''CommandRejectedError'',
     ''CommandResponse'', ''Compensation'', ''ComponentHost'', ''ConfigurationError'',
     ''ConflictResolution'', ''ConnectionError'', ''Cover'', ''CoverBearer'', ''DomainClient'',
     ''EventBook'', ''EventPage'', ''ExponentialBackoffRetry'', ''GRPCError'',
     ''InvalidArgumentError'', ''InvalidTimestampError'', ''Query'', ''QueryBuilder'',
     ''QueryClient'', ''RetryPolicy'', ''TransportError'', ''TransportMode'',
     ''UnclassifiedError'', ''UndoTargetsCommand'', ''Wrapped'', ''compute_root'',
     ''configure_logging'', ''correlated_metadata'', ''default_retry_policy'', ''describe'',
     ''full_type_url'', ''full_type_url_for'', ''get_transport_config'', ''now'',
     ''parse_timestamp'', ''proto_to_uuid'', ''proto_uuid_to_hex'', ''require_exists'',
     ''require_non_negative'', ''require_not_empty'', ''require_not_empty_str'',
     ''require_not_exists'', ''require_positive'', ''require_status'', ''require_status_not'',
     ''resolve_bind_address'', ''resolve_ch_endpoint'', ''to_proto_bytes'',
     ''type_name_from_url'', ''type_url'', ''type_url_matches'', ''type_url_matches_exact'',
     ''uuid_to_proto'']"

definition router_imports :: "(string \<times> string list) list" where
  "router_imports = [
     (''.aggregate'', [
        ''AggregateDispatch'', ''ProcessManagerDispatch'', ''Rebuilder'']),
     (''.context'', [
        ''CommandContext'', ''Conflict'', ''FactRecord'', ''PageContext'', ''current_cover'',
        ''current_page'']),
     (''.errors'', [
        ''Bug'', ''CodedError'', ''GrpcCode'', ''Immediate'', ''Refused'', ''Rejection'',
        ''RetryableBug'', ''UnclassifiedError'', ''any_decode_error'', ''pack'']),
     (''.policy'', [
        ''PolicyDispatch'']),
     (''.projector'', [
        ''ProjectorDispatch'']),
     (''.router'', [
        ''Router''])]"

definition router_all :: "string list" where
  "router_all = [
     ''AggregateDispatch'', ''Bug'', ''CodedError'', ''CommandContext'', ''Conflict'',
     ''FactRecord'', ''GrpcCode'', ''Immediate'', ''PageContext'', ''PolicyDispatch'',
     ''ProcessManagerDispatch'', ''ProjectorDispatch'', ''Rebuilder'', ''Refused'',
     ''Rejection'', ''RetryableBug'', ''Router'', ''UnclassifiedError'', ''any_decode_error'',
     ''current_cover'', ''current_page'', ''pack'']"

definition testing_imports :: "(string \<times> string list) list" where
  "testing_imports = [
     (''.builders'', [
        ''make_command_book'', ''make_command_page'', ''make_cover'', ''make_event_book'',
        ''make_event_page'', ''make_timestamp'', ''pack_event'']),
     (''.context'', [
        ''ScenarioContext'']),
     (''.uuid'', [
        ''DEFAULT_TEST_NAMESPACE'', ''uuid_for'', ''uuid_obj_for'', ''uuid_str_for''])]"

definition testing_all :: "string list" where
  "testing_all = [
     ''DEFAULT_TEST_NAMESPACE'', ''ScenarioContext'', ''make_command_book'',
     ''make_command_page'', ''make_cover'', ''make_event_book'', ''make_event_page'',
     ''make_timestamp'', ''pack_event'', ''uuid_for'', ''uuid_obj_for'', ''uuid_str_for'']"

definition pb_imports :: "(string \<times> string list) list" where
  "pb_imports = [
     (''.proto.io.angzarr.transport.distributed.v1.command_handler_pb2'', [
        ''CommandResponse'']),
     (''.proto.io.angzarr.transport.distributed.v1.command_handler_pb2_grpc'', [
        ''CommandHandlerCoordinatorServiceStub'']),
     (''.proto.io.angzarr.transport.distributed.v1.query_pb2'', [
        ''CorrelationQuery'', ''Query'', ''SequenceRange'', ''TemporalQuery'']),
     (''.proto.io.angzarr.transport.distributed.v1.query_pb2_grpc'', [
        ''EventQueryServiceStub'']),
     (''.proto.io.angzarr.v1.types_pb2'', [
        ''UUID'', ''Command'', ''CommandBook'', ''CommandPage'', ''ConflictResolution'',
        ''Cover'', ''EventBook'', ''EventMeta'', ''EventPage'', ''Projection'', ''Snapshot''])]"

definition pb_all :: "string list" where
  "pb_all = [
     ''UUID'', ''Command'', ''CommandBook'', ''CommandHandlerCoordinatorServiceStub'',
     ''CommandPage'', ''CommandResponse'', ''ConflictResolution'', ''CorrelationQuery'',
     ''Cover'', ''EventBook'', ''EventMeta'', ''EventPage'', ''EventQueryServiceStub'',
     ''Projection'', ''Query'', ''SequenceRange'', ''Snapshot'', ''TemporalQuery'']"

definition codes_imports :: "(string \<times> string list) list" where
  "codes_imports = [(''.'', [''codes'', ''keys''])]"

definition codes_all :: "string list" where
  "codes_all = [''codes'', ''keys'']"

text \<open>
  Every package's public names are exactly the names it imports, each imported once and listed
  once: a star import binds each, to the module that defines it.
\<close>

definition exports_all :: "(string \<times> string list) list \<Rightarrow> string list \<Rightarrow> bool" where
  "exports_all stmts names \<longleftrightarrow> distinct names \<and> distinct (concat (map snd stmts))
     \<and> set names = set (concat (map snd stmts))"

text \<open>Which is to count them: as many distinct names as are imported, each of them imported.\<close>

lemma exports_all_count:
  assumes "list_all (\<lambda>n. n \<in> set (concat (map snd stmts))) names" "distinct names"
    and "length names = length (concat (map snd stmts))"
  shows "exports_all stmts names"
proof -
  let ?imported = "concat (map snd stmts)"
  have sub: "set names \<subseteq> set ?imported" using assms(1) by (auto simp: list_all_iff)
  have "card (set names) = length ?imported" using assms(2,3) by (simp only: distinct_card)
  with card_length [of ?imported] card_mono [OF finite_set sub]
  have "card (set ?imported) = length ?imported" "card (set ?imported) = card (set names)" by linarith+
  with sub assms(2) show ?thesis
    unfolding exports_all_def by (metis card_distinct card_subset_eq finite_set)
qed

lemma surfaces: "exports_all package_imports package_all" "exports_all router_imports router_all"
  "exports_all testing_imports testing_all" "exports_all pb_imports pb_all"
  "exports_all codes_imports codes_all"
  by (rule exports_all_count; code_simp)+

lemma import_from_bound:
  "map_of (fold import_from stmts ns) name =
     (if name \<in> set (concat (map snd stmts))
      then Some (fst (last (filter (\<lambda>s. name \<in> set (snd s)) stmts)), name) else map_of ns name)"
proof -
  have one: "map_of (import_from s ns) name = (if name \<in> set (snd s) then Some (fst s, name) else map_of ns name)"
    for s ns
  proof -
    have "map_of (fold (\<lambda>name. dict_set name (m, name)) names ns) name =
        (if name \<in> set names then Some (m, name) else map_of ns name)" for names m
      by (induction names arbitrary: ns) auto
    then show ?thesis by (simp add: import_from_def)
  qed
  have "filter (\<lambda>s. name \<in> set (snd s)) stmts = [] \<longleftrightarrow> name \<notin> set (concat (map snd stmts))" for stmts
    by (auto simp: filter_empty_conv)
  then show ?thesis
    by (induction stmts arbitrary: ns) (auto simp: one)
qed

lemma surface_binds:
  assumes "exports_all stmts names"
  shows "\<exists>bound. star_import (fold import_from stmts []) names = Return bound \<and> keys bound = names
    \<and> (\<forall>(name, module, attr) \<in> set bound. attr = name
         \<and> (\<exists>exported. (module, exported) \<in> set stmts \<and> name \<in> set exported))"
proof -
  let ?ns = "fold import_from stmts []"
  let ?bound = "map (\<lambda>name. (name, the (map_of ?ns name))) names"
  have there: "\<exists>module exported. map_of ?ns name = Some (module, name)
      \<and> (module, exported) \<in> set stmts \<and> name \<in> set exported" if "name \<in> set names" for name
  proof -
    from that assms have "name \<in> set (concat (map snd stmts))" by (simp add: exports_all_def)
    moreover from this have "filter (\<lambda>s. name \<in> set (snd s)) stmts \<noteq> []" by (auto simp: filter_empty_conv)
    then have "last (filter (\<lambda>s. name \<in> set (snd s)) stmts) \<in> set (filter (\<lambda>s. name \<in> set (snd s)) stmts)"
      by (rule last_in_set)
    ultimately show ?thesis by (auto simp: import_from_bound intro!: exI [of _ "snd (last (filter (\<lambda>s. name \<in> set (snd s)) stmts))"])
  qed
  then have "star_import ?ns names = Return ?bound"
    by (fastforce simp: star_import_Return list_all_iff)
  moreover have "keys ?bound = names" by (simp add: o_def)
  moreover have "\<forall>(name, module, attr) \<in> set ?bound. attr = name
      \<and> (\<exists>exported. (module, exported) \<in> set stmts \<and> name \<in> set exported)"
    using there by fastforce
  ultimately show ?thesis by blast
qed

lemmas package_surface = surfaces [THEN surface_binds]

end
