(* ===== verification/Testing.thy ===== *)
theory Testing
  imports Wrappers
begin

text \<open>
  \<open>angzarr_client/testing\<close>: deterministic UUIDs, message builders and the scenario context of
  tests. The clock is the parameter \<open>now\<close>.
\<close>

subsection \<open>UUIDs\<close>

definition DEFAULT_TEST_NAMESPACE :: uuid where
  "DEFAULT_TEST_NAMESPACE =
     [0xa1, 0xb2, 0xc3, 0xd4, 0xe5, 0xf6, 0x78, 0x90, 0xab, 0xcd, 0xef, 0x12, 0x34, 0x56, 0x78, 0x90]"

definition uuid_for :: "(bytes \<Rightarrow> bytes) \<Rightarrow> string \<Rightarrow> uuid \<Rightarrow> bytes" where
  "uuid_for sha1 name namespace = uuid5 sha1 namespace name"

definition uuid_str_for :: "(bytes \<Rightarrow> bytes) \<Rightarrow> string \<Rightarrow> uuid \<Rightarrow> string" where
  "uuid_str_for sha1 name namespace = uuid_text (uuid5 sha1 namespace name)"

definition uuid_obj_for :: "(bytes \<Rightarrow> bytes) \<Rightarrow> string \<Rightarrow> uuid \<Rightarrow> uuid" where
  "uuid_obj_for sha1 name namespace = uuid5 sha1 namespace name"

subsection \<open>Messages\<close>

definition pack_event :: "proto_msg \<Rightarrow> any_msg" where
  "pack_event msg = \<lparr>any_type_url = TYPE_URL_PREFIX @ pm_full_name msg, any_value = pm_serialized msg\<rparr>"

definition make_cover :: "string \<Rightarrow> bytes \<Rightarrow> cover" where
  "make_cover domain root = \<lparr>cv_domain = domain, cv_root = Some root, cv_edition = None\<rparr>"

definition make_event_page :: "timestamp \<Rightarrow> nat \<Rightarrow> any_msg \<Rightarrow> event_page" where
  "make_event_page now sequence event =
     \<lparr>pg_payload = Some event, pg_sequence = sequence,
      pg_meta = Some \<lparr>em_rules_version = [], em_command_id = None, em_fact = None,
                      em_correlation_id = None, em_recorded_at = Some now\<rparr>\<rparr>"

definition make_event_book :: "cover \<Rightarrow> event_page list option \<Rightarrow> nat option \<Rightarrow> event_book" where
  "make_event_book c pages next =
     (let pages = (case pages of None \<Rightarrow> [] | Some ps \<Rightarrow> ps) in
      event_book_default\<lparr>eb_cover := Some c, eb_pages := pages,
        eb_next_sequence := (case next of Some n \<Rightarrow> n | None \<Rightarrow> length pages)\<rparr>)"

definition make_command_page :: "any_msg \<Rightarrow> command_page" where
  "make_command_page command = command_page_default\<lparr>cp_body := Some (Command_arm (Some command))\<rparr>"

definition make_command_book :: "cover \<Rightarrow> any_msg \<Rightarrow> command_book" where
  "make_command_book c command =
     command_book_default\<lparr>cb_cover := Some c, cb_page := Some (make_command_page command)\<rparr>"

subsection \<open>The scenario context\<close>

record ('r, 'st) scenario =
  sc_domain :: string
  sc_root :: bytes
  sc_events :: "any_msg list"
  sc_result :: "'r option"
  sc_error :: "coded_error option"
  sc_state :: "'st option"

definition scenario_new :: "('r, 'st) scenario" where
  "scenario_new =
     \<lparr>sc_domain = [], sc_root = [], sc_events = [], sc_result = None, sc_error = None, sc_state = None\<rparr>"

text \<open>Each page is recorded at the time its call reads: \<open>now i\<close>, of the page made \<open>i\<close>-th.\<close>

definition scenario_book :: "(nat \<Rightarrow> timestamp) \<Rightarrow> ('r, 'st) scenario \<Rightarrow> event_book" where
  "scenario_book now s =
     (let pages = map (\<lambda>(i, event). make_event_page (now i) i event)
                    (zip [0 ..< length (sc_events s)] (sc_events s)) in
      event_book_default\<lparr>eb_cover := Some \<lparr>cv_domain = sc_domain s, cv_root = Some (sc_root s),
          cv_edition = None\<rparr>,
        eb_pages := pages, eb_next_sequence := length pages\<rparr>)"

definition add_event :: "proto_msg \<Rightarrow> ('r, 'st) scenario \<Rightarrow> ('r, 'st) scenario" where
  "add_event msg s = s\<lparr>sc_events := sc_events s @ [pack_event msg]\<rparr>"

definition clear_events :: "('r, 'st) scenario \<Rightarrow> ('r, 'st) scenario" where
  "clear_events s = s\<lparr>sc_events := []\<rparr>"

definition clear_result :: "('r, 'st) scenario \<Rightarrow> ('r, 'st) scenario" where
  "clear_result s = s\<lparr>sc_result := None, sc_error := None\<rparr>"

definition reset :: "('r, 'st) scenario \<Rightarrow> ('r, 'st) scenario" where
  "reset s = s\<lparr>sc_domain := [], sc_root := [], sc_events := [], sc_result := None, sc_error := None,
               sc_state := None\<rparr>"

subsection \<open>What a scenario's history is\<close>

lemma pack_event_pack: "pack_event msg = pack msg"
  by (simp add: pack_event_def pack_def TYPE_URL_PREFIX_def)

lemma reset_new: "reset s = scenario_new"
  by (simp add: reset_def scenario_new_def)

lemma scenario_pages:
  "map pg_sequence (eb_pages (scenario_book now s)) = [0 ..< length (sc_events s)]"
  "map page_any (eb_pages (scenario_book now s)) = sc_events s"
  "eb_next_sequence (scenario_book now s) = length (sc_events s)"
  by (auto simp: scenario_book_def Let_def make_event_page_def event_book_default_def
      intro!: nth_equalityI)

text \<open>
  The history a scenario is given is the history a handler reads: its events in the order they
  were added, numbered from 0 without a gap, and the next sequence after them.
\<close>

lemma scenario_history:
  fixes start :: "('r, 'st) scenario"
  assumes "start = scenario_new\<lparr>sc_domain := d, sc_root := r\<rparr>"
    and "book = scenario_book now (fold add_event msgs start)"
  shows "map page_any (eb_pages book) = map pack msgs
    \<and> map pg_sequence (eb_pages book) = [0 ..< length msgs]
    \<and> next_sequence book = length msgs \<and> (is_empty book \<longleftrightarrow> msgs = [])
    \<and> cover_root_id_hex (event_book_bearer book) = hex_text r"
proof -
  have "sc_events (fold add_event msgs s) = sc_events s @ map pack msgs
      \<and> sc_root (fold add_event msgs s) = sc_root s" for s :: "('r, 'st) scenario"
    by (induction msgs arbitrary: s) (simp_all add: add_event_def pack_event_pack)
  then have ev: "sc_events (fold add_event msgs start) = map pack msgs"
    "sc_root (fold add_event msgs start) = r"
    by (simp_all add: assms(1) scenario_new_def)
  have pages: "map pg_sequence (eb_pages book) = [0 ..< length msgs]"
    "map page_any (eb_pages book) = map pack msgs" "eb_next_sequence book = length msgs"
    unfolding assms(2) scenario_pages ev by simp_all
  then have "length (eb_pages book) = length msgs" by (metis length_map)
  moreover have "cover_root_id_hex (event_book_bearer book) = hex_text r"
    by (simp add: assms(2) event_book_bearer_def scenario_book_def cover_root_id_hex_def Let_def ev
        event_book_default_def)
  ultimately show ?thesis
    using pages by (auto simp: next_sequence_def is_empty_def)
qed

end
