(* ===== verification/Translation.thy ===== *)
theory Translation
  imports Policy Refusals
begin

text \<open>
  A refusal's way back: the policy that sent the refused command translates the refusal
  (\<open>policy.py\<close>, \<open>PolicyDispatch.refused\<close>), the coordinator addresses the bare fact it answers, and
  the aggregate the fact is delivered to records it (\<open>aggregate.py\<close>, \<open>AggregateDispatch.handle\<close>).
\<close>

text \<open>
  What the coordinator keeps of a translated fact: the body of its page. The cover, the identity
  and the handling of the command book it delivers are its own.
\<close>

definition delivers_fact :: "command_book \<Rightarrow> contextual_command \<Rightarrow> bool" where
  "delivers_fact sent request \<longleftrightarrow> cp_body (book_page (cc_command request)) = cp_body (book_page sent)"

text \<open>A fact that carries its payload and nothing else.\<close>

definition bare_fact :: "any_msg \<Rightarrow> command_book \<Rightarrow> bool" where
  "bare_fact payload sent \<longleftrightarrow>
     sent = command_book_default\<lparr>cb_page :=
       Some (command_page_default\<lparr>cp_body := Some (Fact_arm (Some payload))\<rparr>)\<rparr>"

text \<open>
  The handler registered for the payload's type runs on it, in the state after the delivered
  history, and the events answered are the fact and the flags of the record it returns; with no
  handler for the type the delivery is refused.
\<close>

definition recorded_by_its_handler ::
  "runtime \<Rightarrow> 'st aggregate_dispatch \<Rightarrow> contextual_command \<Rightarrow> any_msg \<Rightarrow> bool" where
  "recorded_by_its_handler rt a request payload \<longleftrightarrow>
     (case ad_facts a (type_name (any_type_url payload)) of
        None \<Rightarrow> aggregate_handle rt a request =
          Raise (Coded (unknown_type (rt_statuses rt) NO_FACT_HANDLER (any_type_url payload)))
      | Some t \<Rightarrow>
          (\<forall>resp. aggregate_handle rt a request = Return resp \<longrightarrow>
             (\<exists>st0 state ctx1 rec head ctx pages.
                start_state rt (rb_factory (ad_rebuilder a)) (cc_events request) = Return st0
              \<and> replay rt a (eb_cover (cc_events request)) FOLD_FAILED st0
                  (eb_pages (cc_events request)) = Return state
              \<and> ctx1\<lparr>cx_conflict := None\<rparr> = command_ctx request
              \<and> t (Some (cover_context (cb_cover (cc_command request)))) payload state ctx1 =
                  Return (rec, head, ctx)
              \<and> payload_pages (fr_fact rec # fr_flags rec) = Return pages
              \<and> eb_pages (hr_events resp) = pages)))"

lemma fact_route:
  assumes "cp_body (book_page (cc_command request)) = Some (Fact_arm (Some payload))"
    and "ad_facts a (type_name (any_type_url payload)) = Some t"
  shows "route rt a (book_page (cc_command request)) mode =
    Return (\<lambda>cur st ctx. record_fact (t cur payload st ctx))"
  using assms by (simp add: route_def ingest_def Let_def)

lemma delivered_fact_recorded:
  assumes body: "cp_body (book_page (cc_command request)) = Some (Fact_arm (Some payload))"
    and "type_name (any_type_url payload) \<noteq> REFUSED_TYPE"
  shows "recorded_by_its_handler rt a request payload"
proof (cases "ad_facts a (type_name (any_type_url payload))")
  case None
  with assms have "route rt a (book_page (cc_command request)) (mode_of request) =
      Raise (Coded (unknown_type (rt_statuses rt) NO_FACT_HANDLER (any_type_url payload)))"
    by (simp add: route_def ingest_def Let_def)
  from aggregate_handle_unrouted [OF this] None show ?thesis by (simp add: recorded_by_its_handler_def)
next
  case (Some t)
  show ?thesis
    unfolding recorded_by_its_handler_def Some option.case
  proof (intro allI impI)
    fix resp assume "aggregate_handle rt a request = Return resp"
    then show "\<exists>st0 state ctx1 rec head ctx pages.
        start_state rt (rb_factory (ad_rebuilder a)) (cc_events request) = Return st0
      \<and> replay rt a (eb_cover (cc_events request)) FOLD_FAILED st0 (eb_pages (cc_events request)) =
          Return state
      \<and> ctx1\<lparr>cx_conflict := None\<rparr> = command_ctx request
      \<and> t (Some (cover_context (cb_cover (cc_command request)))) payload state ctx1 =
          Return (rec, head, ctx)
      \<and> payload_pages (fr_fact rec # fr_flags rec) = Return pages
      \<and> eb_pages (hr_events resp) = pages"
    proof (rule aggregate_handleE)
      fix decide before state ctx1 out head ctx emitted after window mine
      assume r: "route rt a (book_page (cc_command request)) (mode_of request) = Return decide"
        and b: "rebuild rt a (cc_events request) (seen_pages request) = Return (before, state)"
        and c: "ctx1 = (if mode_of request = RES_AGGREGATE_HANDLES
           then (command_ctx request)\<lparr>cx_conflict := Some (new_conflict
             (drop (seen_pages request) (eb_pages (cc_events request))) (cc_conflict_nonce request))\<rparr>
           else command_ctx request)"
        and h: "decide (Some (cover_context (cx_cover ctx1))) state ctx1 = Return (out, head, ctx)"
        and resp: "resp = \<lparr>hr_events = with_state (any_pack (rb_factory (ad_rebuilder a)) after) out,
           hr_rules_version = ad_rules_version a,
           hr_conflict = conflict_answer (mode_of request) ctx window mine\<rparr>"
      from r fact_route [OF body Some] have "decide = (\<lambda>cur st ctx. record_fact (t cur payload st ctx))"
        by simp
      with h obtain rec pages where
        t: "t (Some (cover_context (cx_cover ctx1))) payload state ctx1 = Return (rec, head, ctx)"
        and p: "payload_pages (fr_fact rec # fr_flags rec) = Return pages" and "eb_pages out = pages"
        by (auto simp: record_fact_def fact_book_def bindR_eq_Inr_iff)
      then have pages: "eb_pages (hr_events resp) = pages" by (simp add: resp with_state_def)
      have "ctx1\<lparr>cx_conflict := None\<rparr> = command_ctx request"
        and "cx_cover ctx1 = cb_cover (cc_command request)"
        by (simp_all add: c command_ctx_def book_context_def Let_def)
      moreover from b obtain st0 where
        "start_state rt (rb_factory (ad_rebuilder a)) (cc_events request) = Return st0"
        "replay rt a (eb_cover (cc_events request)) FOLD_FAILED st0 (eb_pages (cc_events request))
           = Return state" by (rule rebuild_replay)
      ultimately show ?thesis
        using t p pages by (intro exI [of _ st0] exI [of _ state] exI [of _ ctx1] exI [of _ rec]
            exI [of _ head] exI [of _ ctx] exI [of _ pages]) simp
    qed
  qed
qed

definition translating_policy ::
  "string \<Rightarrow> string \<Rightarrow> string \<Rightarrow> (string \<times> refusal_thunk) list \<Rightarrow> policy_dispatch" where
  "translating_policy name input_domain output_domain regs =
     fold (\<lambda>(command, t). policy_on_refused command t) regs (policy_new name input_domain output_domain)"

lemma translating_policy_refusals:
  "po_refusals (translating_policy name input_domain output_domain regs) command = map_of (rev regs) command"
  unfolding translating_policy_def policy_refusals.register_all
  by (simp add: policy_new_def split: option.split)

text \<open>
  C9: a refusal comes back to the domain its command came from. The callback registered last for
  the refused command's type, whatever the prefix of its type URL and whatever else is registered,
  is run with that command's context; the message or Any it answers is a bare fact of that payload,
  and every aggregate the coordinator delivers that fact to, under any cover, identity and
  resolution, runs the handler of the payload's type on the payload and records what it answers,
  or refuses the fact as one it has no handler for (a payload that is itself a \<open>CommandRefused\<close>
  aside). A type no callback is registered for is answered with no fact. A callback's exception is
  coded; but one that answers no message at all raises the AttributeError of packing it.
\<close>

theorem refusal_comes_back_as_a_fact:
  "case map_of (rev regs) (type_name (any_type_url (command_payload (book_page (rf_command refusal))))) of
      None \<Rightarrow> policy_refused rt (translating_policy name input_domain output_domain regs) refusal = Return None
    | Some thunk \<Rightarrow>
        (case thunk (Some (cover_context (cb_cover (rf_command refusal)))) refusal
                (book_context (rf_command refusal) 0) of
           Inl exc \<Rightarrow> policy_refused rt (translating_policy name input_domain output_domain regs) refusal =
             Raise (if is_exception exc then Coded (escaped (rt_statuses rt) exc) else exc)
         | Inr translated \<Rightarrow>
             (case as_any translated of
                Inl exc \<Rightarrow> translated = No_msg \<and> exc = Other_exc ''AttributeError''
                  \<and> policy_refused rt (translating_policy name input_domain output_domain regs) refusal = Raise exc
              | Inr payload \<Rightarrow>
                  \<exists>sent. policy_refused rt (translating_policy name input_domain output_domain regs) refusal =
                      Return (Some sent)
                    \<and> bare_fact payload sent
                    \<and> (\<forall>a request. delivers_fact sent request \<and> type_name (any_type_url payload) \<noteq> REFUSED_TYPE
                         \<longrightarrow> recorded_by_its_handler rt (a :: 'st aggregate_dispatch) request payload)))"
proof -
  let ?key = "type_name (any_type_url (command_payload (book_page (rf_command refusal))))"
  let ?d = "translating_policy name input_domain output_domain regs"
  note cases = policy_refused_cases [where d = ?d and refusal = refusal and rt = rt,
    unfolded translating_policy_refusals]
  have recorded: "recorded_by_its_handler rt a request payload"
    if "bare_fact payload sent" "delivers_fact sent request" "type_name (any_type_url payload) \<noteq> REFUSED_TYPE"
    for a :: "'st aggregate_dispatch" and request payload sent
    using that by (intro delivered_fact_recorded)
      (simp_all add: bare_fact_def delivers_fact_def book_page_def)
  show ?thesis
  proof (cases "map_of (rev regs) ?key")
    case None
    with cases show ?thesis by simp
  next
    case (Some thunk)
    show ?thesis
    proof (cases "thunk (Some (cover_context (cb_cover (rf_command refusal)))) refusal
        (book_context (rf_command refusal) 0)")
      case (Inl exc)
      with Some cases show ?thesis by simp
    next
      case (Inr translated)
      with Some cases recorded show ?thesis
        by (cases translated)
          (auto simp: bare_fact_def pack_def command_book_default_def command_page_default_def)
    qed
  qed
qed

text \<open>
  A policy that translates the refusal of its command into a declined fact, and a counter that
  records that fact as received, delivered under a cover of the coordinator's.
\<close>

definition declined :: proto_msg where
  "declined = \<lparr>pm_full_name = ''t.Declined'', pm_serialized = [5]\<rparr>"

definition translate_decline :: refusal_thunk where
  "translate_decline cur refusal ctx = Return (Msg_obj declined)"

definition refused_increase :: refusal where
  "refused_increase = \<lparr>rf_command = cc_command (counter_request [] [1]), rf_rest = []\<rparr>"

definition declining_counter :: "nat aggregate_dispatch" where
  "declining_counter =
     on_fact ''t.Declined'' (\<lambda>cur payload st ctx. Return (as_received (Any_obj payload), st, ctx)) counter"

definition delivered_decline :: contextual_command where
  "delivered_decline = (counter_request [0] [])\<lparr>cc_command :=
     \<lparr>cb_cover = Some cover_default, cb_page = Some (command_page_default\<lparr>cp_body :=
        Some (Fact_arm (Some (pack declined))), cp_command_id := Some [1]\<rparr>), cb_handling = None\<rparr>\<rparr>"

lemma decline_answered: "\<exists>resp. aggregate_handle plain_runtime declining_counter delivered_decline = Return resp"
  by (simp add: delivered_decline_def declining_counter_def handle_defs request_defs counter_defs on_fact_def
      ingest_def record_fact_def as_received_def fact_book_def pack_def declined_def plain_runtime_def
      count_up_def increased_page_def)

theorem refusal_comes_back_as_a_fact_witness:
  "\<exists>sent resp. policy_refused plain_runtime
      (translating_policy ''P'' ''orders'' ''counter'' [(''t.IncreaseBy'', translate_decline)]) refused_increase =
        Return (Some sent)
     \<and> bare_fact (pack declined) sent
     \<and> aggregate_handle plain_runtime declining_counter delivered_decline = Return resp
     \<and> eb_pages (hr_events resp) =
        [\<lparr>pg_payload = Some (pack declined), pg_sequence = 0, pg_meta = None\<rparr>]"
proof -
  let ?d = "translating_policy ''P'' ''orders'' ''counter'' [(''t.IncreaseBy'', translate_decline)]"
  have key: "type_name (any_type_url (command_payload (book_page (rf_command refused_increase)))) = ''t.IncreaseBy''"
    by (simp add: refused_increase_def counter_request_sel command_payload_def)
  from refusal_comes_back_as_a_fact [where regs = "[(''t.IncreaseBy'', translate_decline)]"
      and refusal = refused_increase and rt = plain_runtime and name = "''P''" and 'st = nat
      and input_domain = "''orders''" and output_domain = "''counter''", unfolded key]
  obtain sent where sent: "policy_refused plain_runtime ?d refused_increase = Return (Some sent)"
    "bare_fact (pack declined) sent"
    and rec: "\<forall>a request. delivers_fact sent request \<and> type_name (any_type_url (pack declined)) \<noteq> REFUSED_TYPE
        \<longrightarrow> recorded_by_its_handler plain_runtime (a :: nat aggregate_dispatch) request (pack declined)"
    by (auto simp: translate_decline_def)
  from decline_answered obtain resp where
    resp: "aggregate_handle plain_runtime declining_counter delivered_decline = Return resp" by blast
  have "delivers_fact sent delivered_decline"
    using sent(2) by (simp add: delivers_fact_def bare_fact_def delivered_decline_def book_page_def)
  moreover have name: "type_name (any_type_url (pack declined)) = ''t.Declined''"
    by (simp add: pack_def declined_def)
  then have "type_name (any_type_url (pack declined)) \<noteq> REFUSED_TYPE" by (simp add: REFUSED_TYPE_def)
  ultimately have "recorded_by_its_handler plain_runtime declining_counter delivered_decline (pack declined)"
    using rec by blast
  with resp name have "eb_pages (hr_events resp) =
      [\<lparr>pg_payload = Some (pack declined), pg_sequence = 0, pg_meta = None\<rparr>]"
    by (auto simp: recorded_by_its_handler_def declining_counter_def on_fact_def as_received_def)
  with sent resp show ?thesis by blast
qed

end
