(* ===== verification/Validation_Contract.thy ===== *)
theory Validation_Contract
  imports Validation Host_Properties
begin

text \<open>
  A handler's failed precondition, from the helper of \<open>angzarr_client/validation.py\<close> through the
  router's guarded call, the host's dispatch and the wire to the predicates of the caller's error.
\<close>

definition checked_call ::
  "runtime \<Rightarrow> protobuf \<Rightarrow> page_context \<Rightarrow> check \<Rightarrow> 'req \<Rightarrow> unit rpc_outcome" where
  "checked_call rt pb ctx c =
     dispatcher_call rt pb (\<lambda>_. call rt ctx (\<lambda>_. snd (run_check (rt_statuses rt) c)))"

text \<open>The coded error a failed check is answered as: its rejection, or what its comparison raised.\<close>

definition rejection_of :: "runtime \<Rightarrow> check \<Rightarrow> coded_error" where
  "rejection_of rt c =
     (if is_decimal_nan c
      then coded_error (rt_statuses rt) UNHANDLED_HANDLER_ERROR None [(''cause'', HANDLER_PANICKED)] None
      else (case check_rejects c of (code, st, args) \<Rightarrow>
        coded_error (rt_statuses rt) code (Some (grpc_num st)) args None))"

lemma run_check_log:
  "map lg_code (fst (run_check sts c)) =
     (if check_holds c \<or> is_float_nan c \<or> is_decimal_nan c then [] else [fst (check_rejects c)])"
  by (cases c)
    (auto simp: require_defs reject_def passed_def num_le_zero_def num_lt_zero_def compared_def
      not_less split: number.split)

text \<open>What the router's guarded call makes of a check, and the host of that.\<close>

lemma checked_call_outcome:
  "checked_call rt pb ctx c request =
     (if (check_holds c \<or> is_float_nan c) \<and> \<not> is_decimal_nan c then Answered ()
      else Aborted (grpc_status_code (ce_grpc (rejection_of rt c))) (ce_code (rejection_of rt c))
             (failure_trailing pb (rejection_of rt c)))"
  by (simp add: checked_call_def dispatcher_call_def call_def handling_def run_check_outcome
      rejection_of_def Let_def split: prod.split)

lemma grpc_num_range: "grpc_status_code (grpc_num st) = grpc_num st"
  by (cases st) (simp_all add: grpc_status_code_def)

text \<open>
  C35: a precondition a handler checks is answered as it was checked. When it holds, the handler
  goes on and nothing is logged. When it does not, one rejection is logged, the call is aborted
  under the helper's key and status, and the caller's error has that key and the arguments given,
  is not-found exactly for a missing entity, precondition-failed exactly for an existing entity or
  a status, invalid-argument exactly for a value, and never one a caller retries. Two values that
  are no number escape it: a float NaN fails neither comparison and passes unlogged, though it is
  not positive; and a Decimal NaN is answered as a panic of the handler and not as a rejection.
\<close>

theorem precondition_reaches_the_caller:
  assumes "check_rejects c = (code, st, args)"
    and "carries pb (rejection_of rt c)" and "STATUS_DETAILS_KEY \<notin> fst ` set before"
  shows "if is_decimal_nan c
    then fst (run_check (rt_statuses rt) c) = []
      \<and> (\<exists>n trailing err. checked_call rt pb ctx c request = Aborted n UNHANDLED_HANDLER_ERROR trailing
          \<and> grpc_error_of pb (raised_at_client n UNHANDLED_HANDLER_ERROR trailing before after) = Return err
          \<and> er_code err = UNHANDLED_HANDLER_ERROR)
    else if check_holds c \<or> is_float_nan c
    then fst (run_check (rt_statuses rt) c) = [] \<and> checked_call rt pb ctx c request = Answered ()
    else map lg_code (fst (run_check (rt_statuses rt) c)) = [code]
      \<and> (\<exists>trailing err. checked_call rt pb ctx c request = Aborted (grpc_num st) code trailing
         \<and> grpc_error_of pb (raised_at_client (grpc_num st) code trailing before after) = Return err
         \<and> er_code err = code \<and> map_of (er_details err) = map_of args
         \<and> (is_not_found err \<longleftrightarrow> (\<exists>b x. c = Exists b x))
         \<and> (is_precondition_failed err \<longleftrightarrow>
              (\<exists>b x. c = Not_exists b x) \<or> (\<exists>a b x. c = Status a b x \<or> c = Status_not a b x))
         \<and> (is_invalid_argument err \<longleftrightarrow>
              \<not> is_not_found err \<and> \<not> is_precondition_failed err)
         \<and> \<not> is_aborted err \<and> \<not> is_connection_error err)"
proof -
  let ?e = "rejection_of rt c"
  let ?n = "grpc_status_code (ce_grpc ?e)"
  have log: "map lg_code (fst (run_check (rt_statuses rt) c)) =
      (if check_holds c \<or> is_float_nan c \<or> is_decimal_nan c then [] else [code])"
    by (simp add: run_check_log assms(1))
  obtain err where err: "grpc_error_of pb (raised_at_client ?n (ce_code ?e) (failure_trailing pb ?e) before after)
      = Return err" "er_class err = Grpc_error ?n" "er_code err = ce_code ?e"
    "map_of (er_details err) = map_of (ce_extras ?e)"
    by (rule client_reads_back [OF assms(2,3) refl])
  consider (panic) "is_decimal_nan c" | (passes) "\<not> is_decimal_nan c" "check_holds c \<or> is_float_nan c"
    | (rejected) "\<not> is_decimal_nan c" "\<not> check_holds c" "\<not> is_float_nan c" by blast
  then show ?thesis
  proof cases
    case panic
    with log err show ?thesis
      by (auto simp: checked_call_outcome rejection_of_def)
  next
    case passes
    with log show ?thesis by (auto simp: checked_call_outcome)
  next
    case rejected
    then have e: "?e = coded_error (rt_statuses rt) code (Some (grpc_num st)) args None"
      by (simp add: rejection_of_def assms(1))
    with rejected have "checked_call rt pb ctx c request = Aborted (grpc_num st) code (failure_trailing pb ?e)"
      by (simp add: checked_call_outcome grpc_num_range)
    moreover from err e have "grpc_error_of pb (raised_at_client (grpc_num st) code (failure_trailing pb ?e)
        before after) = Return err" "er_class err = Grpc_error (grpc_num st)" "er_code err = code"
      "map_of (er_details err) = map_of args"
      by (simp_all add: grpc_num_range)
    moreover have "(is_not_found err \<longleftrightarrow> st = NOT_FOUND) \<and> (is_precondition_failed err \<longleftrightarrow> st = FAILED_PRECONDITION)
        \<and> (is_invalid_argument err \<longleftrightarrow> st = INVALID_ARGUMENT) \<and> \<not> is_aborted err \<and> \<not> is_connection_error err"
    proof -
      have "st \<in> {NOT_FOUND, FAILED_PRECONDITION, INVALID_ARGUMENT}" using assms(1) by (cases c) auto
      with calculation(3) show ?thesis by (auto simp: predicates status_codes)
    qed
    moreover have "(st = NOT_FOUND \<longleftrightarrow> (\<exists>b x. c = Exists b x))
        \<and> (st = FAILED_PRECONDITION \<longleftrightarrow>
             (\<exists>b x. c = Not_exists b x) \<or> (\<exists>a b x. c = Status a b x \<or> c = Status_not a b x))
        \<and> (st = INVALID_ARGUMENT \<longleftrightarrow> st \<noteq> NOT_FOUND \<and> st \<noteq> FAILED_PRECONDITION)"
      using assms(1) by (cases c) auto
    moreover have "map lg_code (fst (run_check (rt_statuses rt) c)) = [code]" using rejected log by simp
    ultimately show ?thesis using rejected by auto
  qed
qed

text \<open>For the witness: protobuf functions that know the one rejection the call fails with.\<close>

theorem precondition_reaches_the_caller_witness:
  "\<exists>trailing. checked_call plain_runtime
      (one_status plain_runtime (Coded (rejection_of plain_runtime (Positive (Finite 0) ''amount''))))
      (cover_context None) (Positive (Finite 0) ''amount'') ()
     = Aborted 3 VALUE_NOT_POSITIVE trailing"
proof -
  let ?c = "Positive (Finite 0) ''amount''"
  let ?pb = "one_status plain_runtime (Coded (rejection_of plain_runtime ?c))"
  have "carries ?pb (rejection_of plain_runtime ?c)"
    by (simp add: carries_def one_status_def Let_def)
  from precondition_reaches_the_caller [OF _ this, of VALUE_NOT_POSITIVE INVALID_ARGUMENT
      "[(''field'', ''amount'')]" "[]" "cover_context None" "()" "[]"]
  show ?thesis by auto
qed

text \<open>
  A value that is no number passes both numeric checks as a float, though it meets neither, and
  raises what no check documents as a Decimal.
\<close>

lemma nan_is_positive:
  "snd (require_positive sts Float_nan field) = Return ()"
  "snd (require_non_negative sts Float_nan field) = Return ()"
  "\<not> check_holds (Positive Float_nan field)" "\<not> check_holds (Non_negative Float_nan field)"
  "snd (require_positive sts Decimal_nan field) = Raise (Other_exc ''InvalidOperation'')"
  by (simp_all add: require_defs num_le_zero_def num_lt_zero_def compared_def passed_def)

end
