(* ===== verification/Spec2Isabelle.thy ===== *)
theory Spec2Isabelle
  imports Aggregate Builder Builder_Types Catalogs Child Child_Properties Child_Watch Client Client_Errors Client_Properties Compensation Conflict Context Counter_Example Descriptor Diagnostic Fixup Generate Helpers Host Host_Contract Host_Properties Host_Rpc Identity Identity_Properties Lifecycle Lifetime Packaging Policy Prelude Projector Readiness Reasons Refusals Replay Retry Router Router_Contract Router_Errors Scaffold Server Surface Testing Translation Utf8 Validation Validation_Contract Wire Wrappers
begin

text \<open>
  The angzarr Python client (\<open>src/angzarr_client\<close>): the library event-sourced components are
  written with. A component (an aggregate, a process manager, a policy or a projector) registers
  handlers and appliers in a dispatch table; the router hosts one table and delivers to it; the
  component host serves the router over gRPC, publishes its health and describes it to the
  coordinator; a child process runs a host on a Unix socket under a launch protocol. Callers
  reach a component through the clients: builders make commands and queries, a client sends them
  with their correlation, and a failure comes back as a coded error. Below are the theories, each
  with the code it models, then what is parameter, bound and left out.

  \<^bold>\<open>Shared.\<close>
  \<^item> \<open>Prelude\<close>: results (\<open>Raise\<close> and \<open>Return\<close> of a sum), the Python text and dictionary
    operations the sources use, decimals, and three locales: \<open>registry\<close>, of a registration table
    (last registration wins, others untouched), interpreted on every table of the model;
    \<open>step_invariant\<close>, of a state machine and what each of its steps keeps; and \<open>simulation\<close>, which
    extends it, of a machine whose every step is some steps of an abstract one.
  \<^item> \<open>Utf8\<close>: texts as code points, strict UTF-8 and \<open>surrogateescape\<close>, with their round trips.
  \<^item> \<open>Wire\<close>: the protobuf messages as records of the fields the sources use.
  \<^item> \<open>Counter_Example\<close>: a counter component, on which the witnesses run.

  \<^bold>\<open>Errors.\<close>
  \<^item> \<open>Diagnostic\<close> (\<open>diagnostic.py\<close>): an error's text and its catalog; it parses back.
  \<^item> \<open>Router_Errors\<close> (\<open>router/errors.py\<close>, \<open>error_codes/codes.py\<close>): coded errors, rejections,
    retryable bugs, causes, and the status an error travels as.
  \<^item> \<open>Client_Errors\<close> (\<open>errors.py\<close>): the client's errors, their predicates, and a gRPC error read
    back from its status.
  \<^item> \<open>Catalogs\<close> (\<open>diagnostic.py\<close>, \<open>locales/en-US/angzarr-client.ftl\<close>, \<open>error_codes/keys.py\<close>): the
    catalogs read from the disk a build leaves, the package's own written out, and the English of
    every error the package raises.
  \<^item> \<open>Validation\<close>, \<open>Validation_Contract\<close> (\<open>validation.py\<close>): the precondition helpers, and what the
    caller of a handler sees of one that fails.

  \<^bold>\<open>Components and the router\<close> (\<open>router/\<close>, \<open>compensation.py\<close>).
  \<^item> \<open>Context\<close> (\<open>context.py\<close>): the contexts business code is handed, the guarded \<open>call\<close> every
    exception crosses, the fold of a history; the locale \<open>sequential_fold\<close>, of folds that stop at
    the first failure, is interpreted on the page fold, the policy's reactions and the undos.
  \<^item> \<open>Aggregate\<close> (\<open>aggregate.py\<close>): \<open>handle\<close>, from routing and rebuilding to stamping and the conflict
    report. \<open>Replay\<close> shows that the answered state is the replay of what is persisted and that a
    snapshot stands for its history, \<open>Lifetime\<close> that over any life of deliveries there is one state
    (an invariant of the coordinator's log and snapshots), which a projector follows; \<open>Conflict\<close> what a stale command is handed and reports;
    \<open>Refusals\<close> how a delivery is refused.
  \<^item> \<open>Policy\<close>, \<open>Projector\<close>, \<open>Compensation\<close>: reactions and refusals translated, projections and
    positions, rollbacks and undos, each with its properties. \<open>Translation\<close> follows a refusal from
    the policy that translates it to the aggregate that records the fact.
  \<^item> \<open>Router\<close> (\<open>router.py\<close>) and \<open>Router_Contract\<close>: registration and delivery; the locale
    \<open>delivery\<close> states a component operation's failures and is interpreted on the four operations.

  \<^bold>\<open>The host.\<close>
  \<^item> \<open>Descriptor\<close> (\<open>descriptor.py\<close>): \<open>describe\<close> and the coordinator's rules, checked in order.
  \<^item> \<open>Readiness\<close> (\<open>readiness.py\<close>), \<open>Server\<close> (\<open>server.py\<close>): the supervisor's ticks and the published
    health; the bind address the environment selects.
  \<^item> \<open>Host\<close> (\<open>host.py\<close>): a host's state and operations, the RPCs' servicers. \<open>Host_Contract\<close> makes
    them an inductive step relation \<open>host_step\<close>, with an invariant of every reachable host through
    the locale \<open>step_invariant\<close>; \<open>Host_Properties\<close> draws the host's promises from it.
    \<open>Host_Rpc\<close> adds the servicers a start registers and what a call of one answers: what is served
    is what is hosted and described. \<open>Lifecycle\<close> is the host's abstract specification, a machine of
    four steps, which every host refines (\<open>simulation\<close>).
  \<^item> \<open>Child\<close>, \<open>Child_Properties\<close> (\<open>child.py\<close>): handshake lines and their classification, the socket
    path, \<open>run_child\<close>. \<open>Child_Watch\<close> is the thread that watches stdin, a loop that need not end,
    and when a child ends by it.

  \<^bold>\<open>Clients and helpers.\<close>
  \<^item> \<open>Identity\<close>, \<open>Identity_Properties\<close> (\<open>identity.py\<close>, \<open>_args.py\<close>): UUIDs, their texts, derived roots.
  \<^item> \<open>Helpers\<close> (\<open>helpers.py\<close>), \<open>Wrappers\<close> (\<open>wrappers.py\<close>): type URLs, payloads, messages, metadata;
    the accessors over covers, books and pages.
  \<^item> \<open>Builder\<close> (\<open>builder.py\<close>): the fluent builders as chains of settings; the locale \<open>builder_slot\<close>
    (a field is written by some settings and by no other) is interpreted on every field, so a
    built message is a function of the last settings of each kind; \<open>Builder_Types\<close> types the
    builders' states, through the locale \<open>typed_builder\<close>, and what is built of them.
  \<^item> \<open>Retry\<close> (\<open>retry.py\<close>), \<open>Client\<close>, \<open>Client_Properties\<close> (\<open>client.py\<close>): the backoff policy;
    endpoints, channels, the three clients and what each call sends: a stub acts on a world of any
    type, which each definition passes on, so how often it is called shows.
  \<^item> \<open>Testing\<close> (\<open>testing/\<close>): test UUIDs, message builders, the scenario context.

  \<^bold>\<open>The build.\<close>
  \<^item> \<open>Fixup\<close> (\<open>scripts/fixup_gen_imports.py\<close>): the rewriting of generated imports, as \<open>re.sub\<close>
    scans, proved to act line by line and once.
  \<^item> \<open>Reasons\<close>, \<open>Generate\<close> (\<open>scripts/proto_build.py\<close>): the tables of the reason keys and the module
    written of them; the package's and the fixtures' builds over a disk of directories and files,
    step by step, each step with the files it keeps (\<open>keeps\<close>), and what a whole build leaves.
  \<^item> \<open>Packaging\<close> (\<open>hatch_build.py\<close>, \<open>_metadata.py\<close>, \<open>scripts/check_wheel.py\<close>,
    \<open>docs/conf.py\<close>), \<open>Surface\<close> (the packages' \<open>__init__.py\<close>, \<open>_pb.py\<close>): the build hook, the version
    found, the wheel's check, the docs' settings; the imports and public names, which are the same.
  \<^item> \<open>Scaffold\<close> (\<open>scripts/check_scaffold.py\<close>): the check of a scaffolded project, over the host and
    the descriptor; it passes exactly when the project is sound.

  \<^bold>\<open>Parameters.\<close> Code outside the repository is an argument of the definitions that use it:
  handlers and appliers (functions in the tables), protobuf's packing and parsing (\<open>runtime\<close>,
  \<open>protobuf\<close>, message classes, \<open>any_is\<close>, with \<open>protobuf_laws\<close>, \<open>carries\<close> and \<open>any_is_law\<close> for what
  the code relies on), the specification's status table, the launch protocol's constants
  (\<open>protocol_ok\<close>), SHA-1 (only the length of its digest is assumed), the gRPC stubs and the world
  they act on, the opening of a channel, what serving on an address gives (\<open>serve_outcome\<close>), the clock and the random numbers,
  \<open>protoc\<close> and the modules it generates (\<open>build_tools\<close>, with \<open>sound_tools\<close> for where they write), a
  scaffolded project (\<open>scaffolded\<close>) and what \<open>importlib.metadata\<close> answers.

  \<^bold>\<open>Bounds.\<close> Integers are HOL's, as Python's are; where a protobuf field has a width, storing out of
  range raises, through \<open>rt_seq_fits\<close> and \<open>fits\<close>. No definition has fuel: each is total, except that
  a child that serves is given the list of the waits it makes and is None while it has not
  returned within them (\<open>child_returns_when_asked\<close> says when that is). The retry loop ends by a
  measure on the attempts left, the creation of a directory's parents on the length of its path;
  the watch of stdin, which may run for ever, is a partial function, None while it has not ended
  (\<open>watch_stdin_iff\<close> says when it ends). Floats of delays are rationals: rounding is not modelled, the
  overflow of a power of 2 at 1024 is, and so is a sleep that raises (\<open>time_sleep\<close>). The object
  identity of two descriptors is equality and one bit of the project. Concurrency is an order of events: the ticks of a host,
  the waits of a child, the steps of \<open>host_step\<close> in any order. Texts are characters of code
  points below 256 save where \<open>Utf8\<close> is used.

  \<^bold>\<open>Not modelled.\<close> Logging and its configuration, but for the record of a rejected precondition;
  the gRPC server, its threads and sockets; \<open>helpers.now\<close>, which reads the clock; what the scripts
  print, but for the line of a command that returns it; removals that fail, links and permissions
  on the build's disk. The spec's catalogs are not in the repository: what is shown of the
  package's own errors holds whatever they hold.
\<close>

end
